(* ===== verification/Prelude.thy ===== *)
theory Prelude
  imports Main "HOL-Library.Word"
begin

text \<open>
  Vocabulary shared by every theory of the development: Go's \<open>error\<close> values and formatted
  messages, the classification of API errors the sources test for, 32-bit signed integers, the
  parts of Go's \<open>strings\<close> package the sources call, and the generic lemmas on maps and lists
  the component theories use. Nothing here is specific to one component.
\<close>

section \<open>Collections of lemmas\<close>

named_theorems go_defs "definitions of straight-line Go functions, unfolded in their own proofs"
named_theorems wrap_simps "facts that read back 32-bit counters"


section \<open>Errors\<close>

text \<open>
  What a call to the API server can fail with, as far as the sources distinguish it:
  \<open>apierrors.IsNotFound\<close>, \<open>apiMeta.IsNoMatchError\<close>, and everything else (time-outs,
  conflicts, forbidden requests).
\<close>

datatype api_error = NotFound | NoMatch | ApiFailure string

text \<open>
  A Go \<open>error\<close>. \<open>Errorf\<close> and \<open>Sprintf\<close> messages are kept as the format and its
  arguments, so that no two messages of the sources are identified and wrapped errors
  (\<open>%w\<close>) stay inspectable. \<open>StopError\<close> is the framework's error that ends a
  reconciliation and asks for another one after the given number of seconds.
\<close>

datatype go_error =
    ApiError api_error
  | LibraryError string
  | Errorf string "fmt_arg list"
  | StopError string "fmt_arg list" nat
and fmt_arg =
    ArgS string
  | ArgInt int
  | ArgErr go_error
  | ArgFmt string "fmt_arg list"

text \<open>A function whose only result is an \<open>error\<close> returns \<^typ>\<open>go_error option\<close>; \<open>None\<close> is \<open>nil\<close>.\<close>

type_synonym error_result = "go_error option"


section \<open>Integers\<close>

type_synonym int32 = "32 word"

text \<open>Go's \<open>>=\<close> on \<open>int32\<close> compares two's-complement values.\<close>

definition int32_ge :: "int32 \<Rightarrow> int32 \<Rightarrow> bool" where
  "int32_ge a b \<longleftrightarrow> sint b \<le> sint a"

lemma sint_word_of_nat_32 [wrap_simps]:
  assumes "n < 2 ^ 31"
  shows "sint (word_of_nat n :: int32) = int n"
proof -
  have "signed_take_bit 31 (int n) = int n"
    using assms by (simp add: signed_take_bit_int_eq_self)
  then show ?thesis by (simp add: signed_of_nat)
qed

lemma sint_word_of_nat_32_max [wrap_simps]:
  "sint (word_of_nat (2 ^ 31) :: int32) = - (2 ^ 31)"
  by simp


section \<open>Go's \<open>strings.Split\<close> with a one-character separator\<close>

text \<open>
  \<open>strings.Split(s, sep)\<close> cuts at every separator and keeps empty pieces: \<open>n\<close> separators
  give \<open>n + 1\<close> pieces, so the empty string gives one empty piece.
\<close>

fun split_on :: "char \<Rightarrow> string \<Rightarrow> string list" where
  "split_on sep [] = [[]]"
| "split_on sep (c # cs) =
     (if c = sep then [] # split_on sep cs
      else (case split_on sep cs of [] \<Rightarrow> [[c]] | p # ps \<Rightarrow> (c # p) # ps))"

fun join_with :: "char \<Rightarrow> string list \<Rightarrow> string" where
  "join_with sep [] = []"
| "join_with sep [p] = p"
| "join_with sep (p # q # ps) = p @ sep # join_with sep (q # ps)"

lemma split_on_nonempty [simp]: "split_on sep cs \<noteq> []"
  by (induction cs) (auto split: list.splits)

lemma join_split_on: "join_with sep (split_on sep cs) = cs"
proof (induction cs)
  case (Cons c cs)
  obtain p ps where "split_on sep cs = p # ps"
    by (meson split_on_nonempty neq_Nil_conv)
  with Cons show ?case by (cases ps) auto
qed simp

lemma split_on_no_sep: "p \<in> set (split_on sep cs) \<Longrightarrow> sep \<notin> set p"
proof (induction cs arbitrary: p)
  case (Cons c cs)
  obtain q qs where "split_on sep cs = q # qs"
    by (meson split_on_nonempty neq_Nil_conv)
  with Cons show ?case by (auto split: if_splits)
qed simp

lemma length_split_on: "length (split_on sep cs) = Suc (count_list cs sep)"
proof (induction cs)
  case (Cons c cs)
  obtain q qs where "split_on sep cs = q # qs"
    by (meson split_on_nonempty neq_Nil_conv)
  with Cons show ?case by auto
qed simp

lemma split_on_append: "sep \<notin> set p \<Longrightarrow> split_on sep (p @ sep # cs) = p # split_on sep cs"
  by (induction p) auto

lemma split_on_absent: "sep \<notin> set t \<Longrightarrow> split_on sep t = [t]"
  by (induction t) auto

lemma split_on_join: "ps \<noteq> [] \<Longrightarrow> (\<And>p. p \<in> set ps \<Longrightarrow> sep \<notin> set p) \<Longrightarrow> split_on sep (join_with sep ps) = ps"
  by (induction sep ps rule: join_with.induct) (simp_all add: split_on_append split_on_absent)


section \<open>Generic lemmas\<close>

text \<open>Two texts joined by a separator the first part does not contain are determined by the result.\<close>

lemma append_sep_inject:
  assumes "c \<notin> set xs" and "c \<notin> set ys" and "xs @ c # us = ys @ c # vs"
  shows "xs = ys \<and> us = vs"
  using assms
proof (induction xs arbitrary: ys)
  case Nil
  then show ?case by (cases ys) auto
next
  case (Cons x xs)
  then show ?case by (cases ys) auto
qed

lemma find_append: "find P (xs @ ys) = (case find P xs of None \<Rightarrow> find P ys | Some x \<Rightarrow> Some x)"
  by (induction xs) auto

lemma map_le_lookup: "m \<subseteq>\<^sub>m m' \<Longrightarrow> m k = Some v \<Longrightarrow> m' k = Some v"
  by (metis domI map_le_def)

lemma case_sum_bind_Inr:
  "(case r of Inl e \<Rightarrow> Inl e | Inr x \<Rightarrow> f x) = Inr y \<longleftrightarrow> (\<exists>x. r = Inr x \<and> f x = Inr y)"
  by (cases r) auto

lemma length_filter_le_filter: "(\<And>x. x \<in> set xs \<Longrightarrow> P x \<Longrightarrow> Q x) \<Longrightarrow> length (filter P xs) \<le> length (filter Q xs)"
  by (induction xs) (auto intro: le_SucI)

end
