(* ===== verification/Api_Types.thy ===== *)
theory Api_Types
  imports Prelude
begin

text \<open>
  The data the operator works on. First the Kubernetes types the sources build on (object
  metadata, owner references, namespaces, role bindings, network policies, unstructured objects),
  with the fields the sources read or write; then the four custom resources of
  \<open>api/v1alpha1\<close>, field by field. An optional pointer is an \<open>option\<close>, a Go map a HOL
  map (a \<open>nil\<close> map reads as the empty one), \<open>int32\<close> a 32-bit word.
\<close>

section \<open>Kubernetes types\<close>

record TypeMeta =
  tm_Kind :: string
  tm_APIVersion :: string

record OwnerReference =
  or_APIVersion :: string
  or_Kind :: string
  or_Name :: string
  or_UID :: string
  or_Controller :: "bool option"

text \<open>\<open>DeletionTimestamp.IsZero()\<close> holds when \<open>om_DeletionTimestamp\<close> is \<open>None\<close>.\<close>

record ObjectMeta =
  om_Name :: string
  om_Namespace :: string
  om_UID :: string
  om_Labels :: "string \<rightharpoonup> string"
  om_Annotations :: "string \<rightharpoonup> string"
  om_OwnerReferences :: "OwnerReference list"
  om_Finalizers :: "string list"
  om_DeletionTimestamp :: "int option"

definition named :: "string \<Rightarrow> string \<Rightarrow> ObjectMeta" where
  "named namespace name = \<lparr>om_Name = name, om_Namespace = namespace, om_UID = '''',
     om_Labels = Map.empty, om_Annotations = Map.empty, om_OwnerReferences = [],
     om_Finalizers = [], om_DeletionTimestamp = None\<rparr>"

lemma named_simps [simp]:
  "om_Name (named ns n) = n" "om_Namespace (named ns n) = ns" "om_UID (named ns n) = ''''"
  "om_Labels (named ns n) = Map.empty" "om_OwnerReferences (named ns n) = []"
  "om_Finalizers (named ns n) = []" "om_DeletionTimestamp (named ns n) = None"
  "om_Annotations (named ns n) = Map.empty"
  by (simp_all add: named_def)

text \<open>\<open>client.ObjectKey\<close>: namespace (empty for a cluster-scoped object) and name.\<close>

type_synonym ObjectKey = "string \<times> string"

abbreviation cluster_key :: "string \<Rightarrow> ObjectKey" where
  "cluster_key name \<equiv> ('''', name)"

definition key_of :: "ObjectMeta \<Rightarrow> ObjectKey" where
  "key_of m = (om_Namespace m, om_Name m)"

lemma key_of_named [simp]: "key_of (named ns n) = (ns, n)"
  by (simp add: key_of_def)

record CoreNamespace =
  ns_Meta :: ObjectMeta

record RbacSubject =
  rs_Kind :: string
  rs_APIGroup :: string
  rs_Name :: string
  rs_Namespace :: string

record RoleRef =
  rref_APIGroup :: string
  rref_Kind :: string
  rref_Name :: string

record RoleBinding =
  rb_Meta :: ObjectMeta
  rb_RoleRef :: RoleRef
  rb_Subjects :: "RbacSubject list"

record LabelSelector =
  ls_MatchLabels :: "string \<rightharpoonup> string"

record NetworkPolicyPeer =
  npp_PodSelector :: "LabelSelector option"
  npp_NamespaceSelector :: "LabelSelector option"

record NetworkPolicyIngressRule =
  npr_From :: "NetworkPolicyPeer list"

datatype PolicyType = PolicyTypeIngress | PolicyTypeEgress

record NetworkPolicySpec =
  nps_PodSelector :: LabelSelector
  nps_Ingress :: "NetworkPolicyIngressRule list"
  nps_PolicyTypes :: "PolicyType list"

record NetworkPolicy =
  np_Meta :: ObjectMeta
  np_Spec :: NetworkPolicySpec

text \<open>
  The JSON values an \<open>unstructured.Unstructured\<close> holds. \<open>un_Object\<close> is the object's
  content beside its metadata, which the accessors \<open>SetName\<close>, \<open>GetLabels\<close>,
  \<open>GetOwnerReferences\<close> and so on reach through \<open>un_Meta\<close>.
\<close>

datatype json =
    JNull
  | JBool bool
  | JInt int
  | JString string
  | JArray "json list"
  | JObject "string \<rightharpoonup> json"

record Unstructured =
  un_APIVersion :: string
  un_Kind :: string
  un_Meta :: ObjectMeta
  un_Object :: "string \<rightharpoonup> json"

text \<open>The status block every resource embeds, as the CRDs under \<open>config/crd/bases\<close> publish it.\<close>

record Condition =
  cond_Type :: string
  cond_Status :: string
  cond_Reason :: string
  cond_Message :: string
  cond_ObservedGeneration :: int

record Status =
  st_Phase :: string
  st_ObservedGeneration :: int
  st_Conditions :: "Condition list"


section \<open>The \<open>organization.opendatahub.io/v1alpha1\<close> types\<close>

text \<open>
  A slice whose \<open>nil\<close> value the sources can tell from an empty one (\<open>reflect.DeepEqual\<close>
  does) is a list option; a loop over it sees its items.
\<close>

definition slice_items :: "'a list option \<Rightarrow> 'a list" where
  "slice_items sl = (case sl of None \<Rightarrow> [] | Some xs \<Rightarrow> xs)"

lemma slice_items_simps [simp]: "slice_items None = []" "slice_items (Some xs) = xs"
  by (simp_all add: slice_items_def)

definition apiGroup :: string where
  "apiGroup = ''organization.opendatahub.io''"

definition apiVersion :: string where
  "apiVersion = ''v1alpha1''"

definition GroupVersion :: string where
  "GroupVersion = apiGroup @ ''/'' @ apiVersion"

record Subject =
  sub_Kind :: string
  sub_Name :: string
  sub_Namespace :: string

record OrganizationReference =
  orgref_Name :: string

record OrganizationSpec =
  os_Parent :: string

record OrganizationStatus =
  ost_Status :: Status
  ost_Root :: string

record Organization =
  org_TypeMeta :: TypeMeta
  org_Meta :: ObjectMeta
  org_Spec :: OrganizationSpec
  org_Status :: OrganizationStatus

record OIDCConfig =
  oidc_IssuerURL :: string

record GatewayReference =
  gw_Group :: string
  gw_Kind :: string
  gw_Name :: string
  gw_Namespace :: string

record OrganizationPlatformConfig =
  plat_OIDC :: "OIDCConfig option"
  plat_IngressGatewayRef :: "GatewayReference option"

record ProjectDefaults =
  pd_NetworkIsolation :: string
  pd_MaxProjects :: int32

record OrganizationProfileSpec =
  ops_OrganizationRef :: OrganizationReference
  ops_Admins :: "Subject list option"
  ops_Defaults :: ProjectDefaults
  ops_Platform :: "OrganizationPlatformConfig option"

record OrganizationProfileStatus =
  opst_Status :: Status

record OrganizationProfile =
  prof_TypeMeta :: TypeMeta
  prof_Meta :: ObjectMeta
  prof_Spec :: OrganizationProfileSpec
  prof_Status :: OrganizationProfileStatus

record NetworkGrant =
  ng_To :: string
  ng_Direction :: string
  ng_Ports :: "int32 list"

record ProjectUser =
  pu_Kind :: string
  pu_Name :: string
  pu_Namespace :: string
  pu_Role :: string

record OrganizationProjectSpec =
  prs_OrganizationRef :: OrganizationReference
  prs_Users :: "ProjectUser list"
  prs_NetworkIsolation :: string
  prs_NetworkGrants :: "NetworkGrant list"

record OrganizationProjectStatus =
  prst_Status :: Status
  prst_Namespace :: string

record OrganizationProject =
  proj_TypeMeta :: TypeMeta
  proj_Meta :: ObjectMeta
  proj_Spec :: OrganizationProjectSpec
  proj_Status :: OrganizationProjectStatus

record MaaSOIDC =
  mo_ClientID :: string

record MaaSCertificateRef =
  mc_Name :: string
  mc_Namespace :: string

record MaaSTLS =
  mt_CertificateRef :: MaaSCertificateRef

record MaaSQuotas =
  mq_MaxModels :: int32
  mq_MaxSubscriptions :: int32
  mq_MaxAPIKeys :: int32

record MaaSConfigurationSpec =
  mcs_OrganizationRef :: OrganizationReference
  mcs_OIDC :: "MaaSOIDC option"
  mcs_TLS :: "MaaSTLS option"
  mcs_Quotas :: "MaaSQuotas option"

record MaaSConfigurationStatus =
  mcst_Status :: Status

record MaaSConfiguration =
  mcfg_TypeMeta :: TypeMeta
  mcfg_Meta :: ObjectMeta
  mcfg_Spec :: MaaSConfigurationSpec
  mcfg_Status :: MaaSConfigurationStatus

text \<open>
  Names the sources spell out at every use: \<open>obj.Name\<close> and
  \<open>obj.Spec.OrganizationRef.Name\<close>.
\<close>

abbreviation org_Name :: "Organization \<Rightarrow> string" where
  "org_Name o' \<equiv> om_Name (org_Meta o')"

abbreviation org_Parent :: "Organization \<Rightarrow> string" where
  "org_Parent o' \<equiv> os_Parent (org_Spec o')"

abbreviation org_Root :: "Organization \<Rightarrow> string" where
  "org_Root o' \<equiv> ost_Root (org_Status o')"

abbreviation prof_Name :: "OrganizationProfile \<Rightarrow> string" where
  "prof_Name p \<equiv> om_Name (prof_Meta p)"

abbreviation prof_Organization :: "OrganizationProfile \<Rightarrow> string" where
  "prof_Organization p \<equiv> orgref_Name (ops_OrganizationRef (prof_Spec p))"

abbreviation prof_Admins :: "OrganizationProfile \<Rightarrow> Subject list" where
  "prof_Admins p \<equiv> slice_items (ops_Admins (prof_Spec p))"

abbreviation prof_MaxProjects :: "OrganizationProfile \<Rightarrow> int32" where
  "prof_MaxProjects p \<equiv> pd_MaxProjects (ops_Defaults (prof_Spec p))"

abbreviation proj_Name :: "OrganizationProject \<Rightarrow> string" where
  "proj_Name p \<equiv> om_Name (proj_Meta p)"

abbreviation proj_Organization :: "OrganizationProject \<Rightarrow> string" where
  "proj_Organization p \<equiv> orgref_Name (prs_OrganizationRef (proj_Spec p))"

abbreviation mcfg_Name :: "MaaSConfiguration \<Rightarrow> string" where
  "mcfg_Name c \<equiv> om_Name (mcfg_Meta c)"

abbreviation mcfg_Organization :: "MaaSConfiguration \<Rightarrow> string" where
  "mcfg_Organization c \<equiv> orgref_Name (mcs_OrganizationRef (mcfg_Spec c))"


section \<open>Zero values\<close>

text \<open>The values Go gives the fields a composite literal leaves out.\<close>

definition zero_TypeMeta :: TypeMeta where
  "zero_TypeMeta = \<lparr>tm_Kind = '''', tm_APIVersion = ''''\<rparr>"

definition zero_Status :: Status where
  "zero_Status = \<lparr>st_Phase = '''', st_ObservedGeneration = 0, st_Conditions = []\<rparr>"

end
