(* ===== verification/Kube_Client.thy ===== *)
theory Kube_Client
  imports Api_Types
begin

text \<open>
  The code the operator calls and does not contain: the controller-runtime client and the API
  server behind it, \<open>controllerutil\<close>, \<open>metav1\<close> and the capability probe of the platform
  framework. It is a parameter of the model: a record of functions over an arbitrary server state
  \<open>'s\<close>, which every definition that calls it takes as an argument. What the sources rely on
  is stated as locales, one per interface, over a view of the server state (which object is stored
  under which key): a sound reader may fail with any error but never answers wrongly, a reliable
  one does not fail, a writer changes the object it is asked to change and nothing else. The
  locale predicates are the hypotheses of the properties; the theory \<open>Memory_Server\<close>
  interprets every one of them.
\<close>

section \<open>The interface\<close>

text \<open>
  The client's calls on objects of one kind. A write returns the object as the server answered it,
  which is what the Go client leaves in the argument. \<open>CreateOrUpdate\<close> is
  \<open>controllerutil.CreateOrUpdate\<close>: it takes the object that names what to look up and the
  mutation to run on it.
\<close>

record ('o, 's) resource =
  Get :: "ObjectKey \<Rightarrow> 's \<Rightarrow> api_error + 'o"
  ListItems :: "'s \<Rightarrow> api_error + 'o list"
  Create :: "'o \<Rightarrow> 's \<Rightarrow> (api_error + 'o) \<times> 's"
  Update :: "'o \<Rightarrow> 's \<Rightarrow> (api_error + 'o) \<times> 's"
  Delete :: "'o \<Rightarrow> 's \<Rightarrow> (api_error + unit) \<times> 's"
  CreateOrUpdate :: "'o \<Rightarrow> ('o \<Rightarrow> go_error + 'o) \<Rightarrow> 's \<Rightarrow> (go_error + 'o) \<times> 's"

text \<open>An object in the role of an owner: its registered kind and its metadata.\<close>

record owner_object =
  ow_APIVersion :: string
  ow_Kind :: string
  ow_Meta :: ObjectMeta

record 's k8s =
  organizations :: "(Organization, 's) resource"
  profiles :: "(OrganizationProfile, 's) resource"
  projects :: "(OrganizationProject, 's) resource"
  configurations :: "(MaaSConfiguration, 's) resource"
  namespaces :: "(CoreNamespace, 's) resource"
  rolebindings :: "(RoleBinding, 's) resource"
  networkpolicies :: "(NetworkPolicy, 's) resource"
  aitenants :: "(Unstructured, 's) resource"
  HasCRD :: "'s \<Rightarrow> go_error + bool"
  SetControllerReference :: "owner_object \<Rightarrow> ObjectMeta \<Rightarrow> go_error + ObjectMeta"
  SetOwnerReference :: "owner_object \<Rightarrow> ObjectMeta \<Rightarrow> go_error + ObjectMeta"
  IsControlledBy :: "ObjectMeta \<Rightarrow> ObjectMeta \<Rightarrow> bool"
  ContainsFinalizer :: "ObjectMeta \<Rightarrow> string \<Rightarrow> bool"
  AddFinalizer :: "ObjectMeta \<Rightarrow> string \<Rightarrow> ObjectMeta"
  RemoveFinalizer :: "ObjectMeta \<Rightarrow> string \<Rightarrow> ObjectMeta"
  SetNestedField :: "(string \<rightharpoonup> json) \<Rightarrow> json \<Rightarrow> string list \<Rightarrow> go_error + (string \<rightharpoonup> json)"
  RemoveNestedField :: "(string \<rightharpoonup> json) \<Rightarrow> string list \<Rightarrow> (string \<rightharpoonup> json)"
  NestedSlice :: "(string \<rightharpoonup> json) \<Rightarrow> string list \<Rightarrow> go_error + json list option"

text \<open>The kinds \<open>api/v1alpha1\<close> registers with the scheme, as owners.\<close>

definition owner_organization :: "Organization \<Rightarrow> owner_object" where
  "owner_organization o' = \<lparr>ow_APIVersion = GroupVersion, ow_Kind = ''Organization'', ow_Meta = org_Meta o'\<rparr>"

definition owner_project :: "OrganizationProject \<Rightarrow> owner_object" where
  "owner_project p = \<lparr>ow_APIVersion = GroupVersion, ow_Kind = ''OrganizationProject'', ow_Meta = proj_Meta p\<rparr>"

definition owner_configuration :: "MaaSConfiguration \<Rightarrow> owner_object" where
  "owner_configuration c = \<lparr>ow_APIVersion = GroupVersion, ow_Kind = ''MaaSConfiguration'', ow_Meta = mcfg_Meta c\<rparr>"

definition owner_namespace :: "CoreNamespace \<Rightarrow> owner_object" where
  "owner_namespace n = \<lparr>ow_APIVersion = ''v1'', ow_Kind = ''Namespace'', ow_Meta = ns_Meta n\<rparr>"

lemma ow_Meta_owners [simp]:
  "ow_Meta (owner_organization o') = org_Meta o'" "ow_Meta (owner_project p) = proj_Meta p"
  "ow_Meta (owner_configuration c) = mcfg_Meta c" "ow_Meta (owner_namespace n) = ns_Meta n"
  by (simp_all add: owner_organization_def owner_project_def owner_configuration_def
      owner_namespace_def)


section \<open>Readers\<close>

locale object_reader =
  fixes get :: "ObjectKey \<Rightarrow> 's \<Rightarrow> api_error + 'o"
    and view :: "'s \<Rightarrow> ObjectKey \<rightharpoonup> 'o"
  assumes get_found: "get k s = Inr x \<Longrightarrow> view s k = Some x"
    and get_missing: "get k s = Inl NotFound \<Longrightarrow> view s k = None"
begin

lemma get_cases:
  obtains (found) x where "get k s = Inr x" "view s k = Some x"
    | (missing) "get k s = Inl NotFound" "view s k = None"
    | (failed) e where "get k s = Inl e" "e \<noteq> NotFound"
  by (metis get_found get_missing obj_sumE)

end

locale reliable_reader = object_reader +
  assumes get_answers: "get k s = Inl e \<Longrightarrow> e = NotFound"
begin

lemma get_eq: "get k s = (case view s k of None \<Rightarrow> Inl NotFound | Some x \<Rightarrow> Inr x)"
proof (cases rule: get_cases [of k s])
  case (failed e)
  then show ?thesis using get_answers by blast
qed simp_all

end

text \<open>A listing enumerates the stored objects, each once.\<close>

locale object_lister =
  fixes list_items :: "'s \<Rightarrow> api_error + 'o list"
    and view :: "'s \<Rightarrow> ObjectKey \<rightharpoonup> 'o"
  assumes list_enumerates: "list_items s = Inr xs \<Longrightarrow>
      \<exists>ks. distinct ks \<and> set ks = dom (view s) \<and> xs = map (\<lambda>k. the (view s k)) ks"
begin

lemma list_member: "list_items s = Inr xs \<Longrightarrow> x \<in> set xs \<longleftrightarrow> (\<exists>k. view s k = Some x)"
  by (drule list_enumerates) force

lemma list_count:
  assumes "list_items s = Inr xs"
  shows "length (filter P xs) = card {k. \<exists>x. view s k = Some x \<and> P x}"
proof -
  from list_enumerates [OF assms] obtain ks where ks: "distinct ks" "set ks = dom (view s)"
    "xs = map (\<lambda>k. the (view s k)) ks" by blast
  have "length (filter P xs) = length (filter (\<lambda>k. P (the (view s k))) ks)"
    by (simp add: ks(3) filter_map comp_def)
  also have "\<dots> = card (set (filter (\<lambda>k. P (the (view s k))) ks))"
    using ks(1) by (metis distinct_card distinct_filter)
  also have "set (filter (\<lambda>k. P (the (view s k))) ks) = {k. \<exists>x. view s k = Some x \<and> P x}"
    using ks(2) by force
  finally show ?thesis .
qed

end


locale reliable_lister = object_lister +
  assumes list_answers: "\<exists>xs. list_items s = Inr xs"


section \<open>Writers\<close>

text \<open>
  \<open>view\<close> is what the server stores of one kind, \<open>rest\<close> everything else it stores.
  \<open>kept x y\<close> says that the stored object \<open>y\<close> has what the request \<open>x\<close> asked for;
  the server may add to it (a UID, defaults, further labels).
\<close>

locale object_store =
  fixes view :: "'s \<Rightarrow> ObjectKey \<rightharpoonup> 'o"
    and rest :: "'s \<Rightarrow> 'r"
    and meta :: "'o \<Rightarrow> ObjectMeta"
    and kept :: "'o \<Rightarrow> 'o \<Rightarrow> bool"

text \<open>Every object but the one under the given key, of this kind and of the others, is as it was.\<close>

definition frame :: "('s \<Rightarrow> ObjectKey \<rightharpoonup> 'o) \<Rightarrow> ('s \<Rightarrow> 'r) \<Rightarrow> ObjectKey \<Rightarrow> 's \<Rightarrow> 's \<Rightarrow> bool" where
  "frame view rest k s s' \<longleftrightarrow> (\<forall>k'. k' \<noteq> k \<longrightarrow> view s' k' = view s k') \<and> rest s' = rest s"

lemma frame_refl [simp]: "frame view rest k s s"
  by (simp add: frame_def)

lemma frameD: "frame view rest k s s' \<Longrightarrow> k' \<noteq> k \<Longrightarrow> view s' k' = view s k'"
  "frame view rest k s s' \<Longrightarrow> rest s' = rest s"
  unfolding frame_def by blast+

text \<open>An object is gone, or the server has begun to delete it.\<close>

definition gone :: "('s \<Rightarrow> ObjectKey \<rightharpoonup> 'o) \<Rightarrow> ('o \<Rightarrow> ObjectMeta) \<Rightarrow> ObjectKey \<Rightarrow> 's \<Rightarrow> bool" where
  "gone view meta k s \<longleftrightarrow>
     (case view s k of None \<Rightarrow> True | Some x \<Rightarrow> om_DeletionTimestamp (meta x) \<noteq> None)"

text \<open>A call that reports an error, a lost connection say, may nevertheless have been carried out.\<close>

locale object_creator = object_store +
  fixes create :: "'o \<Rightarrow> 's \<Rightarrow> (api_error + 'o) \<times> 's"
  assumes create_stored: "create x s = (Inr y, s') \<Longrightarrow>
      view s (key_of (meta x)) = None \<and> view s' (key_of (meta x)) = Some y \<and> kept x y"
    and create_live: "create x s = (Inr y, s') \<Longrightarrow> om_DeletionTimestamp (meta y) = None"
    and create_failed: "create x s = (Inl e, s') \<Longrightarrow> view s' (key_of (meta x)) = view s (key_of (meta x)) \<or>
      view s (key_of (meta x)) = None \<and> (\<exists>y. view s' (key_of (meta x)) = Some y \<and> kept x y)"
    and create_frame: "create x s = (r, s') \<Longrightarrow> frame view rest (key_of (meta x)) s s'"

text \<open>
  An update does not begin or undo a deletion; it removes the object only when the object was
  being deleted (the update took the last finalizer away).
\<close>

locale object_updater = object_store +
  fixes update :: "'o \<Rightarrow> 's \<Rightarrow> (api_error + 'o) \<times> 's"
  assumes update_stored: "update x s = (Inr y, s') \<Longrightarrow> kept x y \<and>
      (view s' (key_of (meta x)) = Some y \<or> view s' (key_of (meta x)) = None)"
    and update_deletion: "update x s = (Inr y, s') \<Longrightarrow> \<exists>w. view s (key_of (meta x)) = Some w \<and>
      om_DeletionTimestamp (meta y) = om_DeletionTimestamp (meta w) \<and>
      (view s' (key_of (meta x)) = None \<longrightarrow> om_DeletionTimestamp (meta w) \<noteq> None \<and> om_Finalizers (meta x) = [])"
    and update_uid: "update x s = (Inr y, s') \<Longrightarrow> om_UID (meta x) \<noteq> '''' \<Longrightarrow> om_UID (meta y) = om_UID (meta x)"
    and update_failed: "update x s = (Inl e, s') \<Longrightarrow> view s' (key_of (meta x)) = view s (key_of (meta x)) \<or>
      view s' (key_of (meta x)) = None \<or> (\<exists>y. view s' (key_of (meta x)) = Some y \<and> kept x y)"
    and update_frame: "update x s = (r, s') \<Longrightarrow> frame view rest (key_of (meta x)) s s'"

text \<open>
  Without faults and concurrent writers, a creation under a free key and an update of what is stored
  succeed when validation and admission accept the object: \<open>acceptable\<close> says in which states
  which objects, and for an update which changes, they accept.
\<close>

locale reliable_creator = object_creator +
  fixes acceptable :: "'s \<Rightarrow> 'o \<Rightarrow> bool"
  assumes create_answers: "view s (key_of (meta x)) = None \<Longrightarrow> acceptable s x \<Longrightarrow> \<exists>y s'. create x s = (Inr y, s')"

locale reliable_updater = object_updater +
  fixes acceptable :: "'s \<Rightarrow> 'o \<Rightarrow> 'o \<Rightarrow> bool"
  assumes update_answers: "view s (key_of (meta x)) = Some w \<Longrightarrow> om_UID (meta w) = om_UID (meta x) \<Longrightarrow>
      acceptable s w x \<Longrightarrow> \<exists>y s'. update x s = (Inr y, s')"

locale object_deleter = object_store +
  fixes delete :: "'o \<Rightarrow> 's \<Rightarrow> (api_error + unit) \<times> 's"
  assumes delete_gone: "delete x s = (Inr (), s') \<Longrightarrow> gone view meta (key_of (meta x)) s'"
    and delete_keeps: "delete x s = (r, s') \<Longrightarrow> view s' (key_of (meta x)) = Some z \<Longrightarrow>
      \<exists>y. view s (key_of (meta x)) = Some y \<and> (y = z \<or> kept y z)"
    and delete_missing: "delete x s = (Inl NotFound, s') \<Longrightarrow> view s' (key_of (meta x)) = None"
    and delete_frame: "delete x s = (r, s') \<Longrightarrow> frame view rest (key_of (meta x)) s s'"
begin

lemma delete_ignoring_missing:
  "delete x s = (r, s') \<Longrightarrow> r = Inr () \<or> r = Inl NotFound \<Longrightarrow> gone view meta (key_of (meta x)) s'"
  using delete_gone [of x s s'] delete_missing [of x s s'] by (auto simp: gone_def)

end

text \<open>Without faults, a deletion finds the object or reports that there is none.\<close>

locale reliable_deleter = object_deleter +
  assumes delete_answers: "delete x s = (Inl e, s') \<Longrightarrow> e = NotFound"

text \<open>
  \<open>CreateOrUpdate\<close> runs the mutation on the stored object, or on the one given when there is
  none, and stores the result; an error of the mutation is returned before anything is written, and
  a write that fails may nevertheless have been carried out.
\<close>

definition present :: "('s \<Rightarrow> ObjectKey \<rightharpoonup> 'o) \<Rightarrow> ('o \<Rightarrow> ObjectMeta) \<Rightarrow> 'o \<Rightarrow> 's \<Rightarrow> 'o" where
  "present view meta x s = (case view s (key_of (meta x)) of None \<Rightarrow> x | Some y \<Rightarrow> y)"

locale object_applier = object_store +
  fixes apply_object :: "'o \<Rightarrow> ('o \<Rightarrow> go_error + 'o) \<Rightarrow> 's \<Rightarrow> (go_error + 'o) \<times> 's"
  assumes apply_stored: "apply_object x f s = (Inr y, s') \<Longrightarrow>
      (\<exists>z. f (present view meta x s) = Inr z \<and> kept z y) \<and> view s' (key_of (meta x)) = Some y"
    and apply_refused: "f (present view meta x s) = Inl e \<Longrightarrow> \<exists>e'. apply_object x f s = (Inl e', s)"
    and apply_failed: "apply_object x f s = (Inl e, s') \<Longrightarrow> view s' (key_of (meta x)) = view s (key_of (meta x)) \<or>
      (\<exists>z y. f (present view meta x s) = Inr z \<and> kept z y \<and> view s' (key_of (meta x)) = Some y)"
    and apply_frame: "apply_object x f s = (r, s') \<Longrightarrow> frame view rest (key_of (meta x)) s s'"

text \<open>The server identifies the object: a mutation that leaves its UID and its deletion alone gives an object
  with the UID and the deletion it had, and a new object gets a UID and is not being deleted.\<close>

locale identity_applier = object_applier +
  assumes apply_identity: "apply_object x f s = (Inr y, s') \<Longrightarrow> f (present view meta x s) = Inr z \<Longrightarrow>
      om_UID (meta z) = om_UID (meta (present view meta x s)) \<Longrightarrow>
      om_DeletionTimestamp (meta z) = om_DeletionTimestamp (meta (present view meta x s)) \<Longrightarrow>
      (case view s (key_of (meta x)) of
         Some w \<Rightarrow> om_UID (meta y) = om_UID (meta w) \<and> om_DeletionTimestamp (meta y) = om_DeletionTimestamp (meta w)
       | None \<Rightarrow> om_UID (meta y) \<noteq> '''' \<and> (om_DeletionTimestamp (meta x) = None \<longrightarrow> om_DeletionTimestamp (meta y) = None))"

locale reliable_applier = object_applier +
  fixes acceptable :: "'s \<Rightarrow> 'o \<Rightarrow> 'o \<Rightarrow> bool"
  assumes apply_answers: "f (present view meta x s) = Inr z \<Longrightarrow> key_of (meta z) = key_of (meta x) \<Longrightarrow>
      acceptable s (present view meta x s) z \<Longrightarrow> \<exists>y s'. apply_object x f s = (Inr y, s')"


section \<open>What the server keeps of a request\<close>

definition meta_kept :: "ObjectMeta \<Rightarrow> ObjectMeta \<Rightarrow> bool" where
  "meta_kept m m' \<longleftrightarrow> key_of m' = key_of m \<and> om_Labels m \<subseteq>\<^sub>m om_Labels m' \<and>
     om_Annotations m \<subseteq>\<^sub>m om_Annotations m' \<and> om_OwnerReferences m' = om_OwnerReferences m \<and>
     om_Finalizers m' = om_Finalizers m"

definition namespace_kept :: "CoreNamespace \<Rightarrow> CoreNamespace \<Rightarrow> bool" where
  "namespace_kept n n' \<longleftrightarrow> meta_kept (ns_Meta n) (ns_Meta n')"

definition rolebinding_kept :: "RoleBinding \<Rightarrow> RoleBinding \<Rightarrow> bool" where
  "rolebinding_kept b b' \<longleftrightarrow> meta_kept (rb_Meta b) (rb_Meta b') \<and>
     rb_RoleRef b' = rb_RoleRef b \<and> rb_Subjects b' = rb_Subjects b"

definition networkpolicy_kept :: "NetworkPolicy \<Rightarrow> NetworkPolicy \<Rightarrow> bool" where
  "networkpolicy_kept p p' \<longleftrightarrow> meta_kept (np_Meta p) (np_Meta p') \<and> np_Spec p' = np_Spec p"

definition organization_kept :: "Organization \<Rightarrow> Organization \<Rightarrow> bool" where
  "organization_kept p p' \<longleftrightarrow> meta_kept (org_Meta p) (org_Meta p') \<and> org_Spec p' = org_Spec p"

definition project_kept :: "OrganizationProject \<Rightarrow> OrganizationProject \<Rightarrow> bool" where
  "project_kept p p' \<longleftrightarrow> meta_kept (proj_Meta p) (proj_Meta p') \<and> proj_Spec p' = proj_Spec p"

definition profile_kept :: "OrganizationProfile \<Rightarrow> OrganizationProfile \<Rightarrow> bool" where
  "profile_kept p p' \<longleftrightarrow> meta_kept (prof_Meta p) (prof_Meta p') \<and> prof_Spec p' = prof_Spec p"

definition configuration_kept :: "MaaSConfiguration \<Rightarrow> MaaSConfiguration \<Rightarrow> bool" where
  "configuration_kept c c' \<longleftrightarrow> meta_kept (mcfg_Meta c) (mcfg_Meta c') \<and> mcfg_Spec c' = mcfg_Spec c"

definition unstructured_kept :: "Unstructured \<Rightarrow> Unstructured \<Rightarrow> bool" where
  "unstructured_kept u u' \<longleftrightarrow> meta_kept (un_Meta u) (un_Meta u') \<and>
     un_Object u' ''spec'' = un_Object u ''spec''"

lemmas kept_defs = namespace_kept_def rolebinding_kept_def networkpolicy_kept_def
  organization_kept_def project_kept_def profile_kept_def configuration_kept_def unstructured_kept_def

lemma meta_kept_refl [simp]: "meta_kept m m"
  by (simp add: meta_kept_def)

lemma meta_kept_terminating [simp]: "meta_kept m (m\<lparr>om_DeletionTimestamp := d\<rparr>)"
  by (simp add: meta_kept_def key_of_def)

lemma meta_kept_fresh [simp]: "meta_kept m (m\<lparr>om_UID := u, om_DeletionTimestamp := d\<rparr>)"
  by (simp add: meta_kept_def key_of_def)

lemma meta_kept_uid [simp]: "meta_kept m (m\<lparr>om_UID := u\<rparr>)"
  by (simp add: meta_kept_def key_of_def)


section \<open>Owner references and finalizers\<close>

text \<open>
  The controller of an object is the first owner reference marked so (\<open>metav1.GetControllerOf\<close>).
  \<open>metav1.IsControlledBy\<close> compares its UID. The setters of \<open>controllerutil\<close> compare
  references by group, kind and name: a reference to the same object is overwritten, whatever its
  UID, and another controller makes \<open>SetControllerReference\<close> fail.
\<close>

abbreviation is_controller :: "OwnerReference \<Rightarrow> bool" where
  "is_controller r \<equiv> or_Controller r = Some True"

definition controller_of :: "ObjectMeta \<Rightarrow> OwnerReference option" where
  "controller_of m = find is_controller (om_OwnerReferences m)"

definition api_group :: "string \<Rightarrow> string" where
  "api_group version = (if CHR ''/'' \<in> set version then takeWhile (\<lambda>ch. ch \<noteq> CHR ''/'') version else '''')"

definition same_object :: "owner_object \<Rightarrow> OwnerReference \<Rightarrow> bool" where
  "same_object w r \<longleftrightarrow> api_group (or_APIVersion r) = api_group (ow_APIVersion w) \<and> or_Kind r = ow_Kind w \<and>
     or_Name r = om_Name (ow_Meta w)"

definition owner_reference :: "owner_object \<Rightarrow> bool option \<Rightarrow> OwnerReference" where
  "owner_reference w controller = \<lparr>or_APIVersion = ow_APIVersion w, or_Kind = ow_Kind w,
     or_Name = om_Name (ow_Meta w), or_UID = om_UID (ow_Meta w), or_Controller = controller\<rparr>"

fun upsert_reference :: "owner_object \<Rightarrow> bool option \<Rightarrow> OwnerReference list \<Rightarrow> OwnerReference list" where
  "upsert_reference w controller [] = [owner_reference w controller]"
| "upsert_reference w controller (r # rs) =
     (if same_object w r then owner_reference w controller # rs else r # upsert_reference w controller rs)"

lemma same_object_reference [simp]: "same_object w (owner_reference w controller)"
  by (simp add: same_object_def owner_reference_def)

lemma owner_reference_simps [simp]:
  "or_UID (owner_reference w controller) = om_UID (ow_Meta w)" "or_Controller (owner_reference w controller) = controller"
  by (simp_all add: owner_reference_def)

lemma same_object_owners:
  "same_object (owner_organization o') r \<longleftrightarrow> api_group (or_APIVersion r) = api_group GroupVersion \<and>
     or_Kind r = ''Organization'' \<and> or_Name r = om_Name (org_Meta o')"
  "same_object (owner_project p) r \<longleftrightarrow> api_group (or_APIVersion r) = api_group GroupVersion \<and>
     or_Kind r = ''OrganizationProject'' \<and> or_Name r = om_Name (proj_Meta p)"
  "same_object (owner_configuration c) r \<longleftrightarrow> api_group (or_APIVersion r) = api_group GroupVersion \<and>
     or_Kind r = ''MaaSConfiguration'' \<and> or_Name r = om_Name (mcfg_Meta c)"
  "same_object (owner_namespace n) r \<longleftrightarrow> api_group (or_APIVersion r) = '''' \<and> or_Kind r = ''Namespace'' \<and>
     or_Name r = om_Name (ns_Meta n)"
  by (simp_all add: same_object_def owner_organization_def owner_project_def owner_configuration_def
      owner_namespace_def api_group_def)

lemma upsert_member: "r \<in> set (upsert_reference w controller rs) \<Longrightarrow> r \<in> set rs \<or> r = owner_reference w controller"
  by (induction rs) (auto split: if_splits)

lemma upsert_added: "owner_reference w controller \<in> set (upsert_reference w controller rs)"
  by (induction rs) auto

lemma upsert_controller:
  "(\<And>r. find is_controller rs = Some r \<Longrightarrow> same_object w r) \<Longrightarrow>
     find is_controller (upsert_reference w (Some True) rs) = Some (owner_reference w (Some True))"
  by (induction rs) (auto split: if_splits)

lemma upsert_other_controller:
  "find is_controller rs = Some r \<Longrightarrow> \<not> same_object w r \<Longrightarrow>
     find is_controller (upsert_reference w None rs) = Some r"
  by (induction rs) (auto split: if_splits)

lemma filter_upsert:
  "(\<And>r. r \<in> set rs \<Longrightarrow> P r \<Longrightarrow> same_object w r) \<Longrightarrow>
     length (filter P (upsert_reference w controller rs)) \<le> max 1 (length (filter (same_object w) rs))"
proof (induction rs)
  case (Cons r rs)
  have "length (filter P rs) \<le> length (filter (same_object w) rs)"
    using Cons.prems by (intro length_filter_le_filter) simp
  with Cons show ?case by auto
qed simp

text \<open>An object that lets the owner become, or stay, its controller: no other object controls it, and at
  most one reference is to the owner.\<close>

definition owner_open :: "owner_object \<Rightarrow> ObjectMeta \<Rightarrow> bool" where
  "owner_open w m \<longleftrightarrow> (\<forall>r \<in> set (om_OwnerReferences m). is_controller r \<longrightarrow> same_object w r) \<and>
     length (filter (same_object w) (om_OwnerReferences m)) \<le> 1"

lemma owner_open_unowned [simp]: "om_OwnerReferences m = [] \<Longrightarrow> owner_open w m"
  by (simp add: owner_open_def)

lemma owner_open_controller: "owner_open w m \<Longrightarrow> controller_of m = Some r \<Longrightarrow> same_object w r"
  by (auto simp: owner_open_def controller_of_def find_Some_iff)

lemma owner_open_kept: "meta_kept m m' \<Longrightarrow> owner_open w m \<Longrightarrow> owner_open w m'"
  by (simp add: owner_open_def meta_kept_def)

lemma owner_open_upsert:
  assumes "owner_open w m"
  shows "owner_open w (m\<lparr>om_OwnerReferences := upsert_reference w controller (om_OwnerReferences m)\<rparr>)"
proof -
  have "length (filter (same_object w) (upsert_reference w controller (om_OwnerReferences m))) \<le> 1"
    using filter_upsert [of "om_OwnerReferences m" "same_object w" w controller] assms
    by (simp add: owner_open_def split: if_splits)
  moreover have "same_object w r" if "r \<in> set (upsert_reference w controller (om_OwnerReferences m))" "is_controller r" for r
    using upsert_member [OF that(1)] that(2) assms by (auto simp: owner_open_def)
  ultimately show ?thesis by (simp add: owner_open_def)
qed

locale owner_references =
  fixes setController :: "owner_object \<Rightarrow> ObjectMeta \<Rightarrow> go_error + ObjectMeta"
    and controlledBy :: "ObjectMeta \<Rightarrow> ObjectMeta \<Rightarrow> bool"
  assumes controlled_by: "controlledBy m p \<longleftrightarrow> (\<exists>r. controller_of m = Some r \<and> or_UID r = om_UID p)"
    and controller_refused: "controller_of m = Some r \<Longrightarrow> \<not> same_object w r \<Longrightarrow> \<exists>e. setController w m = Inl e"
    and controller_upserts: "setController w m = Inr m' \<Longrightarrow>
      m' = m\<lparr>om_OwnerReferences := upsert_reference w (Some True) (om_OwnerReferences m)\<rparr>"
begin

lemma controller_set_reference:
  assumes "setController w m = Inr m'"
  shows "controller_of m' = Some (owner_reference w (Some True))"
proof -
  have "find is_controller (om_OwnerReferences m) = Some r \<Longrightarrow> same_object w r" for r
    using controller_refused [of m r w] assms by (auto simp: controller_of_def)
  then show ?thesis using controller_upserts [OF assms] upsert_controller by (simp add: controller_of_def)
qed

lemma controller_set: "setController w m = Inr m' \<Longrightarrow> controlledBy m' (ow_Meta w)"
  using controller_set_reference by (auto simp: controlled_by)

lemma controller_frame: "setController w m = Inr m' \<Longrightarrow> \<exists>refs. m' = m\<lparr>om_OwnerReferences := refs\<rparr>"
  using controller_upserts by blast

lemma controller_kept_open: "setController w m = Inr m' \<Longrightarrow> owner_open w m \<Longrightarrow> owner_open w m'"
  using controller_upserts owner_open_upsert by blast

lemma controlled_by_references: "om_OwnerReferences m = om_OwnerReferences m' \<Longrightarrow> controlledBy m p = controlledBy m' p"
  by (simp add: controlled_by controller_of_def)

lemma controlled_by_uid: "om_UID p = om_UID q \<Longrightarrow> controlledBy m p = controlledBy m q"
  by (simp add: controlled_by)

lemma unowned: "om_OwnerReferences m = [] \<Longrightarrow> \<not> controlledBy m p"
  by (simp add: controlled_by controller_of_def)

lemma controller_set_fields:
  assumes "setController w m = Inr m'"
  shows "om_Name m' = om_Name m" "om_Namespace m' = om_Namespace m" "om_UID m' = om_UID m"
    "om_Labels m' = om_Labels m" "om_Annotations m' = om_Annotations m"
    "om_Finalizers m' = om_Finalizers m" "om_DeletionTimestamp m' = om_DeletionTimestamp m"
    "key_of m' = key_of m"
  using controller_frame [OF assms] by (auto simp: key_of_def)

lemma controlled_by_kept: "meta_kept m m' \<Longrightarrow> controlledBy m p \<Longrightarrow> controlledBy m' p"
  by (metis controlled_by_references meta_kept_def)

end

text \<open>A cluster-scoped owner is accepted unless another object is the controller.\<close>

locale accepting_owner_references = owner_references +
  assumes controller_accepted: "om_Namespace (ow_Meta w) = '''' \<Longrightarrow>
      (\<And>r. controller_of m = Some r \<Longrightarrow> same_object w r) \<Longrightarrow> \<exists>m'. setController w m = Inr m'"

text \<open>\<open>SetOwnerReference\<close> adds a reference that is not the controller's, or overwrites the one to the same object.\<close>

locale owner_adder = owner_references +
  fixes setOwner :: "owner_object \<Rightarrow> ObjectMeta \<Rightarrow> go_error + ObjectMeta"
  assumes owner_upserts: "setOwner w m = Inr m' \<Longrightarrow>
      m' = m\<lparr>om_OwnerReferences := upsert_reference w None (om_OwnerReferences m)\<rparr>"
begin

lemma owner_frame: "setOwner w m = Inr m' \<Longrightarrow> \<exists>refs. m' = m\<lparr>om_OwnerReferences := refs\<rparr>"
  using owner_upserts by blast

lemma owner_keeps_controller:
  assumes "setOwner w m = Inr m'" and "controller_of m = Some r" and "\<not> same_object w r"
  shows "controller_of m' = Some r"
  using owner_upserts [OF assms(1)] upsert_other_controller assms(2,3) by (simp add: controller_of_def)

lemma owner_set_fields:
  assumes "setOwner w m = Inr m'"
  shows "om_Labels m' = om_Labels m" "key_of m' = key_of m"
  using owner_frame [OF assms] by (auto simp: key_of_def)

end

locale accepting_owner_adder = accepting_owner_references + owner_adder +
  assumes owner_accepted: "om_Namespace (ow_Meta w) = '''' \<Longrightarrow> \<exists>m'. setOwner w m = Inr m'"

locale finalizer_ops =
  fixes contains :: "ObjectMeta \<Rightarrow> string \<Rightarrow> bool"
    and add :: "ObjectMeta \<Rightarrow> string \<Rightarrow> ObjectMeta"
    and remove :: "ObjectMeta \<Rightarrow> string \<Rightarrow> ObjectMeta"
  assumes contains_add: "contains (add m f) f"
    and contains_remove: "\<not> contains (remove m f) f"
    and add_frame: "\<exists>fs. add m f = m\<lparr>om_Finalizers := fs\<rparr>"
    and remove_frame: "\<exists>fs. remove m f = m\<lparr>om_Finalizers := fs\<rparr>"
    and add_only: "set (om_Finalizers (add m f)) \<subseteq> insert f (set (om_Finalizers m))"
    and contains_finalizers: "om_Finalizers m = om_Finalizers m' \<Longrightarrow> contains m f = contains m' f"
    and contains_none: "om_Finalizers m = [] \<Longrightarrow> \<not> contains m f"
begin

lemma add_fields [simp]:
  "om_Name (add m f) = om_Name m" "om_UID (add m f) = om_UID m" "key_of (add m f) = key_of m"
  "om_OwnerReferences (add m f) = om_OwnerReferences m"
  "om_DeletionTimestamp (add m f) = om_DeletionTimestamp m"
  using add_frame [of m f] by (auto simp: key_of_def)

lemma remove_fields [simp]:
  "om_Name (remove m f) = om_Name m" "om_UID (remove m f) = om_UID m"
  "key_of (remove m f) = key_of m"
  "om_DeletionTimestamp (remove m f) = om_DeletionTimestamp m"
  using remove_frame [of m f] by (auto simp: key_of_def)

end

text \<open>
  Nested fields of an unstructured object, at the depth the sources use (two): a set field reads
  back, a removed one is absent, and neither touches another field of the same parent or another
  top-level field.
\<close>

definition subfield :: "(string \<rightharpoonup> json) \<Rightarrow> string \<Rightarrow> string \<Rightarrow> json option" where
  "subfield m a b = (case m a of Some (JObject n) \<Rightarrow> n b | _ \<Rightarrow> None)"

locale nested_field_ops =
  fixes setField :: "(string \<rightharpoonup> json) \<Rightarrow> json \<Rightarrow> string list \<Rightarrow> go_error + (string \<rightharpoonup> json)"
    and removeField :: "(string \<rightharpoonup> json) \<Rightarrow> string list \<Rightarrow> (string \<rightharpoonup> json)"
    and nestedSlice :: "(string \<rightharpoonup> json) \<Rightarrow> string list \<Rightarrow> go_error + json list option"
  assumes set_same: "setField m v [a, b] = Inr m' \<Longrightarrow> subfield m' a b = Some v"
    and set_other: "setField m v [a, b] = Inr m' \<Longrightarrow> c \<noteq> b \<Longrightarrow> subfield m' a c = subfield m a c"
    and set_top: "setField m v [a, b] = Inr m' \<Longrightarrow> d \<noteq> a \<Longrightarrow> m' d = m d"
    and set_accepted: "m a = None \<or> m a = Some (JObject n) \<Longrightarrow>
      \<exists>m' n'. setField m v [a, b] = Inr m' \<and> m' a = Some (JObject n')"
    and set_refused: "m a = Some v' \<Longrightarrow> (\<And>n. v' \<noteq> JObject n) \<Longrightarrow> \<exists>e. setField m v [a, b] = Inl e"
    and remove_same: "subfield (removeField m [a, b]) a b = None"
    and remove_other: "c \<noteq> b \<Longrightarrow> subfield (removeField m [a, b]) a c = subfield m a c"
    and remove_top: "d \<noteq> a \<Longrightarrow> removeField m [a, b] d = m d"
    and remove_shape: "m a = None \<or> m a = Some (JObject n) \<Longrightarrow>
      removeField m [a, b] a = None \<or> (\<exists>n'. removeField m [a, b] a = Some (JObject n'))"
    and slice_found: "subfield m a b = Some (JArray xs) \<Longrightarrow> nestedSlice m [a, b] = Inr (Some xs)"
    and slice_not_array: "nestedSlice m [a, b] = Inr (Some xs) \<Longrightarrow> subfield m a b = Some (JArray xs)"

end
