(* ===== verification/Hierarchy.thy ===== *)
theory Hierarchy
  imports Kube_Client
begin

text \<open>
  The organization tree as the stored Organizations define it, independently of the two loops
  that walk it (\<open>computeRootWalk\<close> in the Organization controller, \<open>ancestorAdmin\<close> in the
  webhooks' authorizer). \<open>lineage\<close> is the list of names from an organization up to its root,
  \<open>above\<close> the ancestor-or-self relation, \<open>ancestor_at\<close> the bounded walk both loops
  perform. The lemmas relate the three; the components use them as their specification.
\<close>

type_synonym org_view = "ObjectKey \<rightharpoonup> Organization"

text \<open>Objects are stored under their own key.\<close>

definition well_keyed :: "('o \<Rightarrow> ObjectMeta) \<Rightarrow> (ObjectKey \<rightharpoonup> 'o) \<Rightarrow> bool" where
  "well_keyed meta V \<longleftrightarrow> (\<forall>k x. V k = Some x \<longrightarrow> key_of (meta x) = k)"

lemma well_keyed_name: "well_keyed meta V \<Longrightarrow> V (cluster_key n) = Some x \<Longrightarrow> om_Name (meta x) = n"
  by (force simp: well_keyed_def key_of_def)

lemma well_keyedD: "well_keyed meta V \<Longrightarrow> V k = Some x \<Longrightarrow> key_of (meta x) = k"
  unfolding well_keyed_def by (elim allE) (erule mp)

lemma well_keyed_frame:
  assumes "frame view rest k s s'" and "well_keyed meta (view s)" and "\<And>y. view s' k = Some y \<Longrightarrow> key_of (meta y) = k"
  shows "well_keyed meta (view s')"
  unfolding well_keyed_def
proof (intro allI impI)
  fix j x
  assume x: "view s' j = Some x"
  show "key_of (meta x) = j"
  proof (cases "j = k")
    case True
    with x assms(3) show ?thesis by simp
  next
    case False
    with x have "view s j = Some x" using frameD(1) [OF assms(1)] by simp
    with assms(2) show ?thesis by (rule well_keyedD)
  qed
qed

text \<open>A store stays well keyed under deletions, and under applications whose mutation keeps the key.\<close>

context object_applier
begin

lemma apply_keyed:
  assumes "apply_object x f s = (r, s')" and "well_keyed meta (view s)"
    and "\<And>w z y. f w = Inr z \<Longrightarrow> kept z y \<Longrightarrow> key_of (meta y) = key_of (meta w)"
  shows "well_keyed meta (view s')"
proof (rule well_keyed_frame [OF apply_frame [OF assms(1)] assms(2)])
  fix y
  assume y: "view s' (key_of (meta x)) = Some y"
  have present: "key_of (meta (present view meta x s)) = key_of (meta x)"
    using well_keyedD [OF assms(2), of "key_of (meta x)"] by (auto simp: present_def split: option.split)
  consider "view s (key_of (meta x)) = Some y" | z where "f (present view meta x s) = Inr z" "kept z y"
    using y assms(1) apply_stored [of x f s _ s'] apply_failed [of x f s _ s'] by (cases r) fastforce+
  then show "key_of (meta y) = key_of (meta x)"
  proof cases
    case 1
    then show ?thesis by (rule well_keyedD [OF assms(2)])
  next
    case 2
    then show ?thesis using assms(3) present by simp
  qed
qed

end

context object_deleter
begin

lemma delete_keyed:
  assumes "delete x s = (r, s')" and "well_keyed meta (view s)" and "\<And>y z. kept y z \<Longrightarrow> key_of (meta z) = key_of (meta y)"
  shows "well_keyed meta (view s')"
proof (rule well_keyed_frame [OF delete_frame [OF assms(1)] assms(2)])
  fix z
  assume "view s' (key_of (meta x)) = Some z"
  from delete_keeps [OF assms(1) this] obtain y where y: "view s (key_of (meta x)) = Some y" "y = z \<or> kept y z" by blast
  with well_keyedD [OF assms(2) y(1)] assms(3) show "key_of (meta z) = key_of (meta x)" by auto
qed

end

inductive lineage :: "org_view \<Rightarrow> string \<Rightarrow> string list \<Rightarrow> bool" for V where
  lineage_root: "V (cluster_key n) = Some x \<Longrightarrow> org_Parent x = '''' \<Longrightarrow> lineage V n [n]"
| lineage_child: "V (cluster_key n) = Some x \<Longrightarrow> org_Parent x \<noteq> '''' \<Longrightarrow>
    lineage V (org_Parent x) ns \<Longrightarrow> lineage V n (n # ns)"

inductive above :: "org_view \<Rightarrow> string \<Rightarrow> string \<Rightarrow> bool" for V where
  above_self: "above V n n"
| above_parent: "V (cluster_key n) = Some x \<Longrightarrow> org_Parent x \<noteq> '''' \<Longrightarrow>
    above V (org_Parent x) m \<Longrightarrow> above V n m"

inductive_cases lineage_ConsE: "lineage V n (m # ns)"
inductive_simps lineage_Nil [simp]: "lineage V n []"

declare above.intros [intro]

text \<open>The organization \<open>k\<close> parent links above the given one, if the links lead that far.\<close>

fun ancestor_at :: "org_view \<Rightarrow> nat \<Rightarrow> Organization \<Rightarrow> Organization option" where
  "ancestor_at V 0 x = Some x"
| "ancestor_at V (Suc k) x =
     (if org_Parent x = '''' then None
      else (case V (cluster_key (org_Parent x)) of None \<Rightarrow> None | Some p \<Rightarrow> ancestor_at V k p))"

text \<open>The names the bounded walk visits, from an organization upwards.\<close>

fun walk_names :: "org_view \<Rightarrow> nat \<Rightarrow> string \<Rightarrow> string list" where
  "walk_names V 0 n = []"
| "walk_names V (Suc k) n =
     (if n = '''' then []
      else n # (case V (cluster_key n) of None \<Rightarrow> [] | Some x \<Rightarrow> walk_names V k (org_Parent x)))"

text \<open>The lineage of an organization given as an object rather than by its name.\<close>

definition lineage_of :: "org_view \<Rightarrow> Organization \<Rightarrow> string list \<Rightarrow> bool" where
  "lineage_of V x ns \<longleftrightarrow>
     (if org_Parent x = '''' then ns = [org_Name x]
      else (\<exists>ms. ns = org_Name x # ms \<and> lineage V (org_Parent x) ms))"


section \<open>Lineages are unique, end at the root and never repeat a name\<close>

lemma lineage_hd: "lineage V n ns \<Longrightarrow> \<exists>ms. ns = n # ms"
  by (erule lineage.cases) auto

lemma lineage_iff:
  assumes "V (cluster_key n) = Some x"
  shows "lineage V n ns \<longleftrightarrow>
    (if org_Parent x = '''' then ns = [n] else (\<exists>ms. ns = n # ms \<and> lineage V (org_Parent x) ms))"
  using assms by (subst lineage.simps) auto

lemma lineage_missing: "V (cluster_key n) = None \<Longrightarrow> \<not> lineage V n ns"
  by (auto elim: lineage.cases)

lemma lineage_unique: "lineage V n ns \<Longrightarrow> lineage V n ms \<Longrightarrow> ns = ms"
proof (induction arbitrary: ms rule: lineage.induct)
  case (lineage_root n x)
  then show ?case by (simp add: lineage_iff)
next
  case (lineage_child n x ns)
  from lineage_child.hyps lineage_child.prems obtain ks where "ms = n # ks" "lineage V (org_Parent x) ks"
    by (auto simp: lineage_iff)
  then show ?case using lineage_child.IH by simp
qed

lemma lineage_member: "lineage V n ns \<Longrightarrow> m \<in> set ns \<Longrightarrow> \<exists>ms. lineage V m ms \<and> length ms \<le> length ns"
proof (induction rule: lineage.induct)
  case (lineage_root n x)
  then show ?case by (auto intro: lineage.lineage_root)
next
  case (lineage_child n x ns)
  then show ?case using lineage.lineage_child [of V n x ns] by fastforce
qed

lemma lineage_distinct: "lineage V n ns \<Longrightarrow> distinct ns"
proof (induction rule: lineage.induct)
  case (lineage_child n x ns)
  have "n \<notin> set ns"
  proof
    assume "n \<in> set ns"
    then obtain ms where "lineage V n ms" "length ms \<le> length ns"
      using lineage_child.hyps(3) lineage_member by blast
    moreover have "lineage V n (n # ns)"
      using lineage_child.hyps lineage.lineage_child by blast
    ultimately show False using lineage_unique by fastforce
  qed
  with lineage_child.IH show ?case by simp
qed simp

lemma lineage_above: "lineage V n ns \<Longrightarrow> m \<in> set ns \<longleftrightarrow> above V n m"
proof (induction rule: lineage.induct)
  case (lineage_root n x)
  then show ?case by (auto elim: above.cases)
next
  case (lineage_child n x ns)
  show ?case
  proof
    assume "m \<in> set (n # ns)"
    then show "above V n m" using lineage_child by auto
  next
    assume "above V n m"
    then show "m \<in> set (n # ns)"
    proof cases
      case (above_parent y)
      with lineage_child.hyps(1) have "y = x" by simp
      with above_parent lineage_child.IH show ?thesis by simp
    qed simp
  qed
qed

lemma lineage_last_root:
  "lineage V n ns \<Longrightarrow> \<exists>x. V (cluster_key (last ns)) = Some x \<and> org_Parent x = ''''"
proof (induction rule: lineage.induct)
  case (lineage_child n x ns)
  from lineage_child.hyps(3) have "ns \<noteq> []" by auto
  with lineage_child.IH show ?case by simp
qed auto

lemma above_trans: "above V n m \<Longrightarrow> above V m l \<Longrightarrow> above V n l"
  by (induction rule: above.induct) auto

text \<open>A lineage depends on the parents of its members only.\<close>

definition same_parents :: "org_view \<Rightarrow> org_view \<Rightarrow> string list \<Rightarrow> bool" where
  "same_parents V W ns \<longleftrightarrow> (\<forall>m \<in> set ns. \<forall>x. V (cluster_key m) = Some x \<longrightarrow>
     (\<exists>x'. W (cluster_key m) = Some x' \<and> org_Parent x' = org_Parent x))"

lemma lineage_transfer: "lineage V n ns \<Longrightarrow> same_parents V W ns \<Longrightarrow> lineage W n ns"
proof (induction rule: lineage.induct)
  case (lineage_root n x)
  then obtain x' where "W (cluster_key n) = Some x'" "org_Parent x' = ''''"
    by (auto simp: same_parents_def)
  then show ?case by (rule lineage.lineage_root)
next
  case (lineage_child n x ns)
  then obtain x' where x': "W (cluster_key n) = Some x'" "org_Parent x' = org_Parent x"
    by (auto simp: same_parents_def)
  have "same_parents V W ns"
    using lineage_child.prems by (simp add: same_parents_def)
  then have "lineage W (org_Parent x') ns"
    using lineage_child.IH x'(2) by simp
  with x' lineage_child.hyps(2) show ?case
    by (simp add: lineage_iff)
qed

text \<open>A view that shows each organization of the lineage as one of several views does.\<close>

lemma lineage_mixed:
  assumes "H \<noteq> {}" and "\<forall>V \<in> H. lineage V n ns"
    and "\<forall>m \<in> set ns. \<exists>V \<in> H. W (cluster_key m) = V (cluster_key m)"
  shows "lineage W n ns"
  using assms(2,3)
proof (induction ns arbitrary: n)
  case Nil
  then show ?case using assms(1) lineage_hd by blast
next
  case (Cons a ms)
  have a: "a = n" using Cons.prems(1) assms(1) lineage_hd by blast
  have parent: "\<exists>x. V (cluster_key n) = Some x \<and> (if ms = [] then org_Parent x = '''' else
      org_Parent x \<noteq> '''' \<and> org_Parent x = hd ms \<and> lineage V (hd ms) ms)" if "V \<in> H" for V
    using bspec [OF Cons.prems(1) that] unfolding a by (cases rule: lineage.cases) (use lineage_hd in fastforce)+
  obtain V where V: "V \<in> H" "W (cluster_key n) = V (cluster_key n)" using Cons.prems(2) a by auto
  obtain x where x: "W (cluster_key n) = Some x" "if ms = [] then org_Parent x = '''' else
      org_Parent x \<noteq> '''' \<and> org_Parent x = hd ms"
    using parent [OF V(1)] V(2) by (auto split: if_splits)
  show ?case
  proof (cases "ms = []")
    case False
    then have "lineage W (hd ms) ms" using Cons.IH [of "hd ms"] parent Cons.prems(2) by auto
    with False x a show ?thesis by (auto simp: lineage_iff)
  qed (use x a in \<open>simp add: lineage_iff\<close>)
qed

lemma lineage_of_stored:
  assumes "V (cluster_key (org_Name x)) = Some x"
  shows "lineage_of V x ns \<longleftrightarrow> lineage V (org_Name x) ns"
  using assms by (simp add: lineage_of_def lineage_iff)

lemma lineage_of_parent:
  assumes "org_Parent x \<noteq> ''''" and "V (cluster_key (org_Parent x)) = Some p" and "well_keyed org_Meta V"
  shows "lineage_of V x ns \<longleftrightarrow> (\<exists>ms. ns = org_Name x # ms \<and> lineage_of V p ms)"
proof -
  have "org_Name p = org_Parent x"
    using assms(2,3) well_keyed_name [of org_Meta V] by simp
  then show ?thesis
    using assms lineage_of_stored [of V p] by (simp add: lineage_of_def)
qed

lemma lineage_of_nonempty: "lineage_of V x ns \<Longrightarrow> ns \<noteq> []"
  by (auto simp: lineage_of_def split: if_splits)

lemma lineage_of_dangling:
  assumes "org_Parent x \<noteq> ''''" and "V (cluster_key (org_Parent x)) = None"
  shows "\<not> lineage_of V x ns"
  using assms by (simp add: lineage_of_def lineage_missing)


section \<open>The bounded walk\<close>

lemma walk_names_empty [simp]: "walk_names V k '''' = []"
  by (cases k) auto

lemma walk_names_length: "length (walk_names V k n) \<le> k"
  by (induction V k n rule: walk_names.induct) (auto split: option.split)

lemma walk_names_above: "m \<in> set (walk_names V k n) \<Longrightarrow> n \<noteq> '''' \<and> m \<noteq> '''' \<and> above V n m"
proof (induction V k n rule: walk_names.induct)
  case (2 V k n)
  then show ?case by (fastforce split: option.splits if_splits intro: above.intros)
qed simp

lemma walk_names_lineage:
  assumes "lineage V n ns" and "n \<noteq> ''''"
  shows "walk_names V k n = take k ns"
  using assms
proof (induction arbitrary: k rule: lineage.induct)
  case (lineage_root n x)
  then show ?case by (cases k) simp_all
next
  case (lineage_child n x ns)
  then show ?case by (cases k) simp_all
qed


lemma ancestor_at_add: "ancestor_at V (m + n) x = Option.bind (ancestor_at V m x) (ancestor_at V n)"
  by (induction V m x rule: ancestor_at.induct) (auto split: option.split)

text \<open>On a cycle the links never end.\<close>

lemma ancestor_at_cycle:
  assumes "ancestor_at V (Suc k) x = Some x"
  shows "ancestor_at V n x \<noteq> None"
proof -
  have round: "ancestor_at V (j * Suc k) x = Some x" for j
    by (induction j) (simp_all only: mult_0 mult_Suc ancestor_at_add assms ancestor_at.simps(1) Option.bind.simps(2))
  have "ancestor_at V (n + (n * Suc k - n)) x = Some x" using round [of n] by simp
  then show ?thesis unfolding ancestor_at_add by (cases "ancestor_at V n x") auto
qed

end
