(* ===== verification/Memory_Server.thy ===== *)
theory Memory_Server
  imports Kube_Client
begin

text \<open>
  A concrete provider of the interfaces of \<open>Kube_Client\<close>: an in-memory API server that holds
  one association list per kind, hands out UIDs from a counter, keeps objects with finalizers in a
  terminating state, and can be told to fail chosen verbs on chosen kinds. It plays the part the
  fake client plays in the repository's tests: the interpretations below show that the contracts
  the properties assume hold together, and every witness runs on this server.
\<close>

section \<open>The store\<close>

datatype verb = VGet | VList | VCreate | VUpdate | VDelete

datatype resource_kind = KOrganization | KProfile | KProject | KConfiguration | KNamespace
  | KRoleBinding | KNetworkPolicy | KAITenant

record cluster =
  cl_organizations :: "(ObjectKey \<times> Organization) list"
  cl_profiles :: "(ObjectKey \<times> OrganizationProfile) list"
  cl_projects :: "(ObjectKey \<times> OrganizationProject) list"
  cl_configurations :: "(ObjectKey \<times> MaaSConfiguration) list"
  cl_namespaces :: "(ObjectKey \<times> CoreNamespace) list"
  cl_rolebindings :: "(ObjectKey \<times> RoleBinding) list"
  cl_networkpolicies :: "(ObjectKey \<times> NetworkPolicy) list"
  cl_aitenants :: "(ObjectKey \<times> Unstructured) list"
  cl_uid :: nat
  cl_aitenant_crd :: bool

definition empty_cluster :: cluster where
  "empty_cluster = \<lparr>cl_organizations = [], cl_profiles = [], cl_projects = [], cl_configurations = [],
     cl_namespaces = [], cl_rolebindings = [], cl_networkpolicies = [], cl_aitenants = [],
     cl_uid = 0, cl_aitenant_crd = False\<rparr>"

definition put :: "'k \<Rightarrow> 'v \<Rightarrow> ('k \<times> 'v) list \<Rightarrow> ('k \<times> 'v) list" where
  "put k v xs = (k, v) # filter (\<lambda>e. fst e \<noteq> k) xs"

definition drop_key :: "'k \<Rightarrow> ('k \<times> 'v) list \<Rightarrow> ('k \<times> 'v) list" where
  "drop_key k xs = filter (\<lambda>e. fst e \<noteq> k) xs"

definition fresh_uid :: "nat \<Rightarrow> string" where
  "fresh_uid n = ''uid-'' @ replicate n (CHR ''x'')"

lemma map_of_filter_ne: "map_of (filter (\<lambda>e. fst e \<noteq> k) xs) k' = (if k' = k then None else map_of xs k')"
  by (induction xs) auto

lemma map_of_put [simp]: "map_of (put k v xs) = (map_of xs)(k \<mapsto> v)"
  by (rule ext) (simp add: put_def map_of_filter_ne)

lemma map_of_drop_key [simp]: "map_of (drop_key k xs) = (map_of xs)(k := None)"
  by (rule ext) (simp add: drop_key_def map_of_filter_ne)


section \<open>One kind of objects\<close>

type_synonym ('o) selector = "cluster \<Rightarrow> (ObjectKey \<times> 'o) list"
type_synonym ('o) updater = "((ObjectKey \<times> 'o) list \<Rightarrow> (ObjectKey \<times> 'o) list) \<Rightarrow> cluster \<Rightarrow> cluster"

definition mem_get :: "(verb \<Rightarrow> string option) \<Rightarrow> 'o selector \<Rightarrow> ObjectKey \<Rightarrow> cluster \<Rightarrow> api_error + 'o" where
  "mem_get flt sel k s = (case flt VGet of Some m \<Rightarrow> Inl (ApiFailure m)
     | None \<Rightarrow> (case map_of (sel s) k of None \<Rightarrow> Inl NotFound | Some x \<Rightarrow> Inr x))"

definition mem_list :: "(verb \<Rightarrow> string option) \<Rightarrow> 'o selector \<Rightarrow> cluster \<Rightarrow> api_error + 'o list" where
  "mem_list flt sel s = (case flt VList of Some m \<Rightarrow> Inl (ApiFailure m)
     | None \<Rightarrow> Inr (map (\<lambda>k. the (map_of (sel s) k)) (remdups (map fst (sel s)))))"

definition mem_create :: "(verb \<Rightarrow> string option) \<Rightarrow> 'o selector \<Rightarrow> 'o updater \<Rightarrow> ('o \<Rightarrow> ObjectMeta) \<Rightarrow>
    ((ObjectMeta \<Rightarrow> ObjectMeta) \<Rightarrow> 'o \<Rightarrow> 'o) \<Rightarrow> 'o \<Rightarrow> cluster \<Rightarrow> (api_error + 'o) \<times> cluster" where
  "mem_create flt sel upd meta meta_upd x s = (case flt VCreate of Some m \<Rightarrow> (Inl (ApiFailure m), s)
     | None \<Rightarrow> (case map_of (sel s) (key_of (meta x)) of
         Some _ \<Rightarrow> (Inl (ApiFailure ''AlreadyExists''), s)
       | None \<Rightarrow> (let y = meta_upd (\<lambda>m. m\<lparr>om_UID := fresh_uid (cl_uid s), om_DeletionTimestamp := None\<rparr>) x in
           (Inr y, upd (put (key_of (meta x)) y) (s\<lparr>cl_uid := Suc (cl_uid s)\<rparr>)))))"

text \<open>Removing the last finalizer of a terminating object removes the object.\<close>

definition mem_update :: "(verb \<Rightarrow> string option) \<Rightarrow> 'o selector \<Rightarrow> 'o updater \<Rightarrow> ('o \<Rightarrow> ObjectMeta) \<Rightarrow>
    ((ObjectMeta \<Rightarrow> ObjectMeta) \<Rightarrow> 'o \<Rightarrow> 'o) \<Rightarrow> 'o \<Rightarrow> cluster \<Rightarrow> (api_error + 'o) \<times> cluster" where
  "mem_update flt sel upd meta meta_upd x s = (case flt VUpdate of Some m \<Rightarrow> (Inl (ApiFailure m), s)
     | None \<Rightarrow> (case map_of (sel s) (key_of (meta x)) of
         None \<Rightarrow> (Inl NotFound, s)
       | Some w \<Rightarrow> (let y = meta_upd (\<lambda>m. m\<lparr>om_DeletionTimestamp := om_DeletionTimestamp (meta w)\<rparr>) x in
           (Inr y,
            if om_DeletionTimestamp (meta w) \<noteq> None \<and> om_Finalizers (meta x) = []
            then upd (drop_key (key_of (meta x))) s else upd (put (key_of (meta x)) y) s))))"

definition mem_delete :: "(verb \<Rightarrow> string option) \<Rightarrow> 'o selector \<Rightarrow> 'o updater \<Rightarrow> ('o \<Rightarrow> ObjectMeta) \<Rightarrow>
    ((ObjectMeta \<Rightarrow> ObjectMeta) \<Rightarrow> 'o \<Rightarrow> 'o) \<Rightarrow> 'o \<Rightarrow> cluster \<Rightarrow> (api_error + unit) \<times> cluster" where
  "mem_delete flt sel upd meta meta_upd x s = (case flt VDelete of Some m \<Rightarrow> (Inl (ApiFailure m), s)
     | None \<Rightarrow> (case map_of (sel s) (key_of (meta x)) of
         None \<Rightarrow> (Inl NotFound, s)
       | Some y \<Rightarrow> (Inr (),
           if om_Finalizers (meta y) = [] then upd (drop_key (key_of (meta x))) s
           else upd (put (key_of (meta x)) (meta_upd (\<lambda>m. m\<lparr>om_DeletionTimestamp := Some 0\<rparr>) y)) s)))"

definition mem_apply :: "(verb \<Rightarrow> string option) \<Rightarrow> 'o selector \<Rightarrow> 'o updater \<Rightarrow> ('o \<Rightarrow> ObjectMeta) \<Rightarrow>
    ((ObjectMeta \<Rightarrow> ObjectMeta) \<Rightarrow> 'o \<Rightarrow> 'o) \<Rightarrow> 'o \<Rightarrow> ('o \<Rightarrow> go_error + 'o) \<Rightarrow> cluster \<Rightarrow>
    (go_error + 'o) \<times> cluster" where
  "mem_apply flt sel upd meta meta_upd x f s = (case flt VGet of Some m \<Rightarrow> (Inl (ApiError (ApiFailure m)), s)
     | None \<Rightarrow> (case map_of (sel s) (key_of (meta x)) of
         None \<Rightarrow> (case f x of Inl e \<Rightarrow> (Inl e, s)
           | Inr z \<Rightarrow> if key_of (meta z) \<noteq> key_of (meta x) then (Inl (LibraryError ''key changed''), s)
               else (case flt VCreate of Some m \<Rightarrow> (Inl (ApiError (ApiFailure m)), s)
                 | None \<Rightarrow> (let y = meta_upd (\<lambda>m. m\<lparr>om_UID := fresh_uid (cl_uid s)\<rparr>) z in
                     (Inr y, upd (put (key_of (meta x)) y) (s\<lparr>cl_uid := Suc (cl_uid s)\<rparr>)))))
       | Some w \<Rightarrow> (case f w of Inl e \<Rightarrow> (Inl e, s)
           | Inr z \<Rightarrow> if key_of (meta z) \<noteq> key_of (meta x) then (Inl (LibraryError ''key changed''), s)
               else (case flt VUpdate of Some m \<Rightarrow> (Inl (ApiError (ApiFailure m)), s)
                 | None \<Rightarrow> (Inr z, upd (put (key_of (meta x)) z) s)))))"

definition mem_resource :: "(verb \<Rightarrow> string option) \<Rightarrow> 'o selector \<Rightarrow> 'o updater \<Rightarrow> ('o \<Rightarrow> ObjectMeta) \<Rightarrow>
    ((ObjectMeta \<Rightarrow> ObjectMeta) \<Rightarrow> 'o \<Rightarrow> 'o) \<Rightarrow> ('o, cluster) resource" where
  "mem_resource flt sel upd meta meta_upd = \<lparr>Get = mem_get flt sel, ListItems = mem_list flt sel,
     Create = mem_create flt sel upd meta meta_upd, Update = mem_update flt sel upd meta meta_upd,
     Delete = mem_delete flt sel upd meta meta_upd,
     CreateOrUpdate = mem_apply flt sel upd meta meta_upd\<rparr>"

definition mem_view :: "'o selector \<Rightarrow> cluster \<Rightarrow> ObjectKey \<rightharpoonup> 'o" where
  "mem_view sel s = map_of (sel s)"

text \<open>Everything a kind's calls leave alone: the other kinds and the installed CRDs.\<close>

definition mem_rest :: "'o updater \<Rightarrow> cluster \<Rightarrow> cluster" where
  "mem_rest upd s = upd (\<lambda>_. []) (s\<lparr>cl_uid := 0\<rparr>)"


section \<open>Every kind satisfies the contracts\<close>

locale mem_kind =
  fixes flt :: "verb \<Rightarrow> string option"
    and sel :: "cluster \<Rightarrow> (ObjectKey \<times> 'o) list"
    and upd :: "((ObjectKey \<times> 'o) list \<Rightarrow> (ObjectKey \<times> 'o) list) \<Rightarrow> cluster \<Rightarrow> cluster"
    and meta :: "'o \<Rightarrow> ObjectMeta"
    and meta_upd :: "(ObjectMeta \<Rightarrow> ObjectMeta) \<Rightarrow> 'o \<Rightarrow> 'o"
    and kept :: "'o \<Rightarrow> 'o \<Rightarrow> bool"
  assumes sel_upd: "sel (upd f s) = f (sel s)"
    and sel_uid: "sel (s\<lparr>cl_uid := n\<rparr>) = sel s"
    and upd_upd: "upd g (upd f s) = upd (g \<circ> f) s"
    and upd_uid: "(upd f s)\<lparr>cl_uid := n\<rparr> = upd f (s\<lparr>cl_uid := n\<rparr>)"
    and meta_meta_upd: "meta (meta_upd h x) = h (meta x)"
    and kept_refl: "kept x x"
    and kept_uid: "kept x (meta_upd (\<lambda>m. m\<lparr>om_UID := u\<rparr>) x)"
    and kept_fresh: "kept x (meta_upd (\<lambda>m. m\<lparr>om_UID := u, om_DeletionTimestamp := None\<rparr>) x)"
    and kept_terminating: "kept x (meta_upd (\<lambda>m. m\<lparr>om_DeletionTimestamp := d\<rparr>) x)"
begin

lemma view_upd [simp]: "mem_view sel (upd f s) = map_of (f (sel s))"
  by (simp add: mem_view_def sel_upd)

lemma view_uid [simp]: "mem_view sel (s\<lparr>cl_uid := n\<rparr>) = mem_view sel s"
  by (simp add: mem_view_def sel_uid)

lemma rest_upd [simp]: "mem_rest upd (upd f s) = mem_rest upd s"
  by (simp add: mem_rest_def upd_uid upd_upd comp_def)

lemma rest_uid [simp]: "mem_rest upd (s\<lparr>cl_uid := n\<rparr>) = mem_rest upd s"
  by (simp add: mem_rest_def)

lemma frame_put [simp]: "frame (mem_view sel) (mem_rest upd) k s (upd (put k y) s)"
  by (simp add: frame_def) (simp add: mem_view_def)

lemma frame_put_uid [simp]: "frame (mem_view sel) (mem_rest upd) k s (upd (put k y) (s\<lparr>cl_uid := n\<rparr>))"
  by (simp add: frame_def) (simp add: mem_view_def sel_uid)

lemma frame_drop [simp]: "frame (mem_view sel) (mem_rest upd) k s (upd (drop_key k) s)"
  by (simp add: frame_def) (simp add: mem_view_def)

sublocale object_reader "mem_get flt sel" "mem_view sel"
  by unfold_locales (auto simp: mem_get_def mem_view_def split: option.splits)

sublocale object_creator "mem_view sel" "mem_rest upd" meta kept "mem_create flt sel upd meta meta_upd"
  by unfold_locales
    (auto simp: mem_create_def Let_def kept_fresh meta_meta_upd mem_view_def sel_upd sel_uid
      simp flip: mem_view_def split: option.splits)

sublocale object_updater "mem_view sel" "mem_rest upd" meta kept "mem_update flt sel upd meta meta_upd"
  by unfold_locales
    (auto simp: mem_update_def Let_def kept_terminating meta_meta_upd mem_view_def sel_upd simp flip: mem_view_def
      split: option.splits if_splits)

sublocale object_deleter "mem_view sel" "mem_rest upd" meta kept "mem_delete flt sel upd meta meta_upd"
  by unfold_locales
    (auto simp: mem_delete_def gone_def mem_view_def sel_upd meta_meta_upd kept_terminating simp flip: mem_view_def
      split: option.splits if_splits)

sublocale object_applier "mem_view sel" "mem_rest upd" meta kept "mem_apply flt sel upd meta meta_upd"
  by unfold_locales
    (auto simp: mem_apply_def present_def Let_def kept_refl kept_uid mem_view_def sel_upd sel_uid
      simp flip: mem_view_def split: option.splits sum.splits if_splits)

sublocale identity_applier "mem_view sel" "mem_rest upd" meta kept "mem_apply flt sel upd meta meta_upd"
  by unfold_locales
    (auto simp: mem_apply_def present_def Let_def meta_meta_upd mem_view_def fresh_uid_def
      split: option.splits sum.splits if_splits)

sublocale object_lister "mem_list flt sel" "mem_view sel"
proof
  fix s xs
  assume "mem_list flt sel s = Inr xs"
  then have "xs = map (\<lambda>k. the (mem_view sel s k)) (remdups (map fst (sel s)))"
    by (auto simp: mem_list_def mem_view_def split: option.splits)
  moreover have "set (remdups (map fst (sel s))) = dom (mem_view sel s)"
    by (simp add: mem_view_def dom_map_of_conv_image_fst)
  ultimately show "\<exists>ks. distinct ks \<and> set ks = dom (mem_view sel s) \<and>
      xs = map (\<lambda>k. the (mem_view sel s k)) ks"
    by (metis distinct_remdups)
qed

end

text \<open>Without injected faults, reads and \<open>CreateOrUpdate\<close> always answer.\<close>

locale mem_kind_up = mem_kind +
  assumes no_fault: "flt v = None"
begin

sublocale reliable_reader "mem_get flt sel" "mem_view sel"
  by unfold_locales (auto simp: mem_get_def no_fault split: option.splits)

sublocale reliable_lister "mem_list flt sel" "mem_view sel"
  by unfold_locales (simp add: mem_list_def no_fault)

sublocale reliable_creator "mem_view sel" "mem_rest upd" meta kept "mem_create flt sel upd meta meta_upd" acceptable for acceptable
  by unfold_locales (simp add: mem_create_def no_fault mem_view_def Let_def)

sublocale reliable_updater "mem_view sel" "mem_rest upd" meta kept "mem_update flt sel upd meta meta_upd" acceptable for acceptable
  by unfold_locales (simp add: mem_update_def no_fault mem_view_def Let_def)

sublocale reliable_deleter "mem_view sel" "mem_rest upd" meta kept "mem_delete flt sel upd meta meta_upd"
  by unfold_locales (auto simp: mem_delete_def no_fault split: option.splits)

sublocale reliable_applier "mem_view sel" "mem_rest upd" meta kept "mem_apply flt sel upd meta meta_upd" acceptable for acceptable
  by unfold_locales
    (auto simp: mem_apply_def present_def no_fault Let_def mem_view_def split: option.splits)

end


section \<open>Owner references, finalizers, nested fields\<close>

definition mem_IsControlledBy :: "ObjectMeta \<Rightarrow> ObjectMeta \<Rightarrow> bool" where
  "mem_IsControlledBy m p = (case controller_of m of None \<Rightarrow> False | Some r \<Rightarrow> or_UID r = om_UID p)"

definition mem_SetControllerReference :: "owner_object \<Rightarrow> ObjectMeta \<Rightarrow> go_error + ObjectMeta" where
  "mem_SetControllerReference w m =
     (let m' = m\<lparr>om_OwnerReferences := upsert_reference w (Some True) (om_OwnerReferences m)\<rparr> in
      case controller_of m of
        None \<Rightarrow> Inr m'
      | Some r \<Rightarrow> if same_object w r then Inr m' else Inl (LibraryError ''already owned''))"

definition mem_SetOwnerReference :: "owner_object \<Rightarrow> ObjectMeta \<Rightarrow> go_error + ObjectMeta" where
  "mem_SetOwnerReference w m = Inr (m\<lparr>om_OwnerReferences := upsert_reference w None (om_OwnerReferences m)\<rparr>)"

definition mem_ContainsFinalizer :: "ObjectMeta \<Rightarrow> string \<Rightarrow> bool" where
  "mem_ContainsFinalizer m f = (f \<in> set (om_Finalizers m))"

definition mem_AddFinalizer :: "ObjectMeta \<Rightarrow> string \<Rightarrow> ObjectMeta" where
  "mem_AddFinalizer m f = (if f \<in> set (om_Finalizers m) then m
     else m\<lparr>om_Finalizers := om_Finalizers m @ [f]\<rparr>)"

definition mem_RemoveFinalizer :: "ObjectMeta \<Rightarrow> string \<Rightarrow> ObjectMeta" where
  "mem_RemoveFinalizer m f = m\<lparr>om_Finalizers := filter (\<lambda>g. g \<noteq> f) (om_Finalizers m)\<rparr>"

fun mem_SetNestedField :: "(string \<rightharpoonup> json) \<Rightarrow> json \<Rightarrow> string list \<Rightarrow> go_error + (string \<rightharpoonup> json)" where
  "mem_SetNestedField m v [] = Inl (LibraryError ''empty path'')"
| "mem_SetNestedField m v [a] = Inr (m(a \<mapsto> v))"
| "mem_SetNestedField m v (a # b # ps) = (case m a of
     None \<Rightarrow> (case mem_SetNestedField Map.empty v (b # ps) of Inl e \<Rightarrow> Inl e | Inr n \<Rightarrow> Inr (m(a \<mapsto> JObject n)))
   | Some (JObject n) \<Rightarrow> (case mem_SetNestedField n v (b # ps) of Inl e \<Rightarrow> Inl e | Inr n' \<Rightarrow> Inr (m(a \<mapsto> JObject n')))
   | Some _ \<Rightarrow> Inl (LibraryError ''value along the path is not a map''))"

fun mem_RemoveNestedField :: "(string \<rightharpoonup> json) \<Rightarrow> string list \<Rightarrow> (string \<rightharpoonup> json)" where
  "mem_RemoveNestedField m [] = m"
| "mem_RemoveNestedField m [a] = m(a := None)"
| "mem_RemoveNestedField m (a # b # ps) = (case m a of
     Some (JObject n) \<Rightarrow> m(a \<mapsto> JObject (mem_RemoveNestedField n (b # ps))) | _ \<Rightarrow> m)"

fun mem_nested :: "(string \<rightharpoonup> json) \<Rightarrow> string list \<Rightarrow> json option" where
  "mem_nested m [] = None"
| "mem_nested m [a] = m a"
| "mem_nested m (a # b # ps) = (case m a of Some (JObject n) \<Rightarrow> mem_nested n (b # ps) | _ \<Rightarrow> None)"

definition mem_NestedSlice :: "(string \<rightharpoonup> json) \<Rightarrow> string list \<Rightarrow> go_error + json list option" where
  "mem_NestedSlice m ps = (case mem_nested m ps of None \<Rightarrow> Inr None | Some (JArray xs) \<Rightarrow> Inr (Some xs)
     | Some _ \<Rightarrow> Inl (LibraryError ''value is not a list''))"


section \<open>The server\<close>

definition memory_server :: "(resource_kind \<Rightarrow> verb \<Rightarrow> string option) \<Rightarrow> cluster k8s" where
  "memory_server flt = \<lparr>
     organizations = mem_resource (flt KOrganization) cl_organizations cl_organizations_update org_Meta org_Meta_update,
     profiles = mem_resource (flt KProfile) cl_profiles cl_profiles_update prof_Meta prof_Meta_update,
     projects = mem_resource (flt KProject) cl_projects cl_projects_update proj_Meta proj_Meta_update,
     configurations = mem_resource (flt KConfiguration) cl_configurations cl_configurations_update mcfg_Meta mcfg_Meta_update,
     namespaces = mem_resource (flt KNamespace) cl_namespaces cl_namespaces_update ns_Meta ns_Meta_update,
     rolebindings = mem_resource (flt KRoleBinding) cl_rolebindings cl_rolebindings_update rb_Meta rb_Meta_update,
     networkpolicies = mem_resource (flt KNetworkPolicy) cl_networkpolicies cl_networkpolicies_update np_Meta np_Meta_update,
     aitenants = mem_resource (flt KAITenant) cl_aitenants cl_aitenants_update un_Meta un_Meta_update,
     HasCRD = (\<lambda>s. Inr (cl_aitenant_crd s)),
     SetControllerReference = mem_SetControllerReference,
     SetOwnerReference = mem_SetOwnerReference,
     IsControlledBy = mem_IsControlledBy,
     ContainsFinalizer = mem_ContainsFinalizer,
     AddFinalizer = mem_AddFinalizer,
     RemoveFinalizer = mem_RemoveFinalizer,
     SetNestedField = mem_SetNestedField,
     RemoveNestedField = mem_RemoveNestedField,
     NestedSlice = mem_NestedSlice\<rparr>"

abbreviation server :: "cluster k8s" where
  "server \<equiv> memory_server (\<lambda>_ _. None)"

interpretation mem_owner_references: accepting_owner_references mem_SetControllerReference mem_IsControlledBy
  by unfold_locales
    (auto simp: mem_SetControllerReference_def mem_IsControlledBy_def Let_def split: option.splits if_splits)

interpretation mem_owner_adder: owner_adder mem_SetControllerReference mem_IsControlledBy mem_SetOwnerReference
  by unfold_locales (simp add: mem_SetOwnerReference_def)

interpretation mem_accepting_owner_adder: accepting_owner_adder mem_SetControllerReference mem_IsControlledBy mem_SetOwnerReference
  by unfold_locales (simp add: mem_SetOwnerReference_def)

interpretation mem_finalizers: finalizer_ops mem_ContainsFinalizer mem_AddFinalizer mem_RemoveFinalizer
proof
  fix m m' :: ObjectMeta and f
  show "\<exists>fs. mem_AddFinalizer m f = m\<lparr>om_Finalizers := fs\<rparr>"
    by (cases m) (auto simp: mem_AddFinalizer_def)
qed (auto simp: mem_ContainsFinalizer_def mem_AddFinalizer_def mem_RemoveFinalizer_def)

interpretation mem_nested_fields: nested_field_ops mem_SetNestedField mem_RemoveNestedField mem_NestedSlice
  by unfold_locales
    (auto simp: subfield_def mem_NestedSlice_def split: option.splits json.splits)

lemma memory_server_simps [simp]:
  "organizations (memory_server flt) = mem_resource (flt KOrganization) cl_organizations cl_organizations_update org_Meta org_Meta_update"
  "profiles (memory_server flt) = mem_resource (flt KProfile) cl_profiles cl_profiles_update prof_Meta prof_Meta_update"
  "projects (memory_server flt) = mem_resource (flt KProject) cl_projects cl_projects_update proj_Meta proj_Meta_update"
  "configurations (memory_server flt) = mem_resource (flt KConfiguration) cl_configurations cl_configurations_update mcfg_Meta mcfg_Meta_update"
  "namespaces (memory_server flt) = mem_resource (flt KNamespace) cl_namespaces cl_namespaces_update ns_Meta ns_Meta_update"
  "rolebindings (memory_server flt) = mem_resource (flt KRoleBinding) cl_rolebindings cl_rolebindings_update rb_Meta rb_Meta_update"
  "networkpolicies (memory_server flt) = mem_resource (flt KNetworkPolicy) cl_networkpolicies cl_networkpolicies_update np_Meta np_Meta_update"
  "aitenants (memory_server flt) = mem_resource (flt KAITenant) cl_aitenants cl_aitenants_update un_Meta un_Meta_update"
  "HasCRD (memory_server flt) = (\<lambda>s. Inr (cl_aitenant_crd s))"
  "SetControllerReference (memory_server flt) = mem_SetControllerReference"
  "SetOwnerReference (memory_server flt) = mem_SetOwnerReference"
  "IsControlledBy (memory_server flt) = mem_IsControlledBy"
  "ContainsFinalizer (memory_server flt) = mem_ContainsFinalizer"
  "AddFinalizer (memory_server flt) = mem_AddFinalizer"
  "RemoveFinalizer (memory_server flt) = mem_RemoveFinalizer"
  "SetNestedField (memory_server flt) = mem_SetNestedField"
  "RemoveNestedField (memory_server flt) = mem_RemoveNestedField"
  "NestedSlice (memory_server flt) = mem_NestedSlice"
  by (simp_all add: memory_server_def)

lemma mem_resource_simps [simp]:
  "Get (mem_resource flt sel upd meta meta_upd) = mem_get flt sel"
  "ListItems (mem_resource flt sel upd meta meta_upd) = mem_list flt sel"
  "Create (mem_resource flt sel upd meta meta_upd) = mem_create flt sel upd meta meta_upd"
  "Update (mem_resource flt sel upd meta meta_upd) = mem_update flt sel upd meta meta_upd"
  "Delete (mem_resource flt sel upd meta meta_upd) = mem_delete flt sel upd meta meta_upd"
  "CreateOrUpdate (mem_resource flt sel upd meta meta_upd) = mem_apply flt sel upd meta meta_upd"
  by (simp_all add: mem_resource_def)

text \<open>The kinds the server stores, each for every fault pattern.\<close>

interpretation mem_organizations: mem_kind flt cl_organizations cl_organizations_update org_Meta org_Meta_update organization_kept for flt
  by unfold_locales (auto simp: organization_kept_def comp_def)

interpretation mem_profiles: mem_kind flt cl_profiles cl_profiles_update prof_Meta prof_Meta_update profile_kept for flt
  by unfold_locales (auto simp: profile_kept_def comp_def)

interpretation mem_projects: mem_kind flt cl_projects cl_projects_update proj_Meta proj_Meta_update project_kept for flt
  by unfold_locales (auto simp: project_kept_def comp_def)

interpretation mem_configurations: mem_kind flt cl_configurations cl_configurations_update mcfg_Meta mcfg_Meta_update configuration_kept for flt
  by unfold_locales (auto simp: configuration_kept_def comp_def)

interpretation mem_namespaces: mem_kind flt cl_namespaces cl_namespaces_update ns_Meta ns_Meta_update namespace_kept for flt
  by unfold_locales (auto simp: namespace_kept_def comp_def)

interpretation mem_rolebindings: mem_kind flt cl_rolebindings cl_rolebindings_update rb_Meta rb_Meta_update rolebinding_kept for flt
  by unfold_locales (auto simp: rolebinding_kept_def comp_def)

interpretation mem_networkpolicies: mem_kind flt cl_networkpolicies cl_networkpolicies_update np_Meta np_Meta_update networkpolicy_kept for flt
  by unfold_locales (auto simp: networkpolicy_kept_def comp_def)

interpretation mem_aitenants: mem_kind flt cl_aitenants cl_aitenants_update un_Meta un_Meta_update unstructured_kept for flt
  by unfold_locales (auto simp: unstructured_kept_def comp_def)

text \<open>And the same kinds with no fault injected.\<close>

interpretation up_organizations: mem_kind_up "\<lambda>_. None" cl_organizations cl_organizations_update org_Meta org_Meta_update organization_kept
  by unfold_locales simp

interpretation up_profiles: mem_kind_up "\<lambda>_. None" cl_profiles cl_profiles_update prof_Meta prof_Meta_update profile_kept
  by unfold_locales simp

interpretation up_projects: mem_kind_up "\<lambda>_. None" cl_projects cl_projects_update proj_Meta proj_Meta_update project_kept
  by unfold_locales simp

interpretation up_configurations: mem_kind_up "\<lambda>_. None" cl_configurations cl_configurations_update mcfg_Meta mcfg_Meta_update configuration_kept
  by unfold_locales simp

interpretation up_namespaces: mem_kind_up "\<lambda>_. None" cl_namespaces cl_namespaces_update ns_Meta ns_Meta_update namespace_kept
  by unfold_locales simp

interpretation up_rolebindings: mem_kind_up "\<lambda>_. None" cl_rolebindings cl_rolebindings_update rb_Meta rb_Meta_update rolebinding_kept
  by unfold_locales simp

interpretation up_networkpolicies: mem_kind_up "\<lambda>_. None" cl_networkpolicies cl_networkpolicies_update np_Meta np_Meta_update networkpolicy_kept
  by unfold_locales simp

interpretation up_aitenants: mem_kind_up "\<lambda>_. None" cl_aitenants cl_aitenants_update un_Meta un_Meta_update unstructured_kept
  by unfold_locales simp

text \<open>What a concrete run of the server is evaluated with.\<close>

lemmas memory_server_eval = mem_get_def mem_list_def mem_create_def mem_update_def mem_delete_def
  mem_apply_def mem_IsControlledBy_def controller_of_def mem_SetControllerReference_def
  mem_SetOwnerReference_def owner_reference_def mem_ContainsFinalizer_def mem_AddFinalizer_def
  mem_RemoveFinalizer_def mem_NestedSlice_def put_def drop_key_def empty_cluster_def key_of_def

end
