(* ===== verification/Authz.thy ===== *)
theory Authz
  imports Hierarchy Memory_Server
begin

text \<open>
  \<open>internal/webhook/v1alpha1/authz.go\<close>: who may act on an organization. The authorizer trusts
  the cluster-admin groups and the service accounts of the operator's namespace; everyone else
  needs to be listed as an admin on the organization's own OrganizationProfile
  (\<open>requireSelfAdmin\<close>) or on the profile of the organization or one of its ancestors
  (\<open>requireAncestorAdmin\<close>). The lemmas give each function's meaning over the stored profiles
  and organizations, for a reader that may fail and for one that does not, and the locale
  \<open>authority\<close> states the contract the four validators rely on.
\<close>

section \<open>Requesters\<close>

record UserInfo =
  ui_Username :: string
  ui_Groups :: "string list"

record AdmissionRequest =
  ar_UserInfo :: UserInfo

text \<open>
  A request's context, as \<open>admission.RequestFromContext\<close> answers for it: an error when it
  carries no admission request.
\<close>

type_synonym admission_context = "go_error + AdmissionRequest"

definition userFromContext :: "admission_context \<Rightarrow> go_error + UserInfo" where
  "userFromContext ctx = (case ctx of Inl err \<Rightarrow> Inl err | Inr req \<Rightarrow> Inr (ar_UserInfo req))"


section \<open>The authorizer\<close>

definition maxAncestorWalk :: nat where
  "maxAncestorWalk = 3"

definition defaultOperatorNS :: string where
  "defaultOperatorNS = ''tenancy-operator-system''"

definition defaultClusterAdminGroups :: "string list" where
  "defaultClusterAdminGroups = [''system:masters'', ''kubeadm:cluster-admins'']"

record 's authorizer =
  az_reader :: "'s k8s"
  az_operatorNamespace :: string
  az_clusterAdminGroups :: "string list"

text \<open>\<open>os.Getenv\<close> answers the empty string for a variable that is not set.\<close>

definition newAuthorizer :: "(string \<Rightarrow> string) \<Rightarrow> 's k8s \<Rightarrow> 's authorizer" where
  "newAuthorizer getenv c =
     (let ns = (if getenv ''OPERATOR_NAMESPACE'' = '''' then defaultOperatorNS else getenv ''OPERATOR_NAMESPACE'');
          groups = (if getenv ''CLUSTER_ADMIN_GROUPS'' \<noteq> ''''
                    then split_on (CHR '','') (getenv ''CLUSTER_ADMIN_GROUPS'') else defaultClusterAdminGroups)
      in \<lparr>az_reader = c, az_operatorNamespace = ns, az_clusterAdminGroups = groups\<rparr>)"

definition operatorSAGroup :: "'s authorizer \<Rightarrow> string" where
  "operatorSAGroup a = ''system:serviceaccounts:'' @ az_operatorNamespace a"

fun trusted_groups :: "'s authorizer \<Rightarrow> string list \<Rightarrow> bool" where
  "trusted_groups a [] = False"
| "trusted_groups a (g # gs) =
     (if g = operatorSAGroup a then True
      else if g \<in> set (az_clusterAdminGroups a) then True
      else trusted_groups a gs)"

definition isTrusted :: "'s authorizer \<Rightarrow> UserInfo \<Rightarrow> bool" where
  "isTrusted a u = trusted_groups a (ui_Groups u)"

definition subjectMatches :: "Subject \<Rightarrow> UserInfo \<Rightarrow> bool" where
  "subjectMatches s u =
     (if sub_Kind s = ''User'' then sub_Name s = ui_Username u
      else if sub_Kind s = ''Group'' then sub_Name s \<in> set (ui_Groups u)
      else if sub_Kind s = ''ServiceAccount''
      then ui_Username u = ''system:serviceaccount:'' @ sub_Namespace s @ '':'' @ sub_Name s
      else False)"

fun any_subject :: "Subject list \<Rightarrow> UserInfo \<Rightarrow> bool" where
  "any_subject [] u = False"
| "any_subject (s # ss) u = (if subjectMatches s u then True else any_subject ss u)"

definition selfAdmin :: "'s authorizer \<Rightarrow> UserInfo \<Rightarrow> string \<Rightarrow> 's \<Rightarrow> go_error + bool" where
  "selfAdmin a u organization s =
     (case Get (profiles (az_reader a)) (cluster_key organization) s of
        Inl err \<Rightarrow> if err = NotFound then Inr False else Inl (ApiError err)
      | Inr p \<Rightarrow> Inr (any_subject (prof_Admins p) u))"

text \<open>The loop of \<open>ancestorAdmin\<close>, with the number of rounds it has left.\<close>

fun ancestorWalk :: "'s authorizer \<Rightarrow> UserInfo \<Rightarrow> nat \<Rightarrow> string \<Rightarrow> 's \<Rightarrow> go_error + bool" where
  "ancestorWalk a u 0 cur s = Inr False"
| "ancestorWalk a u (Suc rounds) cur s =
     (if cur = '''' then Inr False
      else (case selfAdmin a u cur s of
              Inl err \<Rightarrow> Inl err
            | Inr True \<Rightarrow> Inr True
            | Inr False \<Rightarrow>
                (case Get (organizations (az_reader a)) (cluster_key cur) s of
                   Inl err \<Rightarrow> if err = NotFound then Inr False else Inl (ApiError err)
                 | Inr parent \<Rightarrow> ancestorWalk a u rounds (org_Parent parent) s)))"

definition ancestorAdmin :: "'s authorizer \<Rightarrow> UserInfo \<Rightarrow> string \<Rightarrow> 's \<Rightarrow> go_error + bool" where
  "ancestorAdmin a u organization s = ancestorWalk a u maxAncestorWalk organization s"

definition requireAncestorAdmin ::
    "'s authorizer \<Rightarrow> admission_context \<Rightarrow> string \<Rightarrow> fmt_arg \<Rightarrow> 's \<Rightarrow> error_result" where
  "requireAncestorAdmin a ctx organization action s =
     (case userFromContext ctx of
        Inl err \<Rightarrow> Some err
      | Inr u \<Rightarrow>
          if isTrusted a u then None
          else (case ancestorAdmin a u organization s of
                  Inl err \<Rightarrow> Some err
                | Inr ok \<Rightarrow>
                    if \<not> ok
                    then Some (Errorf ''user %q is not an admin of organization %q or any ancestor; cannot %s''
                                [ArgS (ui_Username u), ArgS organization, action])
                    else None))"

definition requireSelfAdmin ::
    "'s authorizer \<Rightarrow> admission_context \<Rightarrow> string \<Rightarrow> fmt_arg \<Rightarrow> 's \<Rightarrow> error_result" where
  "requireSelfAdmin a ctx organization action s =
     (case userFromContext ctx of
        Inl err \<Rightarrow> Some err
      | Inr u \<Rightarrow>
          if isTrusted a u then None
          else (case selfAdmin a u organization s of
                  Inl err \<Rightarrow> Some err
                | Inr ok \<Rightarrow>
                    if \<not> ok
                    then Some (Errorf ''user %q is not an admin of organization %q; cannot %s''
                                [ArgS (ui_Username u), ArgS organization, action])
                    else None))"


section \<open>What the functions mean\<close>

text \<open>The specification: an admin of an organization is listed on the profile stored under its name.\<close>

definition admin_of :: "(ObjectKey \<rightharpoonup> OrganizationProfile) \<Rightarrow> UserInfo \<Rightarrow> string \<Rightarrow> bool" where
  "admin_of P u n \<longleftrightarrow> (\<exists>p. P (cluster_key n) = Some p \<and> (\<exists>sb \<in> set (prof_Admins p). subjectMatches sb u))"

lemma any_subject_iff: "any_subject ss u \<longleftrightarrow> (\<exists>sb \<in> set ss. subjectMatches sb u)"
  by (induction ss) auto

lemma trusted_groups_iff:
  "trusted_groups a gs \<longleftrightarrow> operatorSAGroup a \<in> set gs \<or> set gs \<inter> set (az_clusterAdminGroups a) \<noteq> {}"
  by (induction gs) auto

lemma isTrusted_iff:
  "isTrusted a u \<longleftrightarrow> operatorSAGroup a \<in> set (ui_Groups u) \<or>
     set (ui_Groups u) \<inter> set (az_clusterAdminGroups a) \<noteq> {}"
  by (simp add: isTrusted_def trusted_groups_iff)

text \<open>
  The contract between the authorizer and the validators. \<open>entitled s u n\<close> is the
  specification of the authority the check is for.
\<close>

locale authority =
  fixes trusted :: "UserInfo \<Rightarrow> bool"
    and entitled :: "'s \<Rightarrow> UserInfo \<Rightarrow> string \<Rightarrow> bool"
    and require :: "admission_context \<Rightarrow> string \<Rightarrow> fmt_arg \<Rightarrow> 's \<Rightarrow> error_result"
  assumes require_granted: "require ctx n action s = None \<Longrightarrow>
      \<exists>req. ctx = Inr req \<and> (trusted (ar_UserInfo req) \<or> entitled s (ar_UserInfo req) n)"
    and require_trusted: "trusted (ar_UserInfo req) \<Longrightarrow> require (Inr req) n action s = None"
    and require_anonymous: "require (Inl err) n action s = Some err"
begin

text \<open>A check that a guard precedes grants no more than the check does.\<close>

lemma guarded_granted:
  assumes "(if bad then Some err else require ctx n action s) = None"
  shows "\<not> bad \<and> (\<exists>req. ctx = Inr req \<and> (trusted (ar_UserInfo req) \<or> entitled s (ar_UserInfo req) n))"
  using assms require_granted by (cases bad) auto

lemma untrusted_denied:
  assumes "ctx = Inr req" and "\<not> trusted (ar_UserInfo req)" and "\<not> entitled s (ar_UserInfo req) n"
  shows "require ctx n action s \<noteq> None"
  using require_granted [of ctx n action s] assms by auto

end

text \<open>An authority whose reader does not fail grants exactly what its specification says.\<close>

locale exact_authority = authority +
  assumes require_entitled: "entitled s (ar_UserInfo req) n \<Longrightarrow> require (Inr req) n action s = None"
begin

lemma require_iff:
  "require (Inr req) n action s = None \<longleftrightarrow> trusted (ar_UserInfo req) \<or> entitled s (ar_UserInfo req) n"
  using require_granted [of "Inr req" n action s] require_trusted require_entitled by auto

end


section \<open>The authorizer keeps the contract\<close>

text \<open>The authority of \<open>requireAncestorAdmin\<close>: an admin of an organization the walk visits.\<close>

definition admin_above ::
    "(ObjectKey \<rightharpoonup> OrganizationProfile) \<Rightarrow> org_view \<Rightarrow> UserInfo \<Rightarrow> string \<Rightarrow> bool" where
  "admin_above P V u n \<longleftrightarrow> (\<exists>m \<in> set (walk_names V maxAncestorWalk n). admin_of P u m)"

locale authz_reader =
  profile_reader: object_reader "Get (profiles (az_reader a))" pview +
  organization_reader: object_reader "Get (organizations (az_reader a))" oview
  for a :: "'s authorizer" and pview oview
begin

lemma selfAdmin_sound: "selfAdmin a u n s = Inr b \<Longrightarrow> b = admin_of (pview s) u n"
  by (cases rule: profile_reader.get_cases [of "cluster_key n" s])
    (auto simp: selfAdmin_def admin_of_def any_subject_iff)

lemma ancestorWalk_step:
  assumes "n \<noteq> ''''" and "selfAdmin a u n s = Inr c"
  shows "ancestorWalk a u (Suc k) n s =
    (if c then Inr True
     else (case Get (organizations (az_reader a)) (cluster_key n) s of
             Inl err \<Rightarrow> if err = NotFound then Inr False else Inl (ApiError err)
           | Inr parent \<Rightarrow> ancestorWalk a u k (org_Parent parent) s))"
  using assms by (cases c) simp_all

lemma ancestorWalk_sound:
  "ancestorWalk a u k n s = Inr b \<Longrightarrow> b = (\<exists>m \<in> set (walk_names (oview s) k n). admin_of (pview s) u m)"
proof (induction k arbitrary: n)
  case (Suc k)
  show ?case
  proof (cases "n = ''''")
    case False
    with Suc.prems obtain c where c: "selfAdmin a u n s = Inr c"
      by (cases "selfAdmin a u n s") auto
    note step = ancestorWalk_step [OF False c, of k]
    have self: "c = admin_of (pview s) u n" using c by (rule selfAdmin_sound)
    show ?thesis
    proof (cases rule: organization_reader.get_cases [of "cluster_key n" s])
      case (found x)
      with Suc.prems Suc.IH [of "org_Parent x"] step self False show ?thesis
        by (auto split: if_splits)
    next
      case missing
      with Suc.prems step self False show ?thesis by (auto split: if_splits)
    next
      case (failed e)
      with Suc.prems step self False show ?thesis by (auto split: if_splits)
    qed
  qed (use Suc.prems in simp)
qed simp

sublocale self: authority "isTrusted a" "\<lambda>s. admin_of (pview s)" "requireSelfAdmin a"
  by unfold_locales
    (auto simp: requireSelfAdmin_def userFromContext_def split: sum.splits if_splits dest: selfAdmin_sound)

sublocale ancestors: authority "isTrusted a" "\<lambda>s. admin_above (pview s) (oview s)" "requireAncestorAdmin a"
  by unfold_locales
    (auto simp: requireAncestorAdmin_def userFromContext_def ancestorAdmin_def admin_above_def
      split: sum.splits if_splits dest: ancestorWalk_sound)

end

text \<open>With a reader that does not fail, both checks decide their authority exactly.\<close>

locale authz_reliable_reader =
  profile_reader: reliable_reader "Get (profiles (az_reader a))" pview +
  organization_reader: reliable_reader "Get (organizations (az_reader a))" oview
  for a :: "'s authorizer" and pview oview
begin

sublocale authz_reader a pview oview ..

lemma selfAdmin_exact: "selfAdmin a u n s = Inr (admin_of (pview s) u n)"
  by (auto simp: selfAdmin_def admin_of_def any_subject_iff profile_reader.get_eq split: option.split)

lemma ancestorWalk_exact:
  "ancestorWalk a u k n s = Inr (\<exists>m \<in> set (walk_names (oview s) k n). admin_of (pview s) u m)"
proof -
  have "\<exists>b. ancestorWalk a u k n s = Inr b"
    by (induction k arbitrary: n)
      (auto simp: selfAdmin_exact organization_reader.get_eq split: option.split bool.split)
  then show ?thesis using ancestorWalk_sound by blast
qed

sublocale self: exact_authority "isTrusted a" "\<lambda>s. admin_of (pview s)" "requireSelfAdmin a"
  by unfold_locales (simp add: requireSelfAdmin_def userFromContext_def selfAdmin_exact)

sublocale ancestors: exact_authority "isTrusted a" "\<lambda>s. admin_above (pview s) (oview s)" "requireAncestorAdmin a"
  by unfold_locales
    (simp add: requireAncestorAdmin_def userFromContext_def ancestorAdmin_def admin_above_def ancestorWalk_exact)

end

interpretation mem_authz: authz_reader
  "\<lparr>az_reader = memory_server flt, az_operatorNamespace = ns, az_clusterAdminGroups = gs\<rparr>"
  "mem_view cl_profiles" "mem_view cl_organizations" for flt ns gs
  by (rule authz_reader.intro; simp; unfold_locales)

interpretation up_authz: authz_reliable_reader
  "\<lparr>az_reader = server, az_operatorNamespace = ns, az_clusterAdminGroups = gs\<rparr>"
  "mem_view cl_profiles" "mem_view cl_organizations" for ns gs
  by (rule authz_reliable_reader.intro; simp; unfold_locales)

end
