(* ===== verification/Demo_Cluster.thy ===== *)
theory Demo_Cluster
  imports Authz
begin

text \<open>
  The cluster of \<open>hack/demo.sh\<close>, as a state of the in-memory server: the root organization
  \<open>research-division\<close> with admin \<open>alice\<close>, its child \<open>genomics\<close>, the grandchild
  \<open>proteomics\<close> delegated to \<open>carol\<close>, and the fourth-level organization
  \<open>depth-04\<close>. The witnesses of the properties run on it.
\<close>

definition demo_org :: "string \<Rightarrow> string \<Rightarrow> string \<Rightarrow> Organization" where
  "demo_org n parent root = \<lparr>org_TypeMeta = zero_TypeMeta,
     org_Meta = (named '''' n)\<lparr>om_UID := ''org-'' @ n\<rparr>, org_Spec = \<lparr>os_Parent = parent\<rparr>,
     org_Status = \<lparr>ost_Status = zero_Status, ost_Root = root\<rparr>\<rparr>"

definition demo_profile :: "string \<Rightarrow> Subject list \<Rightarrow> int32 \<Rightarrow> OrganizationProfile" where
  "demo_profile n admins maxp = \<lparr>prof_TypeMeta = zero_TypeMeta,
     prof_Meta = (named '''' n)\<lparr>om_UID := ''prof-'' @ n\<rparr>,
     prof_Spec = \<lparr>ops_OrganizationRef = \<lparr>orgref_Name = n\<rparr>, ops_Admins = Some admins,
       ops_Defaults = \<lparr>pd_NetworkIsolation = ''tenant'', pd_MaxProjects = maxp\<rparr>, ops_Platform = None\<rparr>,
     prof_Status = \<lparr>opst_Status = zero_Status\<rparr>\<rparr>"

definition demo_project :: "string \<Rightarrow> string \<Rightarrow> ProjectUser list \<Rightarrow> string \<Rightarrow> OrganizationProject" where
  "demo_project n organization users isolation = \<lparr>proj_TypeMeta = zero_TypeMeta,
     proj_Meta = (named '''' n)\<lparr>om_UID := ''proj-'' @ n\<rparr>,
     proj_Spec = \<lparr>prs_OrganizationRef = \<lparr>orgref_Name = organization\<rparr>, prs_Users = users,
       prs_NetworkIsolation = isolation, prs_NetworkGrants = []\<rparr>,
     proj_Status = \<lparr>prst_Status = zero_Status, prst_Namespace = ''''\<rparr>\<rparr>"

definition demo_configuration :: "string \<Rightarrow> string \<Rightarrow> MaaSConfiguration" where
  "demo_configuration n organization = \<lparr>mcfg_TypeMeta = zero_TypeMeta,
     mcfg_Meta = (named '''' n)\<lparr>om_UID := ''maas-'' @ n\<rparr>,
     mcfg_Spec = \<lparr>mcs_OrganizationRef = \<lparr>orgref_Name = organization\<rparr>, mcs_OIDC = None,
       mcs_TLS = None, mcs_Quotas = None\<rparr>,
     mcfg_Status = \<lparr>mcst_Status = zero_Status\<rparr>\<rparr>"

definition user_subject :: "string \<Rightarrow> Subject" where
  "user_subject n = \<lparr>sub_Kind = ''User'', sub_Name = n, sub_Namespace = ''''\<rparr>"

definition keyed :: "('o \<Rightarrow> ObjectMeta) \<Rightarrow> 'o list \<Rightarrow> (ObjectKey \<times> 'o) list" where
  "keyed meta xs = map (\<lambda>x. (key_of (meta x), x)) xs"

definition demo_cluster :: cluster where
  "demo_cluster = empty_cluster\<lparr>
     cl_organizations := keyed org_Meta
       [demo_org ''research-division'' '''' ''research-division'',
        demo_org ''genomics'' ''research-division'' ''research-division'',
        demo_org ''proteomics'' ''genomics'' ''research-division'',
        demo_org ''depth-04'' ''proteomics'' ''''],
     cl_profiles := keyed prof_Meta
       [demo_profile ''research-division'' [user_subject ''alice''] 0,
        demo_profile ''genomics'' [] 2,
        demo_profile ''proteomics'' [user_subject ''carol''] 1],
     cl_projects := keyed proj_Meta [demo_project ''genomics-analysis'' ''genomics'' [] ''''],
     cl_uid := 100\<rparr>"

lemma demo_simps [simp]:
  "org_Name (demo_org n p r) = n" "org_Parent (demo_org n p r) = p" "org_Root (demo_org n p r) = r"
  "key_of (org_Meta (demo_org n p r)) = ('''', n)"
  "prof_Name (demo_profile n as mx) = n" "prof_Organization (demo_profile n as mx) = n"
  "prof_Admins (demo_profile n as mx) = as" "prof_MaxProjects (demo_profile n as mx) = mx"
  "key_of (prof_Meta (demo_profile n as mx)) = ('''', n)"
  "proj_Name (demo_project n g us i) = n" "proj_Organization (demo_project n g us i) = g"
  "key_of (proj_Meta (demo_project n g us i)) = ('''', n)"
  "mcfg_Name (demo_configuration n g) = n" "mcfg_Organization (demo_configuration n g) = g"
  "key_of (mcfg_Meta (demo_configuration n g)) = ('''', n)"
  by (simp_all add: demo_org_def demo_profile_def demo_project_def demo_configuration_def key_of_def)

lemma demo_views [simp]:
  "mem_view cl_organizations demo_cluster = map_of (keyed org_Meta
       [demo_org ''research-division'' '''' ''research-division'',
        demo_org ''genomics'' ''research-division'' ''research-division'',
        demo_org ''proteomics'' ''genomics'' ''research-division'',
        demo_org ''depth-04'' ''proteomics'' ''''])"
  "mem_view cl_profiles demo_cluster = map_of (keyed prof_Meta
       [demo_profile ''research-division'' [user_subject ''alice''] 0,
        demo_profile ''genomics'' [] 2,
        demo_profile ''proteomics'' [user_subject ''carol''] 1])"
  "mem_view cl_projects demo_cluster = map_of (keyed proj_Meta [demo_project ''genomics-analysis'' ''genomics'' [] ''''])"
  by (simp_all add: mem_view_def demo_cluster_def)


text \<open>The requesters of the demo, and the operator's authorizer with its default configuration.\<close>

definition demo_user :: "string \<Rightarrow> AdmissionRequest" where
  "demo_user n = \<lparr>ar_UserInfo = \<lparr>ui_Username = n, ui_Groups = [''tenancy-users'']\<rparr>\<rparr>"

definition demo_cluster_admin :: AdmissionRequest where
  "demo_cluster_admin = \<lparr>ar_UserInfo = \<lparr>ui_Username = ''kubernetes-admin'', ui_Groups = [''kubeadm:cluster-admins'']\<rparr>\<rparr>"

text \<open>The operator's own requests come from the service account it is deployed with.\<close>

definition demo_operator :: AdmissionRequest where
  "demo_operator = \<lparr>ar_UserInfo = \<lparr>ui_Username = ''system:serviceaccount:tenancy-operator-system:controller-manager'',
     ui_Groups = [''system:serviceaccounts'', ''system:serviceaccounts:tenancy-operator-system'', ''system:authenticated'']\<rparr>\<rparr>"

definition demo_authz :: "cluster authorizer" where
  "demo_authz = newAuthorizer (\<lambda>_. '''') server"

lemma demo_authz_eq: "demo_authz = \<lparr>az_reader = server, az_operatorNamespace = ''tenancy-operator-system'',
    az_clusterAdminGroups = [''system:masters'', ''kubeadm:cluster-admins'']\<rparr>"
  by (simp add: demo_authz_def newAuthorizer_def defaultOperatorNS_def defaultClusterAdminGroups_def)

lemma demo_reader: "authz_reader demo_authz (mem_view cl_profiles) (mem_view cl_organizations)"
  unfolding demo_authz_eq by (rule mem_authz.authz_reader_axioms)

lemma demo_reliable_reader: "authz_reliable_reader demo_authz (mem_view cl_profiles) (mem_view cl_organizations)"
  unfolding demo_authz_eq by (rule up_authz.authz_reliable_reader_axioms)

lemma demo_lineages:
  "lineage (mem_view cl_organizations demo_cluster) ''research-division'' [''research-division'']"
  "lineage (mem_view cl_organizations demo_cluster) ''genomics'' [''genomics'', ''research-division'']"
  "lineage (mem_view cl_organizations demo_cluster) ''proteomics'' [''proteomics'', ''genomics'', ''research-division'']"
  "lineage (mem_view cl_organizations demo_cluster) ''depth-04'' [''depth-04'', ''proteomics'', ''genomics'', ''research-division'']"
  by (simp_all add: lineage_iff keyed_def)

end
