(* ===== verification/Authz_Correct.thy ===== *)
theory Authz_Correct
  imports Demo_Cluster
begin

text \<open>
  What the authorizer of \<open>authz.go\<close> guarantees, over any reader that never answers wrongly, and
  exactly for one that does not fail. Each property is followed by a witness on the demo cluster.
\<close>

section \<open>Helper facts\<close>

lemma admin_above_lineage:
  assumes "lineage V n ns" and "n \<noteq> ''''"
  shows "admin_above P V u n \<longleftrightarrow> (\<exists>m \<in> set (take maxAncestorWalk ns). admin_of P u m)"
  using walk_names_lineage [OF assms] by (simp add: admin_above_def)

lemma admin_above_imp:
  assumes "admin_above P V u n"
  shows "n \<noteq> '''' \<and> (\<exists>m. above V n m \<and> admin_of P u m)"
  using assms walk_names_above unfolding admin_above_def by blast

context authz_reader
begin

lemma ancestor_check_granted:
  assumes "requireAncestorAdmin a ctx n action s = None"
  shows "\<exists>req. ctx = Inr req \<and> (isTrusted a (ar_UserInfo req) \<or>
    n \<noteq> '''' \<and> (\<exists>m. above (oview s) n m \<and> admin_of (pview s) (ar_UserInfo req) m))"
  using ancestors.require_granted [OF assms] admin_above_imp by metis

lemma self_check_granted:
  "requireSelfAdmin a ctx n action s = None \<Longrightarrow>
    \<exists>req. ctx = Inr req \<and> (isTrusted a (ar_UserInfo req) \<or> admin_of (pview s) (ar_UserInfo req) n)"
  by (rule self.require_granted)

end

context authz_reliable_reader
begin

lemma ancestor_check_iff:
  "requireAncestorAdmin a (Inr req) n action s = None \<longleftrightarrow>
     isTrusted a (ar_UserInfo req) \<or> admin_above (pview s) (oview s) (ar_UserInfo req) n"
  by (rule ancestors.require_iff)

lemma self_check_iff:
  "requireSelfAdmin a (Inr req) n action s = None \<longleftrightarrow>
     isTrusted a (ar_UserInfo req) \<or> admin_of (pview s) (ar_UserInfo req) n"
  by (rule self.require_iff)

end


section \<open>Properties\<close>

text \<open>C14: Ancestor-admin checks fail closed. If \<open>requireAncestorAdmin\<close> lets a request through,
  the context carried an admission request and its user is trusted or is listed as an admin on the
  stored profile of the organization or of one of its ancestors. The reader may fail at any time:
  no failure opens the check.\<close>

theorem ancestor_admin_fails_closed:
  assumes "authz_reader a pview oview"
    and "requireAncestorAdmin a ctx organization action s = None"
  shows "\<exists>req. ctx = Inr req \<and> (isTrusted a (ar_UserInfo req) \<or>
    organization \<noteq> '''' \<and> (\<exists>m. above (oview s) organization m \<and> admin_of (pview s) (ar_UserInfo req) m))"
  using assms by (rule authz_reader.ancestor_check_granted)

theorem ancestor_admin_fails_closed_witness:
  "requireAncestorAdmin demo_authz (Inr (demo_user ''alice'')) ''genomics'' (ArgS ''test'') demo_cluster = None \<and>
   (\<exists>m. above (mem_view cl_organizations demo_cluster) ''genomics'' m \<and>
        admin_of (mem_view cl_profiles demo_cluster) (ar_UserInfo (demo_user ''alice'')) m)"
proof -
  have granted: "requireAncestorAdmin demo_authz (Inr (demo_user ''alice'')) ''genomics'' (ArgS ''test'') demo_cluster = None"
    by code_simp
  moreover have "\<not> isTrusted demo_authz (ar_UserInfo (demo_user ''alice''))"
    by code_simp
  ultimately show ?thesis
    using ancestor_admin_fails_closed [OF demo_reader granted] by blast
qed

text \<open>Self-admin checks fail closed. If \<open>requireSelfAdmin\<close> lets a request through, its user is
  trusted or is listed on the organization's own stored profile; authority over an ancestor alone
  does not pass, and neither does any failure of the reader.\<close>

theorem self_admin_fails_closed:
  assumes "authz_reader a pview oview"
    and "requireSelfAdmin a ctx organization action s = None"
  shows "\<exists>req. ctx = Inr req \<and>
    (isTrusted a (ar_UserInfo req) \<or> admin_of (pview s) (ar_UserInfo req) organization)"
  using assms by (rule authz_reader.self_check_granted)

theorem self_admin_fails_closed_witness:
  "requireSelfAdmin demo_authz (Inr (demo_user ''carol'')) ''proteomics'' (ArgS ''test'') demo_cluster = None \<and>
   admin_of (mem_view cl_profiles demo_cluster) (ar_UserInfo (demo_user ''carol'')) ''proteomics''"
proof -
  have granted: "requireSelfAdmin demo_authz (Inr (demo_user ''carol'')) ''proteomics'' (ArgS ''test'') demo_cluster = None"
    by code_simp
  moreover have "\<not> isTrusted demo_authz (ar_UserInfo (demo_user ''carol''))"
    by code_simp
  ultimately show ?thesis
    using self_admin_fails_closed [OF demo_reader granted] by blast
qed

text \<open>C8: With a reader that does not fail, \<open>requireAncestorAdmin\<close> decides exactly: along an
  organization's lineage (itself, its parent, up to its root) a request passes if and only if its
  user is trusted or is an admin of one of the first three organizations. Admins further up have
  no authority.\<close>

theorem ancestor_admin_exact:
  assumes "authz_reliable_reader a pview oview"
    and "lineage (oview s) organization ns" and "organization \<noteq> ''''"
  shows "requireAncestorAdmin a (Inr req) organization action s = None \<longleftrightarrow>
    isTrusted a (ar_UserInfo req) \<or> (\<exists>m \<in> set (take 3 ns). admin_of (pview s) (ar_UserInfo req) m)"
  using authz_reliable_reader.ancestor_check_iff [OF assms(1)] admin_above_lineage [OF assms(2,3)]
  by (simp add: maxAncestorWalk_def)

theorem ancestor_admin_exact_witness:
  "requireAncestorAdmin demo_authz (Inr (demo_user ''alice'')) ''proteomics'' (ArgS ''test'') demo_cluster = None \<and>
   requireAncestorAdmin demo_authz (Inr (demo_user ''alice'')) ''depth-04'' (ArgS ''test'') demo_cluster \<noteq> None"
proof -
  have "\<not> isTrusted demo_authz (ar_UserInfo (demo_user ''alice''))"
    by code_simp
  then show ?thesis
    using ancestor_admin_exact [OF demo_reliable_reader demo_lineages(3), of "demo_user ''alice''" "ArgS ''test''"]
      ancestor_admin_exact [OF demo_reliable_reader demo_lineages(4), of "demo_user ''alice''" "ArgS ''test''"]
    by (auto simp: admin_of_def keyed_def demo_user_def user_subject_def subjectMatches_def)
qed

text \<open>With a reader that does not fail, \<open>requireSelfAdmin\<close> decides exactly: a request passes if
  and only if its user is trusted or listed on the organization's own profile.\<close>

theorem self_admin_exact:
  assumes "authz_reliable_reader a pview oview"
  shows "requireSelfAdmin a (Inr req) organization action s = None \<longleftrightarrow>
    isTrusted a (ar_UserInfo req) \<or> admin_of (pview s) (ar_UserInfo req) organization"
  using assms by (rule authz_reliable_reader.self_check_iff)

theorem self_admin_exact_witness:
  "requireSelfAdmin demo_authz (Inr (demo_user ''alice'')) ''genomics'' (ArgS ''test'') demo_cluster \<noteq> None"
proof -
  have "\<not> isTrusted demo_authz (ar_UserInfo (demo_user ''alice''))"
    by code_simp
  then show ?thesis
    using self_admin_exact [OF demo_reliable_reader, of "demo_user ''alice''" "''genomics''" "ArgS ''test''" demo_cluster]
    by (simp add: admin_of_def keyed_def)
qed

text \<open>A service-account subject identifies its account. Namespaces contain no colon, so two
  service-account subjects accept the same user only if they name the same account in the same
  namespace: no choice of names lets one account pass for another.\<close>

theorem service_account_subject_unique:
  assumes "sub_Kind sb = ''ServiceAccount''" and "sub_Kind sb' = ''ServiceAccount''"
    and "CHR '':'' \<notin> set (sub_Namespace sb)" and "CHR '':'' \<notin> set (sub_Namespace sb')"
    and "subjectMatches sb u" and "subjectMatches sb' u"
  shows "sub_Namespace sb = sub_Namespace sb' \<and> sub_Name sb = sub_Name sb'"
  using assms append_sep_inject [OF assms(3,4)] by (simp add: subjectMatches_def)

theorem service_account_subject_unique_witness:
  "subjectMatches \<lparr>sub_Kind = ''ServiceAccount'', sub_Name = ''bot'', sub_Namespace = ''ci''\<rparr>
     \<lparr>ui_Username = ''system:serviceaccount:ci:bot'', ui_Groups = []\<rparr> \<and>
   \<not> subjectMatches \<lparr>sub_Kind = ''ServiceAccount'', sub_Name = ''bot'', sub_Namespace = ''cd''\<rparr>
     \<lparr>ui_Username = ''system:serviceaccount:ci:bot'', ui_Groups = []\<rparr>"
  using service_account_subject_unique
    [of "\<lparr>sub_Kind = ''ServiceAccount'', sub_Name = ''bot'', sub_Namespace = ''ci''\<rparr>"
        "\<lparr>sub_Kind = ''ServiceAccount'', sub_Name = ''bot'', sub_Namespace = ''cd''\<rparr>"
        "\<lparr>ui_Username = ''system:serviceaccount:ci:bot'', ui_Groups = []\<rparr>"]
  by (auto simp: subjectMatches_def)

text \<open>Who is trusted is what the deployment says. When \<open>CLUSTER_ADMIN_GROUPS\<close> is a list of groups
  joined by commas, none of them with a comma inside, the authorizer trusts exactly the users of one
  of these groups and the service accounts of the operator's namespace, which is
  \<open>OPERATOR_NAMESPACE\<close> or, when that is not set, \<open>tenancy-operator-system\<close>. The default
  groups count only when the variable is not set.\<close>

theorem trusted_as_configured:
  assumes "groups \<noteq> []" and "\<forall>g \<in> set groups. CHR '','' \<notin> set g"
    and "getenv ''CLUSTER_ADMIN_GROUPS'' = join_with (CHR '','') groups \<and> groups \<noteq> [''''] \<or>
      getenv ''CLUSTER_ADMIN_GROUPS'' = '''' \<and> groups = [''system:masters'', ''kubeadm:cluster-admins'']"
    and "namespace = (if getenv ''OPERATOR_NAMESPACE'' = '''' then ''tenancy-operator-system'' else getenv ''OPERATOR_NAMESPACE'')"
  shows "isTrusted (newAuthorizer getenv c) u \<longleftrightarrow>
    ''system:serviceaccounts:'' @ namespace \<in> set (ui_Groups u) \<or> (\<exists>g \<in> set groups. g \<in> set (ui_Groups u))"
proof -
  have "join_with (CHR '','') gs = '''' \<Longrightarrow> gs = [] \<or> gs = ['''']" for gs :: "string list"
    by (cases gs; cases "tl gs") auto
  then have "az_clusterAdminGroups (newAuthorizer getenv c) = groups"
    using assms(1-3) split_on_join [OF assms(1), of "CHR '',''"] by (auto simp: newAuthorizer_def Let_def defaultClusterAdminGroups_def)
  moreover have "az_operatorNamespace (newAuthorizer getenv c) = namespace"
    using assms(4) by (simp add: newAuthorizer_def Let_def defaultOperatorNS_def)
  ultimately show ?thesis unfolding isTrusted_iff operatorSAGroup_def by auto
qed

theorem trusted_as_configured_witness:
  "let getenv = (\<lambda>v. if v = ''CLUSTER_ADMIN_GROUPS'' then ''ops,sre'' else '''');
       a = newAuthorizer getenv server
   in isTrusted a \<lparr>ui_Username = ''eve'', ui_Groups = [''sre'']\<rparr> \<and>
      \<not> isTrusted a \<lparr>ui_Username = ''root'', ui_Groups = [''system:masters'']\<rparr>"
proof -
  let ?getenv = "\<lambda>v. if v = ''CLUSTER_ADMIN_GROUPS'' then ''ops,sre'' else ''''"
  have "isTrusted (newAuthorizer ?getenv server) u \<longleftrightarrow>
      ''system:serviceaccounts:'' @ ''tenancy-operator-system'' \<in> set (ui_Groups u) \<or> (\<exists>g \<in> set [''ops'', ''sre'']. g \<in> set (ui_Groups u))" for u
    by (rule trusted_as_configured) simp_all
  then show ?thesis by (simp add: Let_def)
qed

end
