(* ===== verification/Organization_Webhook.thy ===== *)
theory Organization_Webhook
  imports Authz_Correct
begin

text \<open>
  \<open>internal/webhook/v1alpha1/organization_webhook.go\<close>: the validator of Organizations. The
  Go methods return warnings and an error; the warnings are always \<open>nil\<close>, so the model
  returns the error alone. Creation asks for authority over the parent, an update keeps the
  parent and asks for authority over the organization, deletion is not checked.
\<close>

definition Organization_ValidateCreate ::
    "'s authorizer \<Rightarrow> admission_context \<Rightarrow> Organization \<Rightarrow> 's \<Rightarrow> error_result" where
  "Organization_ValidateCreate a ctx obj s =
     requireAncestorAdmin a ctx (org_Parent obj)
       (ArgFmt ''create organization %q under parent %q'' [ArgS (org_Name obj), ArgS (org_Parent obj)]) s"

definition Organization_ValidateUpdate ::
    "'s authorizer \<Rightarrow> admission_context \<Rightarrow> Organization \<Rightarrow> Organization \<Rightarrow> 's \<Rightarrow> error_result" where
  "Organization_ValidateUpdate a ctx oldObj newObj s =
     (if org_Parent oldObj \<noteq> org_Parent newObj
      then Some (Errorf ''spec.parent is immutable: cannot change from %q to %q''
                  [ArgS (org_Parent oldObj), ArgS (org_Parent newObj)])
      else requireAncestorAdmin a ctx (org_Name newObj)
             (ArgFmt ''update organization %q'' [ArgS (org_Name newObj)]) s)"

definition Organization_ValidateDelete ::
    "'s authorizer \<Rightarrow> admission_context \<Rightarrow> Organization \<Rightarrow> 's \<Rightarrow> error_result" where
  "Organization_ValidateDelete a ctx obj s = None"

context authz_reader
begin

lemma organization_create_granted:
  assumes "Organization_ValidateCreate a ctx obj s = None"
  obtains req where "ctx = Inr req"
    and "isTrusted a (ar_UserInfo req) \<or> admin_above (pview s) (oview s) (ar_UserInfo req) (org_Parent obj)"
  using ancestors.require_granted assms unfolding Organization_ValidateCreate_def by metis

lemma organization_update_granted:
  assumes "Organization_ValidateUpdate a ctx oldObj newObj s = None"
  obtains req where "ctx = Inr req" and "org_Parent newObj = org_Parent oldObj"
    and "isTrusted a (ar_UserInfo req) \<or> admin_above (pview s) (oview s) (ar_UserInfo req) (org_Name newObj)"
proof -
  have kept: "org_Parent newObj = org_Parent oldObj"
    using assms by (simp add: Organization_ValidateUpdate_def split: if_split_asm)
  with assms have "requireAncestorAdmin a ctx (org_Name newObj) (ArgFmt ''update organization %q'' [ArgS (org_Name newObj)]) s = None"
    by (simp add: Organization_ValidateUpdate_def)
  from ancestors.require_granted [OF this] kept that show thesis by metis
qed

end


section \<open>Properties\<close>

text \<open>Root organizations are reserved for trusted users. Whatever the reader holds or answers, the
  creation of an organization with an empty parent is accepted exactly when the requester is in a
  cluster-admin group or in the operator namespace's service-account group.\<close>

theorem root_creation_reserved:
  assumes "org_Parent obj = ''''"
  shows "Organization_ValidateCreate a (Inr req) obj s = None \<longleftrightarrow>
    operatorSAGroup a \<in> set (ui_Groups (ar_UserInfo req)) \<or>
    set (ui_Groups (ar_UserInfo req)) \<inter> set (az_clusterAdminGroups a) \<noteq> {}"
proof -
  have "ancestorAdmin a u '''' s = Inr False" for u
    by (simp add: ancestorAdmin_def maxAncestorWalk_def numeral_3_eq_3)
  with assms show ?thesis
    by (simp add: Organization_ValidateCreate_def requireAncestorAdmin_def userFromContext_def isTrusted_iff)
qed

theorem root_creation_reserved_witness:
  "Organization_ValidateCreate demo_authz (Inr demo_cluster_admin) (demo_org ''new-root'' '''' '''') demo_cluster = None \<and>
   Organization_ValidateCreate demo_authz (Inr (demo_user ''alice'')) (demo_org ''new-root'' '''' '''') demo_cluster \<noteq> None"
  using root_creation_reserved [of "demo_org ''new-root'' '''' ''''" demo_authz demo_cluster_admin demo_cluster]
    root_creation_reserved [of "demo_org ''new-root'' '''' ''''" demo_authz "demo_user ''alice''" demo_cluster]
  by (simp add: demo_cluster_admin_def demo_user_def demo_authz_eq operatorSAGroup_def)

text \<open>An organization is created under a parent only by a trusted user or by an admin of that
  parent or of an organization above it, whatever calls of the reader fail.\<close>

theorem organization_creation_authorized:
  assumes "authz_reader a pview oview" and "Organization_ValidateCreate a ctx obj s = None"
  shows "\<exists>req. ctx = Inr req \<and> (isTrusted a (ar_UserInfo req) \<or> org_Parent obj \<noteq> '''' \<and>
    (\<exists>m. above (oview s) (org_Parent obj) m \<and> admin_of (pview s) (ar_UserInfo req) m))"
  using authz_reader.ancestor_check_granted [OF assms(1)] assms(2)
  unfolding Organization_ValidateCreate_def by blast

theorem organization_creation_authorized_witness:
  "Organization_ValidateCreate demo_authz (Inr (demo_user ''alice'')) (demo_org ''lipids'' ''genomics'' '''') demo_cluster = None \<and>
   (\<exists>m. above (mem_view cl_organizations demo_cluster) ''genomics'' m \<and>
        admin_of (mem_view cl_profiles demo_cluster) (ar_UserInfo (demo_user ''alice'')) m)"
proof -
  have granted: "Organization_ValidateCreate demo_authz (Inr (demo_user ''alice'')) (demo_org ''lipids'' ''genomics'' '''') demo_cluster = None"
    by code_simp
  moreover have "\<not> isTrusted demo_authz (ar_UserInfo (demo_user ''alice''))"
    by code_simp
  ultimately show ?thesis
    using organization_creation_authorized [OF demo_reader granted] by auto
qed

text \<open>C32: An accepted update of an organization leaves its parent as it was, and its requester is
  trusted or an admin of the organization or of one above it.\<close>

theorem organization_update_authorized:
  assumes "authz_reader a pview oview" and "Organization_ValidateUpdate a ctx oldObj obj s = None"
  shows "org_Parent obj = org_Parent oldObj \<and>
    (\<exists>req. ctx = Inr req \<and> (isTrusted a (ar_UserInfo req) \<or>
      (\<exists>m. above (oview s) (org_Name obj) m \<and> admin_of (pview s) (ar_UserInfo req) m)))"
  using authz_reader.organization_update_granted [OF assms] admin_above_imp by metis

theorem organization_update_authorized_witness:
  "Organization_ValidateUpdate demo_authz (Inr (demo_user ''carol'')) (demo_org ''proteomics'' ''genomics'' '''')
     (demo_org ''proteomics'' ''genomics'' ''research-division'') demo_cluster = None \<and>
   (\<exists>m. above (mem_view cl_organizations demo_cluster) ''proteomics'' m \<and>
        admin_of (mem_view cl_profiles demo_cluster) (ar_UserInfo (demo_user ''carol'')) m) \<and>
   Organization_ValidateUpdate demo_authz (Inr demo_cluster_admin) (demo_org ''proteomics'' ''genomics'' '''')
     (demo_org ''proteomics'' '''' '''') demo_cluster \<noteq> None"
proof -
  have granted: "Organization_ValidateUpdate demo_authz (Inr (demo_user ''carol'')) (demo_org ''proteomics'' ''genomics'' '''')
     (demo_org ''proteomics'' ''genomics'' ''research-division'') demo_cluster = None"
    by code_simp
  moreover have "\<not> isTrusted demo_authz (ar_UserInfo (demo_user ''carol''))"
    by code_simp
  moreover have "Organization_ValidateUpdate demo_authz (Inr demo_cluster_admin) (demo_org ''proteomics'' ''genomics'' '''')
     (demo_org ''proteomics'' '''' '''') demo_cluster \<noteq> None"
    using organization_update_authorized [OF demo_reader] by fastforce
  ultimately show ?thesis
    using organization_update_authorized [OF demo_reader granted] by auto
qed

end
