(* ===== verification/Profile_Webhook.thy ===== *)
theory Profile_Webhook
  imports Authz_Correct
begin

text \<open>
  \<open>internal/webhook/v1alpha1/organizationprofile_webhook.go\<close>: the validator of
  OrganizationProfiles. A profile carries the name of its organization; changing the admins asks
  for ancestor authority, and an update that leaves the admins alone asks for self authority. The
  two checks are alternatives in the code, which the lemmas below make visible.
\<close>

definition OrganizationProfile_ValidateCreate ::
    "'s authorizer \<Rightarrow> admission_context \<Rightarrow> OrganizationProfile \<Rightarrow> 's \<Rightarrow> error_result" where
  "OrganizationProfile_ValidateCreate a ctx obj s =
     (let organization = prof_Organization obj in
      if prof_Name obj \<noteq> organization
      then Some (Errorf ''OrganizationProfile name %q must equal spec.organizationRef.name %q''
                  [ArgS (prof_Name obj), ArgS organization])
      else requireAncestorAdmin a ctx organization
             (ArgFmt ''create profile for organization %q'' [ArgS organization]) s)"

definition OrganizationProfile_ValidateUpdate ::
    "'s authorizer \<Rightarrow> admission_context \<Rightarrow> OrganizationProfile \<Rightarrow> OrganizationProfile \<Rightarrow> 's \<Rightarrow> error_result" where
  "OrganizationProfile_ValidateUpdate a ctx oldObj newObj s =
     (let oldOrganization = prof_Organization oldObj; organization = prof_Organization newObj in
      if oldOrganization \<noteq> organization
      then Some (Errorf ''spec.organizationRef.name is immutable: cannot change from %q to %q''
                  [ArgS oldOrganization, ArgS organization])
      else if ops_Admins (prof_Spec oldObj) \<noteq> ops_Admins (prof_Spec newObj)
      then requireAncestorAdmin a ctx organization
             (ArgFmt ''modify admins of organization %q'' [ArgS organization]) s
      else requireSelfAdmin a ctx organization
             (ArgFmt ''modify profile of organization %q'' [ArgS organization]) s)"

definition OrganizationProfile_ValidateDelete ::
    "'s authorizer \<Rightarrow> admission_context \<Rightarrow> OrganizationProfile \<Rightarrow> 's \<Rightarrow> error_result" where
  "OrganizationProfile_ValidateDelete a ctx obj s = None"

context authz_reader
begin

lemma profile_create_granted:
  assumes "OrganizationProfile_ValidateCreate a ctx obj s = None"
  obtains req where "ctx = Inr req" and "prof_Name obj = prof_Organization obj"
    and "isTrusted a (ar_UserInfo req) \<or>
         admin_above (pview s) (oview s) (ar_UserInfo req) (prof_Organization obj)"
  using ancestors.guarded_granted assms
  unfolding OrganizationProfile_ValidateCreate_def Let_def by metis

lemma profile_update_granted:
  assumes "OrganizationProfile_ValidateUpdate a ctx oldObj newObj s = None"
  obtains req where "ctx = Inr req" and "prof_Organization newObj = prof_Organization oldObj"
    and "isTrusted a (ar_UserInfo req) \<or>
         (if ops_Admins (prof_Spec newObj) \<noteq> ops_Admins (prof_Spec oldObj)
          then admin_above (pview s) (oview s) (ar_UserInfo req) (prof_Organization newObj)
          else admin_of (pview s) (ar_UserInfo req) (prof_Organization newObj))"
proof (cases "ops_Admins (prof_Spec oldObj) = ops_Admins (prof_Spec newObj)")
  case True
  with assms have "(if prof_Organization oldObj \<noteq> prof_Organization newObj then Some undefined
      else requireSelfAdmin a ctx (prof_Organization newObj)
        (ArgFmt ''modify profile of organization %q'' [ArgS (prof_Organization newObj)]) s) = None"
    by (auto simp: OrganizationProfile_ValidateUpdate_def Let_def split: if_splits)
  from self.guarded_granted [OF this] True that show ?thesis by auto
next
  case False
  with assms have "(if prof_Organization oldObj \<noteq> prof_Organization newObj then Some undefined
      else requireAncestorAdmin a ctx (prof_Organization newObj)
        (ArgFmt ''modify admins of organization %q'' [ArgS (prof_Organization newObj)]) s) = None"
    by (auto simp: OrganizationProfile_ValidateUpdate_def Let_def split: if_splits)
  from ancestors.guarded_granted [OF this] False that show ?thesis by auto
qed

end

section \<open>Properties\<close>

text \<open>An accepted new profile carries the name of the organization it configures, and its
  requester is trusted or an admin of that organization or of one above it.\<close>

theorem profile_creation_authorized:
  assumes "authz_reader a pview oview" and "OrganizationProfile_ValidateCreate a ctx obj s = None"
  shows "prof_Name obj = prof_Organization obj \<and>
    (\<exists>req. ctx = Inr req \<and> (isTrusted a (ar_UserInfo req) \<or>
      (\<exists>m. above (oview s) (prof_Organization obj) m \<and> admin_of (pview s) (ar_UserInfo req) m)))"
  using authz_reader.profile_create_granted [OF assms] admin_above_imp by metis

theorem profile_creation_authorized_witness:
  "OrganizationProfile_ValidateCreate demo_authz (Inr (demo_user ''alice'')) (demo_profile ''genomics'' [] 0) demo_cluster = None \<and>
   (\<exists>m. above (mem_view cl_organizations demo_cluster) ''genomics'' m \<and>
        admin_of (mem_view cl_profiles demo_cluster) (ar_UserInfo (demo_user ''alice'')) m)"
proof -
  have granted: "OrganizationProfile_ValidateCreate demo_authz (Inr (demo_user ''alice'')) (demo_profile ''genomics'' [] 0) demo_cluster = None"
    by code_simp
  moreover have "\<not> isTrusted demo_authz (ar_UserInfo (demo_user ''alice''))"
    by code_simp
  ultimately show ?thesis
    using profile_creation_authorized [OF demo_reader granted] by auto
qed

text \<open>C36: An accepted profile update keeps the organization reference. If it leaves the admins as
  they were its requester is trusted or an admin of the organization itself; if it changes them the
  requester is trusted or an admin of the organization or of one above it.\<close>

theorem profile_update_authorized:
  assumes "authz_reader a pview oview" and "OrganizationProfile_ValidateUpdate a ctx oldObj obj s = None"
  shows "prof_Organization obj = prof_Organization oldObj \<and>
    (\<exists>req. ctx = Inr req \<and> (isTrusted a (ar_UserInfo req) \<or>
      (if ops_Admins (prof_Spec obj) = ops_Admins (prof_Spec oldObj)
       then admin_of (pview s) (ar_UserInfo req) (prof_Organization obj)
       else (\<exists>m. above (oview s) (prof_Organization obj) m \<and> admin_of (pview s) (ar_UserInfo req) m))))"
  by (rule authz_reader.profile_update_granted [OF assms]) (use admin_above_imp in \<open>fastforce split: if_splits\<close>)

theorem profile_update_authorized_witness:
  "OrganizationProfile_ValidateUpdate demo_authz (Inr (demo_user ''carol''))
     (demo_profile ''proteomics'' [user_subject ''carol''] 1) (demo_profile ''proteomics'' [user_subject ''carol''] 5) demo_cluster = None \<and>
   admin_of (mem_view cl_profiles demo_cluster) (ar_UserInfo (demo_user ''carol'')) ''proteomics''"
proof -
  have granted: "OrganizationProfile_ValidateUpdate demo_authz (Inr (demo_user ''carol''))
     (demo_profile ''proteomics'' [user_subject ''carol''] 1) (demo_profile ''proteomics'' [user_subject ''carol''] 5) demo_cluster = None"
    by code_simp
  moreover have "\<not> isTrusted demo_authz (ar_UserInfo (demo_user ''carol''))"
    by code_simp
  ultimately show ?thesis
    using profile_update_authorized [OF demo_reader granted] by (auto simp: demo_profile_def)
qed

text \<open>The two checks of a profile update are alternatives. An admin of an ancestor who is not an
  admin of the organization itself may not change its configuration alone, but a request that
  changes the admins as well is accepted, whatever else it changes but the organization reference.\<close>

theorem profile_mixed_update_accepted:
  assumes "authz_reliable_reader a pview oview"
    and "prof_Organization obj = prof_Organization oldObj"
    and "\<not> isTrusted a (ar_UserInfo req)"
    and "\<not> admin_of (pview s) (ar_UserInfo req) (prof_Organization obj)"
    and "admin_above (pview s) (oview s) (ar_UserInfo req) (prof_Organization obj)"
  shows "OrganizationProfile_ValidateUpdate a (Inr req) oldObj obj s = None \<longleftrightarrow>
    ops_Admins (prof_Spec obj) \<noteq> ops_Admins (prof_Spec oldObj)"
  using authz_reliable_reader.ancestor_check_iff [OF assms(1), of req "prof_Organization obj" _ s]
    authz_reliable_reader.self_check_iff [OF assms(1), of req "prof_Organization obj" _ s] assms(2-5)
  by (auto simp: OrganizationProfile_ValidateUpdate_def Let_def)

theorem profile_mixed_update_accepted_witness:
  "OrganizationProfile_ValidateUpdate demo_authz (Inr (demo_user ''alice''))
     (demo_profile ''genomics'' [] 2) (demo_profile ''genomics'' [user_subject ''dave''] 1000) demo_cluster = None \<and>
   OrganizationProfile_ValidateUpdate demo_authz (Inr (demo_user ''alice''))
     (demo_profile ''genomics'' [] 2) (demo_profile ''genomics'' [] 1000) demo_cluster \<noteq> None"
proof -
  have untrusted: "\<not> isTrusted demo_authz (ar_UserInfo (demo_user ''alice''))"
    by code_simp
  have not_self: "\<not> admin_of (mem_view cl_profiles demo_cluster) (ar_UserInfo (demo_user ''alice'')) ''genomics''"
    by (simp add: admin_of_def keyed_def)
  have "admin_of (mem_view cl_profiles demo_cluster) (ar_UserInfo (demo_user ''alice'')) ''research-division''"
    by (simp add: admin_of_def keyed_def demo_user_def user_subject_def subjectMatches_def)
  then have ancestor: "admin_above (mem_view cl_profiles demo_cluster) (mem_view cl_organizations demo_cluster)
      (ar_UserInfo (demo_user ''alice'')) ''genomics''"
    using admin_above_lineage [OF demo_lineages(2)] by (simp add: maxAncestorWalk_def)
  show ?thesis
    using profile_mixed_update_accepted [OF demo_reliable_reader _ untrusted,
        of "demo_profile ''genomics'' [user_subject ''dave''] 1000" "demo_profile ''genomics'' [] 2" demo_cluster]
      profile_mixed_update_accepted [OF demo_reliable_reader _ untrusted,
        of "demo_profile ''genomics'' [] 1000" "demo_profile ''genomics'' [] 2" demo_cluster]
      not_self ancestor by (simp add: demo_profile_def)
qed

end
