(* ===== verification/Project_Webhook.thy ===== *)
theory Project_Webhook
  imports Authz_Correct
begin

text \<open>
  \<open>internal/webhook/v1alpha1/organizationproject_webhook.go\<close>: the validator of
  OrganizationProjects, with the \<open>maxProjects\<close> quota. The loop counts in \<open>int32\<close>, so
  the model counts in 32-bit words and compares them as signed values.
\<close>

text \<open>The counting loop of \<open>checkProjectQuota\<close>.\<close>

fun count_projects :: "string \<Rightarrow> int32 \<Rightarrow> OrganizationProject list \<Rightarrow> int32" where
  "count_projects organization count [] = count"
| "count_projects organization count (p # ps) =
     count_projects organization (if proj_Organization p = organization then count + 1 else count) ps"

definition checkProjectQuota :: "'s authorizer \<Rightarrow> string \<Rightarrow> 's \<Rightarrow> error_result" where
  "checkProjectQuota a organization s =
     (case Get (profiles (az_reader a)) (cluster_key organization) s of
        Inl err \<Rightarrow>
          if err = NotFound
          then Some (Errorf ''organization %q has no OrganizationProfile; cannot create projects'' [ArgS organization])
          else Some (ApiError err)
      | Inr profile \<Rightarrow>
          (let maxProjects = prof_MaxProjects profile in
           case ListItems (projects (az_reader a)) s of
             Inl err \<Rightarrow> Some (ApiError err)
           | Inr items \<Rightarrow>
               (let count = count_projects organization 0 items in
                if int32_ge count maxProjects
                then Some (Errorf ''organization %q has reached its maxProjects limit (%d); raise spec.defaults.maxProjects on its OrganizationProfile''
                            [ArgS organization, ArgInt (sint maxProjects)])
                else None)))"

definition OrganizationProject_ValidateCreate ::
    "'s authorizer \<Rightarrow> admission_context \<Rightarrow> OrganizationProject \<Rightarrow> 's \<Rightarrow> error_result" where
  "OrganizationProject_ValidateCreate a ctx obj s =
     (let organization = proj_Organization obj in
      case requireAncestorAdmin a ctx organization
             (ArgFmt ''create project in organization %q'' [ArgS organization]) s of
        Some err \<Rightarrow> Some err
      | None \<Rightarrow> checkProjectQuota a organization s)"

definition OrganizationProject_ValidateUpdate ::
    "'s authorizer \<Rightarrow> admission_context \<Rightarrow> OrganizationProject \<Rightarrow> OrganizationProject \<Rightarrow> 's \<Rightarrow> error_result" where
  "OrganizationProject_ValidateUpdate a ctx oldObj newObj s =
     (let oldOrganization = proj_Organization oldObj; organization = proj_Organization newObj in
      if oldOrganization \<noteq> organization
      then Some (Errorf ''spec.organizationRef.name is immutable: cannot change from %q to %q''
                  [ArgS oldOrganization, ArgS organization])
      else requireAncestorAdmin a ctx organization
             (ArgFmt ''update project in organization %q'' [ArgS organization]) s)"

definition OrganizationProject_ValidateDelete ::
    "'s authorizer \<Rightarrow> admission_context \<Rightarrow> OrganizationProject \<Rightarrow> 's \<Rightarrow> error_result" where
  "OrganizationProject_ValidateDelete a ctx obj s = None"


section \<open>Counting\<close>

definition owned_projects :: "(ObjectKey \<rightharpoonup> OrganizationProject) \<Rightarrow> string \<Rightarrow> nat" where
  "owned_projects R organization = card {k. \<exists>p. R k = Some p \<and> proj_Organization p = organization}"

lemma count_projects_eq:
  "count_projects n c ps = c + word_of_nat (length (filter (\<lambda>p. proj_Organization p = n) ps))"
  by (induction n c ps rule: count_projects.induct) (auto simp: algebra_simps)

text \<open>The quota check needs the stored profiles and projects.\<close>

locale quota_reader =
  profile_reader: object_reader "Get (profiles (az_reader a))" pview +
  project_lister: object_lister "ListItems (projects (az_reader a))" rview
  for a :: "'s authorizer" and pview rview
begin

lemma listed_count:
  assumes "ListItems (projects (az_reader a)) s = Inr items"
  shows "count_projects n 0 items = word_of_nat (owned_projects (rview s) n)"
  using project_lister.list_count [OF assms, of "\<lambda>p. proj_Organization p = n"]
  by (simp add: count_projects_eq owned_projects_def)

lemma quota_granted:
  assumes "checkProjectQuota a n s = None"
  obtains p where "pview s (cluster_key n) = Some p"
    and "sint (word_of_nat (owned_projects (rview s) n) :: int32) < sint (prof_MaxProjects p)"
proof -
  from assms obtain p items where
    "Get (profiles (az_reader a)) (cluster_key n) s = Inr p"
    "ListItems (projects (az_reader a)) s = Inr items"
    "\<not> int32_ge (count_projects n 0 items) (prof_MaxProjects p)"
    by (auto simp: checkProjectQuota_def Let_def split: sum.splits if_splits)
  then show ?thesis
    using that profile_reader.get_found listed_count by (fastforce simp: int32_ge_def)
qed

lemma quota_granted_below:
  assumes "checkProjectQuota a n s = None" and "owned_projects (rview s) n < 2 ^ 31"
  obtains p where "pview s (cluster_key n) = Some p" and "int (owned_projects (rview s) n) < sint (prof_MaxProjects p)"
  using quota_granted [OF assms(1)] sint_word_of_nat_32 [OF assms(2)] that by metis

end

lemma project_create_granted_quota:
  "OrganizationProject_ValidateCreate a ctx obj s = None \<Longrightarrow> checkProjectQuota a (proj_Organization obj) s = None"
  by (auto simp: OrganizationProject_ValidateCreate_def Let_def split: option.splits)

context authz_reader
begin

lemma project_create_granted:
  assumes "OrganizationProject_ValidateCreate a ctx obj s = None"
  obtains req where "ctx = Inr req"
    and "isTrusted a (ar_UserInfo req) \<or>
         admin_above (pview s) (oview s) (ar_UserInfo req) (proj_Organization obj)"
  using ancestors.require_granted assms
  unfolding OrganizationProject_ValidateCreate_def Let_def by (metis (lifting) option.case_eq_if option.collapse option.distinct(1))

lemma project_update_granted:
  assumes "OrganizationProject_ValidateUpdate a ctx oldObj newObj s = None"
  obtains req where "ctx = Inr req" and "proj_Organization newObj = proj_Organization oldObj"
    and "isTrusted a (ar_UserInfo req) \<or>
         admin_above (pview s) (oview s) (ar_UserInfo req) (proj_Organization newObj)"
  using ancestors.guarded_granted assms
  unfolding OrganizationProject_ValidateUpdate_def Let_def by metis

end

interpretation mem_quota: quota_reader
  "\<lparr>az_reader = memory_server flt, az_operatorNamespace = ns, az_clusterAdminGroups = gs\<rparr>"
  "mem_view cl_profiles" "mem_view cl_projects" for flt ns gs
  by (rule quota_reader.intro; simp; unfold_locales)

text \<open>With a reader that does not fail, the check decides the quota exactly.\<close>

locale reliable_quota_reader =
  profile_reader: reliable_reader "Get (profiles (az_reader a))" pview +
  project_lister: reliable_lister "ListItems (projects (az_reader a))" rview
  for a :: "'s authorizer" and pview rview
begin

sublocale quota_reader a pview rview ..

lemma quota_iff:
  "checkProjectQuota a n s = None \<longleftrightarrow> (\<exists>p. pview s (cluster_key n) = Some p \<and>
     sint (word_of_nat (owned_projects (rview s) n) :: int32) < sint (prof_MaxProjects p))"
proof -
  obtain items where items: "ListItems (projects (az_reader a)) s = Inr items"
    using project_lister.list_answers by blast
  then show ?thesis
    using listed_count [OF items, of n]
    by (auto simp: checkProjectQuota_def Let_def profile_reader.get_eq int32_ge_def split: option.splits)
qed

end

interpretation up_quota: reliable_quota_reader
  "\<lparr>az_reader = server, az_operatorNamespace = ns, az_clusterAdminGroups = gs\<rparr>"
  "mem_view cl_profiles" "mem_view cl_projects" for ns gs
  by (rule reliable_quota_reader.intro; simp; unfold_locales)

lemma demo_quota_reader:
  "quota_reader demo_authz (mem_view cl_profiles) (mem_view cl_projects)"
  "reliable_quota_reader demo_authz (mem_view cl_profiles) (mem_view cl_projects)"
  unfolding demo_authz_eq by (rule mem_quota.quota_reader_axioms up_quota.reliable_quota_reader_axioms)+

lemma demo_owned_projects: "owned_projects (mem_view cl_projects demo_cluster) ''genomics'' = 1"
proof -
  have "{k. \<exists>p. mem_view cl_projects demo_cluster k = Some p \<and> proj_Organization p = ''genomics''}
      = {cluster_key ''genomics-analysis''}"
    by (auto simp: keyed_def split: if_splits)
  then show ?thesis by (simp add: owned_projects_def)
qed


text \<open>A cluster in which \<open>genomics\<close> may own no project and owns any given number.\<close>

definition crowded_cluster :: "nat \<Rightarrow> cluster" where
  "crowded_cluster n = empty_cluster\<lparr>cl_profiles := keyed prof_Meta [demo_profile ''genomics'' [] 0],
     cl_projects := keyed proj_Meta (map (\<lambda>i. demo_project (fresh_uid i) ''genomics'' [] '''') [0..<n])\<rparr>"

lemma crowded_cluster_profile:
  "mem_view cl_profiles (crowded_cluster n) (cluster_key ''genomics'') = Some (demo_profile ''genomics'' [] 0)"
  by (simp add: mem_view_def crowded_cluster_def keyed_def)

lemma crowded_cluster_owned: "owned_projects (mem_view cl_projects (crowded_cluster n)) ''genomics'' = n"
proof -
  let ?key = "\<lambda>i. cluster_key (fresh_uid i)"
  have inj: "inj ?key" by (auto simp: inj_def fresh_uid_def)
  have view: "mem_view cl_projects (crowded_cluster n)
      = map_of (map (\<lambda>i. (?key i, demo_project (fresh_uid i) ''genomics'' [] '''')) [0..<n])"
    by (simp add: mem_view_def crowded_cluster_def keyed_def comp_def)
  have "proj_Organization p = ''genomics''" if "mem_view cl_projects (crowded_cluster n) k = Some p" for k p
    using that by (auto simp: view dest!: map_of_SomeD)
  then have "{k. \<exists>p. mem_view cl_projects (crowded_cluster n) k = Some p \<and> proj_Organization p = ''genomics''}
      = dom (mem_view cl_projects (crowded_cluster n))"
    unfolding dom_def by blast
  also have "\<dots> = ?key ` {0..<n}"
    by (simp add: view dom_map_of_conv_image_fst image_image)
  finally show ?thesis
    using card_image [OF inj_on_subset [OF inj subset_UNIV]] by (simp add: owned_projects_def)
qed


section \<open>Properties\<close>

text \<open>C37: The project quota, decided exactly by a reader that does not fail. While an organization
  owns fewer than \<open>2^31\<close> projects, \<open>checkProjectQuota\<close> passes if and only if the organization has a
  profile and owns fewer projects than the profile's \<open>maxProjects\<close>.\<close>

theorem project_quota_exact:
  assumes "reliable_quota_reader a pview rview" and "owned_projects (rview s) organization < 2 ^ 31"
  shows "checkProjectQuota a organization s = None \<longleftrightarrow>
    (\<exists>p. pview s (cluster_key organization) = Some p \<and>
         int (owned_projects (rview s) organization) < sint (prof_MaxProjects p))"
  using reliable_quota_reader.quota_iff [OF assms(1), of organization s] sint_word_of_nat_32 [OF assms(2)]
  by simp

theorem project_quota_exact_witness:
  "checkProjectQuota demo_authz ''genomics'' demo_cluster = None \<and>
   checkProjectQuota demo_authz ''depth-04'' demo_cluster \<noteq> None"
proof -
  have "owned_projects (mem_view cl_projects demo_cluster) ''depth-04'' = 0"
    by (auto simp: owned_projects_def keyed_def split: if_splits)
  then show ?thesis
    using project_quota_exact [OF demo_quota_reader(2), of demo_cluster "''genomics''"]
      project_quota_exact [OF demo_quota_reader(2), of demo_cluster "''depth-04''"] demo_owned_projects
    by (simp add: keyed_def)
qed

text \<open>The bound of the quota check is needed: at \<open>2^31\<close> owned projects the \<open>int32\<close> count reads as
  \<open>-2^31\<close>, and the check passes for every \<open>maxProjects\<close> above that, zero included.\<close>

theorem project_quota_wraps:
  assumes "reliable_quota_reader a pview rview" and "owned_projects (rview s) organization = 2 ^ 31"
    and "pview s (cluster_key organization) = Some p" and "- (2 ^ 31) < sint (prof_MaxProjects p)"
  shows "checkProjectQuota a organization s = None"
  using reliable_quota_reader.quota_iff [OF assms(1), of organization s] assms(2-4) sint_word_of_nat_32_max
  by simp

theorem project_quota_wraps_witness:
  "\<exists>s. owned_projects (mem_view cl_projects s) ''genomics'' = 2 ^ 31 \<and>
     checkProjectQuota demo_authz ''genomics'' s = None"
proof (intro exI conjI)
  let ?s = "crowded_cluster (2 ^ 31)"
  have low: "- (2 ^ 31) < sint (prof_MaxProjects (demo_profile ''genomics'' [] 0))"
    by simp
  show owned: "owned_projects (mem_view cl_projects ?s) ''genomics'' = 2 ^ 31"
    by (rule crowded_cluster_owned)
  show "checkProjectQuota demo_authz ''genomics'' ?s = None"
    using project_quota_wraps [OF demo_quota_reader(2), of ?s "''genomics''", OF owned]
      crowded_cluster_profile [of "2 ^ 31"] low by blast
qed

text \<open>C31: A project is created only in an organization that has a profile, by a trusted user or an
  admin of the organization or of one above it, and only while the organization owns fewer projects
  than \<open>maxProjects\<close> (below \<open>2^31\<close> projects), whatever calls of the reader fail.\<close>

theorem project_creation_authorized:
  assumes "authz_reader a pview oview" and "quota_reader a pview rview"
    and "OrganizationProject_ValidateCreate a ctx obj s = None"
    and "owned_projects (rview s) (proj_Organization obj) < 2 ^ 31"
  shows "(\<exists>req. ctx = Inr req \<and> (isTrusted a (ar_UserInfo req) \<or>
      (\<exists>m. above (oview s) (proj_Organization obj) m \<and> admin_of (pview s) (ar_UserInfo req) m))) \<and>
    (\<exists>p. pview s (cluster_key (proj_Organization obj)) = Some p \<and>
       int (owned_projects (rview s) (proj_Organization obj)) < sint (prof_MaxProjects p))"
proof
  show "\<exists>req. ctx = Inr req \<and> (isTrusted a (ar_UserInfo req) \<or>
      (\<exists>m. above (oview s) (proj_Organization obj) m \<and> admin_of (pview s) (ar_UserInfo req) m))"
    using authz_reader.project_create_granted [OF assms(1,3)] admin_above_imp by metis
  show "\<exists>p. pview s (cluster_key (proj_Organization obj)) = Some p \<and>
       int (owned_projects (rview s) (proj_Organization obj)) < sint (prof_MaxProjects p)"
    using quota_reader.quota_granted_below [OF assms(2) project_create_granted_quota [OF assms(3)] assms(4)] by metis
qed

theorem project_creation_authorized_witness:
  "OrganizationProject_ValidateCreate demo_authz (Inr (demo_user ''alice''))
     (demo_project ''genomics-analysis-2'' ''genomics'' [] '''') demo_cluster = None \<and>
   (\<exists>m. above (mem_view cl_organizations demo_cluster) ''genomics'' m \<and>
        admin_of (mem_view cl_profiles demo_cluster) (ar_UserInfo (demo_user ''alice'')) m)"
proof -
  have granted: "OrganizationProject_ValidateCreate demo_authz (Inr (demo_user ''alice''))
     (demo_project ''genomics-analysis-2'' ''genomics'' [] '''') demo_cluster = None"
    by code_simp
  moreover have "\<not> isTrusted demo_authz (ar_UserInfo (demo_user ''alice''))"
    by code_simp
  ultimately show ?thesis
    using project_creation_authorized [OF demo_reader demo_quota_reader(1) granted] demo_owned_projects
    by auto
qed

end
