(* ===== verification/Maas_Webhook.thy ===== *)
theory Maas_Webhook
  imports Authz_Correct
begin

text \<open>
  \<open>internal/webhook/v1alpha1/maasconfiguration_webhook.go\<close>: the validator of
  MaaSConfigurations. A configuration has the name of its organization, which must exist and be a
  root; no other configuration may name the same organization; and the requester must be an admin
  of that organization itself. Deletion is checked too.
\<close>

text \<open>The loop over the listed configurations: the error it returns, if it returns one.\<close>

fun duplicate_configuration :: "MaaSConfiguration \<Rightarrow> string \<Rightarrow> MaaSConfiguration list \<Rightarrow> error_result" where
  "duplicate_configuration obj organizationName [] = None"
| "duplicate_configuration obj organizationName (existing # rest) =
     (if mcfg_Name existing \<noteq> mcfg_Name obj \<and> mcfg_Organization existing = organizationName
      then Some (Errorf ''organization %q already has MaaSConfiguration %q''
                  [ArgS organizationName, ArgS (mcfg_Name existing)])
      else duplicate_configuration obj organizationName rest)"

definition MaaSConfiguration_validate ::
    "'s authorizer \<Rightarrow> admission_context \<Rightarrow> MaaSConfiguration \<Rightarrow> string \<Rightarrow> 's \<Rightarrow> error_result" where
  "MaaSConfiguration_validate a ctx obj verb s =
     (let organizationName = mcfg_Organization obj in
      if organizationName = '''' then Some (Errorf ''spec.organizationRef.name is required'' [])
      else if mcfg_Name obj \<noteq> organizationName
      then Some (Errorf ''MaaSConfiguration name %q must equal spec.organizationRef.name %q''
                  [ArgS (mcfg_Name obj), ArgS organizationName])
      else (case Get (organizations (az_reader a)) (cluster_key organizationName) s of
              Inl err \<Rightarrow>
                if err = NotFound then Some (Errorf ''organization %q does not exist'' [ArgS organizationName])
                else Some (ApiError err)
            | Inr organization \<Rightarrow>
                if org_Parent organization \<noteq> ''''
                then Some (Errorf ''MaaSConfiguration is supported only for root Organizations'' [])
                else (case ListItems (configurations (az_reader a)) s of
                        Inl err \<Rightarrow> Some (ApiError err)
                      | Inr items \<Rightarrow>
                          (case duplicate_configuration obj organizationName items of
                             Some err \<Rightarrow> Some err
                           | None \<Rightarrow> requireSelfAdmin a ctx organizationName
                               (ArgFmt ''%s MaaS configuration for organization %q''
                                  [ArgS verb, ArgS organizationName]) s))))"

definition MaaSConfiguration_ValidateCreate ::
    "'s authorizer \<Rightarrow> admission_context \<Rightarrow> MaaSConfiguration \<Rightarrow> 's \<Rightarrow> error_result" where
  "MaaSConfiguration_ValidateCreate a ctx obj s = MaaSConfiguration_validate a ctx obj ''create'' s"

definition MaaSConfiguration_ValidateUpdate ::
    "'s authorizer \<Rightarrow> admission_context \<Rightarrow> MaaSConfiguration \<Rightarrow> MaaSConfiguration \<Rightarrow> 's \<Rightarrow> error_result" where
  "MaaSConfiguration_ValidateUpdate a ctx oldObj obj s =
     (if mcfg_Organization oldObj \<noteq> mcfg_Organization obj
      then Some (Errorf ''spec.organizationRef.name is immutable'' [])
      else MaaSConfiguration_validate a ctx obj ''update'' s)"

definition MaaSConfiguration_ValidateDelete ::
    "'s authorizer \<Rightarrow> admission_context \<Rightarrow> MaaSConfiguration \<Rightarrow> 's \<Rightarrow> error_result" where
  "MaaSConfiguration_ValidateDelete a ctx obj s =
     requireSelfAdmin a ctx (mcfg_Organization obj)
       (ArgFmt ''delete MaaS configuration for organization %q'' [ArgS (mcfg_Organization obj)]) s"


section \<open>What an accepted configuration satisfies\<close>

lemma duplicate_configuration_None_iff:
  "duplicate_configuration obj n cs = None \<longleftrightarrow>
     (\<forall>c \<in> set cs. mcfg_Organization c = n \<longrightarrow> mcfg_Name c = mcfg_Name obj)"
  by (induction obj n cs rule: duplicate_configuration.induct) auto

lemma maas_validate_granted_cases:
  assumes "MaaSConfiguration_validate a ctx obj verb s = None"
  obtains organization items where
    "mcfg_Organization obj \<noteq> ''''" and "mcfg_Name obj = mcfg_Organization obj"
    and "Get (organizations (az_reader a)) (cluster_key (mcfg_Organization obj)) s = Inr organization"
    and "org_Parent organization = ''''"
    and "ListItems (configurations (az_reader a)) s = Inr items"
    and "duplicate_configuration obj (mcfg_Organization obj) items = None"
    and "requireSelfAdmin a ctx (mcfg_Organization obj)
          (ArgFmt ''%s MaaS configuration for organization %q''
             [ArgS verb, ArgS (mcfg_Organization obj)]) s = None"
  using assms that
  by (auto simp: MaaSConfiguration_validate_def Let_def split: if_splits sum.splits option.splits)

text \<open>The validator reads organizations, profiles and the list of configurations.\<close>

locale maas_reader = authz_reader a pview oview +
  configuration_lister: object_lister "ListItems (configurations (az_reader a))" mview
  for a :: "'s authorizer" and pview oview mview
begin

lemma maas_validate_granted:
  assumes "MaaSConfiguration_validate a ctx obj verb s = None"
  obtains req organization where "ctx = Inr req"
    and "isTrusted a (ar_UserInfo req) \<or> admin_of (pview s) (ar_UserInfo req) (mcfg_Organization obj)"
    and "mcfg_Name obj = mcfg_Organization obj"
    and "oview s (cluster_key (mcfg_Organization obj)) = Some organization" and "org_Parent organization = ''''"
    and "\<And>k c. mview s k = Some c \<Longrightarrow> mcfg_Organization c = mcfg_Organization obj \<Longrightarrow> mcfg_Name c = mcfg_Name obj"
proof -
  from assms obtain organization items where *:
    "mcfg_Name obj = mcfg_Organization obj"
    "Get (organizations (az_reader a)) (cluster_key (mcfg_Organization obj)) s = Inr organization"
    "org_Parent organization = ''''"
    "ListItems (configurations (az_reader a)) s = Inr items"
    "duplicate_configuration obj (mcfg_Organization obj) items = None"
    "requireSelfAdmin a ctx (mcfg_Organization obj)
       (ArgFmt ''%s MaaS configuration for organization %q'' [ArgS verb, ArgS (mcfg_Organization obj)]) s = None"
    by (rule maas_validate_granted_cases)
  from self.require_granted [OF *(6)] obtain req where "ctx = Inr req"
    "isTrusted a (ar_UserInfo req) \<or> admin_of (pview s) (ar_UserInfo req) (mcfg_Organization obj)"
    by blast
  moreover have "oview s (cluster_key (mcfg_Organization obj)) = Some organization"
    using *(2) by (rule organization_reader.get_found)
  moreover have "mcfg_Name c = mcfg_Name obj"
    if "mview s k = Some c" "mcfg_Organization c = mcfg_Organization obj" for k c
    using *(4,5) that configuration_lister.list_member duplicate_configuration_None_iff by metis
  ultimately show ?thesis using that *(1,3) by blast
qed

end

interpretation mem_maas_reader: maas_reader
  "\<lparr>az_reader = memory_server flt, az_operatorNamespace = ns, az_clusterAdminGroups = gs\<rparr>"
  "mem_view cl_profiles" "mem_view cl_organizations" "mem_view cl_configurations" for flt ns gs
  by (rule maas_reader.intro, rule mem_authz.authz_reader_axioms, simp, unfold_locales)

lemma demo_maas_reader:
  "maas_reader demo_authz (mem_view cl_profiles) (mem_view cl_organizations) (mem_view cl_configurations)"
  unfolding demo_authz_eq by (rule mem_maas_reader.maas_reader_axioms)


section \<open>Properties\<close>

text \<open>C35: An accepted MaaSConfiguration, new or updated, has the name of its organization; the
  organization is stored and is a root; no configuration with another name serves it; and the
  requester is trusted or an admin of the organization itself.\<close>

theorem maas_configuration_accepted:
  assumes "maas_reader a pview oview mview" and "MaaSConfiguration_validate a ctx obj verb s = None"
  shows "mcfg_Name obj = mcfg_Organization obj \<and>
    (\<exists>x. oview s (cluster_key (mcfg_Organization obj)) = Some x \<and> org_Parent x = '''') \<and>
    (\<forall>k c. mview s k = Some c \<and> mcfg_Organization c = mcfg_Organization obj \<longrightarrow> mcfg_Name c = mcfg_Name obj) \<and>
    (\<exists>req. ctx = Inr req \<and>
       (isTrusted a (ar_UserInfo req) \<or> admin_of (pview s) (ar_UserInfo req) (mcfg_Organization obj)))"
  by (rule maas_reader.maas_validate_granted [OF assms]) blast

theorem maas_configuration_accepted_witness:
  "MaaSConfiguration_validate demo_authz (Inr (demo_user ''alice''))
     (demo_configuration ''research-division'' ''research-division'') ''create'' demo_cluster = None \<and>
   admin_of (mem_view cl_profiles demo_cluster) (ar_UserInfo (demo_user ''alice'')) ''research-division'' \<and>
   MaaSConfiguration_validate demo_authz (Inr demo_cluster_admin)
     (demo_configuration ''genomics'' ''genomics'') ''create'' demo_cluster \<noteq> None"
proof -
  have granted: "MaaSConfiguration_validate demo_authz (Inr (demo_user ''alice''))
     (demo_configuration ''research-division'' ''research-division'') ''create'' demo_cluster = None"
    by code_simp
  moreover have "\<not> isTrusted demo_authz (ar_UserInfo (demo_user ''alice''))"
    by code_simp
  moreover have "MaaSConfiguration_validate demo_authz (Inr demo_cluster_admin)
     (demo_configuration ''genomics'' ''genomics'') ''create'' demo_cluster \<noteq> None"
    using maas_configuration_accepted [OF demo_maas_reader, of "Inr demo_cluster_admin"
        "demo_configuration ''genomics'' ''genomics''" "''create''" demo_cluster]
    by (auto simp: keyed_def)
  ultimately show ?thesis
    using maas_configuration_accepted [OF demo_maas_reader granted] by auto
qed

text \<open>The scan for a second configuration never decides a request. Once every stored
  configuration has the name of its organization, which each accepted request maintains, an object
  that passes the name check passes the scan.\<close>

theorem maas_duplicate_scan_redundant:
  assumes "object_lister (ListItems (configurations (az_reader a))) mview"
    and "\<forall>k c. mview s k = Some c \<longrightarrow> mcfg_Name c = mcfg_Organization c"
    and "ListItems (configurations (az_reader a)) s = Inr items"
    and "mcfg_Name obj = mcfg_Organization obj"
  shows "duplicate_configuration obj (mcfg_Organization obj) items = None"
  using object_lister.list_member [OF assms(1,3)] assms(2,4)
  by (auto simp: duplicate_configuration_None_iff)

theorem maas_duplicate_scan_redundant_witness:
  "duplicate_configuration (demo_configuration ''research-division'' ''research-division'') ''research-division''
     [demo_configuration ''other'' ''other''] = None"
proof -
  let ?s = "demo_cluster\<lparr>cl_configurations := keyed mcfg_Meta [demo_configuration ''other'' ''other'']\<rparr>"
  have "object_lister (ListItems (configurations (az_reader demo_authz))) (mem_view cl_configurations)"
    using demo_maas_reader by (simp add: maas_reader_def)
  moreover have "\<forall>k c. mem_view cl_configurations ?s k = Some c \<longrightarrow> mcfg_Name c = mcfg_Organization c"
    by (simp add: mem_view_def keyed_def)
  moreover have "ListItems (configurations (az_reader demo_authz)) ?s = Inr [demo_configuration ''other'' ''other'']"
    by (simp add: demo_authz_eq mem_list_def keyed_def)
  ultimately show ?thesis
    using maas_duplicate_scan_redundant [of demo_authz "mem_view cl_configurations" ?s
        "[demo_configuration ''other'' ''other'']" "demo_configuration ''research-division'' ''research-division''"]
    by simp
qed

end
