(* ===== verification/Admission.thy ===== *)
theory Admission
  imports Organization_Webhook Profile_Webhook Project_Webhook Maas_Webhook
begin

text \<open>
  The cluster under admission control. A request creates, updates or deletes an object of one of
  the four kinds; the API server runs the validator registered for it
  (\<open>config/webhook/manifests.yaml\<close>: create and update for all four kinds, delete for
  MaaSConfigurations only) and stores the outcome. The step relation has one rule per kind and
  verb, whose premises are the validator's acceptance and the server's write; the invariants hold
  in every state that requests can reach. \<open>admits_at\<close> lets the validator see another state than
  the one its request is applied to, as a cache does; the properties at the end are about validators
  that see the current state, and \<open>System\<close> extends them to caches.
\<close>

section \<open>Requests and steps\<close>

datatype request =
    CreateOrganization admission_context Organization
  | UpdateOrganization admission_context Organization
  | DeleteOrganization admission_context Organization
  | CreateProfile admission_context OrganizationProfile
  | UpdateProfile admission_context OrganizationProfile
  | DeleteProfile admission_context OrganizationProfile
  | CreateProject admission_context OrganizationProject
  | UpdateProject admission_context OrganizationProject
  | DeleteProject admission_context OrganizationProject
  | CreateConfiguration admission_context MaaSConfiguration
  | UpdateConfiguration admission_context MaaSConfiguration
  | DeleteConfiguration admission_context MaaSConfiguration

fun requester :: "request \<Rightarrow> admission_context" where
  "requester (CreateOrganization ctx _) = ctx"
| "requester (UpdateOrganization ctx _) = ctx"
| "requester (DeleteOrganization ctx _) = ctx"
| "requester (CreateProfile ctx _) = ctx"
| "requester (UpdateProfile ctx _) = ctx"
| "requester (DeleteProfile ctx _) = ctx"
| "requester (CreateProject ctx _) = ctx"
| "requester (UpdateProject ctx _) = ctx"
| "requester (DeleteProject ctx _) = ctx"
| "requester (CreateConfiguration ctx _) = ctx"
| "requester (UpdateConfiguration ctx _) = ctx"
| "requester (DeleteConfiguration ctx _) = ctx"

fun is_delete :: "request \<Rightarrow> bool" where
  "is_delete (DeleteOrganization _ _) = True"
| "is_delete (DeleteProfile _ _) = True"
| "is_delete (DeleteProject _ _) = True"
| "is_delete (DeleteConfiguration _ _) = True"
| "is_delete _ = False"

fun target :: "request \<Rightarrow> resource_kind" where
  "target (CreateOrganization _ _) = KOrganization"
| "target (UpdateOrganization _ _) = KOrganization"
| "target (DeleteOrganization _ _) = KOrganization"
| "target (CreateProfile _ _) = KProfile"
| "target (UpdateProfile _ _) = KProfile"
| "target (DeleteProfile _ _) = KProfile"
| "target (CreateProject _ _) = KProject"
| "target (UpdateProject _ _) = KProject"
| "target (DeleteProject _ _) = KProject"
| "target (CreateConfiguration _ _) = KConfiguration"
| "target (UpdateConfiguration _ _) = KConfiguration"
| "target (DeleteConfiguration _ _) = KConfiguration"

text \<open>The server gives a cluster-scoped object no namespace.\<close>

abbreviation cluster_scoped :: "ObjectMeta \<Rightarrow> bool" where
  "cluster_scoped m \<equiv> om_Namespace m = ''''"

text \<open>The webhooks read through the manager's client (\<open>newAuthorizer\<close>), whose cache may lag
  behind: a request is validated in the state \<open>d\<close> that the webhook sees and applied to the stored state.
  The old object of an update comes with the request, from the server.\<close>

inductive admits_at :: "'s authorizer \<Rightarrow> 's \<Rightarrow> 's \<Rightarrow> request \<Rightarrow> 's \<Rightarrow> bool" for a d where
  create_organization:
  "Organization_ValidateCreate a ctx obj d = None \<Longrightarrow> cluster_scoped (org_Meta obj) \<Longrightarrow>
   Create (organizations (az_reader a)) obj s = (Inr stored, s') \<Longrightarrow>
   admits_at a d s (CreateOrganization ctx obj) s'"
| update_organization:
  "Get (organizations (az_reader a)) (key_of (org_Meta obj)) s = Inr oldObj \<Longrightarrow>
   Organization_ValidateUpdate a ctx oldObj obj d = None \<Longrightarrow> cluster_scoped (org_Meta obj) \<Longrightarrow>
   Update (organizations (az_reader a)) obj s = (Inr stored, s') \<Longrightarrow>
   admits_at a d s (UpdateOrganization ctx obj) s'"
| delete_organization:
  "Organization_ValidateDelete a ctx obj d = None \<Longrightarrow>
   Delete (organizations (az_reader a)) obj s = (Inr (), s') \<Longrightarrow>
   admits_at a d s (DeleteOrganization ctx obj) s'"
| create_profile:
  "OrganizationProfile_ValidateCreate a ctx prof d = None \<Longrightarrow> cluster_scoped (prof_Meta prof) \<Longrightarrow>
   Create (profiles (az_reader a)) prof s = (Inr stored_prof, s') \<Longrightarrow>
   admits_at a d s (CreateProfile ctx prof) s'"
| update_profile:
  "Get (profiles (az_reader a)) (key_of (prof_Meta prof)) s = Inr oldProf \<Longrightarrow>
   OrganizationProfile_ValidateUpdate a ctx oldProf prof d = None \<Longrightarrow> cluster_scoped (prof_Meta prof) \<Longrightarrow>
   Update (profiles (az_reader a)) prof s = (Inr stored_prof, s') \<Longrightarrow>
   admits_at a d s (UpdateProfile ctx prof) s'"
| delete_profile:
  "OrganizationProfile_ValidateDelete a ctx prof d = None \<Longrightarrow>
   Delete (profiles (az_reader a)) prof s = (Inr (), s') \<Longrightarrow>
   admits_at a d s (DeleteProfile ctx prof) s'"
| create_project:
  "OrganizationProject_ValidateCreate a ctx proj d = None \<Longrightarrow> cluster_scoped (proj_Meta proj) \<Longrightarrow>
   Create (projects (az_reader a)) proj s = (Inr stored_proj, s') \<Longrightarrow>
   admits_at a d s (CreateProject ctx proj) s'"
| update_project:
  "Get (projects (az_reader a)) (key_of (proj_Meta proj)) s = Inr oldProj \<Longrightarrow>
   OrganizationProject_ValidateUpdate a ctx oldProj proj d = None \<Longrightarrow> cluster_scoped (proj_Meta proj) \<Longrightarrow>
   Update (projects (az_reader a)) proj s = (Inr stored_proj, s') \<Longrightarrow>
   admits_at a d s (UpdateProject ctx proj) s'"
| delete_project:
  "OrganizationProject_ValidateDelete a ctx proj d = None \<Longrightarrow>
   Delete (projects (az_reader a)) proj s = (Inr (), s') \<Longrightarrow>
   admits_at a d s (DeleteProject ctx proj) s'"
| create_configuration:
  "MaaSConfiguration_ValidateCreate a ctx cfg d = None \<Longrightarrow> cluster_scoped (mcfg_Meta cfg) \<Longrightarrow>
   Create (configurations (az_reader a)) cfg s = (Inr stored_cfg, s') \<Longrightarrow>
   admits_at a d s (CreateConfiguration ctx cfg) s'"
| update_configuration:
  "Get (configurations (az_reader a)) (key_of (mcfg_Meta cfg)) s = Inr oldCfg \<Longrightarrow>
   MaaSConfiguration_ValidateUpdate a ctx oldCfg cfg d = None \<Longrightarrow> cluster_scoped (mcfg_Meta cfg) \<Longrightarrow>
   Update (configurations (az_reader a)) cfg s = (Inr stored_cfg, s') \<Longrightarrow>
   admits_at a d s (UpdateConfiguration ctx cfg) s'"
| delete_configuration:
  "MaaSConfiguration_ValidateDelete a ctx cfg d = None \<Longrightarrow>
   Delete (configurations (az_reader a)) cfg s = (Inr (), s') \<Longrightarrow>
   admits_at a d s (DeleteConfiguration ctx cfg) s'"

text \<open>When the webhook sees the state the request is applied to.\<close>

abbreviation admits :: "'s authorizer \<Rightarrow> 's \<Rightarrow> request \<Rightarrow> 's \<Rightarrow> bool" where
  "admits a s \<equiv> admits_at a s s"

inductive_simps admits_simps:
  "admits_at a d s (CreateOrganization ctx obj) s'" "admits_at a d s (UpdateOrganization ctx obj) s'"
  "admits_at a d s (DeleteOrganization ctx obj) s'" "admits_at a d s (CreateProfile ctx prof) s'"
  "admits_at a d s (UpdateProfile ctx prof) s'" "admits_at a d s (DeleteProfile ctx prof) s'"
  "admits_at a d s (CreateProject ctx proj) s'" "admits_at a d s (UpdateProject ctx proj) s'"
  "admits_at a d s (DeleteProject ctx proj) s'" "admits_at a d s (CreateConfiguration ctx cfg) s'"
  "admits_at a d s (UpdateConfiguration ctx cfg) s'" "admits_at a d s (DeleteConfiguration ctx cfg) s'"

inductive admits_all :: "'s authorizer \<Rightarrow> 's \<Rightarrow> request list \<Rightarrow> 's \<Rightarrow> bool" for a where
  admits_none: "admits_all a s [] s"
| admits_more: "admits a s req t \<Longrightarrow> admits_all a t reqs u \<Longrightarrow> admits_all a s (req # reqs) u"


section \<open>What the invariants speak of\<close>

text \<open>Profiles and configurations carry the name of their organization.\<close>

definition profiles_named :: "(ObjectKey \<rightharpoonup> OrganizationProfile) \<Rightarrow> bool" where
  "profiles_named P \<longleftrightarrow> (\<forall>k p. P k = Some p \<longrightarrow> fst k = '''' \<and> prof_Organization p = snd k)"

definition configurations_named :: "(ObjectKey \<rightharpoonup> MaaSConfiguration) \<Rightarrow> bool" where
  "configurations_named M \<longleftrightarrow> (\<forall>k c. M k = Some c \<longrightarrow> fst k = '''' \<and> mcfg_Organization c = snd k)"

text \<open>A lineage none of whose organizations is being deleted.\<close>

definition standing :: "org_view \<Rightarrow> string \<Rightarrow> string list \<Rightarrow> bool" where
  "standing V n ns \<longleftrightarrow> lineage V n ns \<and>
     (\<forall>m \<in> set ns. \<forall>x. V (cluster_key m) = Some x \<longrightarrow> om_DeletionTimestamp (org_Meta x) = None)"


section \<open>The server behind the webhooks\<close>

text \<open>One kind, stored under its own keys and apart from the other kinds.\<close>

locale stored_kind =
  object_reader "Get R" view + object_creator view rest meta kept "Create R" +
  object_updater view rest meta kept "Update R" + object_deleter view rest meta kept "Delete R"
  for R :: "('o, 's) resource" and view :: "'s \<Rightarrow> ObjectKey \<rightharpoonup> 'o" and rest :: "'s \<Rightarrow> 'r"
    and meta :: "'o \<Rightarrow> ObjectMeta" and kept :: "'o \<Rightarrow> 'o \<Rightarrow> bool"
begin

text \<open>Where an object found after a write comes from.\<close>

lemma created_at:
  assumes "Create R x s = (Inr y, s')" and "view s' k = Some z"
  shows "if k = key_of (meta x) then view s k = None \<and> kept x z else view s k = Some z"
  using create_stored [OF assms(1)] frameD(1) [OF create_frame [OF assms(1)], of k] assms(2) by auto

lemma updated_at:
  assumes "Update R x s = (Inr y, s')" and "view s' k = Some z"
  shows "if k = key_of (meta x) then kept x z else view s k = Some z"
  using update_stored [OF assms(1)] frameD(1) [OF update_frame [OF assms(1)], of k] assms(2) by auto

lemma deleted_at:
  assumes "Delete R x s = (Inr (), s')" and "view s' k = Some z"
  shows "\<exists>y. view s k = Some y \<and> (y = z \<or> kept y z)"
  using delete_keeps [OF assms(1)] frameD(1) [OF delete_frame [OF assms(1)], of k] assms(2) by metis

text \<open>No write touches the other kinds.\<close>

lemma rest_unchanged:
  "Create R x s = (r, s') \<Longrightarrow> rest s' = rest s" "Update R x s = (r, s') \<Longrightarrow> rest s' = rest s"
  "Delete R x s = (r', s') \<Longrightarrow> rest s' = rest s"
  by (blast dest: create_frame update_frame delete_frame frameD(2))+

end

text \<open>A kind that is apart from all the rest is apart from any part of it.\<close>

lemma stored_kind_part:
  assumes "stored_kind R view rest meta kept" and "\<And>s s'. rest s' = rest s \<Longrightarrow> part s' = part s"
  shows "stored_kind R view part meta kept"
proof -
  have frame: "frame view rest k s s' \<Longrightarrow> frame view part k s s'" for k s s'
    unfolding frame_def using assms(2) [of s' s] by blast
  have c: "object_creator view rest meta kept (Create R)" and u: "object_updater view rest meta kept (Update R)"
    and d: "object_deleter view rest meta kept (Delete R)" and r: "object_reader (Get R) view"
    using assms(1) unfolding stored_kind_def by blast+
  have "object_creator view part meta kept (Create R)"
    by (rule object_creator.intro, erule object_creator.create_stored [OF c],
        erule object_creator.create_live [OF c], erule object_creator.create_failed [OF c], rule frame, erule object_creator.create_frame [OF c])
  moreover have "object_updater view part meta kept (Update R)"
    by (rule object_updater.intro, erule object_updater.update_stored [OF u],
        erule object_updater.update_deletion [OF u], erule (1) object_updater.update_uid [OF u],
        erule object_updater.update_failed [OF u], rule frame, erule object_updater.update_frame [OF u])
  moreover have "object_deleter view part meta kept (Delete R)"
    by (rule object_deleter.intro, erule object_deleter.delete_gone [OF d],
        erule (1) object_deleter.delete_keeps [OF d], erule object_deleter.delete_missing [OF d],
        rule frame, erule object_deleter.delete_frame [OF d])
  ultimately show ?thesis
    using r by (simp add: stored_kind_def)
qed

locale tenancy_server =
  maas_reader a pview oview mview + quota_reader a pview rview +
  orgs: stored_kind "organizations (az_reader a)" oview "\<lambda>s. (pview s, rview s, mview s)" org_Meta organization_kept +
  profs: stored_kind "profiles (az_reader a)" pview "\<lambda>s. (oview s, rview s, mview s)" prof_Meta profile_kept +
  projs: stored_kind "projects (az_reader a)" rview "\<lambda>s. (oview s, pview s, mview s)" proj_Meta project_kept +
  cfgs: stored_kind "configurations (az_reader a)" mview "\<lambda>s. (oview s, pview s, rview s)" mcfg_Meta configuration_kept
  for a :: "'s authorizer" and pview oview rview mview
begin

text \<open>A request leaves the kinds it is not about alone.\<close>

lemma other_kinds:
  assumes "admits_at a d s req s'"
  shows "target req \<noteq> KOrganization \<Longrightarrow> oview s' = oview s" "target req \<noteq> KProfile \<Longrightarrow> pview s' = pview s"
    "target req \<noteq> KProject \<Longrightarrow> rview s' = rview s" "target req \<noteq> KConfiguration \<Longrightarrow> mview s' = mview s"
  using assms
  by (cases; auto dest: orgs.rest_unchanged profs.rest_unchanged projs.rest_unchanged cfgs.rest_unchanged)+

text \<open>How a request can change the kind it is about.\<close>

lemma organization_step:
  assumes "admits_at a d s req s'" and "oview s k = Some x" and "oview s' k = Some x'"
  shows "org_Parent x' = org_Parent x"
  using assms(1)
proof cases
  case (create_organization ctx obj stored)
  then show ?thesis
    using orgs.created_at [OF create_organization(4) assms(3)] assms(2) by (auto split: if_splits)
next
  case (update_organization obj oldObj ctx stored)
  have "oview s (key_of (org_Meta obj)) = Some oldObj"
    using update_organization(2) by (rule organization_reader.get_found)
  moreover have "org_Parent obj = org_Parent oldObj"
    using update_organization(3) by (auto simp: Organization_ValidateUpdate_def split: if_splits)
  ultimately show ?thesis
    using orgs.updated_at [OF update_organization(5) assms(3)] assms(2)
    by (auto simp: organization_kept_def split: if_splits)
next
  case (delete_organization ctx obj)
  then show ?thesis
    using orgs.deleted_at [OF delete_organization(3) assms(3)] assms(2)
    by (auto simp: organization_kept_def)
qed (use other_kinds(1) [OF assms(1)] assms(2,3) in simp_all)

text \<open>A profile keeps the name of its organization, and so does a configuration.\<close>

lemma profiles_named_step:
  assumes "admits_at a d s req s'" and "profiles_named (pview s)"
  shows "profiles_named (pview s')"
  unfolding profiles_named_def
proof (intro allI impI)
  fix k p
  assume p: "pview s' k = Some p"
  have old: "fst k = '''' \<and> prof_Organization q = snd k" if "pview s k = Some q" for q
    using assms(2) that unfolding profiles_named_def by blast
  show "fst k = '''' \<and> prof_Organization p = snd k"
    using assms(1)
  proof cases
    case (create_profile ctx prof stored)
    have "prof_Name prof = prof_Organization prof"
      using create_profile(2) by (rule profile_create_granted)
    then have "k = key_of (prof_Meta prof) \<Longrightarrow> profile_kept prof p \<Longrightarrow> ?thesis"
      using create_profile(3) by (simp add: profile_kept_def key_of_def)
    then show ?thesis
      using profs.created_at [OF create_profile(4) p] old [of p] by (metis (full_types))
  next
    case (update_profile prof oldProf ctx stored)
    have "prof_Organization prof = prof_Organization oldProf"
      using update_profile(3) by (rule profile_update_granted)
    moreover have "pview s (key_of (prof_Meta prof)) = Some oldProf"
      using update_profile(2) by (rule profile_reader.get_found)
    ultimately show ?thesis
      using profs.updated_at [OF update_profile(5) p] old
      by (auto simp: profile_kept_def split: if_splits)
  next
    case (delete_profile ctx prof)
    then show ?thesis
      using profs.deleted_at [OF delete_profile(3) p] old by (auto simp: profile_kept_def)
  qed (use other_kinds(2) [OF assms(1)] old p in simp_all)
qed

lemma configurations_named_step:
  assumes "admits_at a d s req s'" and "configurations_named (mview s)"
  shows "configurations_named (mview s')"
  unfolding configurations_named_def
proof (intro allI impI)
  fix k c
  assume c: "mview s' k = Some c"
  have old: "fst k = '''' \<and> mcfg_Organization q = snd k" if "mview s k = Some q" for q
    using assms(2) that unfolding configurations_named_def by blast
  have written: "fst k = '''' \<and> mcfg_Organization c = snd k"
    if "MaaSConfiguration_validate a ctx cfg verb d = None" "cluster_scoped (mcfg_Meta cfg)"
      "if k = key_of (mcfg_Meta cfg) then configuration_kept cfg c else mview s k = Some c" for ctx cfg verb
  proof -
    have "mcfg_Name cfg = mcfg_Organization cfg"
      using that(1) by (rule maas_validate_granted)
    then have "k = key_of (mcfg_Meta cfg) \<Longrightarrow> configuration_kept cfg c \<Longrightarrow> ?thesis"
      using that(2) by (simp add: configuration_kept_def key_of_def)
    then show ?thesis
      using that(3) old [of c] by (metis (full_types))
  qed
  show "fst k = '''' \<and> mcfg_Organization c = snd k"
    using assms(1)
  proof cases
    case (create_configuration ctx cfg stored)
    then show ?thesis
      using written cfgs.created_at [OF create_configuration(4) c]
      by (auto simp: MaaSConfiguration_ValidateCreate_def split: if_splits)
  next
    case (update_configuration cfg oldCfg ctx stored)
    then show ?thesis
      using written cfgs.updated_at [OF update_configuration(5) c]
      by (auto simp: MaaSConfiguration_ValidateUpdate_def split: if_splits)
  next
    case (delete_configuration ctx cfg)
    then show ?thesis
      using cfgs.deleted_at [OF delete_configuration(3) c] old by (auto simp: configuration_kept_def)
  qed (use other_kinds(4) [OF assms(1)] old c in simp_all)
qed

lemma named_runs:
  assumes "admits_all a s reqs s'"
  shows "profiles_named (pview s) \<Longrightarrow> profiles_named (pview s')"
    and "configurations_named (mview s) \<Longrightarrow> configurations_named (mview s')"
  using assms by (induction) (auto dest: profiles_named_step configurations_named_step)

text \<open>Creates and updates leave standing lineages as they are.\<close>

lemma organization_stays:
  assumes "admits_at a d s req s'" and "\<not> is_delete req"
    and "oview s k = Some x" and "om_DeletionTimestamp (org_Meta x) = None"
  shows "\<exists>x'. oview s' k = Some x' \<and> om_DeletionTimestamp (org_Meta x') = None"
  using assms(1)
proof cases
  case (create_organization ctx obj stored)
  then have "k \<noteq> key_of (org_Meta obj)"
    using orgs.create_stored [OF create_organization(4)] assms(3) by auto
  then show ?thesis
    using frameD(1) [OF orgs.create_frame [OF create_organization(4)]] assms(3,4) by auto
next
  case (update_organization obj oldObj ctx stored)
  then show ?thesis
    using orgs.update_stored [OF update_organization(5)] orgs.update_deletion [OF update_organization(5)]
      frameD(1) [OF orgs.update_frame [OF update_organization(5)], of k] assms(3,4)
    by (cases "k = key_of (org_Meta obj)") auto
qed (use other_kinds(1) [OF assms(1)] assms(2-4) in simp_all)

lemma standing_step:
  assumes "admits_at a d s req s'" and "\<not> is_delete req" and "standing (oview s) n ns"
  shows "standing (oview s') n ns"
proof -
  have members: "\<exists>x'. oview s' (cluster_key m) = Some x' \<and> om_DeletionTimestamp (org_Meta x') = None \<and>
      org_Parent x' = org_Parent x"
    if "m \<in> set ns" "oview s (cluster_key m) = Some x" for m x
    using organization_stays [OF assms(1,2) that(2)] organization_step [OF assms(1) that(2)] assms(3) that
    unfolding standing_def by metis
  then have "same_parents (oview s) (oview s') ns"
    unfolding same_parents_def by metis
  then have "lineage (oview s') n ns"
    using assms(3) lineage_transfer unfolding standing_def by blast
  moreover have "om_DeletionTimestamp (org_Meta y) = None"
    if m: "m \<in> set ns" and y: "oview s' (cluster_key m) = Some y" for m y
  proof -
    obtain ms where "lineage (oview s) m ms"
      using assms(3) m lineage_member unfolding standing_def by blast
    then obtain x where "oview s (cluster_key m) = Some x"
      using lineage_missing [of "oview s" m ms] by fastforce
    with members [OF m] y show ?thesis by fastforce
  qed
  ultimately show ?thesis unfolding standing_def by blast
qed

lemma standing_run:
  "admits_all a s reqs s' \<Longrightarrow> list_all (\<lambda>req. \<not> is_delete req) reqs \<Longrightarrow> standing (oview s) n ns \<Longrightarrow>
     standing (oview s') n ns"
  by (induction rule: admits_all.induct) (auto dest: standing_step)

text \<open>Whoever changes a profile has authority over its organization.\<close>

lemma profile_change_authorized:
  assumes "admits_at a d s req s'" and "\<not> is_delete req" and "profiles_named (pview s)"
    and changed: "pview s' (cluster_key n) \<noteq> pview s (cluster_key n)"
  shows "\<exists>r. requester req = Inr r \<and> (isTrusted a (ar_UserInfo r) \<or>
    (\<exists>m. above (oview d) n m \<and> admin_of (pview d) (ar_UserInfo r) m))"
  using assms(1)
proof cases
  case (create_profile ctx prof stored)
  then have n: "n = prof_Name prof"
    using frameD(1) [OF profs.create_frame [OF create_profile(4)]] changed by (force simp: key_of_def)
  obtain r where "ctx = Inr r" "prof_Name prof = prof_Organization prof"
    "isTrusted a (ar_UserInfo r) \<or> admin_above (pview d) (oview d) (ar_UserInfo r) (prof_Organization prof)"
    using create_profile(2) by (rule profile_create_granted)
  then show ?thesis
    using n create_profile(1) admin_above_imp by (metis requester.simps(4))
next
  case (update_profile prof oldProf ctx stored)
  then have n: "n = prof_Name prof"
    using frameD(1) [OF profs.update_frame [OF update_profile(5)]] changed by (force simp: key_of_def)
  have "pview s (key_of (prof_Meta prof)) = Some oldProf"
    using update_profile(2) by (rule profile_reader.get_found)
  with assms(3) have "prof_Organization oldProf = snd (key_of (prof_Meta prof))"
    unfolding profiles_named_def by blast
  then have old: "prof_Organization oldProf = n"
    using n by (simp add: key_of_def)
  obtain r where r: "ctx = Inr r" "prof_Organization prof = prof_Organization oldProf"
    "isTrusted a (ar_UserInfo r) \<or>
     (if ops_Admins (prof_Spec prof) \<noteq> ops_Admins (prof_Spec oldProf)
      then admin_above (pview d) (oview d) (ar_UserInfo r) (prof_Organization prof)
      else admin_of (pview d) (ar_UserInfo r) (prof_Organization prof))"
    using update_profile(3) by (rule profile_update_granted)
  then have "isTrusted a (ar_UserInfo r) \<or> (\<exists>m. above (oview d) n m \<and> admin_of (pview d) (ar_UserInfo r) m)"
    using old admin_above_imp above_self by (metis (full_types))
  then show ?thesis
    using r(1) update_profile(1) by simp
qed (use other_kinds(2) [OF assms(1)] assms(2) changed in simp_all)

text \<open>A user without authority over a standing lineage changes nothing of it and gains nothing.\<close>

lemma outsider_step:
  assumes "admits_at a d s req s'" and "\<not> is_delete req" and "requester req = Inr r"
    and "\<not> isTrusted a (ar_UserInfo r)" and "profiles_named (pview s)" and "standing (oview d) n ns"
    and "\<forall>m \<in> set ns. \<not> admin_of (pview d) (ar_UserInfo r) m" and "m \<in> set ns"
  shows "pview s' (cluster_key m) = pview s (cluster_key m)"
proof (rule ccontr)
  assume "pview s' (cluster_key m) \<noteq> pview s (cluster_key m)"
  from profile_change_authorized [OF assms(1,2,5) this] assms(3,4)
  obtain l where "above (oview d) m l" "admin_of (pview d) (ar_UserInfo r) l" by auto
  moreover have "l \<in> set ns"
    using assms(6,8) calculation(1) lineage_above above_trans unfolding standing_def by metis
  ultimately show False using assms(7) by blast
qed

lemma outsider_run:
  assumes "admits_all a s reqs s'" and "list_all (\<lambda>req. requester req = Inr r \<and> \<not> is_delete req) reqs"
    and "\<not> isTrusted a (ar_UserInfo r)" and "profiles_named (pview s)" and "standing (oview s) n ns"
    and "\<forall>m \<in> set ns. \<not> admin_of (pview s) (ar_UserInfo r) m"
  shows "standing (oview s') n ns \<and> (\<forall>m \<in> set ns. pview s' (cluster_key m) = pview s (cluster_key m))"
  using assms
proof (induction rule: admits_all.induct)
  case (admits_more s req t reqs u)
  have step: "\<not> is_delete req" "requester req = Inr r" using admits_more.prems(1) by simp_all
  have same: "\<forall>m \<in> set ns. pview t (cluster_key m) = pview s (cluster_key m)"
    using outsider_step [OF admits_more.hyps(1) step admits_more.prems(2-5)] by blast
  then have "\<forall>m \<in> set ns. \<not> admin_of (pview t) (ar_UserInfo r) m"
    using admits_more.prems(5) unfolding admin_of_def by metis
  with same admits_more.IH admits_more.prems(1,2) show ?case
    using profiles_named_step [OF admits_more.hyps(1) admits_more.prems(3)]
      standing_step [OF admits_more.hyps(1) step(1) admits_more.prems(4)] by simp
qed simp

text \<open>The number of projects an organization owns grows only within its quota.\<close>

lemma project_step:
  assumes "admits_at a d s req s'" and "rview s' k = Some p" and "rview s k \<noteq> Some p"
  obtains q where "rview s k = Some q" and "proj_Organization q = proj_Organization p"
    | ctx proj where "req = CreateProject ctx proj" and "proj_Organization proj = proj_Organization p"
      and "key_of (proj_Meta proj) = k"
  using assms(1)
proof cases
  case (create_project ctx proj stored)
  then show ?thesis
    using projs.created_at [OF create_project(4) assms(2)] assms(3) that(2)
    by (auto simp: project_kept_def split: if_splits)
next
  case (update_project proj oldProj ctx stored)
  have "proj_Organization proj = proj_Organization oldProj"
    using update_project(3) by (rule project_update_granted)
  moreover have "rview s (key_of (proj_Meta proj)) = Some oldProj"
    using update_project(2) by (rule projs.get_found)
  ultimately show ?thesis
    using projs.updated_at [OF update_project(5) assms(2)] assms(3) that(1)
    by (auto simp: project_kept_def split: if_splits)
next
  case (delete_project ctx proj)
  then show ?thesis
    using projs.deleted_at [OF delete_project(3) assms(2)] assms(3) that(1) by (auto simp: project_kept_def)
qed (use other_kinds(3) [OF assms(1)] assms(2,3) in simp_all)

lemma owned_step:
  assumes "admits_at a d s req s'" and "finite (dom (rview s))" and "owned_projects (rview s) n < owned_projects (rview s') n"
  shows "\<exists>ctx proj. req = CreateProject ctx proj \<and> proj_Organization proj = n \<and>
    owned_projects (rview s') n \<le> Suc (owned_projects (rview s) n)"
proof -
  let ?K = "{k. \<exists>p. rview s k = Some p \<and> proj_Organization p = n}"
  let ?K' = "{k. \<exists>p. rview s' k = Some p \<and> proj_Organization p = n}"
  have fin: "finite ?K" by (rule finite_subset [OF _ assms(2)]) auto
  have "\<not> ?K' \<subseteq> ?K"
  proof
    assume "?K' \<subseteq> ?K"
    then have "card ?K' \<le> card ?K" by (rule card_mono [OF fin])
    then show False using assms(3) unfolding owned_projects_def by linarith
  qed
  then obtain k p where kp: "rview s' k = Some p" "proj_Organization p = n" "k \<notin> ?K" by blast
  then have "rview s k \<noteq> Some p" by blast
  from assms(1) kp(1) this obtain ctx proj where create: "req = CreateProject ctx proj" "proj_Organization proj = n"
    by (rule project_step) (use kp in auto)
  have "?K' \<subseteq> insert (key_of (proj_Meta proj)) ?K"
  proof
    fix j assume "j \<in> ?K'"
    then obtain q where q: "rview s' j = Some q" "proj_Organization q = n" by blast
    show "j \<in> insert (key_of (proj_Meta proj)) ?K"
    proof (cases "rview s j = Some q")
      case False
      from assms(1) q(1) this show ?thesis
        by (rule project_step) (use create q in auto)
    qed (use q in simp)
  qed
  then have "card ?K' \<le> card (insert (key_of (proj_Meta proj)) ?K)"
    using fin by (intro card_mono) auto
  also have "\<dots> \<le> Suc (card ?K)" by (simp add: card_insert_le_m1 card_insert_if fin)
  finally show ?thesis using create unfolding owned_projects_def by blast
qed

lemma quota_step:
  assumes "admits_at a d s req s'" and "finite (dom (rview s))"
    and "owned_projects (rview s) n < owned_projects (rview s') n" and "owned_projects (rview d) n < 2 ^ 31"
  shows "\<exists>p. pview d (cluster_key n) = Some p \<and> int (owned_projects (rview d) n) < sint (prof_MaxProjects p) \<and>
    owned_projects (rview s') n \<le> Suc (owned_projects (rview s) n)"
proof -
  obtain ctx proj where create: "req = CreateProject ctx proj" "proj_Organization proj = n"
    and grows: "owned_projects (rview s') n \<le> Suc (owned_projects (rview s) n)"
    using owned_step [OF assms(1-3)] by blast
  have "checkProjectQuota a n d = None"
    using assms(1) project_create_granted_quota [of a ctx proj d] create(2)
    unfolding create(1) by (metis admits_simps(7))
  then show ?thesis using quota_granted_below [OF _ assms(4)] grows by metis
qed

end


section \<open>The memory server is a tenancy server\<close>

interpretation mem_stored_organizations: stored_kind
  "mem_resource flt cl_organizations cl_organizations_update org_Meta org_Meta_update"
  "mem_view cl_organizations" "mem_rest cl_organizations_update" org_Meta organization_kept for flt
  by (rule stored_kind.intro; simp; unfold_locales)

interpretation mem_stored_profiles: stored_kind
  "mem_resource flt cl_profiles cl_profiles_update prof_Meta prof_Meta_update"
  "mem_view cl_profiles" "mem_rest cl_profiles_update" prof_Meta profile_kept for flt
  by (rule stored_kind.intro; simp; unfold_locales)

interpretation mem_stored_projects: stored_kind
  "mem_resource flt cl_projects cl_projects_update proj_Meta proj_Meta_update"
  "mem_view cl_projects" "mem_rest cl_projects_update" proj_Meta project_kept for flt
  by (rule stored_kind.intro; simp; unfold_locales)

interpretation mem_stored_configurations: stored_kind
  "mem_resource flt cl_configurations cl_configurations_update mcfg_Meta mcfg_Meta_update"
  "mem_view cl_configurations" "mem_rest cl_configurations_update" mcfg_Meta configuration_kept for flt
  by (rule stored_kind.intro; simp; unfold_locales)

lemma mem_rest_parts:
  "mem_rest cl_organizations_update s' = mem_rest cl_organizations_update s \<Longrightarrow>
     cl_profiles s' = cl_profiles s \<and> cl_projects s' = cl_projects s \<and> cl_configurations s' = cl_configurations s"
  "mem_rest cl_profiles_update s' = mem_rest cl_profiles_update s \<Longrightarrow>
     cl_organizations s' = cl_organizations s \<and> cl_projects s' = cl_projects s \<and> cl_configurations s' = cl_configurations s"
  "mem_rest cl_projects_update s' = mem_rest cl_projects_update s \<Longrightarrow>
     cl_organizations s' = cl_organizations s \<and> cl_profiles s' = cl_profiles s \<and> cl_configurations s' = cl_configurations s"
  "mem_rest cl_configurations_update s' = mem_rest cl_configurations_update s \<Longrightarrow>
     cl_organizations s' = cl_organizations s \<and> cl_profiles s' = cl_profiles s \<and> cl_projects s' = cl_projects s"
  by (cases s, cases s', simp add: mem_rest_def)+

lemma mem_stored_parts:
  "stored_kind (mem_resource flt cl_organizations cl_organizations_update org_Meta org_Meta_update) (mem_view cl_organizations)
     (\<lambda>s. (mem_view cl_profiles s, mem_view cl_projects s, mem_view cl_configurations s)) org_Meta organization_kept"
  "stored_kind (mem_resource flt cl_profiles cl_profiles_update prof_Meta prof_Meta_update) (mem_view cl_profiles)
     (\<lambda>s. (mem_view cl_organizations s, mem_view cl_projects s, mem_view cl_configurations s)) prof_Meta profile_kept"
  "stored_kind (mem_resource flt cl_projects cl_projects_update proj_Meta proj_Meta_update) (mem_view cl_projects)
     (\<lambda>s. (mem_view cl_organizations s, mem_view cl_profiles s, mem_view cl_configurations s)) proj_Meta project_kept"
  "stored_kind (mem_resource flt cl_configurations cl_configurations_update mcfg_Meta mcfg_Meta_update) (mem_view cl_configurations)
     (\<lambda>s. (mem_view cl_organizations s, mem_view cl_profiles s, mem_view cl_projects s)) mcfg_Meta configuration_kept"
  by (rule stored_kind_part [OF mem_stored_organizations.stored_kind_axioms]
      stored_kind_part [OF mem_stored_profiles.stored_kind_axioms]
      stored_kind_part [OF mem_stored_projects.stored_kind_axioms]
      stored_kind_part [OF mem_stored_configurations.stored_kind_axioms],
      drule mem_rest_parts, simp only: mem_view_def)+

interpretation mem_tenancy: tenancy_server
  "\<lparr>az_reader = memory_server flt, az_operatorNamespace = ns, az_clusterAdminGroups = gs\<rparr>"
  "mem_view cl_profiles" "mem_view cl_organizations" "mem_view cl_projects" "mem_view cl_configurations" for flt ns gs
proof (rule tenancy_server.intro)
  let ?a = "\<lparr>az_reader = memory_server flt, az_operatorNamespace = ns, az_clusterAdminGroups = gs\<rparr>"
  show "maas_reader ?a (mem_view cl_profiles) (mem_view cl_organizations) (mem_view cl_configurations)"
    by (rule mem_maas_reader.maas_reader_axioms)
  show "quota_reader ?a (mem_view cl_profiles) (mem_view cl_projects)"
    by (rule mem_quota.quota_reader_axioms)
qed (simp_all only: authorizer.simps memory_server_simps mem_stored_parts)

lemma demo_tenancy: "tenancy_server demo_authz (mem_view cl_profiles) (mem_view cl_organizations)
    (mem_view cl_projects) (mem_view cl_configurations)"
  unfolding demo_authz_eq by (rule mem_tenancy.tenancy_server_axioms)

text \<open>Requests of the demo that the webhooks admit.\<close>

definition delegation :: request where
  "delegation = UpdateProfile (Inr (demo_user ''carol''))
     (demo_profile ''proteomics'' [user_subject ''carol'', user_subject ''erin''] 5)"

definition expansion :: request where
  "expansion = CreateProject (Inr (demo_user ''alice'')) (demo_project ''genomics-analysis-2'' ''genomics'' [] '''')"

definition enablement :: request where
  "enablement = CreateConfiguration (Inr (demo_user ''alice''))
     (demo_configuration ''research-division'' ''research-division'')"

lemma demo_delegation: "\<exists>s'. admits demo_authz demo_cluster delegation s'"
proof -
  have "OrganizationProfile_ValidateUpdate demo_authz (Inr (demo_user ''carol''))
     (demo_profile ''proteomics'' [user_subject ''carol''] 1)
     (demo_profile ''proteomics'' [user_subject ''carol'', user_subject ''erin''] 5) demo_cluster = None"
    by code_simp
  then show ?thesis
    by (simp add: delegation_def admits_simps demo_authz_eq mem_get_def mem_update_def Let_def demo_cluster_def keyed_def)
      (simp add: demo_profile_def)
qed

lemma demo_expansion:
  "\<exists>s'. admits demo_authz demo_cluster expansion s' \<and> owned_projects (mem_view cl_projects s') ''genomics'' = 2"
proof -
  let ?p = "demo_project ''genomics-analysis-2'' ''genomics'' [] ''''"
  let ?q = "proj_Meta_update (\<lambda>m. m\<lparr>om_UID := fresh_uid 100, om_DeletionTimestamp := None\<rparr>) ?p"
  let ?s = "(demo_cluster\<lparr>cl_uid := 101\<rparr>)\<lparr>cl_projects := put ('''', ''genomics-analysis-2'') ?q (cl_projects demo_cluster)\<rparr>"
  have "OrganizationProject_ValidateCreate demo_authz (Inr (demo_user ''alice'')) ?p demo_cluster = None"
    by code_simp
  moreover have "mem_create (\<lambda>_. None) cl_projects cl_projects_update proj_Meta proj_Meta_update ?p demo_cluster = (Inr ?q, ?s)"
    by (simp add: mem_create_def demo_cluster_def keyed_def Let_def)
  moreover have "cluster_scoped (proj_Meta ?p)" by (simp add: demo_project_def)
  ultimately have "admits demo_authz demo_cluster expansion ?s"
    by (auto simp: expansion_def admits_simps demo_authz_eq)
  moreover have "{k. \<exists>p. mem_view cl_projects ?s k = Some p \<and> proj_Organization p = ''genomics''} =
      {('''', ''genomics-analysis-2''), ('''', ''genomics-analysis'')}"
    by (auto simp: mem_view_def demo_cluster_def keyed_def split: if_splits)
  ultimately show ?thesis
    by (intro exI [of _ ?s]) (simp add: owned_projects_def)
qed

lemma demo_enablement:
  "\<exists>s'. admits demo_authz demo_cluster enablement s' \<and>
     mem_view cl_configurations s' (cluster_key ''research-division'') \<noteq> None"
proof -
  let ?c = "demo_configuration ''research-division'' ''research-division''"
  have "MaaSConfiguration_ValidateCreate demo_authz (Inr (demo_user ''alice'')) ?c demo_cluster = None"
    by code_simp
  moreover have "cluster_scoped (mcfg_Meta ?c)" by (simp add: demo_configuration_def)
  ultimately show ?thesis
    by (simp add: enablement_def admits_simps demo_authz_eq mem_create_def Let_def mem_view_def)
      (simp add: demo_cluster_def empty_cluster_def Let_def)
qed


section \<open>Properties\<close>

text \<open>Authority cannot be acquired by using the API. Take an organization whose lineage is stored
  and not being deleted, and an untrusted user who is an admin of no organization of that lineage.
  Whatever sequence of creations and updates of the four kinds the user gets admitted, on a server
  whose calls may fail at any point, the profiles of the whole lineage are untouched, the lineage is
  the same, and the user still has no authority over the organization.\<close>

theorem outsider_gains_no_authority:
  assumes "tenancy_server a pview oview rview mview" and "admits_all a s reqs s'"
    and "list_all (\<lambda>req. requester req = Inr r \<and> \<not> is_delete req) reqs"
    and "\<not> isTrusted a (ar_UserInfo r)" and "profiles_named (pview s)" and "standing (oview s) n ns"
    and "\<forall>m \<in> set ns. \<not> admin_of (pview s) (ar_UserInfo r) m"
  shows "(\<forall>m \<in> set ns. pview s' (cluster_key m) = pview s (cluster_key m)) \<and> lineage (oview s') n ns \<and>
    \<not> admin_above (pview s') (oview s') (ar_UserInfo r) n"
proof -
  have run: "standing (oview s') n ns \<and> (\<forall>m \<in> set ns. pview s' (cluster_key m) = pview s (cluster_key m))"
    using assms by (rule tenancy_server.outsider_run)
  then have "\<forall>m \<in> set ns. \<not> admin_of (pview s') (ar_UserInfo r) m"
    using assms(7) unfolding admin_of_def by metis
  then have "\<not> admin_above (pview s') (oview s') (ar_UserInfo r) n"
    using run lineage_above admin_above_imp unfolding standing_def by metis
  with run show ?thesis unfolding standing_def by blast
qed

theorem outsider_gains_no_authority_witness:
  "\<exists>s'. admits demo_authz demo_cluster delegation s' \<and>
     mem_view cl_profiles s' (cluster_key ''genomics'') = mem_view cl_profiles demo_cluster (cluster_key ''genomics'') \<and>
     \<not> admin_above (mem_view cl_profiles s') (mem_view cl_organizations s') (ar_UserInfo (demo_user ''carol'')) ''genomics''"
proof -
  obtain s' where s': "admits demo_authz demo_cluster delegation s'"
    using demo_delegation by blast
  then have run: "admits_all demo_authz demo_cluster [delegation] s'"
    by (auto intro: admits_all.intros)
  have user: "list_all (\<lambda>req. requester req = Inr (demo_user ''carol'') \<and> \<not> is_delete req) [delegation]"
    by (simp add: delegation_def)
  have untrusted: "\<not> isTrusted demo_authz (ar_UserInfo (demo_user ''carol''))"
    by code_simp
  have named: "profiles_named (mem_view cl_profiles demo_cluster)"
    by (simp add: profiles_named_def keyed_def)
  have standing: "standing (mem_view cl_organizations demo_cluster) ''genomics'' [''genomics'', ''research-division'']"
    using demo_lineages(2) by (simp add: standing_def keyed_def) (simp add: demo_org_def)
  have no_admin: "\<forall>m \<in> set [''genomics'', ''research-division''].
      \<not> admin_of (mem_view cl_profiles demo_cluster) (ar_UserInfo (demo_user ''carol'')) m"
    by (simp add: admin_of_def keyed_def demo_user_def user_subject_def subjectMatches_def)
  from s' show ?thesis
    using outsider_gains_no_authority [OF demo_tenancy run user untrusted named standing no_admin] by auto
qed

text \<open>The hierarchy is append-only. No sequence of admitted creations and updates, by any users,
  changes the lineage of an organization whose lineage is stored and not being deleted.\<close>

theorem lineage_never_changes:
  assumes "tenancy_server a pview oview rview mview" and "admits_all a s reqs s'"
    and "list_all (\<lambda>req. \<not> is_delete req) reqs" and "standing (oview s) n ns"
  shows "standing (oview s') n ns"
  using assms by (rule tenancy_server.standing_run)

theorem lineage_never_changes_witness:
  "\<exists>s'. admits demo_authz demo_cluster enablement s' \<and>
     lineage (mem_view cl_organizations s') ''proteomics'' [''proteomics'', ''genomics'', ''research-division'']"
proof -
  obtain s' where s': "admits demo_authz demo_cluster enablement s'"
    using demo_enablement by blast
  then have run: "admits_all demo_authz demo_cluster [enablement] s'"
    by (auto intro: admits_all.intros)
  have "standing (mem_view cl_organizations demo_cluster) ''proteomics'' [''proteomics'', ''genomics'', ''research-division'']"
    using demo_lineages(3) by (simp add: standing_def keyed_def) (simp add: demo_org_def)
  from lineage_never_changes [OF demo_tenancy run _ this] s' show ?thesis
    by (auto simp: enablement_def standing_def)
qed

text \<open>Names stay bound to organizations. From a state in which every profile and every
  MaaSConfiguration has the name of the organization it refers to, in particular from an empty
  cluster, no sequence of admitted requests, deletions included, leaves that: an organization has
  one profile, under its own name, and never a second MaaSConfiguration.\<close>

theorem one_configuration_per_organization:
  assumes "tenancy_server a pview oview rview mview" and "admits_all a s reqs s'"
    and "profiles_named (pview s)" and "configurations_named (mview s)"
  shows "profiles_named (pview s') \<and> configurations_named (mview s') \<and>
    (\<forall>k c k' c'. mview s' k = Some c \<and> mview s' k' = Some c' \<and> mcfg_Organization c = mcfg_Organization c' \<longrightarrow> k = k')"
proof -
  have "profiles_named (pview s')" "configurations_named (mview s')"
    using tenancy_server.named_runs [OF assms(1,2)] assms(3,4) by blast+
  moreover from this(2) have "\<forall>k c k' c'. mview s' k = Some c \<and> mview s' k' = Some c' \<and>
      mcfg_Organization c = mcfg_Organization c' \<longrightarrow> k = k'"
    unfolding configurations_named_def by (metis prod.collapse)
  ultimately show ?thesis by blast
qed

theorem one_configuration_per_organization_witness:
  "\<exists>s'. admits demo_authz demo_cluster enablement s' \<and>
     mem_view cl_configurations s' (cluster_key ''research-division'') \<noteq> None \<and>
     configurations_named (mem_view cl_configurations s')"
proof -
  obtain s' where s': "admits demo_authz demo_cluster enablement s'"
    "mem_view cl_configurations s' (cluster_key ''research-division'') \<noteq> None"
    using demo_enablement by blast
  then have run: "admits_all demo_authz demo_cluster [enablement] s'"
    by (auto intro: admits_all.intros)
  have "profiles_named (mem_view cl_profiles demo_cluster)"
    by (simp add: profiles_named_def keyed_def)
  moreover have "configurations_named (mem_view cl_configurations demo_cluster)"
    by (simp add: configurations_named_def mem_view_def demo_cluster_def empty_cluster_def)
  ultimately show ?thesis
    using one_configuration_per_organization [OF demo_tenancy run] s' by blast
qed

text \<open>A request can raise the number of projects an organization owns only within the quota on
  its profile: if the number grows, the organization has a profile and the new number is at most its
  \<open>maxProjects\<close>. (The count is below the \<open>int32\<close> range, where the quota check wraps.)\<close>

theorem quota_never_exceeded:
  assumes "tenancy_server a pview oview rview mview" and "admits a s req s'" and "finite (dom (rview s))"
    and "owned_projects (rview s) n < 2 ^ 31" and "owned_projects (rview s) n < owned_projects (rview s') n"
  shows "\<exists>p. pview s (cluster_key n) = Some p \<and> int (owned_projects (rview s') n) \<le> sint (prof_MaxProjects p)"
  using tenancy_server.quota_step [OF assms(1,2,3,5,4)] by auto

theorem quota_never_exceeded_witness:
  "\<exists>s' p. admits demo_authz demo_cluster expansion s' \<and>
     mem_view cl_profiles demo_cluster (cluster_key ''genomics'') = Some p \<and>
     int (owned_projects (mem_view cl_projects s') ''genomics'') \<le> sint (prof_MaxProjects p)"
proof -
  obtain s' where s': "admits demo_authz demo_cluster expansion s'"
    "owned_projects (mem_view cl_projects s') ''genomics'' = 2"
    using demo_expansion by blast
  have "{k. \<exists>p. mem_view cl_projects demo_cluster k = Some p \<and> proj_Organization p = ''genomics''} =
      {('''', ''genomics-analysis'')}"
    by (auto simp: keyed_def split: if_splits)
  then have before: "owned_projects (mem_view cl_projects demo_cluster) ''genomics'' = 1"
    by (simp add: owned_projects_def)
  have "finite (dom (mem_view cl_projects demo_cluster))"
    by (simp add: mem_view_def finite_dom_map_of)
  with quota_never_exceeded [OF demo_tenancy s'(1), of "''genomics''"] s' before show ?thesis by auto
qed

end
