(* ===== verification/Reconciler.thy ===== *)
theory Reconciler
  imports Api_Types
begin

text \<open>
  What the controllers of \<open>internal/controller\<close> hand to the platform framework, and what they
  rely on it for. A controller registers a kind, the kinds it owns, a list of actions and the
  conditions that make up its readiness; the framework runs the actions. The framework is not part
  of the repository: running a list of actions is a parameter with the contract
  \<open>action_runner\<close>, and \<open>run_actions\<close> is one function that satisfies it.
\<close>

text \<open>
  An action gets a reconciliation request and the server state and returns its error, the request
  (whose instance it may have changed) and the new state.
\<close>

type_synonym ('r, 's) action = "'r \<Rightarrow> 's \<Rightarrow> error_result \<times> 'r \<times> 's"

record ('r, 's) registration =
  reg_For :: string
  reg_Owns :: "string list"
  reg_Watches :: "string list"
  reg_Actions :: "('r, 's) action list"
  reg_FinalizerName :: string
  reg_Finalizers :: "('r, 's) action list"
  reg_Conditions :: "string list"

definition ConditionTypeProvisioningSucceeded :: string where
  "ConditionTypeProvisioningSucceeded = ''ProvisioningSucceeded''"

definition action_keeps :: "('r \<Rightarrow> 's \<Rightarrow> bool) \<Rightarrow> ('r, 's) action \<Rightarrow> bool" where
  "action_keeps I act \<longleftrightarrow> (\<forall>rr s err rr' s'. I rr s \<longrightarrow> act rr s = (err, rr', s') \<longrightarrow> I rr' s')"

lemma action_keepsI:
  "(\<And>rr s err rr' s'. I rr s \<Longrightarrow> act rr s = (err, rr', s') \<Longrightarrow> I rr' s') \<Longrightarrow> action_keeps I act"
  unfolding action_keeps_def by blast

locale action_runner =
  fixes run :: "('r, 's) action list \<Rightarrow> ('r, 's) action"
  assumes run_done: "run [] rr s = (None, rr, s)"
    and run_stops: "act rr s = (Some err, rr', s') \<Longrightarrow> run (act # acts) rr s = (Some err, rr', s')"
    and run_continues: "act rr s = (None, rr', s') \<Longrightarrow> run (act # acts) rr s = run acts rr' s'"
begin

lemma run_Cons:
  "run (act # acts) rr s =
     (case act rr s of (Some err, rr', s') \<Rightarrow> (Some err, rr', s') | (None, rr', s') \<Rightarrow> run acts rr' s')"
  by (auto simp: run_stops run_continues split: prod.split option.split)

lemma run_append:
  "run (acts @ acts') rr s =
     (case run acts rr s of (Some err, rr', s') \<Rightarrow> (Some err, rr', s') | (None, rr', s') \<Rightarrow> run acts' rr' s')"
  by (induction acts arbitrary: rr s) (auto simp: run_done run_Cons split: prod.split option.split)

text \<open>A property of the request and the state that every action keeps holds after the run.\<close>

lemma run_invariant:
  assumes "list_all (action_keeps I) acts" and "I rr s" and "run acts rr s = (err, rr', s')"
  shows "I rr' s'"
  using assms
proof (induction acts arbitrary: rr s)
  case (Cons act acts)
  obtain e q t where step: "act rr s = (e, q, t)" by (cases "act rr s") auto
  with Cons.prems have "I q t" by (auto simp: action_keeps_def)
  with step Cons show ?case
    by (cases e) (auto simp: run_stops run_continues)
qed (simp add: run_done)

end

fun run_actions :: "('r, 's) action list \<Rightarrow> ('r, 's) action" where
  "run_actions [] rr s = (None, rr, s)"
| "run_actions (act # acts) rr s =
     (case act rr s of (Some err, rr', s') \<Rightarrow> (Some err, rr', s') | (None, rr', s') \<Rightarrow> run_actions acts rr' s')"

interpretation reference_runner: action_runner run_actions
  by unfold_locales simp_all

end
