(* ===== verification/Organization_Controller.thy ===== *)
theory Organization_Controller
  imports Hierarchy Demo_Cluster Reconciler
begin

text \<open>
  \<open>internal/controller/organization\<close>: the two actions of the Organization reconciler.
  \<open>computeRoot\<close> walks the parent links, at most \<open>maxHierarchyDepth\<close> organizations, and
  records the root in the status; \<open>ensureProfile\<close> creates the restrictive profile when there
  is none. An action gets the request (here its instance) and the server state and returns the
  error, the possibly modified instance and the new state. The framework's reconciler, which runs
  the actions, is a parameter with the contract \<open>action_runner\<close>.
\<close>

section \<open>The actions\<close>

definition organizationLabel :: string where
  "organizationLabel = ''organization.opendatahub.io/name''"

definition organizationRootLabel :: string where
  "organizationRootLabel = ''organization.opendatahub.io/root''"

definition maxHierarchyDepth :: nat where
  "maxHierarchyDepth = 3"

text \<open>The profile literal of \<open>ensureProfile\<close>, before the owner reference is set.\<close>

definition defaultProfile :: "Organization \<Rightarrow> OrganizationProfile" where
  "defaultProfile organization = \<lparr>prof_TypeMeta = zero_TypeMeta,
     prof_Meta = (named '''' (org_Name organization))\<lparr>om_Labels :=
       [organizationLabel \<mapsto> org_Name organization, organizationRootLabel \<mapsto> org_Root organization]\<rparr>,
     prof_Spec = \<lparr>ops_OrganizationRef = \<lparr>orgref_Name = org_Name organization\<rparr>, ops_Admins = None,
       ops_Defaults = \<lparr>pd_NetworkIsolation = ''tenant'', pd_MaxProjects = 0\<rparr>, ops_Platform = None\<rparr>,
     prof_Status = \<lparr>opst_Status = zero_Status\<rparr>\<rparr>"

definition ensureProfile :: "'s k8s \<Rightarrow> (Organization, 's) action" where
  "ensureProfile c organization s =
     (case Get (profiles c) (cluster_key (org_Name organization)) s of
        Inr profile \<Rightarrow> (None, organization, s)
      | Inl err \<Rightarrow>
          if err \<noteq> NotFound then (Some (ApiError err), organization, s)
          else (let profile = defaultProfile organization in
            case SetControllerReference c (owner_organization organization) (prof_Meta profile) of
              Inl err' \<Rightarrow> (Some err', organization, s)
            | Inr m \<Rightarrow>
                (case Create (profiles c) (profile\<lparr>prof_Meta := m\<rparr>) s of
                   (Inl err'', s') \<Rightarrow> (Some (ApiError err''), organization, s')
                 | (Inr created, s') \<Rightarrow> (None, organization, s'))))"

definition depthError :: "Organization \<Rightarrow> go_error" where
  "depthError organization = Errorf ''organization hierarchy for %q exceeds max depth %d''
     [ArgS (org_Name organization), ArgInt (int maxHierarchyDepth)]"

text \<open>The loop of \<open>computeRootWalk\<close>, with the number of rounds it has left.\<close>

fun rootWalk :: "'s k8s \<Rightarrow> Organization \<Rightarrow> nat \<Rightarrow> Organization \<Rightarrow> 's \<Rightarrow> go_error + string" where
  "rootWalk c organization 0 cur s = Inl (depthError organization)"
| "rootWalk c organization (Suc rounds) cur s =
     (if org_Parent cur = '''' then Inr (org_Name cur)
      else (case Get (organizations c) (cluster_key (org_Parent cur)) s of
              Inl err \<Rightarrow> Inl (ApiError err)
            | Inr parent \<Rightarrow> rootWalk c organization rounds parent s))"

definition computeRootWalk :: "'s k8s \<Rightarrow> Organization \<Rightarrow> 's \<Rightarrow> go_error + string" where
  "computeRootWalk c organization s = rootWalk c organization maxHierarchyDepth organization s"

definition set_Root :: "string \<Rightarrow> Organization \<Rightarrow> Organization" where
  "set_Root root organization =
     organization\<lparr>org_Status := (org_Status organization)\<lparr>ost_Root := root\<rparr>\<rparr>"

definition computeRoot :: "'s k8s \<Rightarrow> (Organization, 's) action" where
  "computeRoot c organization s =
     (case computeRootWalk c organization s of
        Inl err \<Rightarrow> (Some (Errorf ''failed to compute root: %w'' [ArgErr err]), organization, s)
      | Inr root \<Rightarrow>
          if org_Root organization \<noteq> root then (None, set_Root root organization, s)
          else (None, organization, s))"

definition NewOrganizationReconciler :: "'s k8s \<Rightarrow> (Organization, 's) registration" where
  "NewOrganizationReconciler c = \<lparr>reg_For = ''Organization'', reg_Owns = [''OrganizationProfile''],
     reg_Watches = [], reg_Actions = [computeRoot c, ensureProfile c], reg_FinalizerName = '''',
     reg_Finalizers = [], reg_Conditions = [ConditionTypeProvisioningSucceeded]\<rparr>"


section \<open>The walk finds the root\<close>

text \<open>A walk over at most \<open>k\<close> parent links meets a parent that is not stored.\<close>

fun dangling_within :: "org_view \<Rightarrow> nat \<Rightarrow> Organization \<Rightarrow> bool" where
  "dangling_within V 0 x = False"
| "dangling_within V (Suc k) x \<longleftrightarrow> org_Parent x \<noteq> '''' \<and>
     (case V (cluster_key (org_Parent x)) of None \<Rightarrow> True | Some p \<Rightarrow> dangling_within V k p)"

locale organization_tree = object_reader "Get (organizations c)" oview
  for c :: "'s k8s" and oview
begin

lemma rootWalk_sound:
  assumes "well_keyed org_Meta (oview s)" and "rootWalk c organization k cur s = Inr r"
  shows "\<exists>ns. lineage_of (oview s) cur ns \<and> length ns \<le> k \<and> r = last ns"
  using assms(2)
proof (induction k arbitrary: cur)
  case (Suc k)
  show ?case
  proof (cases "org_Parent cur = ''''")
    case True
    with Suc.prems show ?thesis by (auto simp: lineage_of_def)
  next
    case False
    with Suc.prems obtain p where p: "Get (organizations c) (cluster_key (org_Parent cur)) s = Inr p"
      "rootWalk c organization k p s = Inr r"
      by (auto split: sum.splits)
    from Suc.IH [OF p(2)] obtain ns where ns: "lineage_of (oview s) p ns" "length ns \<le> k" "r = last ns"
      by blast
    have "lineage_of (oview s) cur (org_Name cur # ns)"
      using lineage_of_parent [OF False get_found [OF p(1)] assms(1)] ns(1) by blast
    with ns lineage_of_nonempty [OF ns(1)] show ?thesis by (intro exI [of _ "org_Name cur # ns"]) simp
  qed
qed simp

end

locale reliable_organization_tree = reliable_reader "Get (organizations c)" oview
  for c :: "'s k8s" and oview
begin

sublocale organization_tree c oview ..

lemma rootWalk_complete:
  assumes "well_keyed org_Meta (oview s)" and "lineage_of (oview s) cur ns" and "length ns \<le> k"
  shows "rootWalk c organization k cur s = Inr (last ns)"
  using assms(2,3)
proof (induction k arbitrary: cur ns)
  case 0
  then show ?case using lineage_of_nonempty by auto
next
  case (Suc k)
  show ?case
  proof (cases "org_Parent cur = ''''")
    case True
    with Suc.prems show ?thesis by (simp add: lineage_of_def)
  next
    case False
    then obtain p where p: "oview s (cluster_key (org_Parent cur)) = Some p"
      using Suc.prems(1) lineage_of_dangling [OF False, of "oview s" ns] by fastforce
    then obtain ms where ms: "ns = org_Name cur # ms" "lineage_of (oview s) p ms"
      using lineage_of_parent [OF False p assms(1)] Suc.prems(1) by blast
    have "rootWalk c organization k p s = Inr (last ms)"
      using Suc.IH [OF ms(2)] Suc.prems(2) ms(1) by simp
    with False p ms lineage_of_nonempty [OF ms(2)] show ?thesis by (simp add: get_eq)
  qed
qed

lemma rootWalk_fails_iff:
  "rootWalk c organization k cur s = Inl e \<longleftrightarrow>
     e = depthError organization \<and> ancestor_at (oview s) k cur \<noteq> None \<or>
     e = ApiError NotFound \<and> dangling_within (oview s) k cur"
  by (induction k arbitrary: cur) (auto simp: get_eq depthError_def split: option.split)

lemma rootWalk_iff:
  "well_keyed org_Meta (oview s) \<Longrightarrow> rootWalk c organization k cur s = Inr r \<longleftrightarrow>
     (\<exists>ns. lineage_of (oview s) cur ns \<and> length ns \<le> k \<and> r = last ns)"
  using rootWalk_sound rootWalk_complete by blast

end


section \<open>The profile\<close>

text \<open>What \<open>ensureProfile\<close> needs of the server: profiles it can read and create, and owner references.\<close>

locale profile_keeper =
  profile_reader: object_reader "Get (profiles c)" pview +
  profile_creator: object_creator pview rest prof_Meta profile_kept "Create (profiles c)" +
  owner_references "SetControllerReference c" "IsControlledBy c"
  for c :: "'s k8s" and pview and rest :: "'s \<Rightarrow> 'r"
begin

lemma ensureProfile_existing:
  assumes "ensureProfile c organization s = (err, organization', s')"
    and "pview s (cluster_key (org_Name organization)) = Some p"
  shows "s' = s"
  using assms profile_reader.get_missing [of "cluster_key (org_Name organization)" s]
  by (auto simp: ensureProfile_def split: sum.splits if_splits)

lemma ensureProfile_frame:
  assumes "ensureProfile c organization s = (err, organization', s')"
  shows "organization' = organization \<and> frame pview rest (cluster_key (org_Name organization)) s s'"
proof -
  have key: "key_of m = cluster_key (org_Name organization)"
    if "SetControllerReference c (owner_organization organization) (prof_Meta (defaultProfile organization)) = Inr m" for m
    using controller_set_fields(8) [OF that] by (simp add: defaultProfile_def key_of_def)
  have "frame pview rest (cluster_key (org_Name organization)) s t"
    if "SetControllerReference c (owner_organization organization) (prof_Meta (defaultProfile organization)) = Inr m"
      "Create (profiles c) ((defaultProfile organization)\<lparr>prof_Meta := m\<rparr>) s = (r, t)" for m r t
    using profile_creator.create_frame [OF that(2)] key [OF that(1)] by simp
  with assms show ?thesis
    by (auto simp: ensureProfile_def Let_def split: sum.splits if_splits prod.splits)
qed

lemma ensureProfile_created:
  assumes "ensureProfile c organization s = (None, organization', s')"
    and "pview s (cluster_key (org_Name organization)) = None"
  obtains p where "pview s' (cluster_key (org_Name organization)) = Some p"
    and "prof_Spec p = prof_Spec (defaultProfile organization)"
    and "om_Labels (prof_Meta p) organizationLabel = Some (org_Name organization)"
    and "om_Labels (prof_Meta p) organizationRootLabel = Some (org_Root organization)"
    and "IsControlledBy c (prof_Meta p) (org_Meta organization)"
proof -
  have "\<nexists>q. Get (profiles c) (cluster_key (org_Name organization)) s = Inr q"
    using assms(2) profile_reader.get_found by fastforce
  with assms(1) obtain m p where
    m: "SetControllerReference c (owner_organization organization) (prof_Meta (defaultProfile organization)) = Inr m"
    and created: "Create (profiles c) ((defaultProfile organization)\<lparr>prof_Meta := m\<rparr>) s = (Inr p, s')"
    by (auto simp: ensureProfile_def Let_def split: sum.splits if_splits prod.splits)
  note fields = controller_set_fields [OF m]
  have kept: "pview s' (key_of m) = Some p" "profile_kept ((defaultProfile organization)\<lparr>prof_Meta := m\<rparr>) p"
    using profile_creator.create_stored [OF created] by simp_all
  then have labels: "om_Labels (prof_Meta (defaultProfile organization)) \<subseteq>\<^sub>m om_Labels (prof_Meta p)"
    using fields by (simp add: profile_kept_def meta_kept_def)
  show ?thesis
  proof (rule that)
    show "pview s' (cluster_key (org_Name organization)) = Some p"
      using kept(1) fields(8) by (simp add: defaultProfile_def key_of_def)
    show "IsControlledBy c (prof_Meta p) (org_Meta organization)"
      using controller_set [OF m] kept(2) controlled_by_kept [of m] by (auto simp: profile_kept_def)
    show "om_Labels (prof_Meta p) organizationLabel = Some (org_Name organization)"
      by (rule map_le_lookup [OF labels])
        (simp add: defaultProfile_def organizationLabel_def organizationRootLabel_def)
    show "om_Labels (prof_Meta p) organizationRootLabel = Some (org_Root organization)"
      by (rule map_le_lookup [OF labels]) (simp add: defaultProfile_def)
  qed (use kept(2) in \<open>simp add: profile_kept_def\<close>)
qed

lemma ensureProfile_succeeded:
  assumes "ensureProfile c organization s = (None, organization', s')"
  shows "\<exists>p. pview s' (cluster_key (org_Name organization)) = Some p"
proof (cases "pview s (cluster_key (org_Name organization))")
  case None
  then show ?thesis using ensureProfile_created [OF assms] by metis
next
  case (Some p)
  then show ?thesis using ensureProfile_existing [OF assms] by simp
qed

end

section \<open>The reconciler\<close>

text \<open>The framework runs the actions on a server whose profiles are stored apart from the organizations.\<close>

locale organization_reconciler =
  action_runner run + organization_tree c oview + profile_keeper c pview rest
  for run :: "(Organization, 's) action list \<Rightarrow> (Organization, 's) action" and c oview pview and rest :: "'s \<Rightarrow> 'r" +
  assumes rest_organizations: "rest s' = rest s \<Longrightarrow> oview s' = oview s"
begin

lemma computeRoot_succeeded:
  assumes "computeRoot c organization s = (None, organization', s')" and "well_keyed org_Meta (oview s)"
  obtains ns where "s' = s" and "lineage_of (oview s) organization ns" and "length ns \<le> maxHierarchyDepth"
    and "organization' = set_Root (last ns) organization"
proof -
  from assms(1) obtain r where r: "rootWalk c organization maxHierarchyDepth organization s = Inr r"
    and result: "s' = s" "organization' = set_Root r organization"
    by (auto simp: computeRoot_def computeRootWalk_def set_Root_def split: sum.splits if_splits)
  from rootWalk_sound [OF assms(2) r] that result show ?thesis by blast
qed

lemma reconciled_organization:
  assumes "run (reg_Actions (NewOrganizationReconciler c)) organization s = (None, organization', s')"
    and "well_keyed org_Meta (oview s)"
  obtains ns where "lineage_of (oview s) organization ns" and "length ns \<le> maxHierarchyDepth"
    and "organization' = set_Root (last ns) organization"
    and "ensureProfile c organization' s = (None, organization', s')"
proof -
  obtain organization'' t where root: "computeRoot c organization s = (None, organization'', t)"
    and profile: "ensureProfile c organization'' t = (None, organization', s')"
    using assms(1) by (auto simp: NewOrganizationReconciler_def run_Cons run_done split: prod.splits option.splits)
  have "organization' = organization''" using ensureProfile_frame [OF profile] by simp
  then show ?thesis
    using computeRoot_succeeded [OF root assms(2)] profile that by metis
qed

lemma root_unknown:
  assumes "computeRootWalk c organization s = Inl e"
  shows "run (reg_Actions (NewOrganizationReconciler c)) organization s =
    (Some (Errorf ''failed to compute root: %w'' [ArgErr e]), organization, s)"
  using assms by (simp add: NewOrganizationReconciler_def run_Cons computeRoot_def)

end

lemma set_Root_simps [simp]:
  "org_Meta (set_Root r x) = org_Meta x" "org_Spec (set_Root r x) = org_Spec x" "org_Root (set_Root r x) = r"
  "lineage_of V (set_Root r x) ns = lineage_of V x ns" "set_Root r (set_Root q x) = set_Root r x"
  by (simp_all add: set_Root_def lineage_of_def)

locale reliable_organization_reconciler =
  organization_reconciler run c oview pview rest + reliable_organization_tree c oview +
  reliable_profiles: reliable_reader "Get (profiles c)" pview
  for run :: "(Organization, 's) action list \<Rightarrow> (Organization, 's) action" and c oview pview and rest :: "'s \<Rightarrow> 'r"
begin

lemma reconciled_again:
  assumes "run (reg_Actions (NewOrganizationReconciler c)) organization s = (None, organization', s')"
    and "well_keyed org_Meta (oview s)"
  shows "run (reg_Actions (NewOrganizationReconciler c)) organization' s' = (None, organization', s')"
proof -
  obtain ns where ns: "lineage_of (oview s) organization ns" "length ns \<le> maxHierarchyDepth"
      "organization' = set_Root (last ns) organization"
    and profile: "ensureProfile c organization' s = (None, organization', s')"
    using assms by (rule reconciled_organization)
  have "oview s' = oview s"
    using ensureProfile_frame [OF profile] rest_organizations frameD(2) by metis
  with ns assms(2) have "computeRootWalk c organization' s' = Inr (last ns)"
    unfolding computeRootWalk_def by (intro rootWalk_complete) simp_all
  then have "computeRoot c organization' s' = (None, organization', s')"
    using ns(3) by (simp add: computeRoot_def)
  moreover obtain p where "pview s' (cluster_key (org_Name organization')) = Some p"
    using ensureProfile_succeeded [OF profile] by blast
  then have "ensureProfile c organization' s' = (None, organization', s')"
    by (simp add: ensureProfile_def reliable_profiles.get_eq)
  ultimately show ?thesis
    by (simp add: NewOrganizationReconciler_def run_Cons run_done)
qed

end

interpretation mem_organization_tree: organization_tree "memory_server flt" "mem_view cl_organizations" for flt
  by (rule organization_tree.intro; simp; unfold_locales)

interpretation up_organization_tree: reliable_organization_tree server "mem_view cl_organizations"
  by (rule reliable_organization_tree.intro; simp; unfold_locales)

interpretation mem_profile_keeper: profile_keeper "memory_server flt" "mem_view cl_profiles" "mem_rest cl_profiles_update" for flt
  by (rule profile_keeper.intro; simp; unfold_locales)

lemma mem_rest_organizations:
  "mem_rest cl_profiles_update s' = mem_rest cl_profiles_update s \<Longrightarrow>
     mem_view cl_organizations s' = mem_view cl_organizations s"
  by (cases s, cases s') (simp add: mem_rest_def mem_view_def)

interpretation mem_organization_reconciler: organization_reconciler run_actions "memory_server flt"
  "mem_view cl_organizations" "mem_view cl_profiles" "mem_rest cl_profiles_update" for flt
  by unfold_locales (rule mem_rest_organizations)

interpretation up_organization_reconciler: reliable_organization_reconciler run_actions server
  "mem_view cl_organizations" "mem_view cl_profiles" "mem_rest cl_profiles_update"
  by (rule reliable_organization_reconciler.intro;
      (rule mem_organization_reconciler.organization_reconciler_axioms
         up_organization_tree.reliable_organization_tree_axioms)?; simp; unfold_locales)



section \<open>Properties\<close>

text \<open>The root computed for an organization is the last name of its lineage, and it is computed
  exactly for the organizations whose lineage has at most three members.\<close>

theorem root_walk_exact:
  assumes "reliable_organization_tree c oview" and "well_keyed org_Meta (oview s)"
  shows "computeRootWalk c organization s = Inr root \<longleftrightarrow>
    (\<exists>ns. lineage_of (oview s) organization ns \<and> length ns \<le> 3 \<and> root = last ns)"
  unfolding computeRootWalk_def maxHierarchyDepth_def
  by (rule reliable_organization_tree.rootWalk_iff [OF assms])

lemma demo_well_keyed: "well_keyed org_Meta (mem_view cl_organizations demo_cluster)"
  by (simp add: well_keyed_def keyed_def)

theorem root_walk_exact_witness:
  "computeRootWalk server (demo_org ''proteomics'' ''genomics'' '''') demo_cluster = Inr ''research-division'' \<and>
   (\<forall>root. computeRootWalk server (demo_org ''depth-04'' ''proteomics'' '''') demo_cluster \<noteq> Inr root)"
proof -
  let ?V = "mem_view cl_organizations demo_cluster"
  let ?child = "demo_org ''proteomics'' ''genomics'' ''''"
  let ?deep = "demo_org ''depth-04'' ''proteomics'' ''''"
  note exact = root_walk_exact [OF up_organization_tree.reliable_organization_tree_axioms demo_well_keyed]
  have child: "lineage_of ?V ?child [''proteomics'', ''genomics'', ''research-division'']"
    using demo_lineages(2) by (simp add: lineage_of_def)
  have "computeRootWalk server ?child demo_cluster = Inr ''research-division''"
    by (rule exact [THEN iffD2]) (intro exI conjI, rule child, simp_all)
  moreover have deep: "\<not> length ns \<le> 3" if "lineage_of ?V ?deep ns" for ns
    using that by (auto simp: lineage_of_def lineage_iff keyed_def)
  have "computeRootWalk server ?deep demo_cluster \<noteq> Inr root" for root
    using exact [THEN iffD1, of ?deep root] deep by blast
  ultimately show ?thesis by blast
qed

text \<open>C34: The walk always ends, and the two ways in which it can fail on a server that answers are told
  apart: the depth error if and only if three parent links all lead to stored organizations, which
  covers hierarchies deeper than three and cycles, and \<open>NotFound\<close> if and only if a parent on the
  way is not stored.\<close>

theorem root_walk_errors:
  assumes "reliable_organization_tree c oview"
  shows "computeRootWalk c organization s = Inl e \<longleftrightarrow>
    e = depthError organization \<and> ancestor_at (oview s) 3 organization \<noteq> None \<or>
    e = ApiError NotFound \<and> dangling_within (oview s) 3 organization"
  unfolding computeRootWalk_def maxHierarchyDepth_def
  by (rule reliable_organization_tree.rootWalk_fails_iff [OF assms])

theorem root_walk_errors_witness:
  "computeRootWalk server (demo_org ''depth-04'' ''proteomics'' '''') demo_cluster =
     Inl (depthError (demo_org ''depth-04'' ''proteomics'' '''')) \<and>
   computeRootWalk server (demo_org ''orphan'' ''no-such'' '''') demo_cluster = Inl (ApiError NotFound)"
  using root_walk_errors [OF up_organization_tree.reliable_organization_tree_axioms,
      of "demo_org ''depth-04'' ''proteomics'' ''''" demo_cluster]
    root_walk_errors [OF up_organization_tree.reliable_organization_tree_axioms,
      of "demo_org ''orphan'' ''no-such'' ''''" demo_cluster]
  by (simp add: numeral_3_eq_3 keyed_def)

text \<open>C13: A successful reconciliation of an organization leaves its root in the status and a profile
  under its name. A profile that was there before is the same as before; a new one is restrictive (no
  admins, tenant isolation, no projects), labelled with the organization and with the root just
  computed, and controlled by the organization. No other profile is touched. Calls may fail at any
  point.\<close>

theorem organization_reconciled:
  assumes "organization_reconciler run c oview pview rest" and "well_keyed org_Meta (oview s)"
    and "run (reg_Actions (NewOrganizationReconciler c)) organization s = (None, organization', s')"
  shows "\<exists>ns p. lineage_of (oview s) organization ns \<and> length ns \<le> 3 \<and> org_Root organization' = last ns \<and>
    frame pview rest (cluster_key (org_Name organization)) s s' \<and>
    pview s' (cluster_key (org_Name organization)) = Some p \<and>
    (pview s (cluster_key (org_Name organization)) = Some p \<or>
     pview s (cluster_key (org_Name organization)) = None \<and>
     prof_Organization p = org_Name organization \<and> prof_Admins p = [] \<and> prof_MaxProjects p = 0 \<and>
     pd_NetworkIsolation (ops_Defaults (prof_Spec p)) = ''tenant'' \<and>
     om_Labels (prof_Meta p) organizationLabel = Some (org_Name organization) \<and>
     om_Labels (prof_Meta p) organizationRootLabel = Some (last ns) \<and>
     IsControlledBy c (prof_Meta p) (org_Meta organization))"
proof -
  note keeper = organization_reconciler.axioms(3) [OF assms(1)]
  obtain ns where ns: "lineage_of (oview s) organization ns" "length ns \<le> maxHierarchyDepth"
      "organization' = set_Root (last ns) organization"
    and profile: "ensureProfile c organization' s = (None, organization', s')"
    using organization_reconciler.reconciled_organization [OF assms(1,3,2)] by blast
  have frame: "frame pview rest (cluster_key (org_Name organization)) s s'"
    using profile_keeper.ensureProfile_frame [OF keeper profile] ns(3) by simp
  show ?thesis
  proof (cases "pview s (cluster_key (org_Name organization))")
    case (Some p)
    have "s' = s"
      by (rule profile_keeper.ensureProfile_existing [OF keeper profile]) (use Some ns(3) in simp)
    with Some ns frame show ?thesis by (auto simp: maxHierarchyDepth_def)
  next
    case None
    then have missing: "pview s (cluster_key (org_Name organization')) = None" using ns(3) by simp
    obtain p where "pview s' (cluster_key (org_Name organization')) = Some p"
      "prof_Spec p = prof_Spec (defaultProfile organization')"
      "om_Labels (prof_Meta p) organizationLabel = Some (org_Name organization')"
      "om_Labels (prof_Meta p) organizationRootLabel = Some (org_Root organization')"
      "IsControlledBy c (prof_Meta p) (org_Meta organization')"
      using keeper profile missing by (rule profile_keeper.ensureProfile_created)
    with None ns frame show ?thesis by (auto simp: maxHierarchyDepth_def defaultProfile_def)
  qed
qed

theorem organization_reconciled_witness:
  "\<exists>organization' s' p. run_actions (reg_Actions (NewOrganizationReconciler server))
       (demo_org ''lipids'' ''genomics'' '''') demo_cluster = (None, organization', s') \<and>
     org_Root organization' = ''research-division'' \<and>
     mem_view cl_profiles s' (cluster_key ''lipids'') = Some p \<and>
     om_Labels (prof_Meta p) organizationRootLabel = Some ''research-division'' \<and> prof_MaxProjects p = 0"
proof -
  let ?run = "run_actions (reg_Actions (NewOrganizationReconciler server)) (demo_org ''lipids'' ''genomics'' '''') demo_cluster"
  have "fst ?run = None" by code_simp
  then obtain organization' s' where run: "?run = (None, organization', s')"
    by (cases ?run) auto
  have "lineage_of (mem_view cl_organizations demo_cluster) (demo_org ''lipids'' ''genomics'' '''') ns \<Longrightarrow>
      last ns = ''research-division''" for ns
    by (auto simp: lineage_of_def lineage_iff keyed_def)
  moreover have "mem_view cl_profiles demo_cluster (cluster_key ''lipids'') = None"
    by (simp add: keyed_def)
  ultimately show ?thesis
    using organization_reconciled [OF mem_organization_reconciler.organization_reconciler_axioms demo_well_keyed run] run
    by (fastforce simp del: demo_views)
qed

text \<open>When the root cannot be computed, reconciliation stops before the profile: the error is
  returned and neither the organization nor the server is changed.\<close>

theorem unknown_root_creates_nothing:
  assumes "organization_reconciler run c oview pview rest" and "computeRootWalk c organization s = Inl e"
  shows "run (reg_Actions (NewOrganizationReconciler c)) organization s =
    (Some (Errorf ''failed to compute root: %w'' [ArgErr e]), organization, s)"
  using assms by (rule organization_reconciler.root_unknown)

theorem unknown_root_creates_nothing_witness:
  "snd (snd (run_actions (reg_Actions (NewOrganizationReconciler server))
     (demo_org ''depth-04'' ''proteomics'' '''') demo_cluster)) = demo_cluster"
proof -
  have "computeRootWalk server (demo_org ''depth-04'' ''proteomics'' '''') demo_cluster =
      Inl (depthError (demo_org ''depth-04'' ''proteomics'' ''''))"
    by (simp add: computeRootWalk_def maxHierarchyDepth_def numeral_3_eq_3 mem_get_def demo_cluster_def keyed_def)
  from unknown_root_creates_nothing [OF mem_organization_reconciler.organization_reconciler_axioms this]
  show ?thesis by simp
qed

text \<open>C29: Reconciliation converges: run again on its own result, it succeeds and changes nothing.\<close>

theorem organization_reconciled_once:
  assumes "reliable_organization_reconciler run c oview pview rest" and "well_keyed org_Meta (oview s)"
    and "run (reg_Actions (NewOrganizationReconciler c)) organization s = (None, organization', s')"
  shows "run (reg_Actions (NewOrganizationReconciler c)) organization' s' = (None, organization', s')"
  using reliable_organization_reconciler.reconciled_again [OF assms(1,3,2)] .

theorem organization_reconciled_once_witness:
  "\<exists>organization' s'. run_actions (reg_Actions (NewOrganizationReconciler server))
       (demo_org ''lipids'' ''genomics'' '''') demo_cluster = (None, organization', s') \<and>
     run_actions (reg_Actions (NewOrganizationReconciler server)) organization' s' = (None, organization', s')"
proof -
  let ?run = "run_actions (reg_Actions (NewOrganizationReconciler server)) (demo_org ''lipids'' ''genomics'' '''') demo_cluster"
  have "fst ?run = None" by code_simp
  then obtain organization' s' where run: "?run = (None, organization', s')"
    by (cases ?run) auto
  with organization_reconciled_once
    [OF up_organization_reconciler.reliable_organization_reconciler_axioms demo_well_keyed run]
  show ?thesis by blast
qed

end
