(* ===== verification/Project_Request.thy ===== *)
theory Project_Request
  imports Reconciler Demo_Cluster
begin

text \<open>
  The request of an OrganizationProject reconciliation and the state its actions share
  (\<open>organizationproject_controller_actions.go\<close>, first part). The framework's request carries
  the instance and a map of extensions; the actions keep a pointer to a
  \<open>reconciliationState\<close> in it. Reading through the pointer is \<open>stateFor\<close>, which
  creates the state when the map has none, and writing through it is \<open>save_state\<close>.
\<close>

definition labelOrganization :: string where
  "labelOrganization = ''organization.opendatahub.io/name''"

definition labelOrganizationRoot :: string where
  "labelOrganizationRoot = ''organization.opendatahub.io/root''"

definition reconciliationStateKey :: string where
  "reconciliationStateKey = ''organization.opendatahub.io/organizationproject-state''"

record reconciliationState =
  rst_organization :: "Organization option"
  rst_namespace :: "CoreNamespace option"
  rst_isolation :: string

definition zero_state :: reconciliationState where
  "zero_state = \<lparr>rst_organization = None, rst_namespace = None, rst_isolation = ''''\<rparr>"

text \<open>An extension is a value of any type; the type assertion succeeds on a state only.\<close>

datatype extension = StateExtension reconciliationState | ForeignExtension

record ReconciliationRequest =
  rr_Instance :: OrganizationProject
  rr_Extensions :: "(string \<rightharpoonup> extension) option"

definition stateFor :: "ReconciliationRequest \<Rightarrow> reconciliationState \<times> ReconciliationRequest" where
  "stateFor rr =
     (let exts = (case rr_Extensions rr of None \<Rightarrow> Map.empty | Some exts \<Rightarrow> exts) in
      case exts reconciliationStateKey of
        Some (StateExtension state) \<Rightarrow> (state, rr\<lparr>rr_Extensions := Some exts\<rparr>)
      | _ \<Rightarrow> (zero_state,
              rr\<lparr>rr_Extensions := Some (exts(reconciliationStateKey \<mapsto> StateExtension zero_state))\<rparr>))"

definition save_state :: "reconciliationState \<Rightarrow> ReconciliationRequest \<Rightarrow> ReconciliationRequest" where
  "save_state state rr =
     rr\<lparr>rr_Extensions := Some ((case rr_Extensions rr of None \<Rightarrow> Map.empty | Some exts \<Rightarrow> exts)
       (reconciliationStateKey \<mapsto> StateExtension state))\<rparr>"

abbreviation state_of :: "ReconciliationRequest \<Rightarrow> reconciliationState" where
  "state_of rr \<equiv> fst (stateFor rr)"

lemma stateFor_instance [simp]: "rr_Instance (snd (stateFor rr)) = rr_Instance rr"
  by (auto simp: stateFor_def Let_def split: option.splits extension.splits)

lemma stateFor_again [simp]: "state_of (snd (stateFor rr)) = state_of rr"
  by (auto simp: stateFor_def Let_def split: option.splits extension.splits)

lemma save_state_simps [simp]:
  "state_of (save_state st rr) = st" "rr_Instance (save_state st rr) = rr_Instance rr"
  by (auto simp: save_state_def stateFor_def Let_def split: option.splits)

lemma state_of_instance [simp]: "state_of (rr\<lparr>rr_Instance := p\<rparr>) = state_of rr"
  by (auto simp: stateFor_def Let_def split: option.splits extension.splits)


text \<open>The namespace of the demo project.\<close>

definition demo_namespace :: CoreNamespace where
  "demo_namespace = \<lparr>ns_Meta = (named '''' ''genomics-analysis'')\<lparr>om_UID := ''ns-genomics-analysis'',
     om_Labels := [labelOrganization \<mapsto> ''genomics'', labelOrganizationRoot \<mapsto> ''research-division'']\<rparr>\<rparr>"

end
