(* ===== verification/Project_Actions.thy ===== *)
theory Project_Actions
  imports Project_Request
begin

text \<open>
  The first actions of the OrganizationProject reconciler: the check of the parent organization
  and the effective isolation (\<open>organizationproject_controller_actions.go\<close>), and the
  namespace (\<open>organizationproject_controller_namespace.go\<close>).
\<close>

section \<open>Organization and isolation\<close>

definition validateParentOrganization :: "'s k8s \<Rightarrow> (ReconciliationRequest, 's) action" where
  "validateParentOrganization c rr s =
     (let project = rr_Instance rr in
      case Get (organizations c) (cluster_key (proj_Organization project)) s of
        Inl err \<Rightarrow> (Some (Errorf ''failed to get organization: %w'' [ArgErr (ApiError err)]), rr, s)
      | Inr organization \<Rightarrow>
          if org_Root organization = ''''
          then (Some (StopError ''organization %q not yet reconciled (missing root)''
                       [ArgS (proj_Organization project)] 10), rr, s)
          else (let (state, rr') = stateFor rr in
                (None, save_state (state\<lparr>rst_organization := Some organization\<rparr>) rr', s)))"

definition effectiveIsolation :: "'s k8s \<Rightarrow> OrganizationProject \<Rightarrow> 's \<Rightarrow> string" where
  "effectiveIsolation c project s =
     (if prs_NetworkIsolation (proj_Spec project) \<noteq> '''' then prs_NetworkIsolation (proj_Spec project)
      else (case Get (profiles c) (cluster_key (proj_Organization project)) s of
              Inr profile \<Rightarrow>
                if pd_NetworkIsolation (ops_Defaults (prof_Spec profile)) \<noteq> ''''
                then pd_NetworkIsolation (ops_Defaults (prof_Spec profile)) else ''tenant''
            | Inl _ \<Rightarrow> ''tenant''))"

definition computeEffectiveIsolation :: "'s k8s \<Rightarrow> (ReconciliationRequest, 's) action" where
  "computeEffectiveIsolation c rr s =
     (let project = rr_Instance rr;
          isolation = effectiveIsolation c project s;
          (state, rr') = stateFor rr
      in (None, save_state (state\<lparr>rst_isolation := isolation\<rparr>) rr', s))"


section \<open>The namespace\<close>

text \<open>The mutation handed to \<open>CreateOrUpdate\<close>; writing to a \<open>nil\<close> map of labels is guarded in the
  source by making one, so a label is always added.\<close>

definition mutateNamespace :: "'s k8s \<Rightarrow> OrganizationProject \<Rightarrow> Organization \<Rightarrow> CoreNamespace \<Rightarrow> go_error + CoreNamespace" where
  "mutateNamespace c project organization ns =
     (let m = (ns_Meta ns)\<lparr>om_Labels := (om_Labels (ns_Meta ns))
        (labelOrganization \<mapsto> proj_Organization project, labelOrganizationRoot \<mapsto> org_Root organization)\<rparr> in
      case SetControllerReference c (owner_project project) m of
        Inl err \<Rightarrow> Inl err
      | Inr m' \<Rightarrow> Inr (ns\<lparr>ns_Meta := m'\<rparr>))"

definition set_Namespace :: "string \<Rightarrow> OrganizationProject \<Rightarrow> OrganizationProject" where
  "set_Namespace nsName project = project\<lparr>proj_Status := (proj_Status project)\<lparr>prst_Namespace := nsName\<rparr>\<rparr>"

definition ensureNamespace :: "'s k8s \<Rightarrow> (ReconciliationRequest, 's) action" where
  "ensureNamespace c rr s =
     (let project = rr_Instance rr; (state, rr1) = stateFor rr in
      case rst_organization state of
        None \<Rightarrow> (Some (Errorf ''organization not found in reconciliation state'' []), rr1, s)
      | Some organization \<Rightarrow>
          (let nsName = proj_Name project; ns = \<lparr>ns_Meta = named '''' nsName\<rparr> in
           case CreateOrUpdate (namespaces c) ns (mutateNamespace c project organization) s of
             (Inl err, s') \<Rightarrow> (Some err, rr1, s')
           | (Inr ns', s') \<Rightarrow>
               (let rr2 = save_state (state\<lparr>rst_namespace := Some ns'\<rparr>) rr1 in
                (None,
                 if prst_Namespace (proj_Status project) \<noteq> nsName
                 then rr2\<lparr>rr_Instance := set_Namespace nsName project\<rparr> else rr2,
                 s'))))"



section \<open>What the actions leave behind\<close>

lemma set_Namespace_simps [simp]:
  "proj_Meta (set_Namespace n p) = proj_Meta p" "proj_Spec (set_Namespace n p) = proj_Spec p"
  "prst_Namespace (proj_Status (set_Namespace n p)) = n"
  by (simp_all add: set_Namespace_def)

lemma set_Namespace_id: "prst_Namespace (proj_Status p) = n \<Longrightarrow> set_Namespace n p = p"
  by (simp add: set_Namespace_def)

lemma labels_distinct [simp]: "labelOrganization \<noteq> labelOrganizationRoot" "labelOrganizationRoot \<noteq> labelOrganization"
  by (simp_all add: labelOrganization_def labelOrganizationRoot_def)

text \<open>The first two actions write nothing to the server.\<close>

lemma validateParentOrganization_state:
  assumes "validateParentOrganization c rr s = (err, rr', s')"
  shows "s' = s \<and> rr_Instance rr' = rr_Instance rr"
proof -
  obtain st rr1 where "stateFor rr = (st, rr1)" by fastforce
  then show ?thesis
    using assms stateFor_instance [of rr]
    by (auto simp: validateParentOrganization_def Let_def split: sum.splits if_splits)
qed

lemma validateParentOrganization_succeeded:
  assumes "validateParentOrganization c rr s = (None, rr', s')"
  obtains organization where "Get (organizations c) (cluster_key (proj_Organization (rr_Instance rr))) s = Inr organization"
    and "org_Root organization \<noteq> ''''" and "state_of rr' = (state_of rr)\<lparr>rst_organization := Some organization\<rparr>"
proof -
  obtain st rr1 where "stateFor rr = (st, rr1)" by fastforce
  with assms that show ?thesis
    by (auto simp: validateParentOrganization_def Let_def split: sum.splits if_splits)
qed

lemma computeEffectiveIsolation_succeeded:
  assumes "computeEffectiveIsolation c rr s = (err, rr', s')"
  shows "err = None \<and> s' = s \<and> rr_Instance rr' = rr_Instance rr \<and>
    state_of rr' = (state_of rr)\<lparr>rst_isolation := effectiveIsolation c (rr_Instance rr) s\<rparr>"
proof -
  obtain st rr1 where "stateFor rr = (st, rr1)" by fastforce
  then show ?thesis
    using assms stateFor_instance [of rr] by (auto simp: computeEffectiveIsolation_def Let_def)
qed

lemma effectiveIsolation_not_empty: "effectiveIsolation c project s \<noteq> ''''"
  by (auto simp: effectiveIsolation_def split: sum.split)

locale namespace_server =
  ns_applier: object_applier nview rest ns_Meta namespace_kept "CreateOrUpdate (namespaces c)" +
  owner_references "SetControllerReference c" "IsControlledBy c"
  for c :: "'s k8s" and nview and rest :: "'s \<Rightarrow> 'r"
begin

lemma mutateNamespace_kept:
  assumes "mutateNamespace c project organization ns = Inr n" and "namespace_kept n ns'"
  shows "key_of (ns_Meta ns') = key_of (ns_Meta ns) \<and> IsControlledBy c (ns_Meta ns') (proj_Meta project) \<and>
    (om_Labels (ns_Meta ns))(labelOrganization \<mapsto> proj_Organization project, labelOrganizationRoot \<mapsto> org_Root organization)
      \<subseteq>\<^sub>m om_Labels (ns_Meta ns')"
proof -
  let ?m = "(ns_Meta ns)\<lparr>om_Labels := (om_Labels (ns_Meta ns))
    (labelOrganization \<mapsto> proj_Organization project, labelOrganizationRoot \<mapsto> org_Root organization)\<rparr>"
  from assms(1) obtain m where m: "SetControllerReference c (owner_project project) ?m = Inr m" and n: "n = ns\<lparr>ns_Meta := m\<rparr>"
    by (auto simp: mutateNamespace_def split: sum.splits)
  have "IsControlledBy c m (proj_Meta project)" using controller_set [OF m] by simp
  then have "IsControlledBy c (ns_Meta ns') (proj_Meta project)"
    using assms(2) n controlled_by_kept [of m "ns_Meta ns'"] by (simp add: namespace_kept_def)
  then show ?thesis
    using assms(2) n controller_set_fields [OF m] by (simp add: namespace_kept_def meta_kept_def key_of_def)
qed

lemma ensureNamespace_frame:
  assumes "ensureNamespace c rr s = (err, rr', s')"
  shows "frame nview rest (cluster_key (proj_Name (rr_Instance rr))) s s' \<and>
    proj_Meta (rr_Instance rr') = proj_Meta (rr_Instance rr) \<and> proj_Spec (rr_Instance rr') = proj_Spec (rr_Instance rr)"
proof -
  obtain st rr1 where st: "stateFor rr = (st, rr1)" by fastforce
  then have "rr_Instance rr1 = rr_Instance rr" using stateFor_instance [of rr] by simp
  moreover have "frame nview rest (cluster_key (proj_Name (rr_Instance rr))) s t"
    if "CreateOrUpdate (namespaces c) \<lparr>ns_Meta = named '''' (proj_Name (rr_Instance rr))\<rparr> f s = (r, t)" for f r t
    using ns_applier.apply_frame [OF that] by simp
  ultimately show ?thesis
    using assms st by (auto simp: ensureNamespace_def Let_def split: option.splits sum.splits prod.splits if_splits)
qed

lemma ensureNamespace_keyed:
  assumes "ensureNamespace c rr s = (err, rr', s')" and "well_keyed ns_Meta (nview s)"
  shows "well_keyed ns_Meta (nview s')"
proof -
  obtain st rr1 where st: "stateFor rr = (st, rr1)" by fastforce
  have "well_keyed ns_Meta (nview t)" if "CreateOrUpdate (namespaces c) ns (mutateNamespace c project organization) s = (r, t)"
    for ns project organization r t
    by (rule ns_applier.apply_keyed [OF that assms(2)]) (use mutateNamespace_kept in blast)
  then show ?thesis
    using assms st by (auto simp: ensureNamespace_def Let_def split: option.splits sum.splits prod.splits if_splits)
qed

lemma ensureNamespace_succeeded:
  assumes "ensureNamespace c rr s = (None, rr', s')" and "well_keyed ns_Meta (nview s)"
  obtains organization ns where "rst_organization (state_of rr) = Some organization"
    and "state_of rr' = (state_of rr)\<lparr>rst_namespace := Some ns\<rparr>"
    and "rr_Instance rr' = set_Namespace (proj_Name (rr_Instance rr)) (rr_Instance rr)"
    and "nview s' (cluster_key (proj_Name (rr_Instance rr))) = Some ns"
    and "key_of (ns_Meta ns) = cluster_key (proj_Name (rr_Instance rr))"
    and "IsControlledBy c (ns_Meta ns) (proj_Meta (rr_Instance rr))"
    and "om_Labels (ns_Meta ns) labelOrganization = Some (proj_Organization (rr_Instance rr))"
    and "om_Labels (ns_Meta ns) labelOrganizationRoot = Some (org_Root organization)"
proof -
  obtain st rr1 where st: "stateFor rr = (st, rr1)" by fastforce
  then have rr1: "rr_Instance rr1 = rr_Instance rr" "state_of rr1 = st"
    using stateFor_instance [of rr] stateFor_again [of rr] by simp_all
  let ?n = "proj_Name (rr_Instance rr)"
  let ?ns = "\<lparr>ns_Meta = named '''' ?n\<rparr>"
  obtain organization ns where org: "rst_organization st = Some organization"
    and call: "CreateOrUpdate (namespaces c) ?ns (mutateNamespace c (rr_Instance rr) organization) s = (Inr ns, s')"
    and rr': "rr' = (if prst_Namespace (proj_Status (rr_Instance rr)) \<noteq> ?n
        then (save_state (st\<lparr>rst_namespace := Some ns\<rparr>) rr1)\<lparr>rr_Instance := set_Namespace ?n (rr_Instance rr)\<rparr>
        else save_state (st\<lparr>rst_namespace := Some ns\<rparr>) rr1)"
    using assms(1) st by (auto simp: ensureNamespace_def Let_def split: option.splits sum.splits prod.splits)
  obtain n where n: "mutateNamespace c (rr_Instance rr) organization (present nview ns_Meta ?ns s) = Inr n"
    "namespace_kept n ns" and stored: "nview s' (key_of (ns_Meta ?ns)) = Some ns"
    using ns_applier.apply_stored [OF call] by blast
  have present: "key_of (ns_Meta (present nview ns_Meta ?ns s)) = cluster_key ?n"
  proof (cases "nview s (cluster_key ?n)")
    case (Some x)
    then show ?thesis using well_keyedD [OF assms(2) Some] by (simp add: present_def)
  qed (simp add: present_def)
  note kept = mutateNamespace_kept [OF n]
  then have labels: "(om_Labels (ns_Meta (present nview ns_Meta ?ns s)))
      (labelOrganization \<mapsto> proj_Organization (rr_Instance rr), labelOrganizationRoot \<mapsto> org_Root organization)
        \<subseteq>\<^sub>m om_Labels (ns_Meta ns)" by blast
  show ?thesis
  proof (rule that [of organization ns])
    show "om_Labels (ns_Meta ns) labelOrganization = Some (proj_Organization (rr_Instance rr))"
      by (rule map_le_lookup [OF labels]) simp
    show "om_Labels (ns_Meta ns) labelOrganizationRoot = Some (org_Root organization)"
      by (rule map_le_lookup [OF labels]) simp
    show "rr_Instance rr' = set_Namespace ?n (rr_Instance rr)"
      using rr' rr1 set_Namespace_id [of "rr_Instance rr" ?n] by simp
  qed (use org st rr' rr1 stored kept present in simp_all)
qed

text \<open>A namespace that another object controls, by group, kind and name, is left alone.\<close>

lemma ensureNamespace_refused:
  assumes "ensureNamespace c rr s = (err, rr', s')" and "nview s (cluster_key (proj_Name (rr_Instance rr))) = Some ns"
    and "controller_of (ns_Meta ns) = Some r" and "\<not> same_object (owner_project (rr_Instance rr)) r"
  shows "err \<noteq> None \<and> s' = s"
proof (cases "rst_organization (state_of rr)")
  case None
  then show ?thesis using assms(1) by (auto simp: ensureNamespace_def Let_def split: prod.splits option.splits)
next
  case (Some organization)
  let ?ns = "\<lparr>ns_Meta = named '''' (proj_Name (rr_Instance rr))\<rparr>"
  let ?m = "(ns_Meta ns)\<lparr>om_Labels := (om_Labels (ns_Meta ns))
    (labelOrganization \<mapsto> proj_Organization (rr_Instance rr), labelOrganizationRoot \<mapsto> org_Root organization)\<rparr>"
  have "controller_of ?m = Some r" using assms(3) by (simp add: controller_of_def)
  then obtain e where "SetControllerReference c (owner_project (rr_Instance rr)) ?m = Inl e"
    using controller_refused [OF _ assms(4)] by blast
  then have "mutateNamespace c (rr_Instance rr) organization (present nview ns_Meta ?ns s) = Inl e"
    using assms(2) by (simp add: mutateNamespace_def present_def)
  then have "\<exists>e'. CreateOrUpdate (namespaces c) ?ns (mutateNamespace c (rr_Instance rr) organization) s = (Inl e', s)"
    by (rule ns_applier.apply_refused [of "mutateNamespace c (rr_Instance rr) organization" ?ns s e])
  with Some assms(1) show ?thesis
    by (auto simp: ensureNamespace_def Let_def split: prod.splits option.splits)
qed

end

interpretation mem_namespace: namespace_server "memory_server flt" "mem_view cl_namespaces" "mem_rest cl_namespaces_update" for flt
  by (rule namespace_server.intro; simp; unfold_locales)

end
