(* ===== verification/Project_Rbac.thy ===== *)
theory Project_Rbac
  imports Project_Request
begin

text \<open>
  \<open>organizationproject_controller_rbac.go\<close>: the role bindings of a project's namespace. For
  each of the two roles the action writes a binding with the users of that role, or deletes the
  binding when there are none.
\<close>

section \<open>The role bindings\<close>

definition rbacGroupName :: string where
  "rbacGroupName = ''rbac.authorization.k8s.io''"

fun subjectsForRole :: "ProjectUser list \<Rightarrow> string \<Rightarrow> RbacSubject list" where
  "subjectsForRole [] role = []"
| "subjectsForRole (u # us) role =
     (if pu_Role u \<noteq> role then subjectsForRole us role
      else (let s = \<lparr>rs_Kind = pu_Kind u, rs_APIGroup = '''', rs_Name = pu_Name u, rs_Namespace = ''''\<rparr>;
                s' = (if pu_Kind u = ''ServiceAccount'' then s\<lparr>rs_Namespace := pu_Namespace u\<rparr>
                      else s\<lparr>rs_APIGroup := rbacGroupName\<rparr>)
            in s' # subjectsForRole us role))"

definition zero_RoleRef :: RoleRef where
  "zero_RoleRef = \<lparr>rref_APIGroup = '''', rref_Kind = '''', rref_Name = ''''\<rparr>"

definition clusterRole :: "string \<Rightarrow> RoleRef" where
  "clusterRole role = \<lparr>rref_APIGroup = rbacGroupName, rref_Kind = ''ClusterRole'', rref_Name = role\<rparr>"

definition bindingFor :: "CoreNamespace \<Rightarrow> string \<Rightarrow> RoleBinding" where
  "bindingFor ns role = \<lparr>rb_Meta = named (om_Name (ns_Meta ns)) (''tenant-'' @ role),
     rb_RoleRef = zero_RoleRef, rb_Subjects = []\<rparr>"

definition mutateBinding :: "'s k8s \<Rightarrow> CoreNamespace \<Rightarrow> string \<Rightarrow> RbacSubject list \<Rightarrow> RoleBinding \<Rightarrow> go_error + RoleBinding" where
  "mutateBinding c ns role subjects rb =
     (let rb' = rb\<lparr>rb_RoleRef := clusterRole role, rb_Subjects := subjects\<rparr> in
      case SetControllerReference c (owner_namespace ns) (rb_Meta rb') of
        Inl err \<Rightarrow> Inl err
      | Inr m \<Rightarrow> Inr (rb'\<lparr>rb_Meta := m\<rparr>))"

text \<open>The body of the loop over the roles, and the loop.\<close>

definition ensureRole :: "'s k8s \<Rightarrow> CoreNamespace \<Rightarrow> ProjectUser list \<Rightarrow> string \<Rightarrow> 's \<Rightarrow> error_result \<times> 's" where
  "ensureRole c ns users role s =
     (let subjects = subjectsForRole users role; rb = bindingFor ns role in
      if subjects = []
      then (case Delete (rolebindings c) rb s of
              (Inl err, s') \<Rightarrow> if err = NotFound then (None, s') else (Some (ApiError err), s')
            | (Inr (), s') \<Rightarrow> (None, s'))
      else (case CreateOrUpdate (rolebindings c) rb (mutateBinding c ns role subjects) s of
              (Inl err, s') \<Rightarrow> (Some err, s')
            | (Inr _, s') \<Rightarrow> (None, s')))"

fun ensureRoles :: "'s k8s \<Rightarrow> CoreNamespace \<Rightarrow> ProjectUser list \<Rightarrow> string list \<Rightarrow> 's \<Rightarrow> error_result \<times> 's" where
  "ensureRoles c ns users [] s = (None, s)"
| "ensureRoles c ns users (role # roles) s =
     (case ensureRole c ns users role s of
        (Some err, s') \<Rightarrow> (Some err, s')
      | (None, s') \<Rightarrow> ensureRoles c ns users roles s')"

definition ensureRBAC :: "'s k8s \<Rightarrow> (ReconciliationRequest, 's) action" where
  "ensureRBAC c rr s =
     (let project = rr_Instance rr; (state, rr') = stateFor rr in
      case rst_namespace state of
        None \<Rightarrow> (Some (Errorf ''namespace not found in reconciliation state'' []), rr', s)
      | Some ns \<Rightarrow>
          (let (err, s') = ensureRoles c ns (prs_Users (proj_Spec project)) [''edit'', ''view''] s
           in (err, rr', s')))"



section \<open>What the bindings grant\<close>

text \<open>The subject a project user stands for.\<close>

definition rbac_subject :: "ProjectUser \<Rightarrow> RbacSubject" where
  "rbac_subject u =
     (if pu_Kind u = ''ServiceAccount''
      then \<lparr>rs_Kind = ''ServiceAccount'', rs_APIGroup = '''', rs_Name = pu_Name u, rs_Namespace = pu_Namespace u\<rparr>
      else \<lparr>rs_Kind = pu_Kind u, rs_APIGroup = rbacGroupName, rs_Name = pu_Name u, rs_Namespace = ''''\<rparr>)"

lemma subjectsForRole_eq: "subjectsForRole us role = map rbac_subject (filter (\<lambda>u. pu_Role u = role) us)"
  by (induction us role rule: subjectsForRole.induct) (auto simp: rbac_subject_def Let_def)

text \<open>The binding of a role is as the users require it.\<close>

definition role_bound :: "'s k8s \<Rightarrow> CoreNamespace \<Rightarrow> ProjectUser list \<Rightarrow> ('s \<Rightarrow> ObjectKey \<rightharpoonup> RoleBinding) \<Rightarrow> 's \<Rightarrow> string \<Rightarrow> bool" where
  "role_bound c ns users bview s role \<longleftrightarrow>
     (let k = (om_Name (ns_Meta ns), ''tenant-'' @ role); subjects = map rbac_subject (filter (\<lambda>u. pu_Role u = role) users) in
      if subjects = [] then gone bview rb_Meta k s
      else (\<exists>b. bview s k = Some b \<and> rb_RoleRef b = clusterRole role \<and> rb_Subjects b = subjects \<and>
              IsControlledBy c (rb_Meta b) (ns_Meta ns)))"

lemma role_bound_view: "bview s' = bview s \<Longrightarrow> role_bound c ns users bview s' role = role_bound c ns users bview s role"
  by (simp only: role_bound_def gone_def)

locale rbac_server =
  rb_applier: object_applier bview rest rb_Meta rolebinding_kept "CreateOrUpdate (rolebindings c)" +
  rb_deleter: object_deleter bview rest rb_Meta rolebinding_kept "Delete (rolebindings c)" +
  owner_references "SetControllerReference c" "IsControlledBy c"
  for c :: "'s k8s" and bview and rest :: "'s \<Rightarrow> 'r"
begin

lemma bindingFor_key: "key_of (rb_Meta (bindingFor ns role)) = (om_Name (ns_Meta ns), ''tenant-'' @ role)"
  by (simp add: bindingFor_def)

lemma mutateBinding_kept:
  assumes "mutateBinding c ns role subjects rb = Inr q" and "rolebinding_kept q b"
  shows "rb_RoleRef b = clusterRole role \<and> rb_Subjects b = subjects \<and> IsControlledBy c (rb_Meta b) (ns_Meta ns) \<and>
    key_of (rb_Meta b) = key_of (rb_Meta rb)"
proof -
  from assms(1) obtain m where m: "SetControllerReference c (owner_namespace ns) (rb_Meta rb) = Inr m"
    and q: "q = rb\<lparr>rb_RoleRef := clusterRole role, rb_Subjects := subjects, rb_Meta := m\<rparr>"
    by (auto simp: mutateBinding_def split: sum.splits)
  have "IsControlledBy c m (ns_Meta ns)" using controller_set [OF m] by simp
  then show ?thesis
    using assms(2) q controlled_by_kept [of m "rb_Meta b"] controller_set_fields(8) [OF m]
    by (simp add: rolebinding_kept_def meta_kept_def)
qed

lemma ensureRole_frame:
  assumes "ensureRole c ns users role s = (err, s')"
  shows "frame bview rest (om_Name (ns_Meta ns), ''tenant-'' @ role) s s'"
proof (cases "subjectsForRole users role = []")
  case True
  obtain r t where r: "Delete (rolebindings c) (bindingFor ns role) s = (r, t)" by fastforce
  with True assms have "t = s'"
    by (auto simp: ensureRole_def Let_def split: sum.splits if_splits unit.splits)
  with rb_deleter.delete_frame [OF r] show ?thesis by (simp add: bindingFor_key)
next
  case False
  obtain r t where r: "CreateOrUpdate (rolebindings c) (bindingFor ns role)
      (mutateBinding c ns role (subjectsForRole users role)) s = (r, t)" by fastforce
  with False assms have "t = s'" by (auto simp: ensureRole_def Let_def split: sum.splits)
  with rb_applier.apply_frame [OF r] show ?thesis by (simp add: bindingFor_key)
qed

lemma ensureRole_keyed:
  assumes "ensureRole c ns users role s = (err, s')" and "well_keyed rb_Meta (bview s)"
  shows "well_keyed rb_Meta (bview s')"
proof (cases "subjectsForRole users role = []")
  case True
  obtain r t where r: "Delete (rolebindings c) (bindingFor ns role) s = (r, t)" by fastforce
  with True assms have "t = s'" by (auto simp: ensureRole_def Let_def split: sum.splits if_splits unit.splits)
  with rb_deleter.delete_keyed [OF r assms(2)] show ?thesis by (simp add: rolebinding_kept_def meta_kept_def)
next
  case False
  obtain r t where r: "CreateOrUpdate (rolebindings c) (bindingFor ns role)
      (mutateBinding c ns role (subjectsForRole users role)) s = (r, t)" by fastforce
  with False assms have "t = s'" by (auto simp: ensureRole_def Let_def split: sum.splits)
  moreover have "well_keyed rb_Meta (bview t)"
    by (rule rb_applier.apply_keyed [OF r assms(2)]) (use mutateBinding_kept in blast)
  ultimately show ?thesis by simp
qed

lemma ensureRBAC_keyed:
  assumes "ensureRBAC c rr s = (err, rr', s')" and "well_keyed rb_Meta (bview s)"
  shows "well_keyed rb_Meta (bview s')"
  using assms by (auto simp: ensureRBAC_def Let_def split: prod.splits option.splits dest: ensureRole_keyed)

lemma ensureRole_bound:
  assumes "ensureRole c ns users role s = (None, s')"
  shows "role_bound c ns users bview s' role"
proof (cases "subjectsForRole users role = []")
  case True
  obtain r t where r: "Delete (rolebindings c) (bindingFor ns role) s = (r, t)" by fastforce
  with True assms have "t = s' \<and> (r = Inr () \<or> r = Inl NotFound)"
    by (auto simp: ensureRole_def Let_def split: sum.splits if_splits unit.splits)
  then have "gone bview rb_Meta (om_Name (ns_Meta ns), ''tenant-'' @ role) s'"
    using rb_deleter.delete_ignoring_missing [OF r] by (simp add: bindingFor_key)
  with True show ?thesis unfolding role_bound_def subjectsForRole_eq by simp
next
  case False
  then obtain b where "CreateOrUpdate (rolebindings c) (bindingFor ns role)
      (mutateBinding c ns role (subjectsForRole users role)) s = (Inr b, s')"
    using assms by (auto simp: ensureRole_def Let_def split: prod.splits sum.splits)
  from rb_applier.apply_stored [OF this] mutateBinding_kept False show ?thesis
    unfolding role_bound_def subjectsForRole_eq by (auto simp: bindingFor_key Let_def)
qed

lemma role_bound_frame:
  assumes "frame bview rest (n, ''tenant-'' @ role') s s'" and "role' \<noteq> role" and "role_bound c ns users bview s role"
  shows "role_bound c ns users bview s' role"
proof -
  have "bview s' (om_Name (ns_Meta ns), ''tenant-'' @ role) = bview s (om_Name (ns_Meta ns), ''tenant-'' @ role)"
    by (rule frameD(1) [OF assms(1)]) (use assms(2) in simp)
  with assms(3) show ?thesis unfolding role_bound_def gone_def Let_def by (simp split: if_splits)
qed

lemma ensureRBAC_succeeded:
  assumes "ensureRBAC c rr s = (None, rr', s')" and "rst_namespace (state_of rr) = Some ns"
  shows "role_bound c ns (prs_Users (proj_Spec (rr_Instance rr))) bview s' ''edit'' \<and>
    role_bound c ns (prs_Users (proj_Spec (rr_Instance rr))) bview s' ''view''"
proof -
  let ?users = "prs_Users (proj_Spec (rr_Instance rr))"
  obtain t where edit: "ensureRole c ns ?users ''edit'' s = (None, t)" and view: "ensureRole c ns ?users ''view'' t = (None, s')"
    using assms by (auto simp: ensureRBAC_def Let_def split: prod.splits option.splits)
  show ?thesis
    using ensureRole_bound [OF edit] ensureRole_bound [OF view]
      role_bound_frame [OF ensureRole_frame [OF view], of "''edit''"] by simp
qed

lemma ensureRBAC_frame:
  assumes "ensureRBAC c rr s = (err, rr', s')"
  shows "rr_Instance rr' = rr_Instance rr \<and> state_of rr' = state_of rr \<and> rest s' = rest s \<and>
    (\<forall>ns. rst_namespace (state_of rr) = Some ns \<longrightarrow>
       (\<forall>k. k \<notin> Pair (om_Name (ns_Meta ns)) ` {''tenant-edit'', ''tenant-view''} \<longrightarrow> bview s' k = bview s k))"
proof -
  obtain st rr1 where st: "stateFor rr = (st, rr1)" by fastforce
  then have rr1: "rr_Instance rr1 = rr_Instance rr" "state_of rr1 = st"
    using stateFor_instance [of rr] stateFor_again [of rr] by simp_all
  show ?thesis
  proof (cases "rst_namespace st")
    case None
    with assms st rr1 show ?thesis by (auto simp: ensureRBAC_def)
  next
    case (Some ns)
    let ?users = "prs_Users (proj_Spec (rr_Instance rr))"
    obtain e t where edit: "ensureRole c ns ?users ''edit'' s = (e, t)" by fastforce
    obtain e' u where view: "ensureRole c ns ?users ''view'' t = (e', u)" by fastforce
    have "s' = t \<or> s' = u" "rr' = rr1"
      using assms st Some edit view by (auto simp: ensureRBAC_def Let_def split: option.splits)
    with ensureRole_frame [OF edit] ensureRole_frame [OF view] st rr1 Some show ?thesis
      by (auto simp: frame_def)
  qed
qed

text \<open>A binding that something else controls is not overwritten.\<close>

lemma ensureRole_refused:
  assumes "ensureRole c ns users role s = (err, s')" and "subjectsForRole users role \<noteq> []"
    and "bview s (om_Name (ns_Meta ns), ''tenant-'' @ role) = Some b"
    and "controller_of (rb_Meta b) = Some r" and "\<not> same_object (owner_namespace ns) r"
  shows "err \<noteq> None \<and> s' = s"
proof -
  let ?f = "mutateBinding c ns role (subjectsForRole users role)"
  obtain e where "SetControllerReference c (owner_namespace ns) (rb_Meta b) = Inl e"
    using controller_refused [OF assms(4,5)] by blast
  then have "?f (present bview rb_Meta (bindingFor ns role) s) = Inl e"
    using assms(3) by (simp add: mutateBinding_def present_def bindingFor_key)
  then have "\<exists>e'. CreateOrUpdate (rolebindings c) (bindingFor ns role) ?f s = (Inl e', s)"
    by (rule rb_applier.apply_refused [of ?f "bindingFor ns role" s e])
  with assms(1,2) show ?thesis by (auto simp: ensureRole_def Let_def)
qed

end

interpretation mem_rbac: rbac_server "memory_server flt" "mem_view cl_rolebindings" "mem_rest cl_rolebindings_update" for flt
  by (rule rbac_server.intro; simp; unfold_locales)



definition rbac_request :: ReconciliationRequest where
  "rbac_request = save_state \<lparr>rst_organization = None, rst_namespace = Some demo_namespace, rst_isolation = ''''\<rparr>
     \<lparr>rr_Instance = demo_project ''genomics-analysis'' ''genomics''
        [\<lparr>pu_Kind = ''ServiceAccount'', pu_Name = ''ci'', pu_Namespace = ''build'', pu_Role = ''edit''\<rparr>] '''',
      rr_Extensions = None\<rparr>"

definition foreign_binding :: RoleBinding where
  "foreign_binding = \<lparr>rb_Meta = (named ''genomics-analysis'' ''tenant-edit'')\<lparr>om_OwnerReferences :=
     [owner_reference (owner_project (demo_project ''other'' ''proteomics'' [] '''')) (Some True)]\<rparr>,
     rb_RoleRef = clusterRole ''edit'', rb_Subjects = []\<rparr>"

section \<open>Properties\<close>

text \<open>C24: After the role-binding action has succeeded, the namespace's binding of each of the two roles
  refers to the cluster role of that name, lists exactly the project's users of that role in order
  (service accounts with their namespace, users and groups with the RBAC API group), and is controlled
  by the namespace; a role without users has no binding, or one being deleted. No other role binding
  and nothing else on the server changes.\<close>

theorem role_bindings_exact:
  assumes "rbac_server c bview rest" and "ensureRBAC c rr s = (None, rr', s')"
    and "rst_namespace (state_of rr) = Some ns" and "users = prs_Users (proj_Spec (rr_Instance rr))"
  shows "(\<forall>role \<in> {''edit'', ''view''}.
      if \<forall>u \<in> set users. pu_Role u \<noteq> role then gone bview rb_Meta (om_Name (ns_Meta ns), ''tenant-'' @ role) s'
      else (\<exists>b. bview s' (om_Name (ns_Meta ns), ''tenant-'' @ role) = Some b \<and> rb_RoleRef b = clusterRole role \<and>
        rb_Subjects b = map rbac_subject (filter (\<lambda>u. pu_Role u = role) users) \<and>
        IsControlledBy c (rb_Meta b) (ns_Meta ns))) \<and>
    (\<forall>k. k \<notin> Pair (om_Name (ns_Meta ns)) ` {''tenant-edit'', ''tenant-view''} \<longrightarrow> bview s' k = bview s k) \<and> rest s' = rest s"
proof -
  have none: "filter (\<lambda>u. pu_Role u = role) users = [] \<longleftrightarrow> (\<forall>u \<in> set users. pu_Role u \<noteq> role)" for role
    by (simp add: filter_empty_conv)
  have "\<forall>role \<in> {''edit'', ''view''}. role_bound c ns users bview s' role"
    using rbac_server.ensureRBAC_succeeded [OF assms(1-3)] assms(4) by simp
  then have "\<forall>role \<in> {''edit'', ''view''}.
      if \<forall>u \<in> set users. pu_Role u \<noteq> role then gone bview rb_Meta (om_Name (ns_Meta ns), ''tenant-'' @ role) s'
      else (\<exists>b. bview s' (om_Name (ns_Meta ns), ''tenant-'' @ role) = Some b \<and> rb_RoleRef b = clusterRole role \<and>
        rb_Subjects b = map rbac_subject (filter (\<lambda>u. pu_Role u = role) users) \<and>
        IsControlledBy c (rb_Meta b) (ns_Meta ns))"
    unfolding role_bound_def Let_def map_is_Nil_conv none by blast
  with rbac_server.ensureRBAC_frame [OF assms(1,2)] assms(3) show ?thesis by blast
qed

theorem role_bindings_exact_witness:
  "\<exists>rr' s' b. ensureRBAC server rbac_request demo_cluster = (None, rr', s') \<and>
     mem_view cl_rolebindings s' (''genomics-analysis'', ''tenant-edit'') = Some b \<and>
     rb_Subjects b = [\<lparr>rs_Kind = ''ServiceAccount'', rs_APIGroup = '''', rs_Name = ''ci'', rs_Namespace = ''build''\<rparr>] \<and>
     gone (mem_view cl_rolebindings) rb_Meta (''genomics-analysis'', ''tenant-view'') s'"
proof -
  have "fst (ensureRBAC server rbac_request demo_cluster) = None" by code_simp
  then obtain rr' s' where run: "ensureRBAC server rbac_request demo_cluster = (None, rr', s')"
    by (metis prod.collapse)
  have ns: "rst_namespace (state_of rbac_request) = Some demo_namespace" by (simp add: rbac_request_def)
  from role_bindings_exact [OF mem_rbac.rbac_server_axioms run ns refl] run show ?thesis
    by (auto simp: rbac_request_def demo_project_def demo_namespace_def rbac_subject_def)
qed

text \<open>A binding under one of the managed names that another object controls is not overwritten: as
  long as the role has users, the action fails on it and writes nothing.\<close>

theorem foreign_binding_not_overwritten:
  assumes "rbac_server c bview rest" and "ensureRole c ns users role s = (err, s')"
    and "subjectsForRole users role \<noteq> []"
    and "bview s (om_Name (ns_Meta ns), ''tenant-'' @ role) = Some b"
    and "controller_of (rb_Meta b) = Some r"
    and "api_group (or_APIVersion r) \<noteq> '''' \<or> or_Kind r \<noteq> ''Namespace'' \<or> or_Name r \<noteq> om_Name (ns_Meta ns)"
  shows "err \<noteq> None \<and> s' = s"
  using assms(1-5) assms(6) [folded de_Morgan_conj, folded same_object_owners(4)] by (rule rbac_server.ensureRole_refused)

theorem foreign_binding_not_overwritten_witness:
  "snd (ensureRole server demo_namespace [\<lparr>pu_Kind = ''User'', pu_Name = ''dave'', pu_Namespace = '''', pu_Role = ''edit''\<rparr>] ''edit''
     (demo_cluster\<lparr>cl_rolebindings := keyed rb_Meta [foreign_binding]\<rparr>)) =
   demo_cluster\<lparr>cl_rolebindings := keyed rb_Meta [foreign_binding]\<rparr>"
proof -
  let ?s = "demo_cluster\<lparr>cl_rolebindings := keyed rb_Meta [foreign_binding]\<rparr>"
  let ?users = "[\<lparr>pu_Kind = ''User'', pu_Name = ''dave'', pu_Namespace = '''', pu_Role = ''edit''\<rparr>]"
  obtain err s' where run: "ensureRole server demo_namespace ?users ''edit'' ?s = (err, s')" by fastforce
  have stored: "mem_view cl_rolebindings ?s (om_Name (ns_Meta demo_namespace), ''tenant-'' @ ''edit'') = Some foreign_binding"
    by (simp add: mem_view_def keyed_def key_of_def foreign_binding_def demo_namespace_def)
  have owner: "controller_of (rb_Meta foreign_binding) =
      Some (owner_reference (owner_project (demo_project ''other'' ''proteomics'' [] '''')) (Some True))"
    by (simp add: foreign_binding_def controller_of_def)
  have kind: "or_Kind (owner_reference (owner_project (demo_project ''other'' ''proteomics'' [] '''')) (Some True)) \<noteq> ''Namespace''"
    by (simp add: owner_reference_def owner_project_def)
  have users: "subjectsForRole ?users ''edit'' \<noteq> []" by simp
  have "err \<noteq> None \<and> s' = ?s"
    by (rule foreign_binding_not_overwritten [where c = server and bview = "mem_view cl_rolebindings" and rest = "mem_rest cl_rolebindings_update"
          and ns = demo_namespace and users = ?users and role = "''edit''" and s = ?s and b = foreign_binding
          and r = "owner_reference (owner_project (demo_project ''other'' ''proteomics'' [] '''')) (Some True)"])
      (rule mem_rbac.rbac_server_axioms run users stored owner disjI2 [OF disjI1 [OF kind]])+
  with run show ?thesis by simp
qed

end
