(* ===== verification/Project_Netpol.thy ===== *)
theory Project_Netpol
  imports Project_Request
begin

text \<open>
  \<open>organizationproject_controller_netpol.go\<close>: the network policies of a project's namespace.
  The isolation preset selects the desired policies; the action applies them one after the other
  and then removes the managed policies the preset does not ask for, in both loops leaving alone
  any policy the namespace does not control.
\<close>

section \<open>The desired policies\<close>

definition npDenyIngress :: string where
  "npDenyIngress = ''default-deny-ingress''"

definition npAllowOrganization :: string where
  "npAllowOrganization = ''allow-from-organization''"

definition npAllowSameNS :: string where
  "npAllowSameNS = ''allow-same-namespace''"

definition managedNetworkPolicies :: "string list" where
  "managedNetworkPolicies = [npDenyIngress, npAllowOrganization, npAllowSameNS]"

definition denyIngress :: "string \<Rightarrow> NetworkPolicy" where
  "denyIngress nsName = \<lparr>np_Meta = named nsName npDenyIngress,
     np_Spec = \<lparr>nps_PodSelector = \<lparr>ls_MatchLabels = Map.empty\<rparr>, nps_Ingress = [],
       nps_PolicyTypes = [PolicyTypeIngress]\<rparr>\<rparr>"

definition allowFromOrganization :: "string \<Rightarrow> string \<Rightarrow> NetworkPolicy" where
  "allowFromOrganization nsName organization = \<lparr>np_Meta = named nsName npAllowOrganization,
     np_Spec = \<lparr>nps_PodSelector = \<lparr>ls_MatchLabels = Map.empty\<rparr>,
       nps_Ingress = [\<lparr>npr_From = [\<lparr>npp_PodSelector = None,
         npp_NamespaceSelector = Some \<lparr>ls_MatchLabels = [labelOrganization \<mapsto> organization]\<rparr>\<rparr>]\<rparr>],
       nps_PolicyTypes = [PolicyTypeIngress]\<rparr>\<rparr>"

definition allowSameNamespace :: "string \<Rightarrow> NetworkPolicy" where
  "allowSameNamespace nsName = \<lparr>np_Meta = named nsName npAllowSameNS,
     np_Spec = \<lparr>nps_PodSelector = \<lparr>ls_MatchLabels = Map.empty\<rparr>,
       nps_Ingress = [\<lparr>npr_From = [\<lparr>npp_PodSelector = Some \<lparr>ls_MatchLabels = Map.empty\<rparr>,
         npp_NamespaceSelector = None\<rparr>]\<rparr>],
       nps_PolicyTypes = [PolicyTypeIngress]\<rparr>\<rparr>"

definition desiredNetworkPolicies :: "OrganizationProject \<Rightarrow> string \<Rightarrow> string \<Rightarrow> NetworkPolicy list" where
  "desiredNetworkPolicies project nsName isolation =
     (if isolation = ''none'' then []
      else if isolation = ''strict'' then [denyIngress nsName, allowSameNamespace nsName]
      else [denyIngress nsName, allowFromOrganization nsName (proj_Organization project)])"


section \<open>The action\<close>

abbreviation np_Name :: "NetworkPolicy \<Rightarrow> string" where
  "np_Name p \<equiv> om_Name (np_Meta p)"

definition zero_NetworkPolicySpec :: NetworkPolicySpec where
  "zero_NetworkPolicySpec = \<lparr>nps_PodSelector = \<lparr>ls_MatchLabels = Map.empty\<rparr>, nps_Ingress = [], nps_PolicyTypes = []\<rparr>"

text \<open>The mutation handed to \<open>CreateOrUpdate\<close>, and the call.\<close>

definition mutatePolicy :: "'s k8s \<Rightarrow> CoreNamespace \<Rightarrow> NetworkPolicy \<Rightarrow> NetworkPolicy \<Rightarrow> go_error + NetworkPolicy" where
  "mutatePolicy c ns np policy =
     (let policy' = policy\<lparr>np_Spec := np_Spec np\<rparr> in
      case SetControllerReference c (owner_namespace ns) (np_Meta policy') of
        Inl err \<Rightarrow> Inl err
      | Inr m \<Rightarrow> Inr (policy'\<lparr>np_Meta := m\<rparr>))"

definition writePolicy :: "'s k8s \<Rightarrow> CoreNamespace \<Rightarrow> NetworkPolicy \<Rightarrow> 's \<Rightarrow> error_result \<times> 's" where
  "writePolicy c ns np s =
     (let policy = \<lparr>np_Meta = named (om_Name (ns_Meta ns)) (np_Name np), np_Spec = zero_NetworkPolicySpec\<rparr> in
      case CreateOrUpdate (networkpolicies c) policy (mutatePolicy c ns np) s of
        (Inl err, s') \<Rightarrow> (Some err, s')
      | (Inr _, s') \<Rightarrow> (None, s'))"

text \<open>The body of the first loop, and the loop.\<close>

definition applyPolicy :: "'s k8s \<Rightarrow> CoreNamespace \<Rightarrow> NetworkPolicy \<Rightarrow> 's \<Rightarrow> error_result \<times> 's" where
  "applyPolicy c ns np s =
     (case Get (networkpolicies c) (om_Name (ns_Meta ns), np_Name np) s of
        Inr existing \<Rightarrow>
          if \<not> IsControlledBy c (np_Meta existing) (ns_Meta ns)
          then (Some (Errorf ''network policy %s/%s already exists and is not managed by this OrganizationProject''
                       [ArgS (om_Name (ns_Meta ns)), ArgS (np_Name np)]), s)
          else writePolicy c ns np s
      | Inl err \<Rightarrow> if err \<noteq> NotFound then (Some (ApiError err), s) else writePolicy c ns np s)"

fun applyPolicies :: "'s k8s \<Rightarrow> CoreNamespace \<Rightarrow> NetworkPolicy list \<Rightarrow> 's \<Rightarrow> error_result \<times> 's" where
  "applyPolicies c ns [] s = (None, s)"
| "applyPolicies c ns (np # nps) s =
     (case applyPolicy c ns np s of
        (Some err, s') \<Rightarrow> (Some err, s')
      | (None, s') \<Rightarrow> applyPolicies c ns nps s')"

text \<open>The set of wanted names, and the second loop.\<close>

fun wantedPolicies :: "NetworkPolicy list \<Rightarrow> (string \<Rightarrow> bool) \<Rightarrow> (string \<Rightarrow> bool)" where
  "wantedPolicies [] wanted = wanted"
| "wantedPolicies (np # nps) wanted = wantedPolicies nps (wanted(np_Name np := True))"

definition prunePolicy :: "'s k8s \<Rightarrow> CoreNamespace \<Rightarrow> string \<Rightarrow> 's \<Rightarrow> error_result \<times> 's" where
  "prunePolicy c ns name s =
     (case Get (networkpolicies c) (om_Name (ns_Meta ns), name) s of
        Inl err \<Rightarrow> if err = NotFound then (None, s) else (Some (ApiError err), s)
      | Inr stale \<Rightarrow>
          if \<not> IsControlledBy c (np_Meta stale) (ns_Meta ns) then (None, s)
          else (case Delete (networkpolicies c) stale s of
                  (Inl err, s') \<Rightarrow> if err \<noteq> NotFound then (Some (ApiError err), s') else (None, s')
                | (Inr (), s') \<Rightarrow> (None, s')))"

fun prunePolicies :: "'s k8s \<Rightarrow> CoreNamespace \<Rightarrow> (string \<Rightarrow> bool) \<Rightarrow> string list \<Rightarrow> 's \<Rightarrow> error_result \<times> 's" where
  "prunePolicies c ns wanted [] s = (None, s)"
| "prunePolicies c ns wanted (name # names) s =
     (if wanted name then prunePolicies c ns wanted names s
      else (case prunePolicy c ns name s of
              (Some err, s') \<Rightarrow> (Some err, s')
            | (None, s') \<Rightarrow> prunePolicies c ns wanted names s'))"

text \<open>The two loops over the desired policies of a namespace.\<close>

definition syncPolicies :: "'s k8s \<Rightarrow> CoreNamespace \<Rightarrow> NetworkPolicy list \<Rightarrow> 's \<Rightarrow> error_result \<times> 's" where
  "syncPolicies c ns desired s =
     (case applyPolicies c ns desired s of
        (Some err, s') \<Rightarrow> (Some err, s')
      | (None, s') \<Rightarrow> prunePolicies c ns (wantedPolicies desired (\<lambda>_. False)) managedNetworkPolicies s')"

definition ensureNetworkPolicies :: "'s k8s \<Rightarrow> (ReconciliationRequest, 's) action" where
  "ensureNetworkPolicies c rr s =
     (let project = rr_Instance rr; (state, rr') = stateFor rr in
      case rst_namespace state of
        None \<Rightarrow> (Some (Errorf ''namespace not found in reconciliation state'' []), rr', s)
      | Some ns \<Rightarrow>
          if rst_isolation state = ''''
          then (Some (Errorf ''isolation not found in reconciliation state'' []), rr', s)
          else (let (err, s') = syncPolicies c ns
                  (desiredNetworkPolicies project (om_Name (ns_Meta ns)) (rst_isolation state)) s
                in (err, rr', s')))"


section \<open>What the loops do\<close>

lemma wantedPolicies_iff: "wantedPolicies nps w name \<longleftrightarrow> w name \<or> name \<in> np_Name ` set nps"
  by (induction nps arbitrary: w) auto

lemma desired_keys: "np \<in> set (desiredNetworkPolicies project nsName isolation) \<Longrightarrow> om_Namespace (np_Meta np) = nsName"
  by (auto simp: desiredNetworkPolicies_def denyIngress_def allowFromOrganization_def allowSameNamespace_def
      split: if_splits)

lemma policy_names_distinct [simp]:
  "npDenyIngress \<noteq> npAllowOrganization" "npDenyIngress \<noteq> npAllowSameNS" "npAllowOrganization \<noteq> npAllowSameNS"
  "npAllowOrganization \<noteq> npDenyIngress" "npAllowSameNS \<noteq> npDenyIngress" "npAllowSameNS \<noteq> npAllowOrganization"
  by (simp_all add: npDenyIngress_def npAllowOrganization_def npAllowSameNS_def)

lemma desired_names:
  "map np_Name (desiredNetworkPolicies project nsName isolation) =
     (if isolation = ''none'' then [] else if isolation = ''strict'' then [npDenyIngress, npAllowSameNS]
      else [npDenyIngress, npAllowOrganization])"
  by (simp add: desiredNetworkPolicies_def denyIngress_def allowFromOrganization_def allowSameNamespace_def)

text \<open>A stored policy that is the namespace's own and has the wanted spec.\<close>

definition realized :: "'s k8s \<Rightarrow> CoreNamespace \<Rightarrow> NetworkPolicy \<Rightarrow> NetworkPolicy \<Rightarrow> bool" where
  "realized c ns np y \<longleftrightarrow> np_Spec y = np_Spec np \<and> IsControlledBy c (np_Meta y) (ns_Meta ns)"

text \<open>A name under which the namespace has no policy of its own, but for one being deleted.\<close>

definition cleared :: "'s k8s \<Rightarrow> CoreNamespace \<Rightarrow> (ObjectKey \<rightharpoonup> NetworkPolicy) \<Rightarrow> string \<Rightarrow> bool" where
  "cleared c ns Q name \<longleftrightarrow> (\<forall>y. Q (om_Name (ns_Meta ns), name) = Some y \<longrightarrow>
     \<not> IsControlledBy c (np_Meta y) (ns_Meta ns) \<or> om_DeletionTimestamp (np_Meta y) \<noteq> None)"

locale netpol_server =
  np_reader: object_reader "Get (networkpolicies c)" qview +
  np_applier: object_applier qview rest np_Meta networkpolicy_kept "CreateOrUpdate (networkpolicies c)" +
  np_deleter: object_deleter qview rest np_Meta networkpolicy_kept "Delete (networkpolicies c)" +
  owner_references "SetControllerReference c" "IsControlledBy c"
  for c :: "'s k8s" and qview and rest :: "'s \<Rightarrow> 'r"
begin

lemma mutatePolicy_realized:
  assumes "mutatePolicy c ns np policy = Inr q" and "networkpolicy_kept q y"
  shows "realized c ns np y \<and> key_of (np_Meta y) = key_of (np_Meta policy)"
proof -
  from assms(1) obtain m where m: "SetControllerReference c (owner_namespace ns) (np_Meta policy) = Inr m"
    and q: "q = policy\<lparr>np_Spec := np_Spec np, np_Meta := m\<rparr>"
    by (auto simp: mutatePolicy_def split: sum.splits)
  have "IsControlledBy c m (ns_Meta ns)" using controller_set [OF m] by simp
  then show ?thesis
    using assms(2) q controlled_by_kept [of m "np_Meta y"] controller_set_fields(8) [OF m]
    by (auto simp: realized_def networkpolicy_kept_def meta_kept_def)
qed

lemma writePolicy_outcome:
  assumes "writePolicy c ns np s = (err, s')" and "well_keyed np_Meta (qview s)"
  shows "frame qview rest (om_Name (ns_Meta ns), np_Name np) s s' \<and>
    ((\<exists>y. qview s' (om_Name (ns_Meta ns), np_Name np) = Some y \<and> realized c ns np y \<and>
        key_of (np_Meta y) = (om_Name (ns_Meta ns), np_Name np)) \<or>
     err \<noteq> None \<and> qview s' (om_Name (ns_Meta ns), np_Name np) = qview s (om_Name (ns_Meta ns), np_Name np))"
proof -
  let ?k = "(om_Name (ns_Meta ns), np_Name np)"
  let ?p = "\<lparr>np_Meta = named (om_Name (ns_Meta ns)) (np_Name np), np_Spec = zero_NetworkPolicySpec\<rparr>"
  have key: "key_of (np_Meta ?p) = ?k" by simp
  have present: "key_of (np_Meta (present qview np_Meta ?p s)) = ?k"
    using assms(2) key by (auto simp: present_def well_keyed_def split: option.split)
  obtain r where r: "CreateOrUpdate (networkpolicies c) ?p (mutatePolicy c ns np) s = (r, s')"
    and err: "err = (case r of Inl e \<Rightarrow> Some e | Inr _ \<Rightarrow> None)"
    using assms(1) by (auto simp: writePolicy_def split: prod.splits sum.splits)
  have "(\<exists>y. qview s' ?k = Some y \<and> realized c ns np y \<and> key_of (np_Meta y) = ?k) \<or>
      err \<noteq> None \<and> qview s' ?k = qview s ?k"
  proof (cases r)
    case (Inl e)
    then show ?thesis
      using np_applier.apply_failed [OF r [unfolded Inl]] err mutatePolicy_realized present key by fastforce
  next
    case (Inr y)
    then show ?thesis
      using np_applier.apply_stored [OF r [unfolded Inr]] mutatePolicy_realized present key by fastforce
  qed
  moreover have "frame qview rest ?k s s'"
    using np_applier.apply_frame [OF r] key by simp
  ultimately show ?thesis by blast
qed

lemma applyPolicy_outcome:
  assumes "applyPolicy c ns np s = (err, s')" and "well_keyed np_Meta (qview s)"
  shows "frame qview rest (om_Name (ns_Meta ns), np_Name np) s s' \<and>
    ((\<exists>y. qview s' (om_Name (ns_Meta ns), np_Name np) = Some y \<and> realized c ns np y \<and>
        key_of (np_Meta y) = (om_Name (ns_Meta ns), np_Name np)) \<or>
     err \<noteq> None \<and> qview s' (om_Name (ns_Meta ns), np_Name np) = qview s (om_Name (ns_Meta ns), np_Name np))"
proof (cases "writePolicy c ns np s = (err, s')")
  case True
  then show ?thesis using writePolicy_outcome assms(2) by blast
next
  case False
  then have "s' = s \<and> err \<noteq> None"
    using assms(1) by (auto simp: applyPolicy_def split: sum.splits if_splits)
  then show ?thesis by simp
qed

lemma applyPolicy_foreign:
  assumes "applyPolicy c ns np s = (err, s')" and "qview s (om_Name (ns_Meta ns), np_Name np) = Some y"
    and "\<not> IsControlledBy c (np_Meta y) (ns_Meta ns)"
  shows "s' = s \<and> err \<noteq> None"
  using assms np_reader.get_found [of "(om_Name (ns_Meta ns), np_Name np)" s]
    np_reader.get_missing [of "(om_Name (ns_Meta ns), np_Name np)" s]
  by (auto simp: applyPolicy_def split: sum.splits if_splits)

lemma applyPolicy_keyed:
  assumes "applyPolicy c ns np s = (err, s')" and "well_keyed np_Meta (qview s)"
  shows "well_keyed np_Meta (qview s')"
proof (rule well_keyed_frame)
  show "frame qview rest (om_Name (ns_Meta ns), np_Name np) s s'"
    using applyPolicy_outcome [OF assms] by blast
  show "key_of (np_Meta y) = (om_Name (ns_Meta ns), np_Name np)"
    if "qview s' (om_Name (ns_Meta ns), np_Name np) = Some y" for y
    using applyPolicy_outcome [OF assms] that assms(2) unfolding well_keyed_def by (metis option.inject)
qed (rule assms(2))

lemma applyPolicies_frame:
  assumes "applyPolicies c ns nps s = (err, s')" and "well_keyed np_Meta (qview s)"
  shows "well_keyed np_Meta (qview s') \<and> rest s' = rest s \<and>
    (\<forall>k. (\<forall>np \<in> set nps. k \<noteq> (om_Name (ns_Meta ns), np_Name np)) \<longrightarrow> qview s' k = qview s k)"
  using assms
proof (induction nps arbitrary: s)
  case (Cons np nps)
  obtain e t where step: "applyPolicy c ns np s = (e, t)" by fastforce
  note frame = conjunct1 [OF applyPolicy_outcome [OF step Cons.prems(2)]]
  note keyed = applyPolicy_keyed [OF step Cons.prems(2)]
  show ?case
  proof (cases e)
    case None
    then have "applyPolicies c ns nps t = (err, s')" using Cons.prems(1) step by simp
    from Cons.IH [OF this keyed] frame show ?thesis by (simp add: frame_def)
  next
    case (Some e')
    then show ?thesis using Cons.prems(1) step frame keyed by (simp add: frame_def)
  qed
qed simp

text \<open>A policy the namespace does not control is never changed, and ends the loop.\<close>

lemma applyPolicies_foreign:
  assumes "applyPolicies c ns nps s = (err, s')" and "well_keyed np_Meta (qview s)"
    and "qview s k = Some y" and "\<not> IsControlledBy c (np_Meta y) (ns_Meta ns)"
  shows "qview s' k = Some y"
  using assms(1-3)
proof (induction nps arbitrary: s)
  case (Cons np nps)
  obtain e t where step: "applyPolicy c ns np s = (e, t)" by fastforce
  note keyed = applyPolicy_keyed [OF step Cons.prems(2)]
  have t: "qview t k = Some y"
  proof (cases "k = (om_Name (ns_Meta ns), np_Name np)")
    case True
    then show ?thesis using applyPolicy_foreign [OF step] Cons.prems(3) assms(4) by simp
  next
    case False
    then show ?thesis
      using frameD(1) [OF conjunct1 [OF applyPolicy_outcome [OF step Cons.prems(2)]], of k] Cons.prems(3) by simp
  qed
  with Cons.IH [OF _ keyed t] Cons.prems(1) step show ?case by (cases e) simp_all
qed simp

text \<open>A desired policy that is stored stays stored, whatever fails.\<close>

lemma applyPolicies_stays:
  assumes "applyPolicies c ns nps s = (err, s')" and "well_keyed np_Meta (qview s)" and "qview s k \<noteq> None"
  shows "qview s' k \<noteq> None"
  using assms
proof (induction nps arbitrary: s)
  case (Cons np nps)
  obtain e t where step: "applyPolicy c ns np s = (e, t)" by fastforce
  note keyed = applyPolicy_keyed [OF step Cons.prems(2)]
  note out = applyPolicy_outcome [OF step Cons.prems(2)]
  have "qview t k \<noteq> None"
    using out Cons.prems(3) frameD(1) [OF conjunct1 [OF out], of k]
    by (cases "k = (om_Name (ns_Meta ns), np_Name np)") auto
  with Cons.IH [OF _ keyed] Cons.prems(1) step show ?case by (cases e) simp_all
qed simp

lemma applyPolicies_realized:
  assumes "applyPolicies c ns nps s = (None, s')" and "well_keyed np_Meta (qview s)"
    and "distinct (map np_Name nps)" and "np \<in> set nps"
  shows "\<exists>y. qview s' (om_Name (ns_Meta ns), np_Name np) = Some y \<and> realized c ns np y"
  using assms
proof (induction nps arbitrary: s)
  case (Cons q nps)
  obtain t where step: "applyPolicy c ns q s = (None, t)" and rest: "applyPolicies c ns nps t = (None, s')"
    using Cons.prems(1) by (auto split: prod.splits option.splits)
  note keyed = applyPolicy_keyed [OF step Cons.prems(2)]
  show ?case
  proof (cases "np = q")
    case True
    have "np_Name q \<notin> np_Name ` set nps" using Cons.prems(3) by simp
    then have "qview s' (om_Name (ns_Meta ns), np_Name q) = qview t (om_Name (ns_Meta ns), np_Name q)"
      using applyPolicies_frame [OF rest keyed] by (metis image_eqI snd_conv)
    then show ?thesis
      using applyPolicy_outcome [OF step Cons.prems(2)] True by auto
  next
    case False
    then show ?thesis using Cons.IH [OF rest keyed] Cons.prems(3,4) by simp
  qed
qed simp

text \<open>The second loop deletes the namespace's own policies under unwanted names, and nothing else.\<close>

lemma prunePolicy_cases:
  assumes "prunePolicy c ns name s = (err, s')"
  obtains (kept) "s' = s" "err = None \<Longrightarrow> cleared c ns (qview s) name"
    | (deleted) y r where "qview s (om_Name (ns_Meta ns), name) = Some y" "IsControlledBy c (np_Meta y) (ns_Meta ns)"
      "Delete (networkpolicies c) y s = (r, s')" "err = None \<Longrightarrow> r = Inr () \<or> r = Inl NotFound"
proof (cases rule: np_reader.get_cases [of "(om_Name (ns_Meta ns), name)" s])
  case (found y)
  show ?thesis
  proof (cases "IsControlledBy c (np_Meta y) (ns_Meta ns)")
    case True
    obtain r t where r: "Delete (networkpolicies c) y s = (r, t)" by fastforce
    show ?thesis
      by (rule deleted [of y r]) (use assms found True r in
          \<open>auto simp: prunePolicy_def split: sum.splits if_splits unit.splits\<close>)
  next
    case False
    then show ?thesis
      using assms found by (intro kept) (auto simp: prunePolicy_def cleared_def)
  qed
next
  case missing
  then show ?thesis
    using assms by (intro kept) (auto simp: prunePolicy_def cleared_def)
next
  case (failed e)
  then show ?thesis
    using assms by (intro kept) (auto simp: prunePolicy_def)
qed

lemma prunePolicy_outcome:
  assumes "prunePolicy c ns name s = (err, s')" and "well_keyed np_Meta (qview s)"
  shows "frame qview rest (om_Name (ns_Meta ns), name) s s'" and "well_keyed np_Meta (qview s')"
    and "err = None \<Longrightarrow> cleared c ns (qview s') name"
    and "qview s (om_Name (ns_Meta ns), name) = Some x \<Longrightarrow> \<not> IsControlledBy c (np_Meta x) (ns_Meta ns) \<Longrightarrow> s' = s"
proof -
  let ?k = "(om_Name (ns_Meta ns), name)"
  have key: "key_of (np_Meta y) = ?k" if "qview s ?k = Some y" for y
    using assms(2) that by (rule well_keyedD)
  show frame: "frame qview rest ?k s s'"
    using assms(1) by (cases rule: prunePolicy_cases) (simp, metis np_deleter.delete_frame key)
  show "well_keyed np_Meta (qview s')"
  proof (rule well_keyed_frame [OF frame assms(2)])
    fix z assume z: "qview s' ?k = Some z"
    show "key_of (np_Meta z) = ?k"
      using assms(1)
    proof (cases rule: prunePolicy_cases)
      case kept
      with z key show ?thesis by simp
    next
      case (deleted y r)
      then obtain w where "qview s ?k = Some w" "w = z \<or> networkpolicy_kept w z"
        using np_deleter.delete_keeps [OF deleted(3)] key z by metis
      then show ?thesis using key by (auto simp: networkpolicy_kept_def meta_kept_def)
    qed
  qed
  show "cleared c ns (qview s') name" if "err = None"
    using assms(1)
  proof (cases rule: prunePolicy_cases)
    case kept
    with that show ?thesis by simp
  next
    case (deleted y r)
    then have "gone qview np_Meta ?k s'"
      using np_deleter.delete_ignoring_missing [OF deleted(3)] that key by metis
    then show ?thesis by (auto simp: cleared_def gone_def)
  qed
  show "s' = s" if "qview s ?k = Some x" "\<not> IsControlledBy c (np_Meta x) (ns_Meta ns)"
    using assms(1) by (cases rule: prunePolicy_cases) (use that in auto)
qed

lemma prunePolicies_frame:
  assumes "prunePolicies c ns wanted names s = (err, s')" and "well_keyed np_Meta (qview s)"
  shows "well_keyed np_Meta (qview s') \<and> rest s' = rest s \<and>
    (\<forall>k. (\<forall>name \<in> set names. \<not> wanted name \<longrightarrow> k \<noteq> (om_Name (ns_Meta ns), name)) \<longrightarrow> qview s' k = qview s k)"
  using assms
proof (induction names arbitrary: s)
  case (Cons name names)
  show ?case
  proof (cases "wanted name")
    case False
    obtain e t where step: "prunePolicy c ns name s = (e, t)" by fastforce
    note out = prunePolicy_outcome [OF step Cons.prems(2)]
    show ?thesis
    proof (cases e)
      case None
      then have "prunePolicies c ns wanted names t = (err, s')" using Cons.prems(1) step False by simp
      from Cons.IH [OF this out(2)] out(1) False show ?thesis by (simp add: frame_def)
    next
      case (Some e')
      then show ?thesis using Cons.prems(1) step out(1,2) False by (simp add: frame_def)
    qed
  qed (use Cons in simp)
qed simp

lemma prunePolicies_foreign:
  assumes "prunePolicies c ns wanted names s = (err, s')" and "well_keyed np_Meta (qview s)"
    and "qview s k = Some y" and "\<not> IsControlledBy c (np_Meta y) (ns_Meta ns)"
  shows "qview s' k = Some y"
  using assms(1-3)
proof (induction names arbitrary: s)
  case (Cons name names)
  show ?case
  proof (cases "wanted name")
    case False
    obtain e t where step: "prunePolicy c ns name s = (e, t)" by fastforce
    note out = prunePolicy_outcome [OF step Cons.prems(2)]
    have t: "qview t k = Some y"
    proof (cases "k = (om_Name (ns_Meta ns), name)")
      case True
      then show ?thesis using out(4) Cons.prems(3) assms(4) by simp
    next
      case False
      then show ?thesis using frameD(1) [OF out(1), of k] Cons.prems(3) by simp
    qed
    with Cons.IH [OF _ out(2) t] Cons.prems(1) step False show ?thesis by (cases e) simp_all
  qed (use Cons in simp)
qed simp

lemma prunePolicies_cleared:
  assumes "prunePolicies c ns wanted names s = (None, s')" and "well_keyed np_Meta (qview s)"
    and "distinct names" and "name \<in> set names" and "\<not> wanted name"
  shows "cleared c ns (qview s') name"
  using assms(1-4)
proof (induction names arbitrary: s)
  case (Cons n names)
  show ?case
  proof (cases "wanted n")
    case False
    then obtain t where step: "prunePolicy c ns n s = (None, t)"
      and rest: "prunePolicies c ns wanted names t = (None, s')"
      using Cons.prems(1) by (auto split: prod.splits option.splits)
    note out = prunePolicy_outcome [OF step Cons.prems(2)]
    show ?thesis
    proof (cases "name = n")
      case True
      then have "qview s' (om_Name (ns_Meta ns), name) = qview t (om_Name (ns_Meta ns), name)"
        using prunePolicies_frame [OF rest out(2)] Cons.prems(3) by (metis distinct.simps(2) snd_conv)
      then show ?thesis using out(3) True by (simp add: cleared_def)
    next
      case False
      then show ?thesis using Cons.IH [OF rest out(2)] Cons.prems(3,4) by simp
    qed
  qed (use Cons assms(5) in auto)
qed simp

text \<open>Both loops together.\<close>

lemma syncPolicies_split:
  assumes "syncPolicies c ns desired s = (err, s')"
  obtains (failed) e where "applyPolicies c ns desired s = (Some e, s')" and "err = Some e"
    | (pruned) t where "applyPolicies c ns desired s = (None, t)"
      and "prunePolicies c ns (wantedPolicies desired (\<lambda>_. False)) managedNetworkPolicies t = (err, s')"
  using assms by (auto simp: syncPolicies_def split: prod.splits option.splits)

lemma syncPolicies_foreign:
  assumes "syncPolicies c ns desired s = (err, s')" and "well_keyed np_Meta (qview s)"
    and "qview s k = Some y" and "\<not> IsControlledBy c (np_Meta y) (ns_Meta ns)"
  shows "qview s' k = Some y"
  using assms(1)
proof (cases rule: syncPolicies_split)
  case (failed e)
  then show ?thesis using applyPolicies_foreign assms(2-4) by blast
next
  case (pruned t)
  have "well_keyed np_Meta (qview t)" using applyPolicies_frame [OF pruned(1) assms(2)] by blast
  moreover have "qview t k = Some y" using applyPolicies_foreign [OF pruned(1) assms(2-4)] .
  ultimately show ?thesis using prunePolicies_foreign [OF pruned(2) _ _ assms(4)] by blast
qed

lemma syncPolicies_stays:
  assumes "syncPolicies c ns desired s = (err, s')" and "well_keyed np_Meta (qview s)"
    and "np \<in> set desired" and "qview s (om_Name (ns_Meta ns), np_Name np) \<noteq> None"
  shows "qview s' (om_Name (ns_Meta ns), np_Name np) \<noteq> None"
  using assms(1)
proof (cases rule: syncPolicies_split)
  case (failed e)
  then show ?thesis using applyPolicies_stays assms(2,4) by blast
next
  case (pruned t)
  have keyed: "well_keyed np_Meta (qview t)" using applyPolicies_frame [OF pruned(1) assms(2)] by blast
  have "qview s' (om_Name (ns_Meta ns), np_Name np) = qview t (om_Name (ns_Meta ns), np_Name np)"
    using prunePolicies_frame [OF pruned(2) keyed] assms(3) by (auto simp: wantedPolicies_iff)
  then show ?thesis using applyPolicies_stays [OF pruned(1) assms(2,4)] by simp
qed

lemma syncPolicies_frame:
  assumes "syncPolicies c ns desired s = (err, s')" and "well_keyed np_Meta (qview s)"
    and "np_Name ` set desired \<subseteq> set managedNetworkPolicies"
  shows "well_keyed np_Meta (qview s') \<and> rest s' = rest s \<and>
    (\<forall>k. k \<notin> Pair (om_Name (ns_Meta ns)) ` set managedNetworkPolicies \<longrightarrow> qview s' k = qview s k)"
proof -
  let ?K = "Pair (om_Name (ns_Meta ns)) ` set managedNetworkPolicies"
  have desired: "\<forall>np \<in> set desired. k \<noteq> (om_Name (ns_Meta ns), np_Name np)" if "k \<notin> ?K" for k
    using that assms(3) by blast
  have managed: "\<forall>name \<in> set managedNetworkPolicies. \<not> wanted name \<longrightarrow> k \<noteq> (om_Name (ns_Meta ns), name)"
    if "k \<notin> ?K" for k wanted
    using that by blast
  show ?thesis
    using assms(1)
  proof (cases rule: syncPolicies_split)
    case (failed e)
    then show ?thesis using applyPolicies_frame [OF failed(1) assms(2)] desired by blast
  next
    case (pruned t)
    note first = applyPolicies_frame [OF pruned(1) assms(2)]
    note second = prunePolicies_frame [OF pruned(2) conjunct1 [OF first]]
    have "qview s' k = qview s k" if "k \<notin> ?K" for k
      using first second desired [OF that] managed [OF that] by metis
    with first second show ?thesis by metis
  qed
qed

lemma syncPolicies_converged:
  assumes "syncPolicies c ns desired s = (None, s')" and "well_keyed np_Meta (qview s)" and "distinct (map np_Name desired)"
  shows "np \<in> set desired \<Longrightarrow> \<exists>y. qview s' (om_Name (ns_Meta ns), np_Name np) = Some y \<and> realized c ns np y"
    and "name \<in> set managedNetworkPolicies \<Longrightarrow> name \<notin> np_Name ` set desired \<Longrightarrow> cleared c ns (qview s') name"
proof -
  from assms(1) obtain t where t: "applyPolicies c ns desired s = (None, t)"
    "prunePolicies c ns (wantedPolicies desired (\<lambda>_. False)) managedNetworkPolicies t = (None, s')"
    by (auto elim: syncPolicies_split)
  have keyed: "well_keyed np_Meta (qview t)" using applyPolicies_frame [OF t(1) assms(2)] by blast
  show "\<exists>y. qview s' (om_Name (ns_Meta ns), np_Name np) = Some y \<and> realized c ns np y" if "np \<in> set desired"
  proof -
    have "qview s' (om_Name (ns_Meta ns), np_Name np) = qview t (om_Name (ns_Meta ns), np_Name np)"
      using prunePolicies_frame [OF t(2) keyed] that by (auto simp: wantedPolicies_iff)
    then show ?thesis using applyPolicies_realized [OF t(1) assms(2,3) that] by simp
  qed
  show "cleared c ns (qview s') name" if "name \<in> set managedNetworkPolicies" "name \<notin> np_Name ` set desired"
    using prunePolicies_cleared [OF t(2) keyed _ that(1)] that(2)
    by (simp add: wantedPolicies_iff managedNetworkPolicies_def)
qed

end

interpretation mem_netpol: netpol_server "memory_server flt" "mem_view cl_networkpolicies"
  "mem_rest cl_networkpolicies_update" for flt
  by (rule netpol_server.intro; simp; unfold_locales)

end
