(* ===== verification/Project_Netpol_Correct.thy ===== *)
theory Project_Netpol_Correct
  imports Project_Netpol
begin

text \<open>
  What the network-policy action guarantees. The specification is the meaning Kubernetes gives to
  the policies of a namespace: a pod no policy selects accepts everything, a selected pod accepts
  what a rule of a selecting policy allows. Against it, the three presets mean what their names
  say, and the action brings the namespace to the preset without touching foreign policies and
  without a moment in which the default-deny policy is missing.
\<close>

section \<open>What policies allow\<close>

record endpoint =
  ep_Namespace :: string
  ep_NamespaceLabels :: "string \<rightharpoonup> string"
  ep_PodLabels :: "string \<rightharpoonup> string"

definition selects :: "LabelSelector \<Rightarrow> (string \<rightharpoonup> string) \<Rightarrow> bool" where
  "selects sel labels \<longleftrightarrow> ls_MatchLabels sel \<subseteq>\<^sub>m labels"

definition peer_matches :: "string \<Rightarrow> NetworkPolicyPeer \<Rightarrow> endpoint \<Rightarrow> bool" where
  "peer_matches namespace peer e \<longleftrightarrow>
     (case npp_NamespaceSelector peer of None \<Rightarrow> ep_Namespace e = namespace
        | Some sel \<Rightarrow> selects sel (ep_NamespaceLabels e)) \<and>
     (case npp_PodSelector peer of None \<Rightarrow> True | Some sel \<Rightarrow> selects sel (ep_PodLabels e))"

definition rule_allows :: "string \<Rightarrow> NetworkPolicyIngressRule \<Rightarrow> endpoint \<Rightarrow> bool" where
  "rule_allows namespace r e \<longleftrightarrow> npr_From r = [] \<or> (\<exists>peer \<in> set (npr_From r). peer_matches namespace peer e)"

definition selecting :: "NetworkPolicySpec set \<Rightarrow> (string \<rightharpoonup> string) \<Rightarrow> NetworkPolicySpec set" where
  "selecting ps pod = {p \<in> ps. PolicyTypeIngress \<in> set (nps_PolicyTypes p) \<and> selects (nps_PodSelector p) pod}"

definition ingress_allowed :: "NetworkPolicySpec set \<Rightarrow> string \<Rightarrow> (string \<rightharpoonup> string) \<Rightarrow> endpoint \<Rightarrow> bool" where
  "ingress_allowed ps namespace pod e \<longleftrightarrow> selecting ps pod = {} \<or>
     (\<exists>p \<in> selecting ps pod. \<exists>r \<in> set (nps_Ingress p). rule_allows namespace r e)"

text \<open>The policies in force in a namespace.\<close>

definition in_force :: "(ObjectKey \<rightharpoonup> NetworkPolicy) \<Rightarrow> string \<Rightarrow> NetworkPolicySpec set" where
  "in_force Q namespace = {np_Spec y | y name. Q (namespace, name) = Some y}"

text \<open>The meaning of a preset.\<close>

definition preset_allows :: "string \<Rightarrow> string \<Rightarrow> string \<Rightarrow> endpoint \<Rightarrow> bool" where
  "preset_allows isolation organization namespace e \<longleftrightarrow>
     (if isolation = ''none'' then True
      else if isolation = ''strict'' then ep_Namespace e = namespace
      else ep_NamespaceLabels e labelOrganization = Some organization)"

lemma selects_all [simp]: "selects \<lparr>ls_MatchLabels = Map.empty\<rparr> labels"
  by (simp add: selects_def)

lemma selects_one [simp]: "selects \<lparr>ls_MatchLabels = [k \<mapsto> v]\<rparr> labels \<longleftrightarrow> labels k = Some v"
  by (auto simp: selects_def map_le_def)

lemma selecting_simps [simp]:
  "selecting {} pod = {}"
  "selecting (insert p ps) pod = (if PolicyTypeIngress \<in> set (nps_PolicyTypes p) \<and> selects (nps_PodSelector p) pod
     then insert p (selecting ps pod) else selecting ps pod)"
  by (auto simp: selecting_def)

lemma desired_meaning:
  "ingress_allowed (np_Spec ` set (desiredNetworkPolicies project namespace isolation)) namespace pod e \<longleftrightarrow>
     preset_allows isolation (proj_Organization project) namespace e"
  by (auto simp: ingress_allowed_def rule_allows_def peer_matches_def preset_allows_def
      desiredNetworkPolicies_def denyIngress_def allowFromOrganization_def allowSameNamespace_def)

lemma desired_distinct: "distinct (map np_Name (desiredNetworkPolicies project nsName isolation))"
  by (simp add: desired_names)

lemma desired_managed: "np_Name ` set (desiredNetworkPolicies project nsName isolation) \<subseteq> set managedNetworkPolicies"
proof -
  have "np_Name ` set (desiredNetworkPolicies project nsName isolation) =
      set (map np_Name (desiredNetworkPolicies project nsName isolation))" by simp
  then show ?thesis unfolding desired_names by (simp add: managedNetworkPolicies_def)
qed

text \<open>The action is the two loops, once the earlier actions have left a namespace and a preset.\<close>

text \<open>A namespace that holds the desired policies and no other policy in force lets in what the preset
  allows.\<close>

lemma preset_in_force:
  assumes "\<And>np. np \<in> set (desiredNetworkPolicies project (om_Name (ns_Meta ns)) isolation) \<Longrightarrow>
      \<exists>y. Q (om_Name (ns_Meta ns), np_Name np) = Some y \<and> realized c ns np y"
    and "\<And>name. name \<in> set managedNetworkPolicies \<Longrightarrow>
      name \<notin> np_Name ` set (desiredNetworkPolicies project (om_Name (ns_Meta ns)) isolation) \<Longrightarrow> cleared c ns Q name"
    and "\<forall>name y. Q (om_Name (ns_Meta ns), name) = Some y \<longrightarrow> name \<in> set managedNetworkPolicies \<and>
      IsControlledBy c (np_Meta y) (ns_Meta ns) \<and> om_DeletionTimestamp (np_Meta y) = None"
  shows "ingress_allowed (in_force Q (om_Name (ns_Meta ns))) (om_Name (ns_Meta ns)) pod e \<longleftrightarrow>
    preset_allows isolation (proj_Organization project) (om_Name (ns_Meta ns)) e"
proof -
  let ?n = "om_Name (ns_Meta ns)"
  let ?desired = "desiredNetworkPolicies project ?n isolation"
  have "in_force Q ?n = np_Spec ` set ?desired"
  proof (intro equalityI subsetI)
    fix p assume "p \<in> in_force Q ?n"
    then obtain y name where y: "p = np_Spec y" "Q (?n, name) = Some y" by (auto simp: in_force_def)
    have "name \<in> np_Name ` set ?desired"
      using assms(2) [of name] y(2) assms(3) unfolding cleared_def by metis
    then obtain np where np: "np \<in> set ?desired" "name = np_Name np" by blast
    then have "np_Spec y = np_Spec np"
      using assms(1) [OF np(1)] y(2) by (simp add: realized_def)
    with y(1) np(1) show "p \<in> np_Spec ` set ?desired" by blast
  next
    fix p assume "p \<in> np_Spec ` set ?desired"
    then obtain np where np: "np \<in> set ?desired" "p = np_Spec np" by blast
    from assms(1) [OF np(1)] np(2) show "p \<in> in_force Q ?n"
      by (auto simp: in_force_def realized_def) metis
  qed
  then show ?thesis by (simp add: desired_meaning)
qed

lemma ensureNetworkPolicies_sync:
  assumes "ensureNetworkPolicies c rr s = (err, rr', s')" and "rst_namespace (state_of rr) = Some ns"
  shows "(if rst_isolation (state_of rr) = '''' then err \<noteq> None \<and> s' = s
    else syncPolicies c ns (desiredNetworkPolicies (rr_Instance rr) (om_Name (ns_Meta ns)) (rst_isolation (state_of rr))) s
      = (err, s')) \<and> rr_Instance rr' = rr_Instance rr \<and> state_of rr' = state_of rr"
proof -
  obtain st rr1 where st: "stateFor rr = (st, rr1)" by fastforce
  then have "rr_Instance rr1 = rr_Instance rr" "state_of rr1 = st"
    using stateFor_instance [of rr] stateFor_again [of rr] by simp_all
  with st assms show ?thesis
    by (auto simp: ensureNetworkPolicies_def Let_def split: if_splits prod.splits)
qed

context netpol_server
begin

lemma ensureNetworkPolicies_keyed:
  assumes "ensureNetworkPolicies c rr s = (err, rr', s')" and "well_keyed np_Meta (qview s)"
  shows "well_keyed np_Meta (qview s') \<and> rest s' = rest s"
proof (cases "rst_namespace (state_of rr)")
  case None
  then have "s' = s" using assms(1) by (auto simp: ensureNetworkPolicies_def Let_def split: prod.splits)
  with assms(2) show ?thesis by simp
next
  case (Some ns)
  show ?thesis
    using ensureNetworkPolicies_sync [OF assms(1) Some] syncPolicies_frame [OF _ assms(2) desired_managed] assms(2)
    by (auto split: if_splits)
qed

end



section \<open>A namespace to try it on\<close>

text \<open>The demo project's namespace, provisioned for the tenant preset, with a policy of its users.\<close>

definition owned_policy :: "NetworkPolicy \<Rightarrow> NetworkPolicy" where
  "owned_policy np = np\<lparr>np_Meta := (np_Meta np)\<lparr>om_OwnerReferences := [owner_reference (owner_namespace demo_namespace) (Some True)]\<rparr>\<rparr>"

definition custom_policy :: NetworkPolicy where
  "custom_policy = \<lparr>np_Meta = named ''genomics-analysis'' ''team-rules'', np_Spec = zero_NetworkPolicySpec\<rparr>"

definition netpol_cluster :: cluster where
  "netpol_cluster = demo_cluster\<lparr>cl_networkpolicies := keyed np_Meta
     [owned_policy (denyIngress ''genomics-analysis''),
      owned_policy (allowFromOrganization ''genomics-analysis'' ''genomics''), custom_policy]\<rparr>"

definition netpol_request :: "string \<Rightarrow> ReconciliationRequest" where
  "netpol_request isolation = save_state \<lparr>rst_organization = None, rst_namespace = Some demo_namespace, rst_isolation = isolation\<rparr>
     \<lparr>rr_Instance = demo_project ''genomics-analysis'' ''genomics'' [] isolation, rr_Extensions = None\<rparr>"

lemma netpol_request_simps [simp]:
  "state_of (netpol_request i) = \<lparr>rst_organization = None, rst_namespace = Some demo_namespace, rst_isolation = i\<rparr>"
  "rr_Instance (netpol_request i) = demo_project ''genomics-analysis'' ''genomics'' [] i"
  by (simp_all add: netpol_request_def)

lemma netpol_cluster_keyed: "well_keyed np_Meta (mem_view cl_networkpolicies netpol_cluster)"
  by (simp add: well_keyed_def netpol_cluster_def mem_view_def keyed_def owned_policy_def key_of_def
      denyIngress_def allowFromOrganization_def custom_policy_def)

lemma netpol_strict: "\<exists>rr' s'. ensureNetworkPolicies server (netpol_request ''strict'') netpol_cluster = (None, rr', s')"
proof -
  have "fst (ensureNetworkPolicies server (netpol_request ''strict'') netpol_cluster) = None"
    by code_simp
  then show ?thesis by (metis prod.collapse)
qed



text \<open>A run on the strict preset that leaves only the namespace's own policies.\<close>

definition tidy_cluster :: cluster where
  "tidy_cluster = demo_cluster\<lparr>cl_networkpolicies := keyed np_Meta
     [owned_policy (denyIngress ''genomics-analysis''), owned_policy (allowFromOrganization ''genomics-analysis'' ''genomics'')]\<rparr>"

lemma tidy_run:
  "case ensureNetworkPolicies server (netpol_request ''strict'') tidy_cluster of (err, rr', s') \<Rightarrow>
     err = None \<and> list_all (\<lambda>((n, name), y). name \<in> set managedNetworkPolicies \<and>
       mem_IsControlledBy (np_Meta y) (ns_Meta demo_namespace) \<and> om_DeletionTimestamp (np_Meta y) = None)
     (cl_networkpolicies s')"
  by code_simp


section \<open>Properties\<close>

text \<open>C33: After the network-policy action has succeeded, every policy the preset asks for is stored in
  the project's namespace with the wanted spec and controlled by the namespace, no other managed
  policy of the namespace's own is left but for one being deleted, and everything else on the server
  is as it was.\<close>

theorem network_policies_converged:
  assumes "netpol_server c qview rest" and "well_keyed np_Meta (qview s)"
    and "ensureNetworkPolicies c rr s = (None, rr', s')" and "rst_namespace (state_of rr) = Some ns"
    and "desired = desiredNetworkPolicies (rr_Instance rr) (om_Name (ns_Meta ns)) (rst_isolation (state_of rr))"
  shows "(\<forall>np \<in> set desired. \<exists>y. qview s' (om_Name (ns_Meta ns), np_Name np) = Some y \<and>
      np_Spec y = np_Spec np \<and> IsControlledBy c (np_Meta y) (ns_Meta ns)) \<and>
    (\<forall>name \<in> set managedNetworkPolicies - np_Name ` set desired. cleared c ns (qview s') name) \<and>
    (\<forall>k. k \<notin> Pair (om_Name (ns_Meta ns)) ` set managedNetworkPolicies \<longrightarrow> qview s' k = qview s k) \<and> rest s' = rest s"
proof -
  have sync: "syncPolicies c ns desired s = (None, s')"
    using ensureNetworkPolicies_sync [OF assms(3,4)] assms(5) by (auto split: if_splits)
  have distinct: "distinct (map np_Name desired)" and managed: "np_Name ` set desired \<subseteq> set managedNetworkPolicies"
    unfolding assms(5) by (rule desired_distinct desired_managed)+
  show ?thesis
    using netpol_server.syncPolicies_converged [OF assms(1) sync assms(2) distinct]
      netpol_server.syncPolicies_frame [OF assms(1) sync assms(2) managed]
    by (simp add: realized_def)
qed

theorem network_policies_converged_witness:
  "\<exists>rr' s' y. ensureNetworkPolicies server (netpol_request ''strict'') netpol_cluster = (None, rr', s') \<and>
     mem_view cl_networkpolicies s' (''genomics-analysis'', npAllowSameNS) = Some y \<and>
     np_Spec y = np_Spec (allowSameNamespace ''genomics-analysis'') \<and>
     cleared server demo_namespace (mem_view cl_networkpolicies s') npAllowOrganization"
proof -
  obtain rr' s' where run: "ensureNetworkPolicies server (netpol_request ''strict'') netpol_cluster = (None, rr', s')"
    using netpol_strict by blast
  have names: "np_Name (denyIngress n) = npDenyIngress" "np_Name (allowSameNamespace n) = npAllowSameNS" for n
    by (simp_all add: denyIngress_def allowSameNamespace_def)
  from network_policies_converged [OF mem_netpol.netpol_server_axioms netpol_cluster_keyed run _ refl, of demo_namespace] run
  show ?thesis
    by (auto simp: desiredNetworkPolicies_def demo_namespace_def managedNetworkPolicies_def names)
qed

text \<open>C23: A policy that the project's namespace does not control is never changed or deleted, under any
  name, whether the action succeeds or fails.\<close>

theorem foreign_policies_untouched:
  assumes "netpol_server c qview rest" and "well_keyed np_Meta (qview s)"
    and "ensureNetworkPolicies c rr s = (err, rr', s')" and "rst_namespace (state_of rr) = Some ns"
    and "qview s k = Some y" and "\<not> IsControlledBy c (np_Meta y) (ns_Meta ns)"
  shows "qview s' k = Some y"
proof (cases "rst_isolation (state_of rr) = ''''")
  case True
  then show ?thesis using ensureNetworkPolicies_sync [OF assms(3,4)] assms(5) by simp
next
  case False
  then have "syncPolicies c ns (desiredNetworkPolicies (rr_Instance rr) (om_Name (ns_Meta ns))
      (rst_isolation (state_of rr))) s = (err, s')"
    using ensureNetworkPolicies_sync [OF assms(3,4)] by simp
  then show ?thesis
    using assms(2,5,6) by (rule netpol_server.syncPolicies_foreign [OF assms(1)])
qed

theorem foreign_policies_untouched_witness:
  "\<exists>rr' s'. ensureNetworkPolicies server (netpol_request ''strict'') netpol_cluster = (None, rr', s') \<and>
     mem_view cl_networkpolicies s' (''genomics-analysis'', ''team-rules'') = Some custom_policy"
proof -
  obtain rr' s' where run: "ensureNetworkPolicies server (netpol_request ''strict'') netpol_cluster = (None, rr', s')"
    using netpol_strict by blast
  have stored: "mem_view cl_networkpolicies netpol_cluster (''genomics-analysis'', ''team-rules'') = Some custom_policy"
    by (simp add: netpol_cluster_def mem_view_def keyed_def owned_policy_def key_of_def custom_policy_def
        denyIngress_def allowFromOrganization_def npDenyIngress_def npAllowOrganization_def)
  have "\<not> IsControlledBy server (np_Meta custom_policy) (ns_Meta demo_namespace)"
    by (simp add: custom_policy_def mem_IsControlledBy_def controller_of_def)
  from foreign_policies_untouched [OF mem_netpol.netpol_server_axioms netpol_cluster_keyed run _ stored this] run
  show ?thesis by auto
qed

text \<open>C22: Changing from one enforced preset to another never opens the namespace. Unless the preset is
  \<open>none\<close>, for which the policy is deleted, a default-deny policy that is stored when the action
  starts is stored when it ends, at whatever call it ends: no order of the writes and no failure leaves
  a gap.\<close>

theorem deny_never_dropped:
  assumes "netpol_server c qview rest" and "well_keyed np_Meta (qview s)"
    and "ensureNetworkPolicies c rr s = (err, rr', s')" and "rst_namespace (state_of rr) = Some ns"
    and "rst_isolation (state_of rr) \<noteq> ''none''" and "qview s (om_Name (ns_Meta ns), npDenyIngress) \<noteq> None"
  shows "qview s' (om_Name (ns_Meta ns), npDenyIngress) \<noteq> None"
proof (cases "rst_isolation (state_of rr) = ''''")
  case True
  then show ?thesis using ensureNetworkPolicies_sync [OF assms(3,4)] assms(6) by simp
next
  case False
  let ?n = "om_Name (ns_Meta ns)"
  have sync: "syncPolicies c ns (desiredNetworkPolicies (rr_Instance rr) ?n (rst_isolation (state_of rr))) s = (err, s')"
    using ensureNetworkPolicies_sync [OF assms(3,4)] False by simp
  have deny: "denyIngress ?n \<in> set (desiredNetworkPolicies (rr_Instance rr) ?n (rst_isolation (state_of rr)))"
    using assms(5) by (simp add: desiredNetworkPolicies_def)
  show ?thesis
    using netpol_server.syncPolicies_stays [OF assms(1) sync assms(2) deny] assms(6) by (simp add: denyIngress_def)
qed

theorem deny_never_dropped_witness:
  "\<exists>err rr' s'. ensureNetworkPolicies (memory_server (\<lambda>k v. if v = VUpdate then Some ''conflict'' else None))
       (netpol_request ''strict'') netpol_cluster = (err, rr', s') \<and> err \<noteq> None \<and>
     mem_view cl_networkpolicies s' (''genomics-analysis'', npDenyIngress) \<noteq> None"
proof -
  let ?c = "memory_server (\<lambda>k v. if v = VUpdate then Some ''conflict'' else None)"
  have "fst (ensureNetworkPolicies ?c (netpol_request ''strict'') netpol_cluster) \<noteq> None"
    by code_simp
  then obtain err rr' s' where run: "ensureNetworkPolicies ?c (netpol_request ''strict'') netpol_cluster = (err, rr', s')"
    and "err \<noteq> None"
    by (metis prod.collapse)
  moreover have "mem_view cl_networkpolicies netpol_cluster (''genomics-analysis'', npDenyIngress) \<noteq> None"
    by (simp add: netpol_cluster_def mem_view_def keyed_def owned_policy_def key_of_def denyIngress_def)
  ultimately show ?thesis
    using deny_never_dropped [OF mem_netpol.netpol_server_axioms netpol_cluster_keyed run, of demo_namespace]
    by (auto simp: demo_namespace_def)
qed

text \<open>C4: The presets are enforced. Once the action has succeeded and the namespace holds no policies
  but its own managed ones (none foreign, none still being deleted), the policies in force let a pod
  of the namespace be reached exactly as the preset says: by everyone for \<open>none\<close>, from the same
  namespace for \<open>strict\<close>, and otherwise from the namespaces labelled with the project's
  organization.\<close>

theorem isolation_enforced:
  assumes "netpol_server c qview rest" and "well_keyed np_Meta (qview s)"
    and "ensureNetworkPolicies c rr s = (None, rr', s')" and "rst_namespace (state_of rr) = Some ns"
    and "\<forall>name y. qview s' (om_Name (ns_Meta ns), name) = Some y \<longrightarrow> name \<in> set managedNetworkPolicies \<and>
      IsControlledBy c (np_Meta y) (ns_Meta ns) \<and> om_DeletionTimestamp (np_Meta y) = None"
  shows "ingress_allowed (in_force (qview s') (om_Name (ns_Meta ns))) (om_Name (ns_Meta ns)) pod e \<longleftrightarrow>
    preset_allows (rst_isolation (state_of rr)) (proj_Organization (rr_Instance rr)) (om_Name (ns_Meta ns)) e"
proof -
  let ?desired = "desiredNetworkPolicies (rr_Instance rr) (om_Name (ns_Meta ns)) (rst_isolation (state_of rr))"
  have sync: "syncPolicies c ns ?desired s = (None, s')"
    using ensureNetworkPolicies_sync [OF assms(3,4)] by (auto split: if_splits)
  note converged = netpol_server.syncPolicies_converged [OF assms(1) sync assms(2) desired_distinct]
  show ?thesis by (rule preset_in_force [OF converged(1,2) assms(5)])
qed

theorem isolation_enforced_witness:
  "\<exists>rr' s'. ensureNetworkPolicies server (netpol_request ''strict'') tidy_cluster = (None, rr', s') \<and>
     ingress_allowed (in_force (mem_view cl_networkpolicies s') ''genomics-analysis'') ''genomics-analysis'' Map.empty
       \<lparr>ep_Namespace = ''genomics-analysis'', ep_NamespaceLabels = Map.empty, ep_PodLabels = Map.empty\<rparr> \<and>
     \<not> ingress_allowed (in_force (mem_view cl_networkpolicies s') ''genomics-analysis'') ''genomics-analysis'' Map.empty
       \<lparr>ep_Namespace = ''elsewhere'', ep_NamespaceLabels = [labelOrganization \<mapsto> ''genomics''], ep_PodLabels = Map.empty\<rparr>"
proof -
  obtain rr' s' where run: "ensureNetworkPolicies server (netpol_request ''strict'') tidy_cluster = (None, rr', s')"
    and own: "list_all (\<lambda>((n, name), y). name \<in> set managedNetworkPolicies \<and>
      mem_IsControlledBy (np_Meta y) (ns_Meta demo_namespace) \<and> om_DeletionTimestamp (np_Meta y) = None) (cl_networkpolicies s')"
    using tidy_run by (auto split: prod.splits)
  have keyed: "well_keyed np_Meta (mem_view cl_networkpolicies tidy_cluster)"
    by (simp add: well_keyed_def tidy_cluster_def mem_view_def keyed_def owned_policy_def key_of_def
        denyIngress_def allowFromOrganization_def)
  have sole: "\<forall>name y. mem_view cl_networkpolicies s' (om_Name (ns_Meta demo_namespace), name) = Some y \<longrightarrow>
      name \<in> set managedNetworkPolicies \<and> IsControlledBy server (np_Meta y) (ns_Meta demo_namespace) \<and>
      om_DeletionTimestamp (np_Meta y) = None"
    using own by (fastforce simp: mem_view_def list_all_iff dest: map_of_SomeD)
  have ns: "rst_namespace (state_of (netpol_request ''strict'')) = Some demo_namespace" by simp
  note enforced = isolation_enforced [OF mem_netpol.netpol_server_axioms keyed run ns sole]
  show ?thesis
    using run enforced [of Map.empty "\<lparr>ep_Namespace = ''genomics-analysis'', ep_NamespaceLabels = Map.empty, ep_PodLabels = Map.empty\<rparr>"]
      enforced [of Map.empty "\<lparr>ep_Namespace = ''elsewhere'', ep_NamespaceLabels = [labelOrganization \<mapsto> ''genomics''], ep_PodLabels = Map.empty\<rparr>"]
    by (simp add: preset_allows_def demo_namespace_def)
qed

end
