(* ===== verification/Project_Reconciler.thy ===== *)
theory Project_Reconciler
  imports Project_Actions Project_Rbac Project_Netpol_Correct
begin

text \<open>
  The OrganizationProject reconciler (\<open>organizationproject_controller.go\<close>): the five actions
  in the order in which they are registered, run by the framework. The properties say what a
  successful run leaves on the server, and which runs leave it alone.
\<close>

definition NewOrganizationProjectReconciler :: "'s k8s \<Rightarrow> (ReconciliationRequest, 's) registration" where
  "NewOrganizationProjectReconciler c = \<lparr>reg_For = ''OrganizationProject'', reg_Owns = [''Namespace''],
     reg_Watches = [],
     reg_Actions = [validateParentOrganization c, computeEffectiveIsolation c, ensureNamespace c,
       ensureRBAC c, ensureNetworkPolicies c],
     reg_FinalizerName = '''', reg_Finalizers = [], reg_Conditions = [ConditionTypeProvisioningSucceeded]\<rparr>"

locale project_reconciler =
  action_runner run +
  organization_reader: object_reader "Get (organizations c)" oview +
  profile_reader: object_reader "Get (profiles c)" pview +
  namespace_server c nview nrest + rbac_server c bview brest + netpol_server c qview qrest
  for run :: "(ReconciliationRequest, 's) action list \<Rightarrow> (ReconciliationRequest, 's) action" and c oview pview nview bview qview
    and nrest :: "'s \<Rightarrow> 'n" and brest :: "'s \<Rightarrow> 'b" and qrest :: "'s \<Rightarrow> 'q" +
  assumes namespaces_apart: "nrest s' = nrest s \<Longrightarrow> bview s' = bview s \<and> qview s' = qview s"
    and bindings_apart: "brest s' = brest s \<Longrightarrow> nview s' = nview s \<and> qview s' = qview s"
    and policies_apart: "qrest s' = qrest s \<Longrightarrow> nview s' = nview s \<and> bview s' = bview s"
begin

text \<open>A successful run is a run of each action.\<close>

lemma run_phases:
  assumes "run (reg_Actions (NewOrganizationProjectReconciler c)) rr s = (None, rr', s')"
  obtains rr1 rr2 rr3 rr4 s3 s4 where "validateParentOrganization c rr s = (None, rr1, s)"
    and "computeEffectiveIsolation c rr1 s = (None, rr2, s)" and "ensureNamespace c rr2 s = (None, rr3, s3)"
    and "ensureRBAC c rr3 s3 = (None, rr4, s4)" and "ensureNetworkPolicies c rr4 s4 = (None, rr', s')"
proof -
  obtain rr1 s1 rr2 s2 rr3 s3 rr4 s4 where phases: "validateParentOrganization c rr s = (None, rr1, s1)"
    "computeEffectiveIsolation c rr1 s1 = (None, rr2, s2)" "ensureNamespace c rr2 s2 = (None, rr3, s3)"
    "ensureRBAC c rr3 s3 = (None, rr4, s4)" "ensureNetworkPolicies c rr4 s4 = (None, rr', s')"
    using assms by (auto simp: NewOrganizationProjectReconciler_def run_Cons run_done split: prod.splits option.splits)
  have "s1 = s" using validateParentOrganization_state [OF phases(1)] by simp
  moreover have "s2 = s1" using computeEffectiveIsolation_succeeded [OF phases(2)] by simp
  ultimately show ?thesis using phases that by simp
qed

text \<open>What the first three actions hand on to the last two.\<close>

lemma run_states:
  assumes "run (reg_Actions (NewOrganizationProjectReconciler c)) rr s = (None, rr', s')" and "well_keyed ns_Meta (nview s)"
  obtains organization ns rr3 rr4 s3 s4 where
    "oview s (cluster_key (proj_Organization (rr_Instance rr))) = Some organization" and "org_Root organization \<noteq> ''''"
    and "nview s3 (cluster_key (proj_Name (rr_Instance rr))) = Some ns" and "om_Name (ns_Meta ns) = proj_Name (rr_Instance rr)"
    and "IsControlledBy c (ns_Meta ns) (proj_Meta (rr_Instance rr))"
    and "om_Labels (ns_Meta ns) labelOrganization = Some (proj_Organization (rr_Instance rr))"
    and "om_Labels (ns_Meta ns) labelOrganizationRoot = Some (org_Root organization)"
    and "rst_namespace (state_of rr3) = Some ns" and "rst_isolation (state_of rr3) = effectiveIsolation c (rr_Instance rr) s"
    and "rr_Instance rr3 = set_Namespace (proj_Name (rr_Instance rr)) (rr_Instance rr)" and "qview s3 = qview s"
    and "ensureRBAC c rr3 s3 = (None, rr4, s4)" and "ensureNetworkPolicies c rr4 s4 = (None, rr', s')"
proof -
  let ?p = "rr_Instance rr"
  obtain rr1 rr2 rr3 rr4 s3 s4 where phase: "validateParentOrganization c rr s = (None, rr1, s)"
    "computeEffectiveIsolation c rr1 s = (None, rr2, s)" "ensureNamespace c rr2 s = (None, rr3, s3)"
    "ensureRBAC c rr3 s3 = (None, rr4, s4)" "ensureNetworkPolicies c rr4 s4 = (None, rr', s')"
    using assms(1) by (rule run_phases)
  obtain organization where get: "Get (organizations c) (cluster_key (proj_Organization ?p)) s = Inr organization"
    "org_Root organization \<noteq> ''''" and st1: "state_of rr1 = (state_of rr)\<lparr>rst_organization := Some organization\<rparr>"
    using phase(1) by (rule validateParentOrganization_succeeded)
  have i2: "rr_Instance rr2 = ?p"
    and st2: "state_of rr2 = (state_of rr1)\<lparr>rst_isolation := effectiveIsolation c ?p s\<rparr>"
    using validateParentOrganization_state [OF phase(1)] computeEffectiveIsolation_succeeded [OF phase(2)] by simp_all
  obtain ns where st3: "state_of rr3 = (state_of rr2)\<lparr>rst_namespace := Some ns\<rparr>"
    and i3: "rr_Instance rr3 = set_Namespace (proj_Name ?p) ?p"
    and ns: "nview s3 (cluster_key (proj_Name ?p)) = Some ns" "key_of (ns_Meta ns) = cluster_key (proj_Name ?p)"
      "IsControlledBy c (ns_Meta ns) (proj_Meta ?p)"
      "om_Labels (ns_Meta ns) labelOrganization = Some (proj_Organization ?p)"
      "om_Labels (ns_Meta ns) labelOrganizationRoot = Some (org_Root organization)"
    using ensureNamespace_succeeded [OF phase(3) assms(2)] i2 st1 st2 by auto
  have "qview s3 = qview s"
    using ensureNamespace_frame [OF phase(3)] namespaces_apart frameD(2) by metis
  then show ?thesis
    using that [of organization s3 ns rr3 rr4 s4] organization_reader.get_found [OF get(1)] get(2) ns st1 st2 st3 i3 phase(4,5)
    by (simp add: key_of_def)
qed

lemma provisioned:
  assumes "run (reg_Actions (NewOrganizationProjectReconciler c)) rr s = (None, rr', s')"
    and "well_keyed ns_Meta (nview s)" and "well_keyed np_Meta (qview s)"
  obtains organization ns where
    "oview s (cluster_key (proj_Organization (rr_Instance rr))) = Some organization" and "org_Root organization \<noteq> ''''"
    and "rr_Instance rr' = set_Namespace (proj_Name (rr_Instance rr)) (rr_Instance rr)"
    and "nview s' (cluster_key (proj_Name (rr_Instance rr))) = Some ns"
    and "om_Name (ns_Meta ns) = proj_Name (rr_Instance rr)"
    and "IsControlledBy c (ns_Meta ns) (proj_Meta (rr_Instance rr))"
    and "om_Labels (ns_Meta ns) labelOrganization = Some (proj_Organization (rr_Instance rr))"
    and "om_Labels (ns_Meta ns) labelOrganizationRoot = Some (org_Root organization)"
    and "role_bound c ns (prs_Users (proj_Spec (rr_Instance rr))) bview s' ''edit''"
    and "role_bound c ns (prs_Users (proj_Spec (rr_Instance rr))) bview s' ''view''"
    and "\<And>np. np \<in> set (desiredNetworkPolicies (rr_Instance rr) (proj_Name (rr_Instance rr)) (effectiveIsolation c (rr_Instance rr) s))
      \<Longrightarrow> \<exists>y. qview s' (proj_Name (rr_Instance rr), np_Name np) = Some y \<and> realized c ns np y"
    and "\<And>name. name \<in> set managedNetworkPolicies \<Longrightarrow>
      name \<notin> np_Name ` set (desiredNetworkPolicies (rr_Instance rr) (proj_Name (rr_Instance rr)) (effectiveIsolation c (rr_Instance rr) s))
      \<Longrightarrow> cleared c ns (qview s') name"
proof -
  let ?p = "rr_Instance rr"
  let ?desired = "desiredNetworkPolicies ?p (proj_Name ?p) (effectiveIsolation c ?p s)"
  from assms(1,2) obtain organization ns rr3 rr4 s3 s4 where
    org: "oview s (cluster_key (proj_Organization ?p)) = Some organization" "org_Root organization \<noteq> ''''"
    and ns: "nview s3 (cluster_key (proj_Name ?p)) = Some ns" "om_Name (ns_Meta ns) = proj_Name ?p"
      "IsControlledBy c (ns_Meta ns) (proj_Meta ?p)"
      "om_Labels (ns_Meta ns) labelOrganization = Some (proj_Organization ?p)"
      "om_Labels (ns_Meta ns) labelOrganizationRoot = Some (org_Root organization)"
    and st3: "rst_namespace (state_of rr3) = Some ns" "rst_isolation (state_of rr3) = effectiveIsolation c ?p s"
    and i3: "rr_Instance rr3 = set_Namespace (proj_Name ?p) ?p" and q3: "qview s3 = qview s"
    and phase4: "ensureRBAC c rr3 s3 = (None, rr4, s4)" and phase5: "ensureNetworkPolicies c rr4 s4 = (None, rr', s')"
    by (rule run_states)
  note rbac = ensureRBAC_frame [OF phase4]
  have st4: "rst_namespace (state_of rr4) = Some ns" using rbac st3 by simp
  note act = ensureNetworkPolicies_sync [OF phase5 st4]
  have "desiredNetworkPolicies (rr_Instance rr4) (om_Name (ns_Meta ns)) (rst_isolation (state_of rr4)) = ?desired"
    using rbac i3 st3 ns(2) by (simp add: desiredNetworkPolicies_def)
  then have sync: "syncPolicies c ns ?desired s4 = (None, s')"
    using act rbac st3(2) effectiveIsolation_not_empty [of c ?p s] by simp
  have keyed: "well_keyed np_Meta (qview s4)"
    using rbac bindings_apart q3 assms(3) by metis
  have views: "nview s' = nview s3" "bview s' = bview s4"
    using syncPolicies_frame [OF sync keyed desired_managed] policies_apart rbac bindings_apart by metis+
  note bound = ensureRBAC_succeeded [OF phase4 st3(1)]
  note policies = syncPolicies_converged [OF sync keyed desired_distinct]
  show ?thesis
    by (rule that [of organization ns])
      (use org ns views(1) policies act rbac i3 bound role_bound_view [of bview s' s4, OF views(2)] in simp_all)
qed

text \<open>A run writes no namespace but the project's own.\<close>

lemma other_namespaces_kept:
  assumes "run (reg_Actions (NewOrganizationProjectReconciler c)) rr s = (None, rr', s')"
    and "well_keyed np_Meta (qview s)" and "k \<noteq> cluster_key (proj_Name (rr_Instance rr))"
  shows "nview s' k = nview s k"
proof -
  obtain rr1 rr2 rr3 rr4 s3 s4 where phase: "validateParentOrganization c rr s = (None, rr1, s)"
    "computeEffectiveIsolation c rr1 s = (None, rr2, s)" "ensureNamespace c rr2 s = (None, rr3, s3)"
    "ensureRBAC c rr3 s3 = (None, rr4, s4)" "ensureNetworkPolicies c rr4 s4 = (None, rr', s')"
    using assms(1) by (rule run_phases)
  have "rr_Instance rr2 = rr_Instance rr"
    using validateParentOrganization_state [OF phase(1)] computeEffectiveIsolation_succeeded [OF phase(2)] by simp
  then have frame: "frame nview nrest (cluster_key (proj_Name (rr_Instance rr))) s s3"
    using ensureNamespace_frame [OF phase(3)] by simp
  have "brest s4 = brest s3" using ensureRBAC_frame [OF phase(4)] by simp
  note apart = bindings_apart [OF this, THEN conjunct1] bindings_apart [OF this, THEN conjunct2]
  have "well_keyed np_Meta (qview s4)" using assms(2) apart(2) namespaces_apart [OF frameD(2) [OF frame]] by simp
  then have "qrest s' = qrest s4" using ensureNetworkPolicies_keyed [OF phase(5)] by simp
  then show ?thesis using frameD(1) [OF frame assms(3)] apart(1) policies_apart by metis
qed

text \<open>Every action keeps the three stores well keyed, so a run does, wherever it stops.\<close>

lemma actions_keep_keyed:
  "list_all (action_keeps (\<lambda>rr s. well_keyed ns_Meta (nview s) \<and> well_keyed rb_Meta (bview s) \<and> well_keyed np_Meta (qview s)))
     (reg_Actions (NewOrganizationProjectReconciler c))"
proof -
  let ?I = "\<lambda>(rr :: ReconciliationRequest) s. well_keyed ns_Meta (nview s) \<and> well_keyed rb_Meta (bview s) \<and> well_keyed np_Meta (qview s)"
  have "action_keeps ?I (validateParentOrganization c)"
    by (rule action_keepsI) (use validateParentOrganization_state in metis)
  moreover have "action_keeps ?I (computeEffectiveIsolation c)"
    by (rule action_keepsI) (use computeEffectiveIsolation_succeeded in metis)
  moreover have "action_keeps ?I (ensureNamespace c)"
  proof (rule action_keepsI)
    fix rr s err rr' s'
    assume I: "?I rr s" and run: "ensureNamespace c rr s = (err, rr', s')"
    have "nrest s' = nrest s" using ensureNamespace_frame [OF run] by (simp add: frame_def)
    from namespaces_apart [OF this] I ensureNamespace_keyed [OF run] show "?I rr' s'" by simp
  qed
  moreover have "action_keeps ?I (ensureRBAC c)"
  proof (rule action_keepsI)
    fix rr s err rr' s'
    assume I: "?I rr s" and run: "ensureRBAC c rr s = (err, rr', s')"
    have "brest s' = brest s" using ensureRBAC_frame [OF run] by blast
    from bindings_apart [OF this] I ensureRBAC_keyed [OF run] show "?I rr' s'" by simp
  qed
  moreover have "action_keeps ?I (ensureNetworkPolicies c)"
  proof (rule action_keepsI)
    fix rr s err rr' s'
    assume I: "?I rr s" and run: "ensureNetworkPolicies c rr s = (err, rr', s')"
    then have kept: "well_keyed np_Meta (qview s')" "qrest s' = qrest s" using ensureNetworkPolicies_keyed by blast+
    from policies_apart [OF kept(2)] I kept(1) show "?I rr' s'" by simp
  qed
  ultimately show ?thesis by (simp add: NewOrganizationProjectReconciler_def)
qed

lemma organization_not_ready:
  assumes "\<And>x. oview s (cluster_key (proj_Organization (rr_Instance rr))) = Some x \<Longrightarrow> org_Root x = ''''"
  shows "run (reg_Actions (NewOrganizationProjectReconciler c)) rr s =
    (Some (case Get (organizations c) (cluster_key (proj_Organization (rr_Instance rr))) s of
        Inl err \<Rightarrow> Errorf ''failed to get organization: %w'' [ArgErr (ApiError err)]
      | Inr _ \<Rightarrow> StopError ''organization %q not yet reconciled (missing root)'' [ArgS (proj_Organization (rr_Instance rr))] 10),
     rr, s)"
  using assms [OF organization_reader.get_found]
  by (simp add: validateParentOrganization_def NewOrganizationProjectReconciler_def run_Cons split: sum.split)

lemma namespace_taken:
  assumes "nview s (cluster_key (proj_Name (rr_Instance rr))) = Some ns" and "controller_of (ns_Meta ns) = Some r"
    and "\<not> same_object (owner_project (rr_Instance rr)) r"
  shows "\<exists>e rr'. run (reg_Actions (NewOrganizationProjectReconciler c)) rr s = (Some e, rr', s)"
proof -
  obtain e1 rr1 s1 where v: "validateParentOrganization c rr s = (e1, rr1, s1)" by (cases "validateParentOrganization c rr s") auto
  obtain e2 rr2 s2 where i: "computeEffectiveIsolation c rr1 s1 = (e2, rr2, s2)" by (cases "computeEffectiveIsolation c rr1 s1") auto
  obtain e3 rr3 s3 where n: "ensureNamespace c rr2 s2 = (e3, rr3, s3)" by (cases "ensureNamespace c rr2 s2") auto
  have same: "s1 = s" "s2 = s1" "rr_Instance rr2 = rr_Instance rr" "e2 = None"
    using validateParentOrganization_state [OF v] computeEffectiveIsolation_succeeded [OF i] by simp_all
  then have "e3 \<noteq> None \<and> s3 = s2"
    using ensureNamespace_refused [OF n, of ns r] assms by (simp add: same_object_owners)
  with v i n same show ?thesis
    by (cases e1) (auto simp: NewOrganizationProjectReconciler_def run_Cons)
qed

end

lemma mem_rest_apart:
  "mem_rest cl_namespaces_update s' = mem_rest cl_namespaces_update s \<Longrightarrow>
     mem_view cl_rolebindings s' = mem_view cl_rolebindings s \<and> mem_view cl_networkpolicies s' = mem_view cl_networkpolicies s"
  "mem_rest cl_rolebindings_update s' = mem_rest cl_rolebindings_update s \<Longrightarrow>
     mem_view cl_namespaces s' = mem_view cl_namespaces s \<and> mem_view cl_networkpolicies s' = mem_view cl_networkpolicies s"
  "mem_rest cl_networkpolicies_update s' = mem_rest cl_networkpolicies_update s \<Longrightarrow>
     mem_view cl_namespaces s' = mem_view cl_namespaces s \<and> mem_view cl_rolebindings s' = mem_view cl_rolebindings s"
  by (cases s, cases s', simp add: mem_rest_def mem_view_def)+

interpretation mem_project_reconciler: project_reconciler run_actions "memory_server flt" "mem_view cl_organizations"
  "mem_view cl_profiles" "mem_view cl_namespaces" "mem_view cl_rolebindings" "mem_view cl_networkpolicies"
  "mem_rest cl_namespaces_update" "mem_rest cl_rolebindings_update" "mem_rest cl_networkpolicies_update" for flt
  by (rule project_reconciler.intro;
      (rule reference_runner.action_runner_axioms mem_namespace.namespace_server_axioms
        mem_rbac.rbac_server_axioms mem_netpol.netpol_server_axioms)?; simp?; unfold_locales?; rule mem_rest_apart)

text \<open>A namespace that belongs to another project.\<close>

definition taken_namespace :: CoreNamespace where
  "taken_namespace = demo_namespace\<lparr>ns_Meta := (ns_Meta demo_namespace)\<lparr>om_OwnerReferences :=
     [owner_reference (owner_project (demo_project ''other'' ''proteomics'' [] '''')) (Some True)]\<rparr>\<rparr>"


section \<open>Properties\<close>

text \<open>C3: A successful reconciliation of a project leaves it fully provisioned: its organization exists
  and has its root computed; the namespace of the project's name exists, is controlled by the
  project, carries the labels of the organization and of its root, and is recorded in the status; for
  each of the two roles the binding lists exactly the users of that role, or is gone if there are
  none; and the policies of the effective isolation are in place, the other managed ones cleared.\<close>

theorem project_provisioned:
  assumes "project_reconciler run c oview pview nview bview qview nrest brest qrest"
    and "well_keyed ns_Meta (nview s)" and "well_keyed np_Meta (qview s)"
    and "run (reg_Actions (NewOrganizationProjectReconciler c)) rr s = (None, rr', s')"
    and "project = rr_Instance rr"
    and "desired = desiredNetworkPolicies project (proj_Name project) (effectiveIsolation c project s)"
  shows "\<exists>organization ns. oview s (cluster_key (proj_Organization project)) = Some organization \<and> org_Root organization \<noteq> '''' \<and>
    prst_Namespace (proj_Status (rr_Instance rr')) = proj_Name project \<and>
    nview s' (cluster_key (proj_Name project)) = Some ns \<and> IsControlledBy c (ns_Meta ns) (proj_Meta project) \<and>
    om_Labels (ns_Meta ns) labelOrganization = Some (proj_Organization project) \<and>
    om_Labels (ns_Meta ns) labelOrganizationRoot = Some (org_Root organization) \<and>
    (\<forall>role \<in> {''edit'', ''view''}. role_bound c ns (prs_Users (proj_Spec project)) bview s' role) \<and>
    (\<forall>np \<in> set desired. \<exists>y. qview s' (proj_Name project, np_Name np) = Some y \<and> realized c ns np y) \<and>
    (\<forall>name \<in> set managedNetworkPolicies - np_Name ` set desired. cleared c ns (qview s') name)"
  unfolding assms(5,6)
  by (rule project_reconciler.provisioned [OF assms(1) assms(4,2,3)]) auto

lemma demo_project_run:
  "fst (run_actions (reg_Actions (NewOrganizationProjectReconciler server))
     \<lparr>rr_Instance = demo_project ''genomics-analysis'' ''genomics'' [] '''', rr_Extensions = None\<rparr> demo_cluster) = None"
  by code_simp

theorem project_provisioned_witness:
  "\<exists>rr' s' ns. run_actions (reg_Actions (NewOrganizationProjectReconciler server))
       \<lparr>rr_Instance = demo_project ''genomics-analysis'' ''genomics'' [] '''', rr_Extensions = None\<rparr> demo_cluster = (None, rr', s') \<and>
     mem_view cl_namespaces s' (cluster_key ''genomics-analysis'') = Some ns \<and>
     om_Labels (ns_Meta ns) labelOrganizationRoot = Some ''research-division''"
proof -
  let ?rr = "\<lparr>rr_Instance = demo_project ''genomics-analysis'' ''genomics'' [] '''', rr_Extensions = None\<rparr>"
  obtain rr' s' where run: "run_actions (reg_Actions (NewOrganizationProjectReconciler server)) ?rr demo_cluster = (None, rr', s')"
    using demo_project_run by (metis prod.collapse)
  have "well_keyed ns_Meta (mem_view cl_namespaces demo_cluster)" "well_keyed np_Meta (mem_view cl_networkpolicies demo_cluster)"
    by (simp_all add: well_keyed_def mem_view_def demo_cluster_def empty_cluster_def)
  note keyed = this
  have org: "mem_view cl_organizations demo_cluster (cluster_key ''genomics'') =
      Some (demo_org ''genomics'' ''research-division'' ''research-division'')"
    by (simp add: keyed_def)
  from project_provisioned [OF mem_project_reconciler.project_reconciler_axioms keyed run refl refl] run org
  show ?thesis by (auto simp del: demo_views)
qed

text \<open>C30: A project waits for its organization. If the organization is not stored, or is stored without a
  root, nothing is written and the request is returned as it was. When the organization was read,
  and so has no root yet, the error stops the actions and asks to be run again after ten seconds;
  when the read failed, for one because there is no such organization, the error is a plain one that
  wraps the reader's.\<close>

theorem project_waits_for_organization:
  assumes "project_reconciler run c oview pview nview bview qview nrest brest qrest"
    and "\<forall>x. oview s (cluster_key (proj_Organization (rr_Instance rr))) = Some x \<longrightarrow> org_Root x = ''''"
  shows "run (reg_Actions (NewOrganizationProjectReconciler c)) rr s =
    (Some (case Get (organizations c) (cluster_key (proj_Organization (rr_Instance rr))) s of
        Inl err \<Rightarrow> Errorf ''failed to get organization: %w'' [ArgErr (ApiError err)]
      | Inr _ \<Rightarrow> StopError ''organization %q not yet reconciled (missing root)'' [ArgS (proj_Organization (rr_Instance rr))] 10),
     rr, s)"
  by (rule project_reconciler.organization_not_ready [OF assms(1)]) (use assms(2) in blast)

theorem project_waits_for_organization_witness:
  "run_actions (reg_Actions (NewOrganizationProjectReconciler server))
     \<lparr>rr_Instance = demo_project ''lost'' ''nobody'' [] '''', rr_Extensions = None\<rparr> demo_cluster =
   (Some (Errorf ''failed to get organization: %w'' [ArgErr (ApiError NotFound)]),
    \<lparr>rr_Instance = demo_project ''lost'' ''nobody'' [] '''', rr_Extensions = None\<rparr>, demo_cluster)"
proof -
  let ?rr = "\<lparr>rr_Instance = demo_project ''lost'' ''nobody'' [] '''', rr_Extensions = None\<rparr>"
  have missing: "mem_view cl_organizations demo_cluster (cluster_key (proj_Organization (rr_Instance ?rr))) = None"
    by (simp add: keyed_def demo_project_def)
  then have "Get (organizations server) (cluster_key (proj_Organization (rr_Instance ?rr))) demo_cluster = Inl NotFound"
    by (simp add: mem_get_def mem_view_def)
  with project_waits_for_organization [OF mem_project_reconciler.project_reconciler_axioms, of demo_cluster ?rr "\<lambda>_ _. None"] missing
  show ?thesis by (simp del: demo_views)
qed

text \<open>C17: A project never takes a namespace from another owner. If the namespace of the project's name is
  stored and its controller reference has another group, kind or name than the project's, the
  reconciliation fails and nothing at all is written: no label, no binding, no policy. (A reference to
  an earlier OrganizationProject of the same name, with another UID, is no other owner in this sense:
  the project that follows takes the namespace over.)\<close>

theorem namespace_never_taken:
  assumes "project_reconciler run c oview pview nview bview qview nrest brest qrest"
    and "nview s (cluster_key (proj_Name (rr_Instance rr))) = Some ns" and "controller_of (ns_Meta ns) = Some r"
    and "api_group (or_APIVersion r) \<noteq> ''organization.opendatahub.io'' \<or> or_Kind r \<noteq> ''OrganizationProject'' \<or>
      or_Name r \<noteq> proj_Name (rr_Instance rr)"
  shows "\<exists>e rr'. run (reg_Actions (NewOrganizationProjectReconciler c)) rr s = (Some e, rr', s)"
proof -
  have "api_group GroupVersion = ''organization.opendatahub.io''" by code_simp
  then have "\<not> same_object (owner_project (rr_Instance rr)) r" using assms(4) by (simp add: same_object_owners)
  with assms(1-3) show ?thesis by (rule project_reconciler.namespace_taken)
qed

theorem namespace_never_taken_witness:
  "\<exists>e rr'. run_actions (reg_Actions (NewOrganizationProjectReconciler server))
       \<lparr>rr_Instance = demo_project ''genomics-analysis'' ''genomics'' [] '''', rr_Extensions = None\<rparr>
       (demo_cluster\<lparr>cl_namespaces := keyed ns_Meta [taken_namespace]\<rparr>) =
     (Some e, rr', demo_cluster\<lparr>cl_namespaces := keyed ns_Meta [taken_namespace]\<rparr>)"
proof (rule namespace_never_taken [OF mem_project_reconciler.project_reconciler_axioms])
  show "mem_view cl_namespaces (demo_cluster\<lparr>cl_namespaces := keyed ns_Meta [taken_namespace]\<rparr>)
      (cluster_key (proj_Name (rr_Instance \<lparr>rr_Instance = demo_project ''genomics-analysis'' ''genomics'' [] '''', rr_Extensions = None\<rparr>)))
      = Some taken_namespace"
    by (simp add: mem_view_def keyed_def key_of_def taken_namespace_def demo_namespace_def)
  show "controller_of (ns_Meta taken_namespace) = Some (owner_reference (owner_project (demo_project ''other'' ''proteomics'' [] '''')) (Some True))"
    by (simp add: taken_namespace_def controller_of_def)
qed (simp add: demo_project_def owner_reference_def owner_project_def)

text \<open>The isolation of a project is never empty and never weaker than somebody asked for: it is the
  project's own preset if it has one; \<open>none\<close> comes only from the project itself or from the
  default on its organization's stored profile, and a profile that cannot be read gives
  \<open>tenant\<close>.\<close>

theorem isolation_fails_safe:
  assumes "object_reader (Get (profiles c)) pview"
  shows "effectiveIsolation c project s \<noteq> '''' \<and>
    (prs_NetworkIsolation (proj_Spec project) \<noteq> '''' \<longrightarrow> effectiveIsolation c project s = prs_NetworkIsolation (proj_Spec project)) \<and>
    (effectiveIsolation c project s \<noteq> ''tenant'' \<longrightarrow>
       effectiveIsolation c project s = prs_NetworkIsolation (proj_Spec project) \<or>
       (\<exists>p. pview s (cluster_key (proj_Organization project)) = Some p \<and>
          effectiveIsolation c project s = pd_NetworkIsolation (ops_Defaults (prof_Spec p))))"
proof (cases "prs_NetworkIsolation (proj_Spec project) = ''''")
  case True
  show ?thesis
  proof (cases "Get (profiles c) (cluster_key (proj_Organization project)) s")
    case (Inl e)
    with True show ?thesis by (simp add: effectiveIsolation_def)
  next
    case (Inr p)
    then have "pview s (cluster_key (proj_Organization project)) = Some p"
      by (rule object_reader.get_found [OF assms])
    with True Inr show ?thesis by (simp add: effectiveIsolation_def)
  qed
qed (simp add: effectiveIsolation_def)

theorem isolation_fails_safe_witness:
  "effectiveIsolation server (demo_project ''p'' ''genomics'' [] '''') demo_cluster = ''tenant'' \<and>
   effectiveIsolation server (demo_project ''p'' ''genomics'' [] ''strict'') demo_cluster = ''strict''"
proof -
  have "object_reader (Get (profiles server)) (mem_view cl_profiles)"
    using mem_authz.profile_reader.object_reader_axioms [of "\<lambda>_ _. None"] by simp
  note safe = isolation_fails_safe [OF this]
  have stored: "mem_view cl_profiles demo_cluster (cluster_key ''genomics'') = Some (demo_profile ''genomics'' [] 2)"
    by (simp add: keyed_def)
  have fields: "prs_NetworkIsolation (proj_Spec (demo_project ''p'' ''genomics'' [] i)) = i"
    "pd_NetworkIsolation (ops_Defaults (prof_Spec (demo_profile ''genomics'' [] 2))) = ''tenant''" for i
    by (simp_all add: demo_project_def demo_profile_def)
  show ?thesis
    using safe [of "demo_project ''p'' ''genomics'' [] ''strict''" demo_cluster]
      safe [of "demo_project ''p'' ''genomics'' [] ''''" demo_cluster] stored fields
    by (auto simp del: demo_views)
qed


text \<open>The stores keep their shape: wherever a reconciliation of a project stops, and whatever call
  fails, every namespace, role binding and network policy is still stored under its own namespace and
  name. The properties that assume well-keyed stores may therefore be used one reconciliation after
  another.\<close>

theorem stores_stay_keyed:
  assumes "project_reconciler run c oview pview nview bview qview nrest brest qrest"
    and "run (reg_Actions (NewOrganizationProjectReconciler c)) rr s = (err, rr', s')"
    and "well_keyed ns_Meta (nview s)" and "well_keyed rb_Meta (bview s)" and "well_keyed np_Meta (qview s)"
  shows "well_keyed ns_Meta (nview s') \<and> well_keyed rb_Meta (bview s') \<and> well_keyed np_Meta (qview s')"
  by (rule action_runner.run_invariant [OF project_reconciler.axioms(1) [OF assms(1)]
        project_reconciler.actions_keep_keyed [OF assms(1)] _ assms(2)]) (use assms(3-5) in blast)

theorem stores_stay_keyed_witness:
  "well_keyed ns_Meta (mem_view cl_namespaces (snd (snd (run_actions (reg_Actions (NewOrganizationProjectReconciler server))
     \<lparr>rr_Instance = demo_project ''genomics-analysis'' ''genomics'' [] '''', rr_Extensions = None\<rparr> demo_cluster))))"
proof -
  let ?run = "run_actions (reg_Actions (NewOrganizationProjectReconciler server))
     \<lparr>rr_Instance = demo_project ''genomics-analysis'' ''genomics'' [] '''', rr_Extensions = None\<rparr> demo_cluster"
  obtain err rr' s' where run: "?run = (err, rr', s')" by (cases ?run) auto
  have "well_keyed ns_Meta (mem_view cl_namespaces demo_cluster)" "well_keyed rb_Meta (mem_view cl_rolebindings demo_cluster)"
    "well_keyed np_Meta (mem_view cl_networkpolicies demo_cluster)"
    by (simp_all add: well_keyed_def mem_view_def demo_cluster_def empty_cluster_def)
  from stores_stay_keyed [OF mem_project_reconciler.project_reconciler_axioms run this] run show ?thesis by simp
qed

end
