(* ===== verification/Maas_Controller.thy ===== *)
theory Maas_Controller
  imports Reconciler Demo_Cluster
begin

text \<open>
  \<open>internal/controller/maasconfiguration\<close>: the MaaSConfiguration reconciler. One action,
  \<open>reconcileMaaS\<close>, is registered both as the action and as the finalizer: it puts a finalizer
  on the configuration, renders the AITenant of the organization from the configuration and the
  organization's profile, stores it, and reports readiness; on a configuration that is being
  deleted it removes the AITenant and then the finalizer. The conditions it marks are framework
  state and are recorded in the request in the order of the calls.
\<close>

section \<open>Constants and the request\<close>

definition conditionCapabilityManaged :: string where
  "conditionCapabilityManaged = ''CapabilityManaged''"

definition conditionMaaSReady :: string where
  "conditionMaaSReady = ''MaaSReady''"

definition maasNamespace :: string where
  "maasNamespace = ''ai-tenants''"

definition maasFinalizer :: string where
  "maasFinalizer = ''organization.opendatahub.io/maas-cleanup''"

definition maasOrganizationLabel :: string where
  "maasOrganizationLabel = ''organization.opendatahub.io/name''"

definition managedByLabel :: string where
  "managedByLabel = ''maas.opendatahub.io/managed-by''"

definition temporaryManagedBy :: string where
  "temporaryManagedBy = ''tenancy-operator''"

definition maxAITenantNameSize :: nat where
  "maxAITenantNameSize = 41"

definition nestedNameField :: string where
  "nestedNameField = ''name''"

definition gatewayField :: string where
  "gatewayField = ''gateway''"

definition tlsField :: string where
  "tlsField = ''tls''"

text \<open>\<open>maasGVK\<close>, as its API version and kind.\<close>

definition maasAPIVersion :: string where
  "maasAPIVersion = ''maas.opendatahub.io/v1alpha1''"

definition maasKind :: string where
  "maasKind = ''AITenant''"

text \<open>The calls of the condition manager: type, reason and message.\<close>

datatype mark =
    MarkTrue string string
  | MarkFalse string string fmt_arg
  | MarkUnknown string string fmt_arg

record maas_request =
  mr_Instance :: MaaSConfiguration
  mr_Conditions :: "mark list"

definition add_mark :: "mark \<Rightarrow> maas_request \<Rightarrow> maas_request" where
  "add_mark mk rr = rr\<lparr>mr_Conditions := mr_Conditions rr @ [mk]\<rparr>"

definition markCapabilityUnavailable :: "maas_request \<Rightarrow> maas_request" where
  "markCapabilityUnavailable rr =
     add_mark (MarkUnknown conditionMaaSReady ''CapabilityNotManaged''
        (ArgS ''MaaS provisioning is waiting for the AITenant CRD''))
      (add_mark (MarkFalse conditionCapabilityManaged ''CapabilityNotManaged''
        (ArgS ''the MaaS AITenant CRD is not installed'')) rr)"

definition hasMaaS :: "'s k8s \<Rightarrow> 's \<Rightarrow> bool" where
  "hasMaaS c s = (case HasCRD c s of Inl _ \<Rightarrow> False | Inr ok \<Rightarrow> ok)"


section \<open>Rendering\<close>

definition specOIDCClientID :: "MaaSConfigurationSpec \<Rightarrow> string" where
  "specOIDCClientID spec = (case mcs_OIDC spec of None \<Rightarrow> '''' | Some oidc \<Rightarrow> mo_ClientID oidc)"

text \<open>What each of the four fields is set to, if it is set: lines 169 to 178 and the arguments of the calls.\<close>

definition oidcValue :: "MaaSConfigurationSpec \<Rightarrow> OrganizationProfile \<Rightarrow> json option" where
  "oidcValue spec profile =
     (let oidc = Map.empty; hasOIDC = False;
          (oidc, hasOIDC) = (case Option.bind (ops_Platform (prof_Spec profile)) plat_OIDC of
              Some o' \<Rightarrow> (oidc(''issuerUrl'' \<mapsto> JString (oidc_IssuerURL o')), True) | None \<Rightarrow> (oidc, hasOIDC));
          (oidc, hasOIDC) = (case mcs_OIDC spec of
              Some _ \<Rightarrow> (oidc(''clientId'' \<mapsto> JString (specOIDCClientID spec)), True) | None \<Rightarrow> (oidc, hasOIDC))
      in if hasOIDC then Some (JObject oidc) else None)"

definition gatewayValue :: "OrganizationProfile \<Rightarrow> json option" where
  "gatewayValue profile =
     (case Option.bind (ops_Platform (prof_Spec profile)) plat_IngressGatewayRef of
        Some gw \<Rightarrow> Some (JObject [nestedNameField \<mapsto> JString (gw_Name gw)]) | None \<Rightarrow> None)"

definition tlsValue :: "MaaSConfigurationSpec \<Rightarrow> json option" where
  "tlsValue spec =
     (case mcs_TLS spec of
        Some tls \<Rightarrow> Some (JObject [''certificateRef'' \<mapsto> JObject
          [nestedNameField \<mapsto> JString (mc_Name (mt_CertificateRef tls)),
           ''namespace'' \<mapsto> JString (mc_Namespace (mt_CertificateRef tls))]])
      | None \<Rightarrow> None)"

definition quotaValue :: "MaaSConfigurationSpec \<Rightarrow> json option" where
  "quotaValue spec =
     (case mcs_Quotas spec of
        Some q \<Rightarrow> Some (JObject [''maxModels'' \<mapsto> JInt (sint (mq_MaxModels q)),
          ''maxSubscriptions'' \<mapsto> JInt (sint (mq_MaxSubscriptions q)), ''maxApiKeys'' \<mapsto> JInt (sint (mq_MaxAPIKeys q))])
      | None \<Rightarrow> None)"

definition setOrRemove :: "'s k8s \<Rightarrow> string \<Rightarrow> json option \<Rightarrow> (string \<rightharpoonup> json) \<Rightarrow> go_error + (string \<rightharpoonup> json)" where
  "setOrRemove c field v obj =
     (case v of Some x \<Rightarrow> SetNestedField c obj x [''spec'', field]
      | None \<Rightarrow> Inr (RemoveNestedField c obj [''spec'', field]))"

definition render :: "'s k8s \<Rightarrow> MaaSConfigurationSpec \<Rightarrow> OrganizationProfile \<Rightarrow> Unstructured \<Rightarrow> go_error + Unstructured" where
  "render c spec profile obj =
     (case setOrRemove c ''oidc'' (oidcValue spec profile) (un_Object obj) of Inl err \<Rightarrow> Inl err
      | Inr o1 \<Rightarrow> (case setOrRemove c gatewayField (gatewayValue profile) o1 of Inl err \<Rightarrow> Inl err
        | Inr o2 \<Rightarrow> (case setOrRemove c tlsField (tlsValue spec) o2 of Inl err \<Rightarrow> Inl err
          | Inr o3 \<Rightarrow> (case setOrRemove c ''resourceQuotas'' (quotaValue spec) o3 of Inl err \<Rightarrow> Inl err
            | Inr o4 \<Rightarrow> Inr (obj\<lparr>un_Object := o4\<rparr>)))))"

definition json_is :: "string \<Rightarrow> json option \<Rightarrow> bool" where
  "json_is t v = (case v of Some (JString u) \<Rightarrow> u = t | _ \<Rightarrow> False)"

definition ready_condition :: "json \<Rightarrow> bool" where
  "ready_condition raw =
     (case raw of JObject condition \<Rightarrow> json_is ''Ready'' (condition ''type'') \<and> json_is ''True'' (condition ''status'')
      | _ \<Rightarrow> False)"

fun any_ready :: "json list \<Rightarrow> bool" where
  "any_ready [] = False"
| "any_ready (raw # raws) = (if ready_condition raw then True else any_ready raws)"

definition ready :: "'s k8s \<Rightarrow> Unstructured \<Rightarrow> bool" where
  "ready c obj =
     (case NestedSlice c (un_Object obj) [''status'', ''conditions''] of
        Inr (Some statusConditions) \<Rightarrow> any_ready statusConditions
      | _ \<Rightarrow> False)"


section \<open>Events\<close>

datatype event_kind = CreateEvent | UpdateEvent | DeleteEvent | GenericEvent

fun maasPredicate :: "event_kind \<Rightarrow> bool" where
  "maasPredicate CreateEvent = True"
| "maasPredicate UpdateEvent = True"
| "maasPredicate DeleteEvent = True"
| "maasPredicate GenericEvent = False"

fun mapOwners :: "OwnerReference list \<Rightarrow> ObjectKey list" where
  "mapOwners [] = []"
| "mapOwners (owner # owners) =
     (if or_APIVersion owner = GroupVersion \<and> or_Kind owner = ''MaaSConfiguration'' \<and> or_Controller owner = Some True
      then [cluster_key (or_Name owner)] else mapOwners owners)"

definition mapAITenant :: "Unstructured \<Rightarrow> ObjectKey list" where
  "mapAITenant obj = mapOwners (om_OwnerReferences (un_Meta obj))"



section \<open>The action\<close>

text \<open>\<open>GvkToUnstructured\<close> with the namespace and the name set.\<close>

definition newAITenant :: "string \<Rightarrow> Unstructured" where
  "newAITenant name = \<lparr>un_APIVersion = maasAPIVersion, un_Kind = maasKind, un_Meta = named maasNamespace name,
     un_Object = Map.empty\<rparr>"

text \<open>Lines 45 to 50. The finalizer is added to the instance in place; the client leaves the server's
  answer there when the update succeeds.\<close>

definition addCleanupFinalizer :: "'s k8s \<Rightarrow> (maas_request, 's) action" where
  "addCleanupFinalizer c rr s =
     (let configuration = mr_Instance rr in
      if \<not> ContainsFinalizer c (mcfg_Meta configuration) maasFinalizer
      then (let configuration' = configuration\<lparr>mcfg_Meta := AddFinalizer c (mcfg_Meta configuration) maasFinalizer\<rparr> in
            case Update (configurations c) configuration' s of
              (Inl err, s') \<Rightarrow> (Some (Errorf ''add MaaS cleanup finalizer: %w'' [ArgErr (ApiError err)]),
                 rr\<lparr>mr_Instance := configuration'\<rparr>, s')
            | (Inr stored, s') \<Rightarrow> (None, rr\<lparr>mr_Instance := stored\<rparr>, s'))
      else (None, rr, s))"

text \<open>Lines 90 to 110: the owner references of a new object, the ownership check of an existing one,
  and the labels. The result is \<open>Inr None\<close> when the existing object is not owned.\<close>

definition prepareAITenant :: "'s k8s \<Rightarrow> MaaSConfiguration \<Rightarrow> Organization \<Rightarrow> bool \<Rightarrow> Unstructured \<Rightarrow> go_error + Unstructured option" where
  "prepareAITenant c configuration organization created obj =
     (let label = (\<lambda>obj. obj\<lparr>un_Meta := (un_Meta obj)\<lparr>om_Labels := (om_Labels (un_Meta obj))
            (maasOrganizationLabel \<mapsto> mcfg_Organization configuration, managedByLabel \<mapsto> temporaryManagedBy)\<rparr>\<rparr>) in
      if created
      then (case SetControllerReference c (owner_configuration configuration) (un_Meta obj) of
              Inl err \<Rightarrow> Inl (Errorf ''set AITenant owner reference: %w'' [ArgErr err])
            | Inr m \<Rightarrow> (case SetOwnerReference c (owner_organization organization) m of
                Inl err \<Rightarrow> Inl (Errorf ''set organization owner reference: %w'' [ArgErr err])
              | Inr m' \<Rightarrow> Inr (Some (label (obj\<lparr>un_Meta := m'\<rparr>)))))
      else if \<not> IsControlledBy c (un_Meta obj) (mcfg_Meta configuration) then Inr None
      else Inr (Some (label obj)))"

text \<open>Lines 112 to 121.\<close>

definition storeAITenant :: "'s k8s \<Rightarrow> bool \<Rightarrow> Unstructured \<Rightarrow> 's \<Rightarrow> (go_error + Unstructured) \<times> 's" where
  "storeAITenant c created obj s =
     (if created
      then (case Create (aitenants c) obj s of
              (Inl err, s') \<Rightarrow> (Inl (Errorf ''create AITenant: %w'' [ArgErr (ApiError err)]), s')
            | (Inr obj', s') \<Rightarrow> (Inr obj', s'))
      else (case Update (aitenants c) obj s of
              (Inl err, s') \<Rightarrow> (Inl (Errorf ''update AITenant: %w'' [ArgErr (ApiError err)]), s')
            | (Inr obj', s') \<Rightarrow> (Inr obj', s')))"

text \<open>Lines 123 to 129, and all of lines 90 to 130 from the object as it was found or made.\<close>

definition reportReadiness :: "'s k8s \<Rightarrow> Unstructured \<Rightarrow> maas_request \<Rightarrow> maas_request" where
  "reportReadiness c obj rr =
     (if ready c obj then add_mark (MarkTrue conditionMaaSReady ''MaaSReady'') rr
      else add_mark (MarkUnknown conditionMaaSReady ''WaitingForMaaS''
             (ArgS ''AITenant is waiting for the MaaS controller'')) rr)"

definition reportNotOwned :: "maas_request \<Rightarrow> maas_request" where
  "reportNotOwned rr = add_mark (MarkFalse conditionMaaSReady ''ExistingResourceNotOwned''
     (ArgS ''an existing AITenant with this name is not managed by this MaaSConfiguration'')) rr"

definition finishAITenant :: "'s k8s \<Rightarrow> Organization \<Rightarrow> OrganizationProfile \<Rightarrow> bool \<Rightarrow> Unstructured \<Rightarrow> (maas_request, 's) action" where
  "finishAITenant c organization profile created obj rr s =
     (case prepareAITenant c (mr_Instance rr) organization created obj of
        Inl err \<Rightarrow> (Some err, rr, s)
      | Inr None \<Rightarrow> (None, reportNotOwned rr, s)
      | Inr (Some obj') \<Rightarrow>
          (case render c (mcfg_Spec (mr_Instance rr)) profile obj' of
             Inl err \<Rightarrow> (Some err, rr, s)
           | Inr rendered \<Rightarrow>
               (case storeAITenant c created rendered s of
                  (Inl err, s') \<Rightarrow> (Some err, rr, s')
                | (Inr stored, s') \<Rightarrow> (None, reportReadiness c stored rr, s'))))"

text \<open>Lines 81 to 130.\<close>

definition provisionAITenant :: "'s k8s \<Rightarrow> Organization \<Rightarrow> OrganizationProfile \<Rightarrow> (maas_request, 's) action" where
  "provisionAITenant c organization profile rr s =
     (let name = mcfg_Name (mr_Instance rr) in
      case Get (aitenants c) (maasNamespace, name) s of
        Inr obj \<Rightarrow> finishAITenant c organization profile False obj rr s
      | Inl err \<Rightarrow>
          if err \<noteq> NotFound
          then (Some (Errorf ''get AITenant %q: %w'' [ArgS name, ArgErr (ApiError err)]), rr, s)
          else finishAITenant c organization profile True (newAITenant name) rr s)"

text \<open>Lines 52 to 130.\<close>

definition provisionMaaS :: "'s k8s \<Rightarrow> (maas_request, 's) action" where
  "provisionMaaS c rr s =
     (if \<not> hasMaaS c s then (None, markCapabilityUnavailable rr, s)
      else (let rr = add_mark (MarkTrue conditionCapabilityManaged ''CapabilityManaged'') rr;
                configuration = mr_Instance rr; organizationName = mcfg_Organization configuration in
        case Get (organizations c) (cluster_key organizationName) s of
          Inl err \<Rightarrow> (Some (Errorf ''get organization %q: %w'' [ArgS organizationName, ArgErr (ApiError err)]), rr, s)
        | Inr organization \<Rightarrow>
            if org_Parent organization \<noteq> ''''
            then (None, add_mark (MarkFalse conditionMaaSReady ''RootOrganizationRequired''
                   (ArgS ''MaaS is supported only for root organizations'')) rr, s)
            else if length (mcfg_Name configuration) > maxAITenantNameSize
            then (None, add_mark (MarkFalse conditionMaaSReady ''NameTooLong''
                   (ArgFmt ''organization name exceeds the AITenant name limit of %d characters''
                     [ArgInt (int maxAITenantNameSize)])) rr, s)
            else (case Get (profiles c) (cluster_key organizationName) s of
                    Inl err \<Rightarrow> (Some (Errorf ''get organization profile %q: %w''
                                  [ArgS organizationName, ArgErr (ApiError err)]), rr, s)
                  | Inr profile \<Rightarrow> provisionAITenant c organization profile rr s)))"

text \<open>Lines 147 to 151.\<close>

definition removeCleanupFinalizer :: "'s k8s \<Rightarrow> (maas_request, 's) action" where
  "removeCleanupFinalizer c rr s =
     (let configuration = mr_Instance rr;
          configuration' = configuration\<lparr>mcfg_Meta := RemoveFinalizer c (mcfg_Meta configuration) maasFinalizer\<rparr> in
      case Update (configurations c) configuration' s of
        (Inl err, s') \<Rightarrow> (Some (Errorf ''remove MaaS cleanup finalizer: %w'' [ArgErr (ApiError err)]),
           rr\<lparr>mr_Instance := configuration'\<rparr>, s')
      | (Inr stored, s') \<Rightarrow> (None, rr\<lparr>mr_Instance := stored\<rparr>, s'))"

definition cleanupMaaS :: "'s k8s \<Rightarrow> (maas_request, 's) action" where
  "cleanupMaaS c rr s =
     (let configuration = mr_Instance rr in
      case Get (aitenants c) (maasNamespace, mcfg_Name configuration) s of
        Inl err \<Rightarrow>
          if err \<noteq> NotFound \<and> err \<noteq> NoMatch
          then (Some (Errorf ''get generated AITenant for cleanup: %w'' [ArgErr (ApiError err)]), rr, s)
          else removeCleanupFinalizer c rr s
      | Inr obj \<Rightarrow>
          if IsControlledBy c (un_Meta obj) (mcfg_Meta configuration)
          then (case Delete (aitenants c) obj s of
                  (Inl err, s') \<Rightarrow>
                    if err \<noteq> NotFound
                    then (Some (Errorf ''delete generated AITenant: %w'' [ArgErr (ApiError err)]), rr, s')
                    else removeCleanupFinalizer c rr s'
                | (Inr (), s') \<Rightarrow> removeCleanupFinalizer c rr s')
          else removeCleanupFinalizer c rr s)"

definition reconcileMaaS :: "'s k8s \<Rightarrow> (maas_request, 's) action" where
  "reconcileMaaS c rr s =
     (if om_DeletionTimestamp (mcfg_Meta (mr_Instance rr)) \<noteq> None then cleanupMaaS c rr s
      else (case addCleanupFinalizer c rr s of
              (Some err, rr', s') \<Rightarrow> (Some err, rr', s')
            | (None, rr', s') \<Rightarrow> provisionMaaS c rr' s'))"

definition NewMaaSConfigurationReconciler :: "'s k8s \<Rightarrow> (maas_request, 's) registration" where
  "NewMaaSConfigurationReconciler c = \<lparr>reg_For = ''MaaSConfiguration'', reg_Owns = [], reg_Watches = [maasKind],
     reg_Actions = [reconcileMaaS c], reg_FinalizerName = maasFinalizer, reg_Finalizers = [reconcileMaaS c],
     reg_Conditions = [conditionCapabilityManaged, conditionMaaSReady, ConditionTypeProvisioningSucceeded]\<rparr>"

end
