(* ===== verification/Api_Validation.thy ===== *)
theory Api_Validation
  imports Kube_Client
begin

text \<open>
  What the API server checks of a request before it stores the object, as the Kubernetes API
  documents it: the syntax of names, label keys and label values, owner references, the subjects and
  the role of a RoleBinding, the selectors of a NetworkPolicy, and that a namespaced object is
  written into a namespace that exists and is not being deleted. What was stored has passed these
  checks, so for an update they are stated of what the update changes. The liveness properties assume a
  server that accepts what passes (the \<open>acceptable\<close> of \<open>reliable_creator\<close> and its
  companions), and ask of the names, labels and users that what the controllers send does pass.
\<close>

section \<open>Names and labels\<close>

definition lower_alnum :: "char \<Rightarrow> bool" where
  "lower_alnum ch \<longleftrightarrow> ch \<in> set ''abcdefghijklmnopqrstuvwxyz0123456789''"

definition alnum :: "char \<Rightarrow> bool" where
  "alnum ch \<longleftrightarrow> lower_alnum ch \<or> ch \<in> set ''ABCDEFGHIJKLMNOPQRSTUVWXYZ''"

text \<open>A non-empty text of the given characters that begins and ends with one of the narrower class.\<close>

definition bracketed :: "(char \<Rightarrow> bool) \<Rightarrow> (char \<Rightarrow> bool) \<Rightarrow> string \<Rightarrow> bool" where
  "bracketed ends inner t \<longleftrightarrow> t \<noteq> [] \<and> ends (hd t) \<and> ends (last t) \<and> list_all inner t"

definition dns_part :: "string \<Rightarrow> bool" where
  "dns_part t \<longleftrightarrow> bracketed lower_alnum (\<lambda>ch. lower_alnum ch \<or> ch = CHR ''-'') t"

text \<open>The names of namespaces, and those of the other kinds.\<close>

definition dns_label :: "string \<Rightarrow> bool" where
  "dns_label t \<longleftrightarrow> length t \<le> 63 \<and> dns_part t"

definition dns_subdomain :: "string \<Rightarrow> bool" where
  "dns_subdomain t \<longleftrightarrow> length t \<le> 253 \<and> list_all dns_part (split_on (CHR ''.'') t)"

definition name_part :: "string \<Rightarrow> bool" where
  "name_part t \<longleftrightarrow> length t \<le> 63 \<and> bracketed alnum (\<lambda>ch. alnum ch \<or> ch \<in> set ''-_.'') t"

definition label_value :: "string \<Rightarrow> bool" where
  "label_value t \<longleftrightarrow> t = [] \<or> name_part t"

text \<open>A label key or a finalizer: a name, with or without a prefix.\<close>

definition qualified_name :: "string \<Rightarrow> bool" where
  "qualified_name t =
     (case split_on (CHR ''/'') t of
        [name] \<Rightarrow> name_part name
      | [prefix, name] \<Rightarrow> dns_subdomain prefix \<and> name_part name
      | _ \<Rightarrow> False)"

lemma dns_label_subdomain:
  assumes "dns_label t"
  shows "dns_subdomain t"
proof -
  have "\<not> (lower_alnum (CHR ''.'') \<or> CHR ''.'' = CHR ''-'')" by (simp add: lower_alnum_def)
  moreover have "list_all (\<lambda>ch. lower_alnum ch \<or> ch = CHR ''-'') t"
    using assms by (simp add: dns_label_def dns_part_def bracketed_def)
  ultimately have "CHR ''.'' \<notin> set t" unfolding list_all_iff by blast
  then show ?thesis using assms split_on_absent by (simp add: dns_subdomain_def dns_label_def)
qed

lemma dns_subdomain_not_empty: "dns_subdomain t \<Longrightarrow> t \<noteq> ''''"
  by (auto simp: dns_subdomain_def dns_part_def bracketed_def)

lemma label_value_limit: "label_value t \<Longrightarrow> length t \<le> 63"
  by (auto simp: label_value_def name_part_def)


section \<open>Metadata\<close>

definition reference_complete :: "OwnerReference \<Rightarrow> bool" where
  "reference_complete r \<longleftrightarrow> or_APIVersion r \<noteq> '''' \<and> or_Kind r \<noteq> '''' \<and> or_Name r \<noteq> '''' \<and> or_UID r \<noteq> ''''"

definition references_admitted :: "OwnerReference list \<Rightarrow> OwnerReference list \<Rightarrow> bool" where
  "references_admitted old new \<longleftrightarrow> new = old \<or>
     (\<forall>r \<in> set new. r \<in> set old \<or> reference_complete r) \<and> length (filter is_controller new) \<le> 1"

definition labels_admitted :: "(string \<rightharpoonup> string) \<Rightarrow> (string \<rightharpoonup> string) \<Rightarrow> bool" where
  "labels_admitted old new \<longleftrightarrow>
     (\<forall>k v. new k = Some v \<longrightarrow> old k = Some v \<or> qualified_name k \<and> label_value v)"

definition meta_admitted :: "ObjectMeta \<Rightarrow> ObjectMeta \<Rightarrow> bool" where
  "meta_admitted old new \<longleftrightarrow> labels_admitted (om_Labels old) (om_Labels new) \<and>
     references_admitted (om_OwnerReferences old) (om_OwnerReferences new) \<and>
     om_Annotations new = om_Annotations old \<and>
     (\<forall>f \<in> set (om_Finalizers new). f \<in> set (om_Finalizers old) \<or> qualified_name f)"

text \<open>An owner whose reference is complete.\<close>

definition owner_complete :: "owner_object \<Rightarrow> bool" where
  "owner_complete w \<longleftrightarrow> (\<forall>controller. reference_complete (owner_reference w controller))"

lemma owner_complete_owners:
  "owner_complete (owner_organization o') \<longleftrightarrow> om_Name (org_Meta o') \<noteq> '''' \<and> om_UID (org_Meta o') \<noteq> ''''"
  "owner_complete (owner_project p) \<longleftrightarrow> om_Name (proj_Meta p) \<noteq> '''' \<and> om_UID (proj_Meta p) \<noteq> ''''"
  "owner_complete (owner_configuration c) \<longleftrightarrow> om_Name (mcfg_Meta c) \<noteq> '''' \<and> om_UID (mcfg_Meta c) \<noteq> ''''"
  "owner_complete (owner_namespace n) \<longleftrightarrow> om_Name (ns_Meta n) \<noteq> '''' \<and> om_UID (ns_Meta n) \<noteq> ''''"
  by (simp_all add: owner_complete_def reference_complete_def owner_reference_def owner_organization_def
      owner_project_def owner_configuration_def owner_namespace_def GroupVersion_def)

lemma labels_admitted_refl [simp]: "labels_admitted l l"
  by (simp add: labels_admitted_def)

lemma labels_admitted_upd [intro]:
  "labels_admitted old new \<Longrightarrow> qualified_name k \<Longrightarrow> label_value v \<Longrightarrow> labels_admitted old (new(k \<mapsto> v))"
  by (simp add: labels_admitted_def)

lemma controller_reference_admitted:
  assumes "owner_open w m" and "owner_complete w"
  shows "references_admitted (om_OwnerReferences m) (upsert_reference w (Some True) (om_OwnerReferences m))"
  unfolding references_admitted_def
proof (intro disjI2 conjI)
  show "\<forall>r \<in> set (upsert_reference w (Some True) (om_OwnerReferences m)). r \<in> set (om_OwnerReferences m) \<or> reference_complete r"
    using upsert_member assms(2) unfolding owner_complete_def by blast
  have "length (filter is_controller (upsert_reference w (Some True) (om_OwnerReferences m))) \<le>
      max 1 (length (filter (same_object w) (om_OwnerReferences m)))"
    by (rule filter_upsert) (use assms(1) in \<open>auto simp: owner_open_def\<close>)
  then show "length (filter is_controller (upsert_reference w (Some True) (om_OwnerReferences m))) \<le> 1"
    using assms(1) by (simp add: owner_open_def)
qed

context owner_references
begin

lemma controller_set_admitted:
  assumes "setController w m = Inr m'" and "owner_open w m" and "owner_complete w"
    and "om_OwnerReferences m = om_OwnerReferences old" and "labels_admitted (om_Labels old) (om_Labels m)"
    and "om_Annotations m = om_Annotations old" and "om_Finalizers m = om_Finalizers old"
  shows "meta_admitted old m'"
  using controller_upserts [OF assms(1)] controller_reference_admitted [OF assms(2,3)] assms(4-7)
  by (simp add: meta_admitted_def)

end


section \<open>The kinds the controllers write\<close>

definition live_namespace :: "('s \<Rightarrow> ObjectKey \<rightharpoonup> CoreNamespace) \<Rightarrow> 's \<Rightarrow> string \<Rightarrow> bool" where
  "live_namespace nview s name \<longleftrightarrow>
     (\<exists>ns. nview s (cluster_key name) = Some ns \<and> om_DeletionTimestamp (ns_Meta ns) = None)"

definition namespace_admitted :: "'s \<Rightarrow> CoreNamespace \<Rightarrow> CoreNamespace \<Rightarrow> bool" where
  "namespace_admitted s old new \<longleftrightarrow> dns_label (om_Name (ns_Meta new)) \<and> meta_admitted (ns_Meta old) (ns_Meta new)"

definition subject_admitted :: "RbacSubject \<Rightarrow> bool" where
  "subject_admitted x \<longleftrightarrow>
     (if rs_Kind x = ''ServiceAccount''
      then rs_APIGroup x = '''' \<and> dns_subdomain (rs_Name x) \<and> dns_label (rs_Namespace x)
      else rs_Kind x \<in> {''User'', ''Group''} \<and> rs_APIGroup x = ''rbac.authorization.k8s.io'' \<and> rs_Name x \<noteq> '''')"

definition role_admitted :: "RoleRef \<Rightarrow> bool" where
  "role_admitted r \<longleftrightarrow> rref_APIGroup r = ''rbac.authorization.k8s.io'' \<and> rref_Kind r \<in> {''Role'', ''ClusterRole''} \<and>
     dns_subdomain (rref_Name r)"

text \<open>The role of a stored binding cannot be changed.\<close>

definition rolebinding_admitted :: "('s \<Rightarrow> ObjectKey \<rightharpoonup> CoreNamespace) \<Rightarrow> ('s \<Rightarrow> ObjectKey \<rightharpoonup> RoleBinding) \<Rightarrow>
    's \<Rightarrow> RoleBinding \<Rightarrow> RoleBinding \<Rightarrow> bool" where
  "rolebinding_admitted nview bview s old new \<longleftrightarrow> live_namespace nview s (om_Namespace (rb_Meta new)) \<and>
     dns_subdomain (om_Name (rb_Meta new)) \<and> meta_admitted (rb_Meta old) (rb_Meta new) \<and>
     role_admitted (rb_RoleRef new) \<and> list_all subject_admitted (rb_Subjects new) \<and>
     (bview s (key_of (rb_Meta new)) = None \<or> rb_RoleRef new = rb_RoleRef old)"

definition selector_admitted :: "LabelSelector \<Rightarrow> bool" where
  "selector_admitted l \<longleftrightarrow> labels_admitted Map.empty (ls_MatchLabels l)"

definition peer_admitted :: "NetworkPolicyPeer \<Rightarrow> bool" where
  "peer_admitted p \<longleftrightarrow> (npp_PodSelector p \<noteq> None \<or> npp_NamespaceSelector p \<noteq> None) \<and>
     (\<forall>l. npp_PodSelector p = Some l \<longrightarrow> selector_admitted l) \<and>
     (\<forall>l. npp_NamespaceSelector p = Some l \<longrightarrow> selector_admitted l)"

definition policyspec_admitted :: "NetworkPolicySpec \<Rightarrow> bool" where
  "policyspec_admitted x \<longleftrightarrow> selector_admitted (nps_PodSelector x) \<and>
     list_all (\<lambda>rule. list_all peer_admitted (npr_From rule)) (nps_Ingress x) \<and> length (nps_PolicyTypes x) \<le> 2"

definition networkpolicy_admitted :: "('s \<Rightarrow> ObjectKey \<rightharpoonup> CoreNamespace) \<Rightarrow> 's \<Rightarrow> NetworkPolicy \<Rightarrow> NetworkPolicy \<Rightarrow> bool" where
  "networkpolicy_admitted nview s old new \<longleftrightarrow> live_namespace nview s (om_Namespace (np_Meta new)) \<and>
     dns_subdomain (om_Name (np_Meta new)) \<and> meta_admitted (np_Meta old) (np_Meta new) \<and> policyspec_admitted (np_Spec new)"

end
