(* ===== verification/Maas_Controller_Correct.thy ===== *)
theory Maas_Controller_Correct
  imports Maas_Controller Maas_Webhook Api_Validation
begin

text \<open>
  What the MaaSConfiguration reconciler guarantees: the rendered AITenant says what the
  configuration and the profile say, an AITenant the configuration does not control is never
  touched, the cleanup finalizer is stored before an AITenant is, and it is removed only once the
  AITenant is gone.
\<close>

section \<open>The rendered object\<close>

text \<open>
  What the fields of the AITenant's spec that the operator manages are to hold: the issuer of the
  organization's platform and the client of the configuration, the name of the organization's gateway,
  the certificate, and the quotas; a field for which nothing is given is absent.
\<close>

definition wanted_fields :: "MaaSConfigurationSpec \<Rightarrow> OrganizationProfile \<Rightarrow> string \<rightharpoonup> json" where
  "wanted_fields spec profile =
     (let platform = ops_Platform (prof_Spec profile);
          issuer = map_option (\<lambda>x. JString (oidc_IssuerURL x)) (Option.bind platform plat_OIDC);
          client = map_option (\<lambda>x. JString (mo_ClientID x)) (mcs_OIDC spec) in
      Map.empty(
        ''oidc'' := (if issuer = None \<and> client = None then None
                     else Some (JObject (Map.empty(''issuerUrl'' := issuer, ''clientId'' := client)))),
        ''gateway'' := map_option (\<lambda>g. JObject [''name'' \<mapsto> JString (gw_Name g)]) (Option.bind platform plat_IngressGatewayRef),
        ''tls'' := map_option (\<lambda>t. JObject [''certificateRef'' \<mapsto>
          JObject [''name'' \<mapsto> JString (mc_Name (mt_CertificateRef t)), ''namespace'' \<mapsto> JString (mc_Namespace (mt_CertificateRef t))]]) (mcs_TLS spec),
        ''resourceQuotas'' := map_option (\<lambda>q. JObject [''maxModels'' \<mapsto> JInt (sint (mq_MaxModels q)),
          ''maxSubscriptions'' \<mapsto> JInt (sint (mq_MaxSubscriptions q)), ''maxApiKeys'' \<mapsto> JInt (sint (mq_MaxAPIKeys q))]) (mcs_Quotas spec)))"

definition managed_fields :: "string set" where
  "managed_fields = {''oidc'', ''gateway'', ''tls'', ''resourceQuotas''}"

text \<open>The spec of an AITenant after rendering, given the one before: the unmanaged fields stay.\<close>

definition wanted_spec :: "MaaSConfigurationSpec \<Rightarrow> OrganizationProfile \<Rightarrow> (string \<rightharpoonup> json) \<Rightarrow> (string \<rightharpoonup> json)" where
  "wanted_spec spec profile old = (\<lambda>f. if f \<in> managed_fields then wanted_fields spec profile f else old f)"

lemma rendered_values:
  "oidcValue spec profile = wanted_fields spec profile ''oidc''" "gatewayValue profile = wanted_fields spec profile ''gateway''"
  "tlsValue spec = wanted_fields spec profile ''tls''" "quotaValue spec = wanted_fields spec profile ''resourceQuotas''"
proof -
  show "oidcValue spec profile = wanted_fields spec profile ''oidc''"
    by (cases "Option.bind (ops_Platform (prof_Spec profile)) plat_OIDC"; cases "mcs_OIDC spec")
      (auto simp: oidcValue_def wanted_fields_def specOIDCClientID_def Let_def fun_eq_iff)
  show "quotaValue spec = wanted_fields spec profile ''resourceQuotas''"
    by (cases "mcs_Quotas spec") (simp_all add: quotaValue_def wanted_fields_def Let_def)
qed (simp_all add: gatewayValue_def tlsValue_def wanted_fields_def nestedNameField_def Let_def split: option.split)

text \<open>An AITenant that is the configuration's own and says what it and the profile say.\<close>

definition tenant_configured :: "'s k8s \<Rightarrow> MaaSConfiguration \<Rightarrow> OrganizationProfile \<Rightarrow> Unstructured \<Rightarrow> bool" where
  "tenant_configured c configuration profile u \<longleftrightarrow>
     IsControlledBy c (un_Meta u) (mcfg_Meta configuration) \<and>
     om_Labels (un_Meta u) maasOrganizationLabel = Some (mcfg_Organization configuration) \<and>
     om_Labels (un_Meta u) managedByLabel = Some temporaryManagedBy \<and>
     (\<forall>f \<in> managed_fields. subfield (un_Object u) ''spec'' f = wanted_fields (mcfg_Spec configuration) profile f)"

text \<open>An AITenant whose status has a condition of type \<open>Ready\<close> that is true.\<close>

definition reports_ready :: "Unstructured \<Rightarrow> bool" where
  "reports_ready u \<longleftrightarrow> (\<exists>conditions condition. subfield (un_Object u) ''status'' ''conditions'' = Some (JArray conditions) \<and>
     JObject condition \<in> set conditions \<and> condition ''type'' = Some (JString ''Ready'') \<and>
     condition ''status'' = Some (JString ''True''))"

lemma ready_condition_iff: "ready_condition raw \<longleftrightarrow>
    (\<exists>condition. raw = JObject condition \<and> condition ''type'' = Some (JString ''Ready'') \<and> condition ''status'' = Some (JString ''True''))"
  by (auto simp: ready_condition_def json_is_def split: json.splits option.splits)

lemma any_ready_iff: "any_ready raws \<longleftrightarrow> (\<exists>raw \<in> set raws. ready_condition raw)"
  by (induction raws) auto

text \<open>An object whose spec, if it has one, is a map.\<close>

definition spec_is_map :: "(string \<rightharpoonup> json) \<Rightarrow> bool" where
  "spec_is_map obj \<longleftrightarrow> obj ''spec'' = None \<or> (\<exists>n. obj ''spec'' = Some (JObject n))"

locale renderer = nested_field_ops "SetNestedField c" "RemoveNestedField c" "NestedSlice c" for c :: "'s k8s"
begin

lemma setOrRemove_field:
  assumes "setOrRemove c f v obj = Inr obj'"
  shows "subfield obj' ''spec'' g = (if g = f then v else subfield obj ''spec'' g)"
    and "d \<noteq> ''spec'' \<Longrightarrow> obj' d = obj d"
  using assms set_same [of obj _ "''spec''" f obj'] set_other [of obj _ "''spec''" f obj' g] set_top [of obj _ "''spec''" f obj' d]
    remove_same [of obj "''spec''" f] remove_other [of g f obj "''spec''"] remove_top [of d "''spec''" obj f]
  by (auto simp: setOrRemove_def split: option.splits)

lemma setOrRemove_accepted:
  assumes "spec_is_map obj"
  obtains obj' where "setOrRemove c f v obj = Inr obj'" and "spec_is_map obj'"
proof (cases v)
  case None
  with assms remove_shape [of obj "''spec''" _ f] that show ?thesis by (auto simp: setOrRemove_def spec_is_map_def)
next
  case (Some x)
  with assms set_accepted [of obj "''spec''" _ x f] that show ?thesis
    unfolding setOrRemove_def spec_is_map_def by fastforce
qed

lemma ready_iff: "ready c u \<longleftrightarrow> reports_ready u"
proof
  assume "ready c u"
  then obtain xs where xs: "NestedSlice c (un_Object u) [''status'', ''conditions''] = Inr (Some xs)" "any_ready xs"
    by (auto simp: ready_def split: sum.splits option.splits)
  then show "reports_ready u"
    using slice_not_array [OF xs(1)] by (auto simp: reports_ready_def any_ready_iff ready_condition_iff)
next
  assume "reports_ready u"
  then show "ready c u"
    unfolding reports_ready_def ready_def using slice_found by (fastforce simp: any_ready_iff ready_condition_iff)
qed

lemma render_fields:
  assumes "render c spec profile obj = Inr obj'"
  shows "un_Meta obj' = un_Meta obj"
    and "subfield (un_Object obj') ''spec'' = wanted_spec spec profile (subfield (un_Object obj) ''spec'')"
    and "d \<noteq> ''spec'' \<Longrightarrow> un_Object obj' d = un_Object obj d"
proof -
  obtain o1 o2 o3 o4 where steps: "setOrRemove c ''oidc'' (oidcValue spec profile) (un_Object obj) = Inr o1"
    "setOrRemove c ''gateway'' (gatewayValue profile) o1 = Inr o2" "setOrRemove c ''tls'' (tlsValue spec) o2 = Inr o3"
    "setOrRemove c ''resourceQuotas'' (quotaValue spec) o3 = Inr o4" and obj': "obj' = obj\<lparr>un_Object := o4\<rparr>"
    using assms by (auto simp: render_def gatewayField_def tlsField_def split: sum.splits)
  note field = setOrRemove_field(1) [OF steps(1)] setOrRemove_field(1) [OF steps(2)]
    setOrRemove_field(1) [OF steps(3)] setOrRemove_field(1) [OF steps(4)]
  show "un_Meta obj' = un_Meta obj" using obj' by simp
  show "subfield (un_Object obj') ''spec'' = wanted_spec spec profile (subfield (un_Object obj) ''spec'')"
    using obj' by (auto simp: field wanted_spec_def managed_fields_def rendered_values [where spec = spec and profile = profile])
  show "un_Object obj' d = un_Object obj d" if "d \<noteq> ''spec''"
    using obj' setOrRemove_field(2) [OF steps(1) that] setOrRemove_field(2) [OF steps(2) that]
      setOrRemove_field(2) [OF steps(3) that] setOrRemove_field(2) [OF steps(4) that] by simp
qed

lemma render_accepted:
  assumes "spec_is_map (un_Object obj)"
  shows "\<exists>obj'. render c spec profile obj = Inr obj'"
proof -
  obtain o1 where 1: "setOrRemove c ''oidc'' (oidcValue spec profile) (un_Object obj) = Inr o1" "spec_is_map o1"
    using assms by (rule setOrRemove_accepted)
  obtain o2 where 2: "setOrRemove c gatewayField (gatewayValue profile) o1 = Inr o2" "spec_is_map o2"
    using 1(2) by (rule setOrRemove_accepted)
  obtain o3 where 3: "setOrRemove c tlsField (tlsValue spec) o2 = Inr o3" "spec_is_map o3"
    using 2(2) by (rule setOrRemove_accepted)
  obtain o4 where 4: "setOrRemove c ''resourceQuotas'' (quotaValue spec) o3 = Inr o4"
    using 3(2) by (rule setOrRemove_accepted)
  show ?thesis using 1(1) 2(1) 3(1) 4 by (simp add: render_def)
qed

end



section \<open>Storing the AITenant\<close>

locale maas_server =
  renderer c +
  owner_adder "SetControllerReference c" "IsControlledBy c" "SetOwnerReference c" +
  finalizer_ops "ContainsFinalizer c" "AddFinalizer c" "RemoveFinalizer c" +
  organization_reader: object_reader "Get (organizations c)" oview +
  profile_reader: object_reader "Get (profiles c)" pview +
  configuration_updater: object_updater mview mrest mcfg_Meta configuration_kept "Update (configurations c)" +
  tenant_reader: object_reader "Get (aitenants c)" aview +
  tenant_creator: object_creator aview arest un_Meta unstructured_kept "Create (aitenants c)" +
  tenant_updater: object_updater aview arest un_Meta unstructured_kept "Update (aitenants c)" +
  tenant_deleter: object_deleter aview arest un_Meta unstructured_kept "Delete (aitenants c)"
  for c :: "'s k8s" and oview pview mview aview and mrest :: "'s \<Rightarrow> 'm" and arest :: "'s \<Rightarrow> 'a" +
  assumes configurations_apart: "mrest s' = mrest s \<Longrightarrow> aview s' = aview s \<and> oview s' = oview s \<and> pview s' = pview s"
    and tenants_apart: "arest s' = arest s \<Longrightarrow> mview s' = mview s"
begin

lemma prepared:
  assumes "prepareAITenant c configuration organization created obj = Inr (Some obj')"
  shows "un_Object obj' = un_Object obj \<and> key_of (un_Meta obj') = key_of (un_Meta obj) \<and>
    IsControlledBy c (un_Meta obj') (mcfg_Meta configuration) \<and>
    om_Labels (un_Meta obj') maasOrganizationLabel = Some (mcfg_Organization configuration) \<and>
    om_Labels (un_Meta obj') managedByLabel = Some temporaryManagedBy"
proof -
  have labels: "maasOrganizationLabel \<noteq> managedByLabel" by (simp add: maasOrganizationLabel_def managedByLabel_def)
  have relabel: "IsControlledBy c (m\<lparr>om_Labels := l\<rparr>) p = IsControlledBy c m p" for m l p
    by (rule controlled_by_references) simp
  show ?thesis
  proof (cases created)
    case True
    then obtain m m' where m: "SetControllerReference c (owner_configuration configuration) (un_Meta obj) = Inr m"
      and m': "SetOwnerReference c (owner_organization organization) m = Inr m'"
      and obj': "obj' = obj\<lparr>un_Meta := m'\<lparr>om_Labels := (om_Labels m')
        (maasOrganizationLabel \<mapsto> mcfg_Organization configuration, managedByLabel \<mapsto> temporaryManagedBy)\<rparr>\<rparr>"
      using assms by (auto simp: prepareAITenant_def split: sum.splits)
    have "controller_of m' = Some (owner_reference (owner_configuration configuration) (Some True))"
      by (rule owner_keeps_controller [OF m' controller_set_reference [OF m]])
        (simp add: same_object_def owner_reference_def owner_configuration_def owner_organization_def)
    then have "IsControlledBy c m' (mcfg_Meta configuration)" by (simp add: controlled_by)
    with obj' labels show ?thesis
      using controller_set_fields(8) [OF m] owner_set_fields(2) [OF m'] by (simp add: relabel key_of_def)
  next
    case False
    with assms labels show ?thesis
      by (auto simp: prepareAITenant_def relabel key_of_def split: if_splits)
  qed
qed

lemma configured_kept:
  assumes "tenant_configured c configuration profile obj" and "unstructured_kept obj u"
  shows "tenant_configured c configuration profile u"
proof -
  have "IsControlledBy c (un_Meta u) (mcfg_Meta configuration)"
    using assms controlled_by_kept [of "un_Meta obj" "un_Meta u"] by (simp add: tenant_configured_def unstructured_kept_def)
  moreover have "subfield (un_Object u) ''spec'' f = subfield (un_Object obj) ''spec'' f" for f
    using assms(2) by (simp add: unstructured_kept_def subfield_def)
  moreover have "om_Labels (un_Meta u) l = Some v" if "om_Labels (un_Meta obj) l = Some v" for l v
    using assms(2) that map_le_lookup [of "om_Labels (un_Meta obj)" "om_Labels (un_Meta u)" l v]
    by (simp add: unstructured_kept_def meta_kept_def)
  ultimately show ?thesis using assms(1) by (simp add: tenant_configured_def)
qed

lemma storeAITenant_outcome:
  assumes "storeAITenant c created obj s = (r, s')"
  shows "frame aview arest (key_of (un_Meta obj)) s s' \<and>
    (\<forall>u. r = Inr u \<longrightarrow> unstructured_kept obj u \<and>
       (aview s' (key_of (un_Meta obj)) = Some u \<or>
        aview s' (key_of (un_Meta obj)) = None \<and> (\<exists>w. aview s (key_of (un_Meta obj)) = Some w \<and> om_DeletionTimestamp (un_Meta w) \<noteq> None)))"
proof (cases created)
  case True
  obtain q t where q: "Create (aitenants c) obj s = (q, t)" by fastforce
  with True assms have "t = s' \<and> (\<forall>u. r = Inr u \<longrightarrow> q = Inr u)" by (auto simp: storeAITenant_def split: sum.splits)
  with tenant_creator.create_frame [OF q] tenant_creator.create_stored [of obj s _ t] q show ?thesis by auto
next
  case False
  obtain q t where q: "Update (aitenants c) obj s = (q, t)" by fastforce
  with False assms have "t = s' \<and> (\<forall>u. r = Inr u \<longrightarrow> q = Inr u)" by (auto simp: storeAITenant_def split: sum.splits)
  with tenant_updater.update_frame [OF q] tenant_updater.update_stored [of obj s _ t] tenant_updater.update_deletion [of obj s _ t] q
  show ?thesis by fastforce
qed

lemma finishAITenant_cases:
  assumes "finishAITenant c organization profile created obj rr s = (err, rr', s')"
    and "created \<Longrightarrow> aview s (key_of (un_Meta obj)) = None" and "\<not> created \<Longrightarrow> aview s (key_of (un_Meta obj)) = Some obj"
  obtains (failed) "s' = s" and "err \<noteq> None" and "rr' = rr"
  | (foreign) "aview s (key_of (un_Meta obj)) = Some obj"
      and "\<not> IsControlledBy c (un_Meta obj) (mcfg_Meta (mr_Instance rr))" and "s' = s" and "err = None"
      and "rr' = reportNotOwned rr"
  | (written) rendered r where
      "\<And>u. aview s (key_of (un_Meta obj)) = Some u \<Longrightarrow> IsControlledBy c (un_Meta u) (mcfg_Meta (mr_Instance rr))"
      and "tenant_configured c (mr_Instance rr) profile rendered" and "key_of (un_Meta rendered) = key_of (un_Meta obj)"
      and "storeAITenant c created rendered s = (r, s')"
      and "case r of Inl e \<Rightarrow> err = Some e \<and> rr' = rr | Inr u \<Rightarrow> err = None \<and> rr' = reportReadiness c u rr"
proof -
  let ?cfg = "mr_Instance rr"
  consider (refused) e where "prepareAITenant c ?cfg organization created obj = Inl e"
    | (unowned) "prepareAITenant c ?cfg organization created obj = Inr None"
    | (unrendered) obj' e where "prepareAITenant c ?cfg organization created obj = Inr (Some obj')"
        "render c (mcfg_Spec ?cfg) profile obj' = Inl e"
    | (rendered) obj' rendered where "prepareAITenant c ?cfg organization created obj = Inr (Some obj')"
        "render c (mcfg_Spec ?cfg) profile obj' = Inr rendered"
    by (metis obj_sumE option.exhaust)
  then show ?thesis
  proof cases
    case unowned
    then have "\<not> created" "\<not> IsControlledBy c (un_Meta obj) (mcfg_Meta ?cfg)"
      by (auto simp: prepareAITenant_def split: if_splits sum.splits)
    with unowned assms(1,3) show ?thesis by (intro foreign) (simp_all add: finishAITenant_def)
  next
    case (rendered obj' rendered)
    note prep = prepared [OF rendered(1)] and fields = render_fields [OF rendered(2)]
    obtain r t where store: "storeAITenant c created rendered s = (r, t)" by fastforce
    have result: "t = s'" "case r of Inl e \<Rightarrow> err = Some e \<and> rr' = rr | Inr u \<Rightarrow> err = None \<and> rr' = reportReadiness c u rr"
      using assms(1) rendered store by (auto simp: finishAITenant_def split: sum.splits)
    have controlled: "IsControlledBy c (un_Meta u) (mcfg_Meta ?cfg)" if "aview s (key_of (un_Meta obj)) = Some u" for u
      using assms(2,3) that rendered(1) by (cases created) (auto simp: prepareAITenant_def split: if_splits)
    have "tenant_configured c ?cfg profile rendered"
      using prep fields by (simp add: tenant_configured_def wanted_spec_def)
    with controlled result store prep fields(1) show ?thesis by (intro written [of rendered r]) simp_all
  qed (use assms(1) failed in \<open>auto simp: finishAITenant_def\<close>)
qed

lemma provisionAITenant_cases:
  assumes "provisionAITenant c organization profile rr s = (err, rr', s')" and "well_keyed un_Meta (aview s)"
  obtains (failed) "s' = s" and "err \<noteq> None" and "rr' = rr"
  | (foreign) u where "aview s (maasNamespace, mcfg_Name (mr_Instance rr)) = Some u"
      and "\<not> IsControlledBy c (un_Meta u) (mcfg_Meta (mr_Instance rr))" and "s' = s" and "err = None"
      and "rr' = reportNotOwned rr"
  | (written) created rendered r where
      "\<And>u. aview s (maasNamespace, mcfg_Name (mr_Instance rr)) = Some u \<Longrightarrow> IsControlledBy c (un_Meta u) (mcfg_Meta (mr_Instance rr))"
      and "tenant_configured c (mr_Instance rr) profile rendered"
      and "key_of (un_Meta rendered) = (maasNamespace, mcfg_Name (mr_Instance rr))"
      and "storeAITenant c created rendered s = (r, s')"
      and "case r of Inl e \<Rightarrow> err = Some e \<and> rr' = rr | Inr u \<Rightarrow> err = None \<and> rr' = reportReadiness c u rr"
proof (cases rule: tenant_reader.get_cases [of "(maasNamespace, mcfg_Name (mr_Instance rr))" s])
  case (found u)
  then have run: "finishAITenant c organization profile False u rr s = (err, rr', s')"
    using assms(1) by (simp add: provisionAITenant_def)
  have key: "key_of (un_Meta u) = (maasNamespace, mcfg_Name (mr_Instance rr))"
    using well_keyedD [OF assms(2) found(2)] .
  from run show ?thesis
    by (cases rule: finishAITenant_cases) (use found(2) key that in auto)
next
  case missing
  then have run: "finishAITenant c organization profile True (newAITenant (mcfg_Name (mr_Instance rr))) rr s = (err, rr', s')"
    using assms(1) by (simp add: provisionAITenant_def)
  have key: "key_of (un_Meta (newAITenant n)) = (maasNamespace, n)" for n
    by (simp add: newAITenant_def)
  from run show ?thesis
    by (cases rule: finishAITenant_cases) (use missing(2) key that in auto)
next
  case (failed e)
  then show ?thesis using assms(1) that(1) by (auto simp: provisionAITenant_def)
qed

text \<open>The configuration's write, lines 45 to 50, leaves everything the rest of the action reads.\<close>

lemma addCleanupFinalizer_outcome:
  assumes "addCleanupFinalizer c rr s = (err, rr', s')"
  shows "mrest s' = mrest s" and "mr_Conditions rr' = mr_Conditions rr"
    and "err = None \<Longrightarrow> key_of (mcfg_Meta (mr_Instance rr')) = key_of (mcfg_Meta (mr_Instance rr)) \<and>
      mcfg_Spec (mr_Instance rr') = mcfg_Spec (mr_Instance rr)"
    and "err = None \<Longrightarrow> ContainsFinalizer c (mcfg_Meta (mr_Instance rr)) maasFinalizer \<or>
      (\<exists>y. mview s' (key_of (mcfg_Meta (mr_Instance rr))) = Some y \<and> ContainsFinalizer c (mcfg_Meta y) maasFinalizer)"
proof -
  let ?x = "mr_Instance rr"
  let ?x' = "?x\<lparr>mcfg_Meta := AddFinalizer c (mcfg_Meta ?x) maasFinalizer\<rparr>"
  obtain r t where r: "Update (configurations c) ?x' s = (r, t)" by fastforce
  have key: "key_of (mcfg_Meta ?x') = key_of (mcfg_Meta ?x)" by simp
  have cases: "ContainsFinalizer c (mcfg_Meta ?x) maasFinalizer \<and> err = None \<and> rr' = rr \<and> s' = s \<or>
      s' = t \<and> mr_Conditions rr' = mr_Conditions rr \<and> (err = None \<longrightarrow> (\<exists>y. r = Inr y \<and> rr' = rr\<lparr>mr_Instance := y\<rparr>))"
    using assms r by (auto simp: addCleanupFinalizer_def Let_def split: if_splits sum.splits)
  show "mrest s' = mrest s"
    using cases configuration_updater.update_frame [OF r] frameD(2) by metis
  show "mr_Conditions rr' = mr_Conditions rr" using cases by auto
  have stored: "configuration_kept ?x' y \<and> (mview t (key_of (mcfg_Meta ?x)) = Some y)" if "r = Inr y" for y
  proof -
    have "ContainsFinalizer c (mcfg_Meta ?x') maasFinalizer" by (simp add: contains_add)
    then have "om_Finalizers (mcfg_Meta ?x') \<noteq> []" using contains_none by blast
    then show ?thesis
      using configuration_updater.update_stored [OF r [unfolded that]]
        configuration_updater.update_deletion [OF r [unfolded that]] key by auto
  qed
  show "key_of (mcfg_Meta (mr_Instance rr')) = key_of (mcfg_Meta ?x) \<and> mcfg_Spec (mr_Instance rr') = mcfg_Spec ?x"
    if "err = None"
    using cases that stored by (auto simp: configuration_kept_def meta_kept_def)
  show "ContainsFinalizer c (mcfg_Meta ?x) maasFinalizer \<or>
      (\<exists>y. mview s' (key_of (mcfg_Meta ?x)) = Some y \<and> ContainsFinalizer c (mcfg_Meta y) maasFinalizer)" if "err = None"
  proof -
    have "ContainsFinalizer c (mcfg_Meta y) maasFinalizer" if "configuration_kept ?x' y" for y
      using that contains_add contains_finalizers [of "mcfg_Meta y" "mcfg_Meta ?x'" maasFinalizer]
      by (simp add: configuration_kept_def meta_kept_def)
    with cases that stored show ?thesis by blast
  qed
qed

lemma addCleanupFinalizer_uid:
  assumes "addCleanupFinalizer c rr s = (None, rr', s')" and "om_UID (mcfg_Meta (mr_Instance rr)) \<noteq> ''''"
  shows "om_UID (mcfg_Meta (mr_Instance rr')) = om_UID (mcfg_Meta (mr_Instance rr))"
  using assms configuration_updater.update_uid
    [of "(mr_Instance rr)\<lparr>mcfg_Meta := AddFinalizer c (mcfg_Meta (mr_Instance rr)) maasFinalizer\<rparr>" s "mr_Instance rr'" s']
  by (auto simp: addCleanupFinalizer_def Let_def split: if_splits sum.splits prod.splits)

text \<open>The guards of the action: when an AITenant is written, the organization is a stored root, the
  name fits, and the capability is there.\<close>

lemma provisionMaaS_cases:
  assumes "provisionMaaS c rr s = (err, rr', s')"
  obtains (unwritten) marks where "s' = s" and "rr' = rr\<lparr>mr_Conditions := mr_Conditions rr @ marks\<rparr>"
      and "\<And>reason. MarkTrue conditionMaaSReady reason \<notin> set marks"
  | (provisioning) organization profile where "hasMaaS c s"
      and "oview s (cluster_key (mcfg_Organization (mr_Instance rr))) = Some organization" and "org_Parent organization = ''''"
      and "length (mcfg_Name (mr_Instance rr)) \<le> maxAITenantNameSize"
      and "pview s (cluster_key (mcfg_Organization (mr_Instance rr))) = Some profile"
      and "provisionAITenant c organization profile
        (add_mark (MarkTrue conditionCapabilityManaged ''CapabilityManaged'') rr) s = (err, rr', s')"
proof -
  let ?rr = "add_mark (MarkTrue conditionCapabilityManaged ''CapabilityManaged'') rr"
  let ?key = "cluster_key (mcfg_Organization (mr_Instance rr))"
  have instance_same: "mr_Instance ?rr = mr_Instance rr" by (simp add: add_mark_def)
  have names: "conditionCapabilityManaged \<noteq> conditionMaaSReady"
    by (simp add: conditionCapabilityManaged_def conditionMaaSReady_def)
  have stop: thesis
    if "s' = s" and "rr' = ?rr \<or> rr' = markCapabilityUnavailable rr \<or> (\<exists>r m. rr' = add_mark (MarkFalse conditionMaaSReady r m) ?rr)"
    using that(2) that(1) names
    by (elim disjE exE; intro unwritten [of "drop (length (mr_Conditions rr)) (mr_Conditions rr')"])
      (simp_all add: add_mark_def markCapabilityUnavailable_def)
  show ?thesis
  proof (cases "hasMaaS c s")
    case False
    with assms stop show ?thesis by (simp add: provisionMaaS_def)
  next
    case True
    show ?thesis
    proof (cases rule: organization_reader.get_cases [of ?key s])
      case (found organization)
      note organization = this
      show ?thesis
      proof (cases rule: profile_reader.get_cases [of ?key s])
        case (found profile)
        show ?thesis
        proof (cases "org_Parent organization = '''' \<and> length (mcfg_Name (mr_Instance rr)) \<le> maxAITenantNameSize")
          case True
          with found \<open>hasMaaS c s\<close> organization assms show ?thesis
            by (intro provisioning [of organization profile]) (simp_all add: provisionMaaS_def instance_same Let_def)
        next
          case False
          with found \<open>hasMaaS c s\<close> organization assms show ?thesis
            by (auto simp: provisionMaaS_def instance_same Let_def not_le intro!: stop split: if_splits)
        qed
      qed (use organization True assms in
          \<open>auto simp: provisionMaaS_def instance_same Let_def intro!: stop split: if_splits\<close>)
    qed (use True assms in \<open>auto simp: provisionMaaS_def instance_same Let_def intro!: stop\<close>)
  qed
qed

text \<open>The cleanup: it stops before the finalizer is touched, or removes it in a state in which the
  configuration's AITenant is gone, is being deleted, or cannot exist.\<close>

lemma cleanup_deletion:
  assumes "(case Delete (aitenants c) u s of
      (Inl e, t) \<Rightarrow> if e \<noteq> NotFound then (Some (Errorf ''delete generated AITenant: %w'' [ArgErr (ApiError e)]), rr, t)
        else removeCleanupFinalizer c rr t
    | (Inr (), t) \<Rightarrow> removeCleanupFinalizer c rr t) = (err, rr', s')"
  obtains (stopped) "err \<noteq> None" and "rr' = rr" and "frame aview arest (key_of (un_Meta u)) s s'"
  | (finished) t where "frame aview arest (key_of (un_Meta u)) s t" and "removeCleanupFinalizer c rr t = (err, rr', s')"
      and "gone aview un_Meta (key_of (un_Meta u)) t"
proof -
  obtain r t where r: "Delete (aitenants c) u s = (r, t)" by fastforce
  note frame = tenant_deleter.delete_frame [OF r]
  show ?thesis
  proof (cases "r = Inr () \<or> r = Inl NotFound")
    case True
    have "removeCleanupFinalizer c rr t = (err, rr', s')"
      using assms True by (elim disjE) (simp_all add: r split: unit.splits)
    then show ?thesis using finished frame tenant_deleter.delete_ignoring_missing [OF r True] by blast
  next
    case False
    then obtain e where "r = Inl e" "e \<noteq> NotFound" by (cases r) auto
    then have "err \<noteq> None" "rr' = rr" "s' = t" using assms by (auto simp: r)
    with frame show ?thesis using stopped by blast
  qed
qed

lemma cleanupMaaS_cases:
  assumes "cleanupMaaS c rr s = (err, rr', s')" and "well_keyed un_Meta (aview s)"
    and "key = (maasNamespace, mcfg_Name (mr_Instance rr))"
  obtains (stopped) "err \<noteq> None" and "rr' = rr" and "frame aview arest key s s'"
      and "\<And>u. aview s key = Some u \<Longrightarrow> \<not> IsControlledBy c (un_Meta u) (mcfg_Meta (mr_Instance rr)) \<Longrightarrow> s' = s"
  | (finished) t where "frame aview arest key s t" and "removeCleanupFinalizer c rr t = (err, rr', s')"
      and "\<And>u. aview s key = Some u \<Longrightarrow> \<not> IsControlledBy c (un_Meta u) (mcfg_Meta (mr_Instance rr)) \<Longrightarrow> t = s"
      and "Get (aitenants c) key s = Inl NoMatch \<or> gone aview un_Meta key t \<or>
        (\<exists>u. aview t key = Some u \<and> \<not> IsControlledBy c (un_Meta u) (mcfg_Meta (mr_Instance rr)))"
proof -
  note run = assms(1) [unfolded cleanupMaaS_def Let_def, folded assms(3)]
  show ?thesis
  proof (cases rule: tenant_reader.get_cases [of key s])
    case (found u)
    show ?thesis
    proof (cases "IsControlledBy c (un_Meta u) (mcfg_Meta (mr_Instance rr))")
      case True
      have key: "key_of (un_Meta u) = key" using well_keyedD [OF assms(2) found(2)] .
      show ?thesis
      proof (rule cleanup_deletion [OF run [unfolded found(1) sum.case if_P [OF True]], unfolded key])
        show ?thesis if "err \<noteq> None" "rr' = rr" "frame aview arest key s s'"
          by (rule stopped) (use that found(2) True in simp_all)
        show ?thesis if "frame aview arest key s t" "removeCleanupFinalizer c rr t = (err, rr', s')" "gone aview un_Meta key t" for t
          by (rule finished [of t]) (use that found(2) True in simp_all)
      qed
    next
      case False
      with run found(1) have "removeCleanupFinalizer c rr s = (err, rr', s')" by simp
      then show ?thesis by (intro finished [of s]) (use found(2) False in simp_all)
    qed
  next
    case missing
    with run have "removeCleanupFinalizer c rr s = (err, rr', s')" by simp
    then show ?thesis by (intro finished [of s]) (use missing(2) in \<open>simp_all add: gone_def\<close>)
  next
    case (failed e)
    show ?thesis
    proof (cases "e = NoMatch")
      case True
      with run failed have "removeCleanupFinalizer c rr s = (err, rr', s')" by simp
      then show ?thesis by (intro finished [of s]) (use failed True in simp_all)
    next
      case False
      with run failed have "err \<noteq> None" "rr' = rr" "s' = s" by auto
      then show ?thesis by (intro stopped) simp_all
    qed
  qed
qed

lemma removeCleanupFinalizer_outcome:
  assumes "removeCleanupFinalizer c rr s = (err, rr', s')"
  shows "mrest s' = mrest s" and "mr_Conditions rr' = mr_Conditions rr"
    and "err = None \<Longrightarrow> mview s' (key_of (mcfg_Meta (mr_Instance rr))) = Some y \<Longrightarrow> \<not> ContainsFinalizer c (mcfg_Meta y) maasFinalizer"
proof -
  let ?x' = "(mr_Instance rr)\<lparr>mcfg_Meta := RemoveFinalizer c (mcfg_Meta (mr_Instance rr)) maasFinalizer\<rparr>"
  obtain r t where r: "Update (configurations c) ?x' s = (r, t)" by fastforce
  have s': "s' = t" and err: "err = None \<Longrightarrow> \<exists>z. r = Inr z"
    using assms r by (auto simp: removeCleanupFinalizer_def Let_def split: sum.splits)
  show "mrest s' = mrest s" using configuration_updater.update_frame [OF r] frameD(2) s' by metis
  show "mr_Conditions rr' = mr_Conditions rr"
    using assms r by (auto simp: removeCleanupFinalizer_def Let_def split: sum.splits)
  show "\<not> ContainsFinalizer c (mcfg_Meta y) maasFinalizer"
    if "err = None" and y: "mview s' (key_of (mcfg_Meta (mr_Instance rr))) = Some y"
  proof -
    obtain z where z: "r = Inr z" using err \<open>err = None\<close> by blast
    with configuration_updater.update_stored [OF r [unfolded z]] s' y have "configuration_kept ?x' y" by auto
    then show ?thesis
      using contains_remove contains_finalizers [of "mcfg_Meta y" "mcfg_Meta ?x'" maasFinalizer]
      by (simp add: configuration_kept_def meta_kept_def)
  qed
qed

text \<open>The whole action on a configuration that is not being deleted.\<close>

lemma reconcileMaaS_live:
  assumes "reconcileMaaS c rr s = (err, rr', s')" and "om_DeletionTimestamp (mcfg_Meta (mr_Instance rr)) = None"
  obtains (unstored) "err \<noteq> None" and "mrest s' = mrest s" and "mr_Conditions rr' = mr_Conditions rr"
  | (provisioned) rr1 s1 where "addCleanupFinalizer c rr s = (None, rr1, s1)" and "provisionMaaS c rr1 s1 = (err, rr', s')"
  using assms addCleanupFinalizer_outcome(1,2)
  by (cases "addCleanupFinalizer c rr s") (fastforce simp: reconcileMaaS_def split: option.splits)

lemma finalizer_write_apart:
  assumes "addCleanupFinalizer c rr s = (err, rr', s')"
  shows "aview s' = aview s" and "oview s' = oview s" and "pview s' = pview s"
  using configurations_apart [OF addCleanupFinalizer_outcome(1) [OF assms]] by simp_all

lemma tenant_frame:
  assumes "provisionMaaS c rr s = (err, rr', s')" and "well_keyed un_Meta (aview s)"
  shows "frame aview arest (maasNamespace, mcfg_Name (mr_Instance rr)) s s' \<and>
    (\<forall>u. aview s (maasNamespace, mcfg_Name (mr_Instance rr)) = Some u \<longrightarrow>
       \<not> IsControlledBy c (un_Meta u) (mcfg_Meta (mr_Instance rr)) \<longrightarrow> s' = s)"
  using assms(1)
proof (cases rule: provisionMaaS_cases)
  case (provisioning organization profile)
  have same: "mr_Instance (add_mark m rr) = mr_Instance rr" for m by (simp add: add_mark_def)
  from provisioning(6) assms(2) show ?thesis
  proof (cases rule: provisionAITenant_cases)
    case (written created rendered r)
    with storeAITenant_outcome [OF written(4)] show ?thesis by (simp add: same)
  qed (simp_all)
qed simp

lemma foreign_tenant_kept:
  assumes run: "reconcileMaaS c rr s = (err, rr', s')" and keyed: "well_keyed un_Meta (aview s)"
    and uid: "om_UID (mcfg_Meta (mr_Instance rr)) \<noteq> ''''" and u: "aview s k = Some u"
    and foreign: "k \<noteq> (maasNamespace, mcfg_Name (mr_Instance rr)) \<or> \<not> IsControlledBy c (un_Meta u) (mcfg_Meta (mr_Instance rr))"
  shows "aview s' k = Some u"
proof (cases "om_DeletionTimestamp (mcfg_Meta (mr_Instance rr)) = None")
  case True
  with run show ?thesis
  proof (cases rule: reconcileMaaS_live)
    case unstored
    then show ?thesis using configurations_apart u by metis
  next
    case (provisioned rr1 s1)
    note apart = finalizer_write_apart(1) [OF provisioned(1)]
    note uid1 = addCleanupFinalizer_uid [OF provisioned(1) uid]
    have name: "mcfg_Name (mr_Instance rr1) = mcfg_Name (mr_Instance rr)"
      using addCleanupFinalizer_outcome(3) [OF provisioned(1)] by (simp add: key_of_def)
    have "frame aview arest (maasNamespace, mcfg_Name (mr_Instance rr)) s1 s' \<and>
        (\<forall>u. aview s1 (maasNamespace, mcfg_Name (mr_Instance rr)) = Some u \<longrightarrow>
           \<not> IsControlledBy c (un_Meta u) (mcfg_Meta (mr_Instance rr)) \<longrightarrow> s' = s1)"
      using tenant_frame [OF provisioned(2)] keyed unfolding apart name controlled_by_uid [OF uid1] by simp
    then show ?thesis
      using u foreign frameD(1) [of aview arest "(maasNamespace, mcfg_Name (mr_Instance rr))" s1 s' k]
      unfolding apart using apart by metis
  qed
next
  case False
  then have "cleanupMaaS c rr s = (err, rr', s')" using run by (simp add: reconcileMaaS_def)
  then show ?thesis using keyed refl
  proof (cases rule: cleanupMaaS_cases)
    case stopped
    then show ?thesis using u foreign frameD(1) [OF stopped(3), of k] by metis
  next
    case (finished t)
    have "aview s' = aview t"
      using configurations_apart [OF removeCleanupFinalizer_outcome(1) [OF finished(2)]] by simp
    then show ?thesis using u foreign finished(3) frameD(1) [OF finished(1), of k] by metis
  qed
qed

text \<open>A write of an AITenant leaves the configurations alone, so what lines 45 to 50 stored stays.\<close>

lemma finalizer_first:
  assumes run: "reconcileMaaS c rr s = (err, rr', s')" and keyed: "well_keyed un_Meta (aview s)"
    and live: "om_DeletionTimestamp (mcfg_Meta (mr_Instance rr)) = None"
    and current: "mview s (key_of (mcfg_Meta (mr_Instance rr))) = Some (mr_Instance rr)"
    and written: "aview s' \<noteq> aview s"
  shows "\<exists>y. mview s' (key_of (mcfg_Meta (mr_Instance rr))) = Some y \<and> ContainsFinalizer c (mcfg_Meta y) maasFinalizer"
  using run live
proof (cases rule: reconcileMaaS_live)
  case unstored
  then show ?thesis using configurations_apart written by metis
next
  case (provisioned rr1 s1)
  note apart = finalizer_write_apart(1) [OF provisioned(1)]
  have "mview s' = mview s1"
    using tenant_frame [OF provisioned(2)] keyed tenants_apart frameD(2) unfolding apart by metis
  moreover have "ContainsFinalizer c (mcfg_Meta (mr_Instance rr)) maasFinalizer \<Longrightarrow> s1 = s"
    using provisioned(1) by (simp add: addCleanupFinalizer_def)
  ultimately show ?thesis
    using addCleanupFinalizer_outcome(4) [OF provisioned(1) refl] current by metis
qed

lemma cleanup_finished:
  assumes run: "reconcileMaaS c rr s = (None, rr', s')" and keyed: "well_keyed un_Meta (aview s)"
    and deleted: "om_DeletionTimestamp (mcfg_Meta (mr_Instance rr)) \<noteq> None"
    and key: "key = (maasNamespace, mcfg_Name (mr_Instance rr))"
  shows "Get (aitenants c) key s = Inl NoMatch \<or> gone aview un_Meta key s' \<or>
        (\<exists>u. aview s' key = Some u \<and> \<not> IsControlledBy c (un_Meta u) (mcfg_Meta (mr_Instance rr)))"
    and "mview s' (key_of (mcfg_Meta (mr_Instance rr))) = Some y \<Longrightarrow> \<not> ContainsFinalizer c (mcfg_Meta y) maasFinalizer"
proof -
  have "cleanupMaaS c rr s = (None, rr', s')" using run deleted by (simp add: reconcileMaaS_def)
  then obtain t where t: "removeCleanupFinalizer c rr t = (None, rr', s')"
      "Get (aitenants c) key s = Inl NoMatch \<or> gone aview un_Meta key t \<or>
        (\<exists>u. aview t key = Some u \<and> \<not> IsControlledBy c (un_Meta u) (mcfg_Meta (mr_Instance rr)))"
    using keyed key by (cases rule: cleanupMaaS_cases) auto
  note removed = removeCleanupFinalizer_outcome [OF t(1)]
  have "aview s' = aview t" using configurations_apart [OF removed(1)] by simp
  with t(2) show "Get (aitenants c) key s = Inl NoMatch \<or> gone aview un_Meta key s' \<or>
        (\<exists>u. aview s' key = Some u \<and> \<not> IsControlledBy c (un_Meta u) (mcfg_Meta (mr_Instance rr)))"
    by (simp add: gone_def)
  show "\<not> ContainsFinalizer c (mcfg_Meta y) maasFinalizer" if "mview s' (key_of (mcfg_Meta (mr_Instance rr))) = Some y"
    using removed(3) that by simp
qed

text \<open>The configuration is not written at all as long as the cleanup fails.\<close>

lemma cleanup_stopped:
  assumes run: "reconcileMaaS c rr s = (err, rr', s')" and keyed: "well_keyed un_Meta (aview s)"
    and deleted: "om_DeletionTimestamp (mcfg_Meta (mr_Instance rr)) \<noteq> None"
    and key: "key = (maasNamespace, mcfg_Name (mr_Instance rr))"
    and left: "aview s' key = Some u" "IsControlledBy c (un_Meta u) (mcfg_Meta (mr_Instance rr))"
      "om_DeletionTimestamp (un_Meta u) = None" "Get (aitenants c) key s \<noteq> Inl NoMatch"
  shows "mview s' = mview s"
proof -
  have "cleanupMaaS c rr s = (err, rr', s')" using run deleted by (simp add: reconcileMaaS_def)
  then show ?thesis using keyed key
  proof (cases rule: cleanupMaaS_cases)
    case stopped
    then show ?thesis using tenants_apart frameD(2) by metis
  next
    case (finished t)
    have "aview s' = aview t"
      using configurations_apart [OF removeCleanupFinalizer_outcome(1) [OF finished(2)]] by simp
    with finished(4) left show ?thesis by (simp add: gone_def)
  qed
qed

lemma provision_ready:
  assumes run: "provisionMaaS c rr s = (err, rr', s')" and keyed: "well_keyed un_Meta (aview s)"
    and unmarked: "mr_Conditions rr = []" and marked: "MarkTrue conditionMaaSReady reason \<in> set (mr_Conditions rr')"
    and names: "mcfg_Organization (mr_Instance rr) = organizationName" "(maasNamespace, mcfg_Name (mr_Instance rr)) = key"
  obtains organization profile u where
    "oview s (cluster_key organizationName) = Some organization" "org_Parent organization = ''''"
    "length (mcfg_Name (mr_Instance rr)) \<le> maxAITenantNameSize"
    "pview s (cluster_key organizationName) = Some profile"
    "tenant_configured c (mr_Instance rr) profile u" "reports_ready u"
    "aview s' key = Some u \<or> aview s' key = None \<and> (\<exists>w. aview s key = Some w \<and> om_DeletionTimestamp (un_Meta w) \<noteq> None)"
  using run
proof (cases rule: provisionMaaS_cases)
  case (unwritten marks)
  then show ?thesis using unmarked marked by auto
next
  case (provisioning organization profile)
  let ?rr = "add_mark (MarkTrue conditionCapabilityManaged ''CapabilityManaged'') rr"
  have same: "mr_Instance ?rr = mr_Instance rr" by (simp add: add_mark_def)
  have unready: "MarkTrue conditionMaaSReady reason \<notin> set (mr_Conditions ?rr)"
    by (simp add: unmarked add_mark_def conditionMaaSReady_def conditionCapabilityManaged_def)
  from provisioning(6) keyed show ?thesis
  proof (cases rule: provisionAITenant_cases)
    case failed
    then show ?thesis using unready marked by simp
  next
    case foreign
    then show ?thesis using unready marked by (simp add: reportNotOwned_def add_mark_def)
  next
    case (written created rendered r)
    with unready marked obtain u where u: "r = Inr u" "rr' = reportReadiness c u ?rr" by (cases r) auto
    with unready marked have "reports_ready u" by (auto simp: reportReadiness_def add_mark_def ready_iff split: if_splits)
    moreover note outcome = storeAITenant_outcome [OF written(4)]
    ultimately show ?thesis
      using that [of organization profile u] provisioning(2-5) written(2,3) u(1) configured_kept [of "mr_Instance rr" profile rendered u]
      unfolding same names by simp
  qed
qed

lemma ready_mark:
  assumes run: "reconcileMaaS c rr s = (err, rr', s')" and keyed: "well_keyed un_Meta (aview s)"
    and unmarked: "mr_Conditions rr = []" and marked: "MarkTrue conditionMaaSReady reason \<in> set (mr_Conditions rr')"
    and uid: "om_UID (mcfg_Meta (mr_Instance rr)) \<noteq> ''''"
    and names: "organizationName = mcfg_Organization (mr_Instance rr)" "key = (maasNamespace, mcfg_Name (mr_Instance rr))"
  shows "\<exists>organization profile u.
    oview s (cluster_key organizationName) = Some organization \<and> org_Parent organization = '''' \<and>
    length (mcfg_Name (mr_Instance rr)) \<le> maxAITenantNameSize \<and>
    pview s (cluster_key organizationName) = Some profile \<and>
    tenant_configured c (mr_Instance rr) profile u \<and> reports_ready u \<and>
    (aview s' key = Some u \<or> aview s' key = None \<and> (\<exists>w. aview s key = Some w \<and> om_DeletionTimestamp (un_Meta w) \<noteq> None))"
proof (cases "om_DeletionTimestamp (mcfg_Meta (mr_Instance rr)) = None")
  case True
  with run show ?thesis
  proof (cases rule: reconcileMaaS_live)
    case unstored
    then show ?thesis using marked unmarked by simp
  next
    case (provisioned rr1 s1)
    note apart = finalizer_write_apart [OF provisioned(1)] and conditions = addCleanupFinalizer_outcome(2) [OF provisioned(1)]
    have same: "mcfg_Spec (mr_Instance rr1) = mcfg_Spec (mr_Instance rr)" "mcfg_Name (mr_Instance rr1) = mcfg_Name (mr_Instance rr)"
      using addCleanupFinalizer_outcome(3) [OF provisioned(1)] by (simp_all add: key_of_def)
    have configured: "tenant_configured c (mr_Instance rr1) = tenant_configured c (mr_Instance rr)"
      by (intro ext) (simp add: tenant_configured_def same controlled_by_uid [OF addCleanupFinalizer_uid [OF provisioned(1) uid]])
    obtain organization profile u where "oview s (cluster_key organizationName) = Some organization"
      "org_Parent organization = ''''" "length (mcfg_Name (mr_Instance rr)) \<le> maxAITenantNameSize"
      "pview s (cluster_key organizationName) = Some profile" "tenant_configured c (mr_Instance rr1) profile u" "reports_ready u"
      "aview s' key = Some u \<or> aview s' key = None \<and> (\<exists>w. aview s key = Some w \<and> om_DeletionTimestamp (un_Meta w) \<noteq> None)"
      using provision_ready [OF provisioned(2), unfolded apart same, OF keyed _ marked names [symmetric]] conditions unmarked
      by metis
    then show ?thesis unfolding configured same by blast
  qed
next
  case False
  then have "cleanupMaaS c rr s = (err, rr', s')" using run by (simp add: reconcileMaaS_def)
  then have "mr_Conditions rr' = mr_Conditions rr"
    using keyed names(2) removeCleanupFinalizer_outcome(2) by (cases rule: cleanupMaaS_cases) auto
  then show ?thesis using marked unmarked by simp
qed

end


section \<open>With a server that answers\<close>

text \<open>The AITenant can be provisioned: it does not exist, or it is the configuration's own, live, and
  its spec is a map.\<close>

definition tenant_open :: "'s k8s \<Rightarrow> MaaSConfiguration \<Rightarrow> Unstructured option \<Rightarrow> bool" where
  "tenant_open c configuration v = (case v of None \<Rightarrow> True
     | Some u \<Rightarrow> IsControlledBy c (un_Meta u) (mcfg_Meta configuration) \<and> spec_is_map (un_Object u) \<and>
         om_DeletionTimestamp (un_Meta u) = None)"

text \<open>The spec the AITenant has before it is rendered.\<close>

definition present_spec :: "Unstructured option \<Rightarrow> (string \<rightharpoonup> json)" where
  "present_spec v = (case v of None \<Rightarrow> Map.empty | Some u \<Rightarrow> subfield (un_Object u) ''spec'')"

text \<open>
  What the API server runs on the objects of this controller. A MaaSConfiguration passes validation
  and the operator's own webhook; its spec does not change. An AITenant passes validation and the
  schema of its kind with whatever else its own operator checks, which is no part of this repository
  (\<open>schema\<close> relates the specs before and after), and a new one needs its namespace.
\<close>

definition configuration_admitted :: "'s authorizer \<Rightarrow> AdmissionRequest \<Rightarrow> 's \<Rightarrow> MaaSConfiguration \<Rightarrow> MaaSConfiguration \<Rightarrow> bool" where
  "configuration_admitted a req s old new \<longleftrightarrow> meta_admitted (mcfg_Meta old) (mcfg_Meta new) \<and> mcfg_Spec new = mcfg_Spec old \<and>
     MaaSConfiguration_ValidateUpdate a (Inr req) old new s = None"

definition aitenant_admitted :: "((string \<rightharpoonup> json) \<Rightarrow> (string \<rightharpoonup> json) \<Rightarrow> bool) \<Rightarrow> Unstructured \<Rightarrow> Unstructured \<Rightarrow> bool" where
  "aitenant_admitted schema old new \<longleftrightarrow> meta_admitted (un_Meta old) (un_Meta new) \<and> 
     schema (subfield (un_Object old) ''spec'') (subfield (un_Object new) ''spec'')"

definition new_aitenant_admitted :: "('s \<Rightarrow> ObjectKey \<rightharpoonup> CoreNamespace) \<Rightarrow>
    ((string \<rightharpoonup> json) \<Rightarrow> (string \<rightharpoonup> json) \<Rightarrow> bool) \<Rightarrow> 's \<Rightarrow> Unstructured \<Rightarrow> bool" where
  "new_aitenant_admitted nview schema s u \<longleftrightarrow> live_namespace nview s (om_Namespace (un_Meta u)) \<and>
     dns_subdomain (om_Name (un_Meta u)) \<and> aitenant_admitted schema (newAITenant (om_Name (un_Meta u))) u"

text \<open>A configuration the operator's webhook has accepted, of an organization whose name is a label value.\<close>

definition configuration_admissible :: "(ObjectKey \<rightharpoonup> MaaSConfiguration) \<Rightarrow> MaaSConfiguration \<Rightarrow> bool" where
  "configuration_admissible M configuration \<longleftrightarrow> dns_subdomain (mcfg_Name configuration) \<and>
     mcfg_Name configuration = mcfg_Organization configuration \<and> label_value (mcfg_Organization configuration) \<and>
     om_UID (mcfg_Meta configuration) \<noteq> '''' \<and> om_Namespace (mcfg_Meta configuration) = '''' \<and>
     (\<forall>k x. M k = Some x \<longrightarrow> mcfg_Organization x = mcfg_Organization configuration \<longrightarrow> mcfg_Name x = mcfg_Name configuration)"

definition owner_admissible :: "Organization \<Rightarrow> bool" where
  "owner_admissible organization \<longleftrightarrow> om_Namespace (org_Meta organization) = '''' \<and> owner_complete (owner_organization organization)"

lemma maas_names: "qualified_name maasFinalizer" "qualified_name maasOrganizationLabel" "qualified_name managedByLabel"
  "label_value temporaryManagedBy"
  by code_simp+

text \<open>The controller's requests come from a service account of the operator's namespace.\<close>

locale answering_maas_server =
  maas_server c oview pview mview aview mrest arest +
  accepting_owner_adder "SetControllerReference c" "IsControlledBy c" "SetOwnerReference c" +
  organization_reader: reliable_reader "Get (organizations c)" oview +
  profile_reader: reliable_reader "Get (profiles c)" pview +
  tenant_reader: reliable_reader "Get (aitenants c)" aview +
  webhook_reader: reliable_reader "Get (organizations (az_reader a))" oview +
  webhook_lister: reliable_lister "ListItems (configurations (az_reader a))" mview +
  configuration_updater: reliable_updater mview mrest mcfg_Meta configuration_kept "Update (configurations c)" "configuration_admitted a req" +
  tenant_creator: reliable_creator aview arest un_Meta unstructured_kept "Create (aitenants c)" "new_aitenant_admitted nview schema" +
  tenant_updater: reliable_updater aview arest un_Meta unstructured_kept "Update (aitenants c)" "\<lambda>_. aitenant_admitted schema"
  for c :: "'s k8s" and oview pview mview aview and mrest :: "'s \<Rightarrow> 'm" and arest :: "'s \<Rightarrow> 'a"
    and nview :: "'s \<Rightarrow> ObjectKey \<rightharpoonup> CoreNamespace" and schema a req +
  assumes crd_apart: "mrest s' = mrest s \<Longrightarrow> HasCRD c s' = HasCRD c s"
    and namespaces_apart: "mrest s' = mrest s \<Longrightarrow> nview s' = nview s"
    and operator_account: "''system:serviceaccounts:'' @ az_operatorNamespace a \<in> set (ui_Groups (ar_UserInfo req))"
begin

text \<open>The finalizer's update passes the operator's webhook.\<close>

lemma finalizer_admitted:
  assumes "configuration_admissible (mview s) configuration"
    and "oview s (cluster_key (mcfg_Organization configuration)) = Some organization" and "org_Parent organization = ''''"
  shows "configuration_admitted a req s configuration
    (configuration\<lparr>mcfg_Meta := AddFinalizer c (mcfg_Meta configuration) maasFinalizer\<rparr>)"
proof -
  let ?new = "configuration\<lparr>mcfg_Meta := AddFinalizer c (mcfg_Meta configuration) maasFinalizer\<rparr>"
  obtain fs where fs: "AddFinalizer c (mcfg_Meta configuration) maasFinalizer = (mcfg_Meta configuration)\<lparr>om_Finalizers := fs\<rparr>"
    using add_frame by blast
  then have "meta_admitted (mcfg_Meta configuration) (mcfg_Meta ?new)"
    using maas_names(1) add_only [of "mcfg_Meta configuration" maasFinalizer] by (auto simp: meta_admitted_def references_admitted_def)
  moreover have "isTrusted a (ar_UserInfo req)"
    using operator_account unfolding isTrusted_iff operatorSAGroup_def by blast
  moreover obtain items where items: "ListItems (configurations (az_reader a)) s = Inr items"
    using webhook_lister.list_answers by blast
  moreover have "duplicate_configuration ?new (mcfg_Organization configuration) items = None"
    using assms(1) webhook_lister.list_member [OF items] unfolding duplicate_configuration_None_iff configuration_admissible_def by auto
  moreover have "mcfg_Organization configuration \<noteq> ''''"
    using assms(1) dns_subdomain_not_empty unfolding configuration_admissible_def by metis
  ultimately show ?thesis
    using assms
    by (simp add: configuration_admitted_def MaaSConfiguration_ValidateUpdate_def MaaSConfiguration_validate_def Let_def
        configuration_admissible_def webhook_reader.get_eq requireSelfAdmin_def userFromContext_def)
qed

lemma prepare_new:
  assumes "configuration_admissible M configuration" and "owner_admissible organization"
  shows "\<exists>obj'. prepareAITenant c configuration organization True (newAITenant name) = Inr (Some obj') \<and>
    meta_admitted (un_Meta (newAITenant name)) (un_Meta obj')"
proof -
  let ?obj = "newAITenant name" and ?w = "owner_configuration configuration" and ?v = "owner_organization organization"
  have refs: "om_OwnerReferences (un_Meta ?obj) = []" "om_Finalizers (un_Meta ?obj) = []" "om_Labels (un_Meta ?obj) = Map.empty"
    by (simp_all add: newAITenant_def)
  obtain m where m: "SetControllerReference c ?w (un_Meta ?obj) = Inr m"
    using controller_accepted [of ?w "un_Meta ?obj"] assms(1) refs(1) by (auto simp: controller_of_def configuration_admissible_def)
  obtain m' where m': "SetOwnerReference c ?v m = Inr m'"
    using owner_accepted [of ?v m] assms(2) by (auto simp: owner_admissible_def)
  have "\<not> same_object ?v (owner_reference ?w (Some True))"
    by (simp add: same_object_def owner_reference_def owner_configuration_def owner_organization_def)
  then have both: "om_OwnerReferences m' = [owner_reference ?w (Some True), owner_reference ?v None]"
    using controller_upserts [OF m] owner_upserts [OF m'] refs(1) by simp
  have "owner_complete ?w" "owner_complete ?v"
    using assms dns_subdomain_not_empty [of "mcfg_Name configuration"]
    by (auto simp: owner_complete_owners configuration_admissible_def owner_admissible_def)
  then have "references_admitted [] (om_OwnerReferences m')"
    unfolding both references_admitted_def owner_complete_def by simp
  moreover have "om_Labels m' = Map.empty" "om_Annotations m' = om_Annotations (un_Meta ?obj)" "om_Finalizers m' = []"
    using controller_upserts [OF m] owner_upserts [OF m'] refs by simp_all
  ultimately show ?thesis
    using m m' assms(1) maas_names by (simp add: prepareAITenant_def meta_admitted_def refs labels_admitted_def configuration_admissible_def)
qed

lemma prepare_existing:
  assumes "configuration_admissible M configuration" and "IsControlledBy c (un_Meta obj) (mcfg_Meta configuration)"
  shows "\<exists>obj'. prepareAITenant c configuration organization False obj = Inr (Some obj') \<and> om_UID (un_Meta obj') = om_UID (un_Meta obj) \<and>
    meta_admitted (un_Meta obj) (un_Meta obj')"
  using assms maas_names
  by (auto simp: prepareAITenant_def meta_admitted_def references_admitted_def configuration_admissible_def labels_admitted_def)

lemma store_answers:
  assumes "created \<Longrightarrow> aview s (key_of (un_Meta obj)) = None \<and> new_aitenant_admitted nview schema s obj"
    and "\<not> created \<Longrightarrow> \<exists>w. aview s (key_of (un_Meta obj)) = Some w \<and> om_UID (un_Meta w) = om_UID (un_Meta obj) \<and>
      om_DeletionTimestamp (un_Meta w) = None \<and> aitenant_admitted schema w obj"
  shows "\<exists>u s'. storeAITenant c created obj s = (Inr u, s') \<and> aview s' (key_of (un_Meta obj)) = Some u \<and> unstructured_kept obj u"
proof -
  obtain u s' where store: "storeAITenant c created obj s = (Inr u, s')"
    using assms tenant_creator.create_answers [of s obj] tenant_updater.update_answers [of s obj]
    by (cases created) (fastforce simp: storeAITenant_def)+
  with storeAITenant_outcome [OF store] assms show ?thesis by (cases created) auto
qed

text \<open>From a prepared object on: rendered, stored and reported.\<close>

lemma finish_answers:
  assumes prepare: "prepareAITenant c (mr_Instance rr) organization created obj = Inr (Some obj')"
    and "spec_is_map (un_Object obj)"
    and "schema (subfield (un_Object obj) ''spec'') (wanted_spec (mcfg_Spec (mr_Instance rr)) profile (subfield (un_Object obj) ''spec''))"
    and "meta_admitted (un_Meta obj) (un_Meta obj')"
    and "created \<Longrightarrow> obj = newAITenant name \<and> aview s (maasNamespace, name) = None \<and> dns_subdomain name \<and> live_namespace nview s maasNamespace"
    and "\<not> created \<Longrightarrow> aview s (key_of (un_Meta obj)) = Some obj \<and> om_DeletionTimestamp (un_Meta obj) = None \<and>
      om_UID (un_Meta obj') = om_UID (un_Meta obj)"
  shows "\<exists>u s'. finishAITenant c organization profile created obj rr s = (None, reportReadiness c u rr, s') \<and>
    aview s' (key_of (un_Meta obj)) = Some u \<and> tenant_configured c (mr_Instance rr) profile u"
proof -
  let ?cfg = "mr_Instance rr"
  note prep = prepared [OF prepare]
  obtain rendered where render: "render c (mcfg_Spec ?cfg) profile obj' = Inr rendered"
    using render_accepted [of obj' "mcfg_Spec ?cfg" profile] prep assms(2) by auto
  note fields = render_fields [OF render]
  have key: "key_of (un_Meta rendered) = key_of (un_Meta obj)" using prep fields(1) by simp
  have ok: "aitenant_admitted schema obj rendered"
    using assms(3,4) prep fields(1,2) by (simp add: aitenant_admitted_def)
  have "new_aitenant_admitted nview schema s rendered \<and> aview s (key_of (un_Meta rendered)) = None" if created
    using ok key assms(5) [OF that] by (simp add: new_aitenant_admitted_def newAITenant_def key_of_def)
  then obtain u s' where store: "storeAITenant c created rendered s = (Inr u, s')"
      "aview s' (key_of (un_Meta obj)) = Some u" "unstructured_kept rendered u"
    using store_answers [of created s rendered] assms(6) key ok fields(1) by auto
  have "tenant_configured c ?cfg profile rendered" using prep fields by (simp add: tenant_configured_def wanted_spec_def)
  with store(3) have "tenant_configured c ?cfg profile u" by (rule configured_kept [rotated])
  with prepare render store show ?thesis by (auto simp: finishAITenant_def)
qed

lemma provision_answers:
  assumes keyed: "well_keyed un_Meta (aview s)" and crd: "HasCRD c s = Inr True"
    and organization: "oview s (cluster_key (mcfg_Organization (mr_Instance rr))) = Some organization" "org_Parent organization = ''''"
    and admissible: "configuration_admissible M (mr_Instance rr)" "owner_admissible organization"
    and name: "length (mcfg_Name (mr_Instance rr)) \<le> maxAITenantNameSize"
    and profile: "pview s (cluster_key (mcfg_Organization (mr_Instance rr))) = Some profile"
    and tenant: "tenant_open c (mr_Instance rr) (aview s (maasNamespace, mcfg_Name (mr_Instance rr)))"
    and namespace: "live_namespace nview s maasNamespace"
    and schema: "schema (present_spec (aview s (maasNamespace, mcfg_Name (mr_Instance rr))))
        (wanted_spec (mcfg_Spec (mr_Instance rr)) profile (present_spec (aview s (maasNamespace, mcfg_Name (mr_Instance rr)))))"
  shows "\<exists>rr' s' u. provisionMaaS c rr s = (None, rr', s') \<and>
    aview s' (maasNamespace, mcfg_Name (mr_Instance rr)) = Some u \<and> tenant_configured c (mr_Instance rr) profile u"
proof -
  let ?key = "(maasNamespace, mcfg_Name (mr_Instance rr))" and ?new = "newAITenant (mcfg_Name (mr_Instance rr))"
  let ?rr = "add_mark (MarkTrue conditionCapabilityManaged ''CapabilityManaged'') rr"
  have same: "mr_Instance ?rr = mr_Instance rr" by (simp add: add_mark_def)
  have guards: "provisionMaaS c rr s = provisionAITenant c organization profile ?rr s"
    using crd organization name profile
    by (simp add: provisionMaaS_def hasMaaS_def same Let_def organization_reader.get_eq profile_reader.get_eq not_less)
  show ?thesis
  proof (cases "aview s ?key")
    case None
    have new: "key_of (un_Meta ?new) = ?key" "spec_is_map (un_Object ?new)" "subfield (un_Object ?new) ''spec'' = Map.empty"
      by (simp_all add: newAITenant_def spec_is_map_def subfield_def fun_eq_iff)
    obtain obj' where prepare: "prepareAITenant c (mr_Instance rr) organization True ?new = Inr (Some obj')"
        "meta_admitted (un_Meta ?new) (un_Meta obj')"
      using prepare_new [OF admissible] by blast
    from finish_answers [of ?rr organization True ?new obj' profile "mcfg_Name (mr_Instance rr)" s] prepare None schema namespace admissible(1) new
    show ?thesis unfolding guards
      by (auto simp: same present_spec_def configuration_admissible_def provisionAITenant_def tenant_reader.get_eq)
  next
    case (Some u)
    have key: "key_of (un_Meta u) = ?key" using well_keyedD [OF keyed Some] .
    obtain obj' where prepare: "prepareAITenant c (mr_Instance rr) organization False u = Inr (Some obj')"
        "om_UID (un_Meta obj') = om_UID (un_Meta u)" "meta_admitted (un_Meta u) (un_Meta obj')"
      using prepare_existing [OF admissible(1), of u organization] tenant Some by (auto simp: tenant_open_def)
    from finish_answers [of ?rr organization False u obj' profile _ s] prepare Some tenant schema
    show ?thesis unfolding guards
      by (auto simp: same key present_spec_def provisionAITenant_def tenant_reader.get_eq tenant_open_def)
  qed
qed

lemma reconcile_answers:
  assumes live: "om_DeletionTimestamp (mcfg_Meta (mr_Instance rr)) = None"
    and current: "mview s (key_of (mcfg_Meta (mr_Instance rr))) = Some (mr_Instance rr)"
    and keyed: "well_keyed un_Meta (aview s)" and crd: "HasCRD c s = Inr True"
    and organization: "oview s (cluster_key (mcfg_Organization (mr_Instance rr))) = Some organization" "org_Parent organization = ''''"
    and admissible: "configuration_admissible (mview s) (mr_Instance rr)" "owner_admissible organization"
    and name: "length (mcfg_Name (mr_Instance rr)) \<le> maxAITenantNameSize"
    and profile: "pview s (cluster_key (mcfg_Organization (mr_Instance rr))) = Some profile"
    and tenant: "tenant_open c (mr_Instance rr) (aview s (maasNamespace, mcfg_Name (mr_Instance rr)))"
    and namespace: "live_namespace nview s maasNamespace"
    and schema: "schema (present_spec (aview s (maasNamespace, mcfg_Name (mr_Instance rr))))
        (wanted_spec (mcfg_Spec (mr_Instance rr)) profile (present_spec (aview s (maasNamespace, mcfg_Name (mr_Instance rr)))))"
  shows "\<exists>rr' s' u. reconcileMaaS c rr s = (None, rr', s') \<and>
    aview s' (maasNamespace, mcfg_Name (mr_Instance rr)) = Some u \<and> tenant_configured c (mr_Instance rr) profile u"
proof -
  let ?x = "(mr_Instance rr)\<lparr>mcfg_Meta := AddFinalizer c (mcfg_Meta (mr_Instance rr)) maasFinalizer\<rparr>"
  have uid: "om_UID (mcfg_Meta (mr_Instance rr)) \<noteq> ''''" using admissible(1) by (simp add: configuration_admissible_def)
  obtain y t where "Update (configurations c) ?x s = (Inr y, t)"
    using configuration_updater.update_answers [of s ?x "mr_Instance rr"] current finalizer_admitted [OF admissible(1) organization] by auto
  then obtain rr1 s1 where add: "addCleanupFinalizer c rr s = (None, rr1, s1)"
    by (cases "ContainsFinalizer c (mcfg_Meta (mr_Instance rr)) maasFinalizer") (simp_all add: addCleanupFinalizer_def Let_def)
  note rest = addCleanupFinalizer_outcome(1) [OF add]
  note apart = finalizer_write_apart [OF add] crd_apart [OF rest]
  have same: "mcfg_Spec (mr_Instance rr1) = mcfg_Spec (mr_Instance rr)" "mcfg_Name (mr_Instance rr1) = mcfg_Name (mr_Instance rr)"
    "om_Namespace (mcfg_Meta (mr_Instance rr1)) = om_Namespace (mcfg_Meta (mr_Instance rr))"
    using addCleanupFinalizer_outcome(3) [OF add] by (simp_all add: key_of_def)
  have controlled: "IsControlledBy c m (mcfg_Meta (mr_Instance rr1)) = IsControlledBy c m (mcfg_Meta (mr_Instance rr))" for m
    by (rule controlled_by_uid [OF addCleanupFinalizer_uid [OF add uid]])
  have configured: "tenant_configured c (mr_Instance rr1) = tenant_configured c (mr_Instance rr)"
    "tenant_open c (mr_Instance rr1) = tenant_open c (mr_Instance rr)"
    by (intro ext, simp add: tenant_configured_def tenant_open_def same controlled split: option.split)+
  have "configuration_admissible (mview s) (mr_Instance rr1)"
    using admissible(1) addCleanupFinalizer_uid [OF add uid] unfolding configuration_admissible_def same by metis
  moreover have "live_namespace nview s1 maasNamespace" using namespace namespaces_apart [OF rest] by (simp add: live_namespace_def)
  moreover have "reconcileMaaS c rr s = provisionMaaS c rr1 s1" using live add by (simp add: reconcileMaaS_def)
  ultimately show ?thesis
    using provision_answers [of s1 rr1 organization "mview s" profile] keyed crd organization admissible(2) name profile tenant schema
    unfolding apart same configured by simp
qed

end

end
