(* ===== verification/Controller_Effects.thy ===== *)
theory Controller_Effects
  imports Organization_Controller Project_Reconciler Maas_Controller_Correct
begin

text \<open>
  What an action of a controller can change at all, whether it succeeds or fails, whatever call fails
  and whatever its reads return: the organization controller at most adds a profile with the default
  contents, the project controller writes namespaces, bindings and policies only, and the MaaS
  controller AITenants and the finalizers of the configuration it works on. The contracts here are
  those of the writes alone, so the results hold for a client that reads from a cache.
\<close>

section \<open>The contracts of the writes\<close>

locale operator_writes =
  owner_references "SetControllerReference c" "IsControlledBy c" +
  finalizer_ops "ContainsFinalizer c" "AddFinalizer c" "RemoveFinalizer c" +
  profile_creator: object_creator pview prest prof_Meta profile_kept "Create (profiles c)" +
  spaces: namespace_server c nview nrest + bindings: rbac_server c bview brest +
  np_applier: object_applier qview qrest np_Meta networkpolicy_kept "CreateOrUpdate (networkpolicies c)" +
  np_deleter: object_deleter qview qrest np_Meta networkpolicy_kept "Delete (networkpolicies c)" +
  configuration_updater: object_updater mview mrest mcfg_Meta configuration_kept "Update (configurations c)" +
  tenant_creator: object_creator aview arest un_Meta unstructured_kept "Create (aitenants c)" +
  tenant_updater: object_updater aview arest un_Meta unstructured_kept "Update (aitenants c)" +
  tenant_deleter: object_deleter aview arest un_Meta unstructured_kept "Delete (aitenants c)"
  for c :: "'s k8s" and pview mview nview bview qview aview and prest :: "'s \<Rightarrow> 'p" and nrest :: "'s \<Rightarrow> 'n"
    and brest :: "'s \<Rightarrow> 'b" and qrest :: "'s \<Rightarrow> 'q" and mrest :: "'s \<Rightarrow> 'm" and arest :: "'s \<Rightarrow> 'a"

text \<open>A client that writes to the server and reads from the state a cache holds (\<open>mgr.GetClient()\<close>).
  \<open>CreateOrUpdate\<close> stays a call of its own: what it writes is refused by the server
  unless it was computed from the stored object.\<close>

definition reads_from :: "'s \<Rightarrow> ('o, 's) resource \<Rightarrow> ('o, 's) resource" where
  "reads_from d R = R\<lparr>Get := (\<lambda>k s. Get R k d), ListItems := (\<lambda>s. ListItems R d)\<rparr>"

definition cached :: "'s \<Rightarrow> 's k8s \<Rightarrow> 's k8s" where
  "cached d c = c\<lparr>organizations := reads_from d (organizations c), profiles := reads_from d (profiles c),
     projects := reads_from d (projects c), configurations := reads_from d (configurations c),
     namespaces := reads_from d (namespaces c), rolebindings := reads_from d (rolebindings c),
     networkpolicies := reads_from d (networkpolicies c), aitenants := reads_from d (aitenants c)\<rparr>"

lemma reads_from_simps [simp]:
  "Get (reads_from d R) k s = Get R k d" "ListItems (reads_from d R) s = ListItems R d"
  "Create (reads_from d R) = Create R" "Update (reads_from d R) = Update R" "Delete (reads_from d R) = Delete R"
  "CreateOrUpdate (reads_from d R) = CreateOrUpdate R"
  by (simp_all add: reads_from_def)

lemma cached_simps [simp]:
  "organizations (cached d c) = reads_from d (organizations c)" "profiles (cached d c) = reads_from d (profiles c)"
  "projects (cached d c) = reads_from d (projects c)" "configurations (cached d c) = reads_from d (configurations c)"
  "namespaces (cached d c) = reads_from d (namespaces c)" "rolebindings (cached d c) = reads_from d (rolebindings c)"
  "networkpolicies (cached d c) = reads_from d (networkpolicies c)" "aitenants (cached d c) = reads_from d (aitenants c)"
  "SetControllerReference (cached d c) = SetControllerReference c" "IsControlledBy (cached d c) = IsControlledBy c"
  "ContainsFinalizer (cached d c) = ContainsFinalizer c" "AddFinalizer (cached d c) = AddFinalizer c"
  "RemoveFinalizer (cached d c) = RemoveFinalizer c"
  by (simp_all add: cached_def)

lemma cached_writes:
  assumes "operator_writes c pview mview nview bview qview aview prest nrest brest qrest mrest arest"
  shows "operator_writes (cached d c) pview mview nview bview qview aview prest nrest brest qrest mrest arest"
  using assms by (simp add: operator_writes_def namespace_server_def rbac_server_def)


section \<open>The organization controller\<close>

context operator_writes
begin

lemma ensureProfile_effect:
  assumes "ensureProfile c organization s = (err, organization', s')"
  shows "frame pview prest (cluster_key (org_Name organization)) s s' \<and>
    (pview s' (cluster_key (org_Name organization)) = pview s (cluster_key (org_Name organization)) \<or>
     pview s (cluster_key (org_Name organization)) = None \<and>
     (\<exists>p. pview s' (cluster_key (org_Name organization)) = Some p \<and> prof_Spec p = prof_Spec (defaultProfile organization)))"
proof (cases "s' = s")
  case False
  obtain m r where m: "SetControllerReference c (owner_organization organization) (prof_Meta (defaultProfile organization)) = Inr m"
    and r: "Create (profiles c) ((defaultProfile organization)\<lparr>prof_Meta := m\<rparr>) s = (r, s')"
    using assms False by (auto simp: ensureProfile_def Let_def split: sum.splits if_splits prod.splits)
  have key: "key_of m = cluster_key (org_Name organization)"
    using controller_set_fields(8) [OF m] by (simp add: defaultProfile_def key_of_def)
  show ?thesis
  proof (cases r)
    case (Inl e)
    then show ?thesis
      using profile_creator.create_failed [OF r [unfolded Inl]] profile_creator.create_frame [OF r] key by (auto simp: profile_kept_def)
  next
    case (Inr y)
    then show ?thesis
      using profile_creator.create_stored [OF r [unfolded Inr]] profile_creator.create_frame [OF r] key by (auto simp: profile_kept_def)
  qed
qed simp

lemma organization_action_effect:
  assumes "act \<in> set (reg_Actions (NewOrganizationReconciler c))" and "act organization s = (err, organization', s')"
  shows "frame pview prest (cluster_key (org_Name organization)) s s' \<and>
    (pview s' (cluster_key (org_Name organization)) = pview s (cluster_key (org_Name organization)) \<or>
     pview s (cluster_key (org_Name organization)) = None \<and>
     (\<exists>p. pview s' (cluster_key (org_Name organization)) = Some p \<and> prof_Organization p = org_Name organization \<and> prof_Admins p = []))"
proof -
  consider (root) "computeRoot c organization s = (err, organization', s')" | (profile) "ensureProfile c organization s = (err, organization', s')"
    using assms by (auto simp: NewOrganizationReconciler_def)
  then show ?thesis
  proof cases
    case root
    then have "s' = s" by (auto simp: computeRoot_def split: sum.splits if_splits)
    then show ?thesis by simp
  next
    case profile
    from ensureProfile_effect [OF this] show ?thesis by (auto simp: defaultProfile_def)
  qed
qed


section \<open>The project controller\<close>

lemma writePolicy_rest: "writePolicy c ns np s = (err, s') \<Longrightarrow> qrest s' = qrest s"
  by (auto simp: writePolicy_def Let_def split: prod.splits sum.splits dest!: np_applier.apply_frame frameD(2))

lemma applyPolicy_rest: "applyPolicy c ns np s = (err, s') \<Longrightarrow> qrest s' = qrest s"
  by (auto simp: applyPolicy_def split: sum.splits if_splits dest: writePolicy_rest)

lemma applyPolicies_rest: "applyPolicies c ns nps s = (err, s') \<Longrightarrow> qrest s' = qrest s"
proof (induction nps arbitrary: s)
  case (Cons np nps)
  obtain e t where "applyPolicy c ns np s = (e, t)" by fastforce
  with Cons applyPolicy_rest [OF this] show ?case by (cases e) auto
qed simp

lemma prunePolicy_rest: "prunePolicy c ns name s = (err, s') \<Longrightarrow> qrest s' = qrest s"
  by (auto simp: prunePolicy_def split: sum.splits if_splits prod.splits unit.splits dest!: np_deleter.delete_frame frameD(2))

lemma prunePolicies_rest: "prunePolicies c ns wanted names s = (err, s') \<Longrightarrow> qrest s' = qrest s"
proof (induction names arbitrary: s)
  case (Cons name names)
  obtain e t where "prunePolicy c ns name s = (e, t)" by fastforce
  with Cons prunePolicy_rest [OF this] show ?case by (cases e) (auto split: if_splits)
qed simp

lemma ensureNetworkPolicies_rest: "ensureNetworkPolicies c rr s = (err, rr', s') \<Longrightarrow> qrest s' = qrest s"
  by (auto simp: ensureNetworkPolicies_def syncPolicies_def Let_def split: prod.splits option.splits if_splits
      dest!: applyPolicies_rest prunePolicies_rest)

text \<open>Each action keeps all that is stored apart from the kind it writes.\<close>

lemma project_action_rest:
  assumes "act \<in> set (reg_Actions (NewOrganizationProjectReconciler c))" and "act rr s = (err, rr', s')"
  shows "nrest s' = nrest s \<or> brest s' = brest s \<or> qrest s' = qrest s"
proof -
  consider "validateParentOrganization c rr s = (err, rr', s')" | "computeEffectiveIsolation c rr s = (err, rr', s')"
    | "ensureNamespace c rr s = (err, rr', s')" | "ensureRBAC c rr s = (err, rr', s')"
    | "ensureNetworkPolicies c rr s = (err, rr', s')"
    using assms by (auto simp: NewOrganizationProjectReconciler_def)
  then show ?thesis
  proof cases
    case 1
    then show ?thesis using validateParentOrganization_state by metis
  next
    case 2
    then show ?thesis using computeEffectiveIsolation_succeeded by metis
  next
    case 3
    then show ?thesis using spaces.ensureNamespace_frame frameD(2) by metis
  next
    case 4
    then show ?thesis using bindings.ensureRBAC_frame by metis
  next
    case 5
    then show ?thesis using ensureNetworkPolicies_rest by blast
  qed
qed

end


section \<open>The MaaS controller\<close>

text \<open>Every configuration that is stored afterwards was there before, with the same spec.\<close>

definition specs_kept :: "(ObjectKey \<rightharpoonup> MaaSConfiguration) \<Rightarrow> (ObjectKey \<rightharpoonup> MaaSConfiguration) \<Rightarrow> bool" where
  "specs_kept M M' \<longleftrightarrow> (\<forall>k y. M' k = Some y \<longrightarrow> (\<exists>x. M k = Some x \<and> mcfg_Spec y = mcfg_Spec x))"

lemma specs_kept_refl [simp]: "specs_kept M M"
  by (simp add: specs_kept_def)

context operator_writes
begin

lemma storeAITenant_rest: "storeAITenant c created obj s = (r, s') \<Longrightarrow> arest s' = arest s"
  by (auto simp: storeAITenant_def split: if_splits prod.splits sum.splits
      dest!: tenant_creator.create_frame tenant_updater.update_frame frameD(2))

lemma provisionMaaS_rest: "provisionMaaS c rr s = (err, rr', s') \<Longrightarrow> arest s' = arest s"
  by (auto simp: provisionMaaS_def provisionAITenant_def finishAITenant_def Let_def
      split: if_splits sum.splits option.splits prod.splits dest: storeAITenant_rest)

text \<open>Storing an instance that differs from the stored configuration in its metadata only.\<close>

lemma update_specs:
  assumes "Update (configurations c) x' s = (r, s')" and "mview s (key_of (mcfg_Meta x')) = Some x" and "mcfg_Spec x' = mcfg_Spec x"
  shows "specs_kept (mview s) (mview s')"
  unfolding specs_kept_def
proof (intro allI impI)
  fix k y assume y: "mview s' k = Some y"
  have "mview s' k = mview s k \<or> k = key_of (mcfg_Meta x') \<and> configuration_kept x' y"
    using configuration_updater.update_stored [of x' s _ s'] configuration_updater.update_failed [of x' s _ s']
      frameD(1) [OF configuration_updater.update_frame [OF assms(1)], of k] assms(1) y
    by (cases r; cases "k = key_of (mcfg_Meta x')") auto
  with assms(2,3) y show "\<exists>x. mview s k = Some x \<and> mcfg_Spec y = mcfg_Spec x"
    unfolding configuration_kept_def by metis
qed

text \<open>The two writes of the configuration itself.\<close>

lemma finalizer_effect:
  assumes "addCleanupFinalizer c rr s = (err, rr', s') \<or> removeCleanupFinalizer c rr s = (err, rr', s')"
    and "mview s (key_of (mcfg_Meta (mr_Instance rr))) = Some x" and "mcfg_Spec (mr_Instance rr) = mcfg_Spec x"
  shows "mrest s' = mrest s \<and> specs_kept (mview s) (mview s')"
proof (cases "s' = s")
  case False
  then obtain x' r where "Update (configurations c) x' s = (r, s')" "key_of (mcfg_Meta x') = key_of (mcfg_Meta (mr_Instance rr))"
    "mcfg_Spec x' = mcfg_Spec (mr_Instance rr)"
    using assms(1) by (auto simp: addCleanupFinalizer_def removeCleanupFinalizer_def Let_def split: if_splits prod.splits sum.splits)
  then show ?thesis
    using update_specs [of x' s r s'] configuration_updater.update_frame [of x' s r s'] frameD(2) assms(2,3) by metis
qed simp

lemma reconcileMaaS_effect:
  assumes "reconcileMaaS c rr s = (err, rr', s')" and "mview s (key_of (mcfg_Meta (mr_Instance rr))) = Some x"
    and "mcfg_Spec (mr_Instance rr) = mcfg_Spec x" and apart: "\<And>s s'. arest s' = arest s \<Longrightarrow> mview s' = mview s"
    and outside: "\<And>s s'. mrest s' = mrest s \<or> arest s' = arest s \<Longrightarrow> outside s' = outside s"
  shows "specs_kept (mview s) (mview s') \<and> outside s' = outside s"
proof (cases "om_DeletionTimestamp (mcfg_Meta (mr_Instance rr)) = None")
  case True
  obtain e rr1 s1 where add: "addCleanupFinalizer c rr s = (e, rr1, s1)" by (cases "addCleanupFinalizer c rr s")
  then have "mrest s1 = mrest s \<and> specs_kept (mview s) (mview s1)" using finalizer_effect [OF _ assms(2,3)] by blast
  moreover have "arest s' = arest s1"
    using assms(1) True add provisionMaaS_rest by (cases e) (auto simp: reconcileMaaS_def)
  ultimately show ?thesis using apart [of s' s1] outside [of s' s1] outside [of s1 s] by simp
next
  case False
  have finish: "specs_kept (mview s) (mview s') \<and> outside s' = outside s"
    if "removeCleanupFinalizer c rr t = (err, rr', s')" "arest t = arest s" for t
    using finalizer_effect [of rr t err rr' s' x] that assms(2,3) apart [OF that(2)] outside [of t s] outside [of s' t] by simp
  have deleted: "arest t = arest s" if "Delete (aitenants c) u s = (r, t)" for u r t
    using tenant_deleter.delete_frame [OF that] frameD(2) by metis
  from False assms(1) have "cleanupMaaS c rr s = (err, rr', s')" by (simp add: reconcileMaaS_def)
  then have "arest s' = arest s \<or> (\<exists>t. removeCleanupFinalizer c rr t = (err, rr', s') \<and> arest t = arest s)"
    by (auto simp: cleanupMaaS_def Let_def split: sum.splits if_splits prod.splits unit.splits dest: deleted)
  then show ?thesis using finish apart [of s' s] outside [of s' s] by auto
qed

end

end
