(* ===== verification/Maas_Properties.thy ===== *)
theory Maas_Properties
  imports Maas_Controller_Correct
begin

text \<open>
  The contracts of \<open>Maas_Controller_Correct\<close> interpreted on the in-memory server, and the
  properties of the MaaSConfiguration reconciler with their witnesses.
\<close>

section \<open>The in-memory server\<close>

lemma mem_maas_apart:
  "mem_rest cl_configurations_update s' = mem_rest cl_configurations_update s \<Longrightarrow>
     mem_view cl_aitenants s' = mem_view cl_aitenants s \<and> mem_view cl_organizations s' = mem_view cl_organizations s \<and>
     mem_view cl_profiles s' = mem_view cl_profiles s"
  "mem_rest cl_configurations_update s' = mem_rest cl_configurations_update s \<Longrightarrow> cl_aitenant_crd s' = cl_aitenant_crd s"
  "mem_rest cl_configurations_update s' = mem_rest cl_configurations_update s \<Longrightarrow>
     mem_view cl_namespaces s' = mem_view cl_namespaces s"
  "mem_rest cl_aitenants_update s' = mem_rest cl_aitenants_update s \<Longrightarrow>
     mem_view cl_configurations s' = mem_view cl_configurations s"
  by (cases s, cases s', simp add: mem_rest_def mem_view_def)+

interpretation mem_renderer: renderer "memory_server flt" for flt
  by (rule renderer.intro) (simp, rule mem_nested_fields.nested_field_ops_axioms)

interpretation mem_maas: maas_server "memory_server flt" "mem_view cl_organizations" "mem_view cl_profiles"
  "mem_view cl_configurations" "mem_view cl_aitenants" "mem_rest cl_configurations_update" "mem_rest cl_aitenants_update" for flt
  by (intro maas_server.intro maas_server_axioms.intro; (rule mem_renderer.renderer_axioms)?; simp?;
      (rule mem_maas_apart mem_owner_adder.owner_adder_axioms mem_finalizers.finalizer_ops_axioms
        mem_organizations.object_reader_axioms mem_profiles.object_reader_axioms mem_configurations.object_updater_axioms
        mem_aitenants.object_reader_axioms mem_aitenants.object_creator_axioms mem_aitenants.object_updater_axioms
        mem_aitenants.object_deleter_axioms)?)

text \<open>A schema for the AITenants of the demo: an issuer comes with a client, the number of models is
  not negative, and a certificate once set stays.\<close>

definition demo_schema :: "(string \<rightharpoonup> json) \<Rightarrow> (string \<rightharpoonup> json) \<Rightarrow> bool" where
  "demo_schema old spec \<longleftrightarrow> (old ''tls'' = None \<or> spec ''tls'' = old ''tls'') \<and>
     (case spec ''oidc'' of Some (JObject m) \<Rightarrow> m ''clientId'' \<noteq> None | _ \<Rightarrow> True) \<and>
     (case spec ''resourceQuotas'' of Some (JObject m) \<Rightarrow> (case m ''maxModels'' of Some (JInt n) \<Rightarrow> 0 \<le> n | _ \<Rightarrow> False) | _ \<Rightarrow> True)"

interpretation up_maas: answering_maas_server server "mem_view cl_organizations" "mem_view cl_profiles"
  "mem_view cl_configurations" "mem_view cl_aitenants" "mem_rest cl_configurations_update" "mem_rest cl_aitenants_update"
  "mem_view cl_namespaces" demo_schema demo_authz demo_operator
  by (intro answering_maas_server.intro answering_maas_server_axioms.intro; (rule mem_maas.maas_server_axioms)?;
      (simp add: demo_authz_eq demo_operator_def)?;
      (rule mem_maas_apart mem_accepting_owner_adder.accepting_owner_adder_axioms
        up_organizations.reliable_reader_axioms up_profiles.reliable_reader_axioms up_aitenants.reliable_reader_axioms
        up_configurations.reliable_lister_axioms
        up_configurations.reliable_updater_axioms up_aitenants.reliable_creator_axioms up_aitenants.reliable_updater_axioms)?)

text \<open>The configuration of the demo's root organization, its AITenant as the MaaS controller reports it
  ready, and an AITenant of the same name that somebody else controls.\<close>

definition maas_demo :: MaaSConfiguration where
  "maas_demo = (demo_configuration ''research-division'' ''research-division'')\<lparr>mcfg_Spec :=
     \<lparr>mcs_OrganizationRef = \<lparr>orgref_Name = ''research-division''\<rparr>, mcs_OIDC = Some \<lparr>mo_ClientID = ''maas''\<rparr>,
      mcs_TLS = None, mcs_Quotas = Some \<lparr>mq_MaxModels = 5, mq_MaxSubscriptions = 20, mq_MaxAPIKeys = 50\<rparr>\<rparr>\<rparr>"

definition maas_demo_profile :: OrganizationProfile where
  "maas_demo_profile = (demo_profile ''research-division'' [] 0)\<lparr>prof_Spec :=
     (prof_Spec (demo_profile ''research-division'' [] 0))\<lparr>ops_Platform :=
       Some \<lparr>plat_OIDC = Some \<lparr>oidc_IssuerURL = ''https://issuer''\<rparr>, plat_IngressGatewayRef = None\<rparr>\<rparr>\<rparr>"

definition maas_tenant :: "MaaSConfiguration \<Rightarrow> Unstructured" where
  "maas_tenant owner = (newAITenant ''research-division'')\<lparr>
     un_Meta := (named maasNamespace ''research-division'')\<lparr>om_UID := ''tenant'',
       om_OwnerReferences := [owner_reference (owner_configuration owner) (Some True)]\<rparr>,
     un_Object := [''spec'' \<mapsto> JObject [''tls'' \<mapsto> JNull, ''tier'' \<mapsto> JString ''gold''],
       ''status'' \<mapsto> JObject [''conditions'' \<mapsto> JArray [JObject [''type'' \<mapsto> JString ''Ready'', ''status'' \<mapsto> JString ''True'']]]]\<rparr>"

definition maas_state :: "MaaSConfiguration \<Rightarrow> Unstructured list \<Rightarrow> cluster" where
  "maas_state configuration tenants = demo_cluster\<lparr>cl_configurations := keyed mcfg_Meta [configuration],
     cl_aitenants := keyed un_Meta tenants, cl_aitenant_crd := True\<rparr>"

abbreviation maas_run :: "MaaSConfiguration \<Rightarrow> cluster \<Rightarrow> error_result \<times> maas_request \<times> cluster" where
  "maas_run configuration s \<equiv> reconcileMaaS server \<lparr>mr_Instance = configuration, mr_Conditions = []\<rparr> s"

lemma maas_tenant_key [simp]: "key_of (un_Meta (maas_tenant owner)) = (maasNamespace, ''research-division'')"
  by (simp add: maas_tenant_def key_of_def)

lemma maas_demo_simps [simp]:
  "mcfg_Name maas_demo = ''research-division''" "mcfg_Organization maas_demo = ''research-division''"
  "om_UID (mcfg_Meta maas_demo) = ''maas-research-division''" "om_DeletionTimestamp (mcfg_Meta maas_demo) = None"
  "om_Namespace (mcfg_Meta maas_demo) = ''''" "key_of (mcfg_Meta maas_demo) = cluster_key ''research-division''"
  by (simp_all add: maas_demo_def demo_configuration_def key_of_def)

lemma maas_state_views:
  "mem_view cl_aitenants (maas_state configuration tenants) = map_of (keyed un_Meta tenants)"
  "mem_view cl_configurations (maas_state configuration tenants) = [key_of (mcfg_Meta configuration) \<mapsto> configuration]"
  "mem_view cl_organizations (maas_state configuration tenants) = mem_view cl_organizations demo_cluster"
  "mem_view cl_profiles (maas_state configuration tenants) = mem_view cl_profiles demo_cluster"
  by (simp_all add: maas_state_def mem_view_def keyed_def)

lemma maas_state_keyed: "well_keyed un_Meta (mem_view cl_aitenants (maas_state configuration [maas_tenant owner]))"
  "well_keyed un_Meta (mem_view cl_aitenants (maas_state configuration []))"
  by (auto simp: maas_state_views keyed_def well_keyed_def)


section \<open>Properties\<close>

text \<open>C38: Rendering is exact: on an object whose spec, if any, is a map, it succeeds. The \<open>oidc\<close> field
  holds the issuer of the organization's platform and the client of the configuration, as far as they
  are given; \<open>gateway\<close> the name of the platform's gateway; \<open>tls\<close> the name and namespace of
  the certificate; \<open>resourceQuotas\<close> the three quotas under their names; each is absent when nothing
  is given for it. Every other field of the spec and of the object, and the metadata, is as it was.\<close>

theorem render_exact:
  assumes "renderer c" and "spec_is_map (un_Object obj)"
    and "platform = ops_Platform (prof_Spec profile)"
    and "issuer = map_option (\<lambda>x. JString (oidc_IssuerURL x)) (Option.bind platform plat_OIDC)"
    and "client = map_option (\<lambda>x. JString (mo_ClientID x)) (mcs_OIDC spec)"
  shows "\<exists>obj'. render c spec profile obj = Inr obj' \<and> un_Meta obj' = un_Meta obj \<and>
    subfield (un_Object obj') ''spec'' ''oidc'' = (if issuer = None \<and> client = None then None
      else Some (JObject (Map.empty(''issuerUrl'' := issuer, ''clientId'' := client)))) \<and>
    subfield (un_Object obj') ''spec'' ''gateway'' =
      map_option (\<lambda>g. JObject [''name'' \<mapsto> JString (gw_Name g)]) (Option.bind platform plat_IngressGatewayRef) \<and>
    subfield (un_Object obj') ''spec'' ''tls'' = map_option (\<lambda>t. JObject [''certificateRef'' \<mapsto> JObject
      [''name'' \<mapsto> JString (mc_Name (mt_CertificateRef t)), ''namespace'' \<mapsto> JString (mc_Namespace (mt_CertificateRef t))]]) (mcs_TLS spec) \<and>
    subfield (un_Object obj') ''spec'' ''resourceQuotas'' = map_option (\<lambda>q. JObject
      [''maxModels'' \<mapsto> JInt (sint (mq_MaxModels q)), ''maxSubscriptions'' \<mapsto> JInt (sint (mq_MaxSubscriptions q)),
       ''maxApiKeys'' \<mapsto> JInt (sint (mq_MaxAPIKeys q))]) (mcs_Quotas spec) \<and>
    (\<forall>f. f \<notin> {''oidc'', ''gateway'', ''tls'', ''resourceQuotas''} \<longrightarrow>
       subfield (un_Object obj') ''spec'' f = subfield (un_Object obj) ''spec'' f) \<and>
    (\<forall>d. d \<noteq> ''spec'' \<longrightarrow> un_Object obj' d = un_Object obj d)"
proof -
  obtain obj' where r: "render c spec profile obj = Inr obj'"
    using renderer.render_accepted [OF assms(1,2)] by blast
  note fields = renderer.render_fields [OF assms(1) r]
  from r fields(1,3) show ?thesis
    by (intro exI [of _ obj']) (simp add: fields(2) wanted_spec_def managed_fields_def wanted_fields_def Let_def assms(3-5))
qed

theorem render_exact_witness:
  "\<exists>obj'. render server (mcfg_Spec maas_demo) maas_demo_profile (maas_tenant maas_demo) = Inr obj' \<and>
     subfield (un_Object obj') ''spec'' ''oidc'' =
       Some (JObject [''issuerUrl'' \<mapsto> JString ''https://issuer'', ''clientId'' \<mapsto> JString ''maas'']) \<and>
     subfield (un_Object obj') ''spec'' ''resourceQuotas'' =
       Some (JObject [''maxModels'' \<mapsto> JInt 5, ''maxSubscriptions'' \<mapsto> JInt 20, ''maxApiKeys'' \<mapsto> JInt 50]) \<and>
     subfield (un_Object obj') ''spec'' ''tls'' = None \<and> subfield (un_Object obj') ''spec'' ''tier'' = Some (JString ''gold'')"
proof -
  have map: "spec_is_map (un_Object (maas_tenant maas_demo))" by (simp add: spec_is_map_def maas_tenant_def)
  have tier: "subfield (un_Object (maas_tenant maas_demo)) ''spec'' ''tier'' = Some (JString ''gold'')"
    by (simp add: subfield_def maas_tenant_def)
  have given: "ops_Platform (prof_Spec maas_demo_profile) =
      Some \<lparr>plat_OIDC = Some \<lparr>oidc_IssuerURL = ''https://issuer''\<rparr>, plat_IngressGatewayRef = None\<rparr>"
    "mcs_OIDC (mcfg_Spec maas_demo) = Some \<lparr>mo_ClientID = ''maas''\<rparr>" "mcs_TLS (mcfg_Spec maas_demo) = None"
    "mcs_Quotas (mcfg_Spec maas_demo) = Some \<lparr>mq_MaxModels = 5, mq_MaxSubscriptions = 20, mq_MaxAPIKeys = 50\<rparr>"
    by (simp_all add: maas_demo_def maas_demo_profile_def)
  obtain obj' where obj': "render server (mcfg_Spec maas_demo) maas_demo_profile (maas_tenant maas_demo) = Inr obj'"
    "subfield (un_Object obj') ''spec'' ''oidc'' =
       Some (JObject [''issuerUrl'' \<mapsto> JString ''https://issuer'', ''clientId'' \<mapsto> JString ''maas''])"
    "subfield (un_Object obj') ''spec'' ''tls'' = None"
    "subfield (un_Object obj') ''spec'' ''resourceQuotas'' =
       Some (JObject [''maxModels'' \<mapsto> JInt 5, ''maxSubscriptions'' \<mapsto> JInt 20, ''maxApiKeys'' \<mapsto> JInt 50])"
    "\<forall>f. f \<notin> {''oidc'', ''gateway'', ''tls'', ''resourceQuotas''} \<longrightarrow>
       subfield (un_Object obj') ''spec'' f = subfield (un_Object (maas_tenant maas_demo)) ''spec'' f"
    using render_exact [where c = server and profile = maas_demo_profile and spec = "mcfg_Spec maas_demo",
        OF mem_renderer.renderer_axioms map refl refl refl]
    unfolding given by auto
  show ?thesis
    by (intro exI [of _ obj']) (use obj' tier in simp)
qed

text \<open>C18: An AITenant the configuration does not control is never touched, whether the configuration is
  live or being deleted and whatever call fails: neither one of another name or namespace, nor one
  of the configuration's own name with another controller.\<close>

theorem foreign_aitenant_untouched:
  assumes "maas_server c oview pview mview aview mrest arest" and "well_keyed un_Meta (aview s)"
    and "reconcileMaaS c rr s = (err, rr', s')" and "om_UID (mcfg_Meta (mr_Instance rr)) \<noteq> ''''"
    and "aview s k = Some u"
    and "k \<noteq> (maasNamespace, mcfg_Name (mr_Instance rr)) \<or> \<not> IsControlledBy c (un_Meta u) (mcfg_Meta (mr_Instance rr))"
  shows "aview s' k = Some u"
  using maas_server.foreign_tenant_kept [OF assms(1,3,2,4-6)] .

theorem foreign_aitenant_untouched_witness:
  "mem_view cl_aitenants (snd (snd (maas_run maas_demo (maas_state maas_demo [maas_tenant (demo_configuration ''other'' ''genomics'')]))))
     (maasNamespace, ''research-division'') = Some (maas_tenant (demo_configuration ''other'' ''genomics''))"
proof -
  let ?u = "maas_tenant (demo_configuration ''other'' ''genomics'')"
  let ?s = "maas_state maas_demo [?u]"
  obtain err rr' s' where run: "maas_run maas_demo ?s = (err, rr', s')" by (cases "maas_run maas_demo ?s") auto
  have "mem_view cl_aitenants ?s (maasNamespace, ''research-division'') = Some ?u"
    by (simp add: maas_state_views keyed_def)
  moreover have "\<not> IsControlledBy server (un_Meta ?u) (mcfg_Meta maas_demo)"
    by (simp add: maas_tenant_def mem_IsControlledBy_def controller_of_def owner_reference_def demo_configuration_def)
  ultimately have "mem_view cl_aitenants s' (maasNamespace, ''research-division'') = Some ?u"
    using foreign_aitenant_untouched [OF mem_maas.maas_server_axioms maas_state_keyed(1) run, of "(maasNamespace, ''research-division'')" ?u]
    by simp
  with run show ?thesis by simp
qed

text \<open>C19: The cleanup finalizer is stored before an AITenant is written: if the reconciliation of a live
  configuration, started from the stored version, changes the AITenants in any way, then afterwards
  the stored configuration carries the finalizer, even when the reconciliation failed.\<close>

theorem finalizer_before_aitenant:
  assumes "maas_server c oview pview mview aview mrest arest" and "well_keyed un_Meta (aview s)"
    and "reconcileMaaS c rr s = (err, rr', s')"
    and "om_DeletionTimestamp (mcfg_Meta (mr_Instance rr)) = None"
    and "mview s (key_of (mcfg_Meta (mr_Instance rr))) = Some (mr_Instance rr)"
    and "aview s' \<noteq> aview s"
  shows "\<exists>y. mview s' (key_of (mcfg_Meta (mr_Instance rr))) = Some y \<and> ContainsFinalizer c (mcfg_Meta y) maasFinalizer"
  using maas_server.finalizer_first [OF assms(1,3,2,4-6)] .

theorem finalizer_before_aitenant_witness:
  "\<exists>y. mem_view cl_configurations (snd (snd (maas_run maas_demo (maas_state maas_demo [])))) (cluster_key ''research-division'') = Some y \<and>
     maasFinalizer \<in> set (om_Finalizers (mcfg_Meta y))"
proof -
  let ?s = "maas_state maas_demo []"
  obtain err rr' s' where run: "maas_run maas_demo ?s = (err, rr', s')" by (cases "maas_run maas_demo ?s") auto
  have "map fst (cl_aitenants (snd (snd (maas_run maas_demo ?s)))) = [(maasNamespace, ''research-division'')]" by code_simp
  with run have "map fst (cl_aitenants s') = [(maasNamespace, ''research-division'')]" by simp
  then have "mem_view cl_aitenants s' (maasNamespace, ''research-division'') \<noteq> None"
    by (auto simp: mem_view_def map_of_eq_None_iff simp flip: set_map)
  then have "mem_view cl_aitenants s' \<noteq> mem_view cl_aitenants ?s"
    by (auto simp: maas_state_views keyed_def)
  then have "\<exists>y. mem_view cl_configurations s' (cluster_key ''research-division'') = Some y \<and> ContainsFinalizer server (mcfg_Meta y) maasFinalizer"
    using finalizer_before_aitenant [OF mem_maas.maas_server_axioms maas_state_keyed(2) run] by (simp add: maas_state_views)
  with run show ?thesis by (simp add: mem_ContainsFinalizer_def)
qed





text \<open>C21: Readiness is never reported without cause: when the reconciliation marks \<open>MaaSReady\<close>
  true, the organization is stored and is a root, the name fits the limit, the profile is stored, and
  the AITenant as the server answered it is controlled by the configuration, labelled, says what the
  configuration and the profile say, and its status lists a condition with type \<open>Ready\<close> and
  status \<open>True\<close>; it is what is stored, unless it was already being deleted.\<close>

theorem maas_ready_honest:
  assumes "maas_server c oview pview mview aview mrest arest" and "well_keyed un_Meta (aview s)"
    and "reconcileMaaS c rr s = (err, rr', s')" and "om_UID (mcfg_Meta (mr_Instance rr)) \<noteq> ''''"
    and "mr_Conditions rr = []" and "MarkTrue conditionMaaSReady reason \<in> set (mr_Conditions rr')"
    and "organizationName = mcfg_Organization (mr_Instance rr)" and "key = (maasNamespace, mcfg_Name (mr_Instance rr))"
  shows "\<exists>organization profile u.
    oview s (cluster_key organizationName) = Some organization \<and> org_Parent organization = '''' \<and>
    length (mcfg_Name (mr_Instance rr)) \<le> maxAITenantNameSize \<and>
    pview s (cluster_key organizationName) = Some profile \<and>
    tenant_configured c (mr_Instance rr) profile u \<and>
    (\<exists>conditions condition. subfield (un_Object u) ''status'' ''conditions'' = Some (JArray conditions) \<and>
       JObject condition \<in> set conditions \<and> condition ''type'' = Some (JString ''Ready'') \<and>
       condition ''status'' = Some (JString ''True'')) \<and>
    (aview s' key = Some u \<or> aview s' key = None \<and> (\<exists>w. aview s key = Some w \<and> om_DeletionTimestamp (un_Meta w) \<noteq> None))"
  using maas_server.ready_mark [OF assms(1,3,2,5,6,4,7,8)] unfolding reports_ready_def .

theorem maas_ready_honest_witness:
  "\<exists>u. MarkTrue conditionMaaSReady ''MaaSReady'' \<in> set (mr_Conditions (fst (snd (maas_run maas_demo (maas_state maas_demo [maas_tenant maas_demo]))))) \<and>
     subfield (un_Object u) ''spec'' ''resourceQuotas'' =
       Some (JObject [''maxModels'' \<mapsto> JInt 5, ''maxSubscriptions'' \<mapsto> JInt 20, ''maxApiKeys'' \<mapsto> JInt 50]) \<and>
     mem_view cl_aitenants (snd (snd (maas_run maas_demo (maas_state maas_demo [maas_tenant maas_demo])))) (maasNamespace, ''research-division'') = Some u"
proof -
  let ?s = "maas_state maas_demo [maas_tenant maas_demo]"
  obtain err rr' s' where run: "maas_run maas_demo ?s = (err, rr', s')" by (cases "maas_run maas_demo ?s") auto
  have "MarkTrue conditionMaaSReady ''MaaSReady'' \<in> set (mr_Conditions (fst (snd (maas_run maas_demo ?s))))" by code_simp
  with run have marked: "MarkTrue conditionMaaSReady ''MaaSReady'' \<in> set (mr_Conditions rr')" by simp
  have live: "mem_view cl_aitenants ?s (maasNamespace, ''research-division'') = Some w \<Longrightarrow> om_DeletionTimestamp (un_Meta w) = None" for w
    by (auto simp: maas_state_views keyed_def maas_tenant_def split: if_splits)
  obtain profile u where u: "tenant_configured server maas_demo profile u"
      "mem_view cl_aitenants s' (maasNamespace, ''research-division'') = Some u"
    using maas_ready_honest [OF mem_maas.maas_server_axioms maas_state_keyed(1) run _ _ marked refl refl] live by auto
  have "subfield (un_Object u) ''spec'' ''resourceQuotas'' =
      Some (JObject [''maxModels'' \<mapsto> JInt 5, ''maxSubscriptions'' \<mapsto> JInt 20, ''maxApiKeys'' \<mapsto> JInt 50])"
    using u(1) by (simp add: tenant_configured_def managed_fields_def wanted_fields_def Let_def maas_demo_def)
  with run marked u(2) show ?thesis by auto
qed

text \<open>C7: MaaS is provisioned. The server does not fail and stores what passes its validation, the schema
  of the AITenants and the operator's webhook for MaaSConfigurations; the AITenant kind is installed,
  and the namespace \<open>ai-tenants\<close> exists and is not being deleted. The configuration is live, has
  the name of its organization, is the only one for it, and the name fits the limit and is a label
  value; the organization is a stored root with a profile. The AITenant does not exist yet or is the
  configuration's own, and the schema accepts that its four managed fields become what the
  configuration and the profile want. Then the reconciliation succeeds and leaves an AITenant
  that is the configuration's, labelled, and has these fields in its spec.\<close>

theorem maas_provisioned:
  assumes "answering_maas_server c oview pview mview aview mrest arest nview schema a req"
    and "configuration = mr_Instance rr" and "key = (maasNamespace, mcfg_Name configuration)"
    and "om_DeletionTimestamp (mcfg_Meta configuration) = None"
    and "mview s (key_of (mcfg_Meta configuration)) = Some configuration"
    and "configuration_admissible (mview s) configuration" and "length (mcfg_Name configuration) \<le> 41"
    and "well_keyed un_Meta (aview s)" and "HasCRD c s = Inr True" and "live_namespace nview s ''ai-tenants''"
    and "oview s (cluster_key (mcfg_Organization configuration)) = Some organization" and "org_Parent organization = ''''"
    and "owner_admissible organization"
    and "pview s (cluster_key (mcfg_Organization configuration)) = Some profile"
    and "tenant_open c configuration (aview s key)"
    and "schema (present_spec (aview s key)) (wanted_spec (mcfg_Spec configuration) profile (present_spec (aview s key)))"
  shows "\<exists>rr' s' u. reconcileMaaS c rr s = (None, rr', s') \<and> aview s' key = Some u \<and>
    IsControlledBy c (un_Meta u) (mcfg_Meta configuration) \<and>
    om_Labels (un_Meta u) ''organization.opendatahub.io/name'' = Some (mcfg_Organization configuration) \<and>
    om_Labels (un_Meta u) ''maas.opendatahub.io/managed-by'' = Some ''tenancy-operator'' \<and>
    (\<forall>f \<in> {''oidc'', ''gateway'', ''tls'', ''resourceQuotas''}.
       subfield (un_Object u) ''spec'' f = wanted_fields (mcfg_Spec configuration) profile f)"
proof -
  have "length (mcfg_Name (mr_Instance rr)) \<le> maxAITenantNameSize" "live_namespace nview s maasNamespace"
    using assms(2,7,10) by (simp_all add: maxAITenantNameSize_def maasNamespace_def)
  from answering_maas_server.reconcile_answers [OF assms(1) _ _ assms(8,9) _ _ _ assms(13) this(1) _ _ this(2)] assms(2-16)
  show ?thesis
    by (simp add: tenant_configured_def managed_fields_def maasOrganizationLabel_def managedByLabel_def temporaryManagedBy_def)
qed

text \<open>The demo's root organization with a namespace for its AITenant.\<close>

definition maas_ready_state :: cluster where
  "maas_ready_state = (maas_state maas_demo [])\<lparr>cl_namespaces := keyed ns_Meta [\<lparr>ns_Meta = named '''' ''ai-tenants''\<rparr>]\<rparr>"

lemma maas_ready_views:
  "mem_view cl_configurations maas_ready_state = [cluster_key ''research-division'' \<mapsto> maas_demo]"
  "mem_view cl_organizations maas_ready_state = mem_view cl_organizations demo_cluster"
  "mem_view cl_profiles maas_ready_state = mem_view cl_profiles demo_cluster"
  "mem_view cl_aitenants maas_ready_state = Map.empty" "HasCRD server maas_ready_state = Inr True"
  "live_namespace (mem_view cl_namespaces) maas_ready_state ''ai-tenants''"
  by (simp_all add: maas_ready_state_def maas_state_def mem_view_def keyed_def live_namespace_def)

theorem maas_provisioned_witness:
  "\<exists>rr' s' u. maas_run maas_demo maas_ready_state = (None, rr', s') \<and>
     mem_view cl_aitenants s' (maasNamespace, ''research-division'') = Some u \<and>
     subfield (un_Object u) ''spec'' ''resourceQuotas'' =
       Some (JObject [''maxModels'' \<mapsto> JInt 5, ''maxSubscriptions'' \<mapsto> JInt 20, ''maxApiKeys'' \<mapsto> JInt 50])"
proof -
  let ?organization = "demo_org ''research-division'' '''' ''research-division''"
  let ?profile = "demo_profile ''research-division'' [user_subject ''alice''] 0"
  have names: "dns_subdomain ''research-division''" "label_value ''research-division''" by code_simp+
  then have admissible: "configuration_admissible (mem_view cl_configurations maas_ready_state) maas_demo"
    by (simp add: configuration_admissible_def maas_ready_views)
  have owner: "owner_admissible ?organization"
    by (simp add: owner_admissible_def owner_complete_owners demo_org_def)
  have quotas: "wanted_fields (mcfg_Spec maas_demo) ?profile ''resourceQuotas'' =
      Some (JObject [''maxModels'' \<mapsto> JInt 5, ''maxSubscriptions'' \<mapsto> JInt 20, ''maxApiKeys'' \<mapsto> JInt 50])"
    by (simp add: wanted_fields_def Let_def maas_demo_def)
  have "demo_schema Map.empty (wanted_spec (mcfg_Spec maas_demo) ?profile Map.empty)"
    by (simp add: demo_schema_def wanted_spec_def managed_fields_def wanted_fields_def Let_def maas_demo_def demo_profile_def)
  moreover have stored: "mem_view cl_organizations maas_ready_state (cluster_key ''research-division'') = Some ?organization"
    "mem_view cl_profiles maas_ready_state (cluster_key ''research-division'') = Some ?profile"
    by (simp_all add: maas_ready_views keyed_def)
  moreover have "org_Parent ?organization = ''''" by (simp add: demo_org_def)
  ultimately obtain rr' s' u where "maas_run maas_demo maas_ready_state = (None, rr', s')"
    "mem_view cl_aitenants s' (maasNamespace, ''research-division'') = Some u"
    "\<forall>f \<in> {''oidc'', ''gateway'', ''tls'', ''resourceQuotas''}. subfield (un_Object u) ''spec'' f = wanted_fields (mcfg_Spec maas_demo) ?profile f"
    using maas_provisioned [OF up_maas.answering_maas_server_axioms refl refl, of "\<lparr>mr_Instance = maas_demo, mr_Conditions = []\<rparr>"
        maas_ready_state ?organization ?profile] admissible owner maas_ready_views(1,4-6)
    by (auto simp: tenant_open_def present_spec_def well_keyed_def)
  with quotas show ?thesis by auto
qed

end
