(* ===== verification/System.thy ===== *)
theory System
  imports Admission Controller_Effects Maas_Properties
begin

text \<open>
  The whole system: users whose requests pass the webhooks, the actions of the three controllers
  that write, and the framework's status writes, in any order. The webhooks and the controllers read
  through the manager's client (\<open>mgr.GetClient()\<close>), that is from a cache: what an event reads of an
  object is a value the object had in some earlier state, each object at its own time. Every action
  of a reconciliation is an event of its own, so other events come between the actions of one
  reconciliation; an action may work on an instance that is out of date. Only a MaaSConfiguration is
  up to date when its controller writes it back: the server refuses a write of an outdated object. The
  properties extend those of \<open>Admission\<close> to every such interleaving.
\<close>

section \<open>Steps\<close>

text \<open>The webhooks' authorizer, what a cache may show after the given states, and what the framework's
  status writes may do.\<close>

record 's operator_system =
  op_authz :: "'s authorizer"
  op_cache :: "'s set \<Rightarrow> 's \<Rightarrow> bool"
  op_status :: "'s \<Rightarrow> 's \<Rightarrow> bool"

abbreviation op_client :: "'s operator_system \<Rightarrow> 's k8s" where
  "op_client S \<equiv> az_reader (op_authz S)"

datatype event = UserRequest request | OrganizationAction Organization | ProjectAction ReconciliationRequest
  | ConfigurationAction maas_request | StatusWrite

text \<open>The second argument is the set of states the caches may still show values of.\<close>

inductive system_step :: "'s operator_system \<Rightarrow> 's set \<Rightarrow> 's \<Rightarrow> event \<Rightarrow> 's \<Rightarrow> bool" for S H where
  user_request: "op_cache S H d \<Longrightarrow> admits_at (op_authz S) d s req s' \<Longrightarrow> system_step S H s (UserRequest req) s'"
| organization_action:
  "op_cache S H d \<Longrightarrow> act \<in> set (reg_Actions (NewOrganizationReconciler (cached d (op_client S)))) \<Longrightarrow>
   act x s = (err, x', s') \<Longrightarrow> system_step S H s (OrganizationAction x) s'"
| project_action:
  "op_cache S H d \<Longrightarrow> act \<in> set (reg_Actions (NewOrganizationProjectReconciler (cached d (op_client S)))) \<Longrightarrow>
   act rr s = (err, rr', s') \<Longrightarrow> system_step S H s (ProjectAction rr) s'"
| configuration_action:
  "op_cache S H d \<Longrightarrow> Get (configurations (op_client S)) (key_of (mcfg_Meta (mr_Instance mr))) s = Inr (mr_Instance mr) \<Longrightarrow>
   act \<in> set (reg_Actions (NewMaaSConfigurationReconciler (cached d (op_client S)))) \<union>
     set (reg_Finalizers (NewMaaSConfigurationReconciler (cached d (op_client S)))) \<Longrightarrow>
   act mr s = (err, mr', s') \<Longrightarrow> system_step S H s (ConfigurationAction mr) s'"
| status_write: "op_status S s s' \<Longrightarrow> system_step S H s StatusWrite s'"

inductive_simps user_request_iff [simp]: "system_step S H s (UserRequest req) s'"

inductive system_run :: "'s operator_system \<Rightarrow> 's set \<Rightarrow> 's \<Rightarrow> event list \<Rightarrow> 's \<Rightarrow> bool" for S where
  run_none: "system_run S H s [] s"
| run_more: "system_step S H s e t \<Longrightarrow> system_run S (insert t H) t es u \<Longrightarrow> system_run S H s (e # es) u"

text \<open>Each object is shown as one of the states has it.\<close>

definition seen :: "('s \<Rightarrow> 'k \<rightharpoonup> 'o) \<Rightarrow> 's set \<Rightarrow> 's \<Rightarrow> bool" where
  "seen view H d \<longleftrightarrow> (\<forall>k. \<exists>h \<in> H. view d k = view h k)"

lemma seen_current: "s \<in> H \<Longrightarrow> seen view H s"
  by (auto simp: seen_def)

lemma seen_more: "seen view H d \<Longrightarrow> seen view (insert t H) d"
  by (auto simp: seen_def)


section \<open>What the operator leaves alone\<close>

text \<open>A status write changes the status of stored objects and nothing else.\<close>

definition statuses_only :: "('s \<Rightarrow> org_view) \<Rightarrow> ('s \<Rightarrow> ObjectKey \<rightharpoonup> OrganizationProfile) \<Rightarrow> ('s \<Rightarrow> ObjectKey \<rightharpoonup> OrganizationProject) \<Rightarrow>
    ('s \<Rightarrow> ObjectKey \<rightharpoonup> MaaSConfiguration) \<Rightarrow> 's \<Rightarrow> 's \<Rightarrow> bool" where
  "statuses_only oview pview rview mview s s' \<longleftrightarrow>
     (\<forall>k. rel_option (\<lambda>x y. org_Meta y = org_Meta x \<and> org_Spec y = org_Spec x) (oview s k) (oview s' k) \<and>
       rel_option (\<lambda>x y. prof_Meta y = prof_Meta x \<and> prof_Spec y = prof_Spec x) (pview s k) (pview s' k) \<and>
       rel_option (\<lambda>x y. proj_Meta y = proj_Meta x \<and> proj_Spec y = proj_Spec x) (rview s k) (rview s' k) \<and>
       rel_option (\<lambda>x y. mcfg_Meta y = mcfg_Meta x \<and> mcfg_Spec y = mcfg_Spec x) (mview s k) (mview s' k))"

text \<open>A profile that was there keeps its spec; one that was not has no admins.\<close>

definition profile_held :: "OrganizationProfile option \<Rightarrow> OrganizationProfile option \<Rightarrow> bool" where
  "profile_held v w \<longleftrightarrow> (case v of Some p \<Rightarrow> (\<exists>p'. w = Some p' \<and> prof_Spec p' = prof_Spec p)
     | None \<Rightarrow> (\<forall>p'. w = Some p' \<longrightarrow> prof_Admins p' = []))"

lemma profile_held_refl [simp]: "profile_held v v"
  by (simp add: profile_held_def split: option.split)

lemma profile_held_trans: "profile_held u v \<Longrightarrow> profile_held v w \<Longrightarrow> profile_held u w"
  by (cases v) (auto simp: profile_held_def split: option.splits)

lemma admin_held: "profile_held (P (cluster_key m)) (P' (cluster_key m)) \<Longrightarrow> admin_of P' u m \<Longrightarrow> admin_of P u m"
  by (auto simp: profile_held_def admin_of_def split: option.splits)

definition quiet :: "('s \<Rightarrow> org_view) \<Rightarrow> ('s \<Rightarrow> ObjectKey \<rightharpoonup> OrganizationProfile) \<Rightarrow> ('s \<Rightarrow> ObjectKey \<rightharpoonup> OrganizationProject) \<Rightarrow>
    ('s \<Rightarrow> ObjectKey \<rightharpoonup> MaaSConfiguration) \<Rightarrow> 's \<Rightarrow> 's \<Rightarrow> bool" where
  "quiet oview pview rview mview s s' \<longleftrightarrow>
     (\<forall>k. rel_option (\<lambda>x y. org_Meta y = org_Meta x \<and> org_Spec y = org_Spec x) (oview s k) (oview s' k)) \<and>
     (\<forall>k. profile_held (pview s k) (pview s' k)) \<and>
     (\<forall>k p. pview s k = None \<longrightarrow> pview s' k = Some p \<longrightarrow> fst k = '''' \<and> prof_Organization p = snd k) \<and>
     (\<forall>k. rel_option (\<lambda>x y. proj_Spec y = proj_Spec x) (rview s k) (rview s' k)) \<and>
     specs_kept (mview s) (mview s')"

lemma quietD:
  assumes "quiet oview pview rview mview s s'"
  shows "rel_option (\<lambda>x y. org_Meta y = org_Meta x \<and> org_Spec y = org_Spec x) (oview s k) (oview s' k)"
    and "profile_held (pview s k) (pview s' k)"
    and "pview s k = None \<Longrightarrow> pview s' k = Some p \<Longrightarrow> fst k = '''' \<and> prof_Organization p = snd k"
    and "rel_option (\<lambda>x y. proj_Spec y = proj_Spec x) (rview s k) (rview s' k)" and "specs_kept (mview s) (mview s')"
  using assms unfolding quiet_def by blast+

lemma rel_option_same: "(\<And>x. R x x) \<Longrightarrow> rel_option R v v"
  by (simp add: option.rel_refl)

lemma quiet_refl:
  assumes "oview s' = oview s" and "pview s' = pview s" and "rview s' = rview s" and "specs_kept (mview s) (mview s')"
  shows "quiet oview pview rview mview s s'"
  using assms by (simp add: quiet_def rel_option_same)

lemma statuses_only_quiet:
  assumes "statuses_only oview pview rview mview s s'"
  shows "quiet oview pview rview mview s s'"
proof -
  note same = assms [unfolded statuses_only_def, rule_format]
  show ?thesis
    unfolding quiet_def
  proof (intro conjI allI impI)
    fix k p
    show "profile_held (pview s k) (pview s' k)"
      using same [of k] by (cases "pview s k") (auto simp: profile_held_def option_rel_Some1)
    assume "pview s k = None" and "pview s' k = Some p"
    with same [of k] show "fst k = ''''" and "prof_Organization p = snd k" by simp_all
  next
    show "specs_kept (mview s) (mview s')"
      unfolding specs_kept_def
    proof (intro allI impI)
      fix k y assume "mview s' k = Some y"
      with same [of k] show "\<exists>x. mview s k = Some x \<and> mcfg_Spec y = mcfg_Spec x" by (auto simp: option_rel_Some2)
    qed
  next
    fix k
    show "rel_option (\<lambda>x y. proj_Spec y = proj_Spec x) (rview s k) (rview s' k)"
      using same [of k] by (auto elim: option.rel_mono_strong)
  qed (use same in blast)
qed

text \<open>Deletions by users; the controllers delete workloads only.\<close>

fun deletes :: "event \<Rightarrow> bool" where
  "deletes (UserRequest req) = is_delete req"
| "deletes _ = False"

text \<open>Events in which every user request comes from one of the given requesters and deletes nothing.\<close>

fun by_outsiders :: "AdmissionRequest set \<Rightarrow> event \<Rightarrow> bool" where
  "by_outsiders R (UserRequest req) = (\<not> is_delete req \<and> (\<exists>r \<in> R. requester req = Inr r))"
| "by_outsiders R (OrganizationAction _) = True"
| "by_outsiders R (ProjectAction _) = True"
| "by_outsiders R (ConfigurationAction _) = True"
| "by_outsiders R StatusWrite = True"

lemma outsiders_delete_nothing: "by_outsiders R e \<Longrightarrow> \<not> deletes e"
  by (cases e) auto

text \<open>What a quiet step keeps.\<close>

lemma quiet_standing:
  assumes "quiet oview pview rview mview s s'" and "standing (oview s) n ns"
  shows "standing (oview s') n ns"
proof -
  note same = quietD(1) [OF assms(1)]
  have "same_parents (oview s) (oview s') ns"
    unfolding same_parents_def
  proof (intro ballI allI impI)
    fix m x assume "oview s (cluster_key m) = Some x"
    with same [of "cluster_key m"] show "\<exists>x'. oview s' (cluster_key m) = Some x' \<and> org_Parent x' = org_Parent x"
      by (auto simp: option_rel_Some1)
  qed
  moreover have "om_DeletionTimestamp (org_Meta y) = None" if "m \<in> set ns" "oview s' (cluster_key m) = Some y" for m y
    using same [of "cluster_key m"] that assms(2) by (auto simp: option_rel_Some2 standing_def)
  ultimately show ?thesis using assms(2) lineage_transfer unfolding standing_def by blast
qed

lemma quiet_named:
  assumes "quiet oview pview rview mview s s'"
  shows "profiles_named (pview s) \<Longrightarrow> profiles_named (pview s')"
    and "configurations_named (mview s) \<Longrightarrow> configurations_named (mview s')"
proof -
  show "profiles_named (pview s')" if named: "profiles_named (pview s)"
    unfolding profiles_named_def
  proof (intro allI impI)
    fix k p assume p: "pview s' k = Some p"
    show "fst k = '''' \<and> prof_Organization p = snd k"
    proof (cases "pview s k")
      case None
      with quietD(3) [OF assms] p show ?thesis by blast
    next
      case (Some q)
      with quietD(2) [OF assms, of k] p have "prof_Spec p = prof_Spec q" by (auto simp: profile_held_def)
      with Some named show ?thesis unfolding profiles_named_def by metis
    qed
  qed
  show "configurations_named (mview s')" if "configurations_named (mview s)"
    using quietD(5) [OF assms] that unfolding specs_kept_def configurations_named_def by metis
qed

lemma quiet_owned:
  assumes "quiet oview pview rview mview s s'"
  shows "owned_projects (rview s') n = owned_projects (rview s) n"
proof -
  have "(\<exists>p. rview s' k = Some p \<and> proj_Organization p = n) \<longleftrightarrow> (\<exists>p. rview s k = Some p \<and> proj_Organization p = n)" for k
    using quietD(4) [OF assms, of k] by (cases rule: option.rel_cases) auto
  then show ?thesis by (simp add: owned_projects_def)
qed

text \<open>What a cache shows of a standing lineage is the lineage, and what it shows of an admin was one.\<close>

lemma seen_standing:
  assumes "seen oview H d" and "\<forall>h \<in> H. standing (oview h) n ns"
  shows "standing (oview d) n ns"
proof -
  have "H \<noteq> {}" using assms(1) by (auto simp: seen_def)
  then have "lineage (oview d) n ns"
    using lineage_mixed [of "oview ` H" n ns "oview d"] assms by (auto simp: seen_def standing_def)
  moreover have "om_DeletionTimestamp (org_Meta x) = None" if "m \<in> set ns" "oview d (cluster_key m) = Some x" for m x
    using assms that unfolding seen_def standing_def by metis
  ultimately show ?thesis by (auto simp: standing_def)
qed

lemma seen_admin: "seen pview H d \<Longrightarrow> admin_of (pview d) u m \<Longrightarrow> \<exists>h \<in> H. admin_of (pview h) u m"
  unfolding seen_def admin_of_def by metis


section \<open>The operator is quiet\<close>

locale tenancy_system =
  tenancy_server "op_authz S" pview oview rview mview +
  operator_writes "op_client S" pview mview nview bview qview aview prest nrest brest qrest mrest arest
  for S :: "'s operator_system" and pview oview rview mview nview bview qview aview
    and prest :: "'s \<Rightarrow> 'p" and nrest :: "'s \<Rightarrow> 'n" and brest :: "'s \<Rightarrow> 'b" and qrest :: "'s \<Rightarrow> 'q"
    and mrest :: "'s \<Rightarrow> 'm" and arest :: "'s \<Rightarrow> 'a" +
  assumes profiles_apart: "prest s' = prest s \<Longrightarrow> oview s' = oview s \<and> rview s' = rview s \<and> mview s' = mview s"
    and workloads_apart: "nrest s' = nrest s \<or> brest s' = brest s \<or> qrest s' = qrest s \<Longrightarrow>
      oview s' = oview s \<and> pview s' = pview s \<and> rview s' = rview s \<and> mview s' = mview s"
    and finalizers_apart: "mrest s' = mrest s \<Longrightarrow> oview s' = oview s \<and> pview s' = pview s \<and> rview s' = rview s"
    and aitenants_apart: "arest s' = arest s \<Longrightarrow> oview s' = oview s \<and> pview s' = pview s \<and> rview s' = rview s \<and> mview s' = mview s"
    and cache_seen: "op_cache S H d \<Longrightarrow> seen oview H d \<and> seen pview H d"
    and cache_more: "op_cache S H d \<Longrightarrow> op_cache S (insert t H) d"
    and statuses: "op_status S s s' \<Longrightarrow> statuses_only oview pview rview mview s s'"
begin

lemmas through_cache = cached_writes [OF operator_writes_axioms]

lemma organization_quiet:
  assumes "act \<in> set (reg_Actions (NewOrganizationReconciler (cached d (op_client S))))" and "act x s = (err, x', s')"
  shows "quiet oview pview rview mview s s'"
proof -
  let ?k = "cluster_key (org_Name x)"
  note effect = operator_writes.organization_action_effect [OF through_cache assms]
  have frame: "frame pview prest ?k s s'" using effect by blast
  have same: "oview s' = oview s" "rview s' = rview s" "mview s' = mview s"
    using profiles_apart frameD(2) [OF frame] by blast+
  have "profile_held (pview s k) (pview s' k) \<and>
      (\<forall>p. pview s k = None \<longrightarrow> pview s' k = Some p \<longrightarrow> fst k = '''' \<and> prof_Organization p = snd k)" for k
  proof (cases "k = ?k")
    case True
    with effect show ?thesis by (auto simp: profile_held_def split: option.split)
  next
    case False
    with frameD(1) [OF frame] show ?thesis by simp
  qed
  with same show ?thesis by (simp add: quiet_def rel_option_same)
qed

lemma project_quiet:
  assumes "act \<in> set (reg_Actions (NewOrganizationProjectReconciler (cached d (op_client S))))" and "act rr s = (err, rr', s')"
  shows "quiet oview pview rview mview s s'"
  using workloads_apart [OF operator_writes.project_action_rest [OF through_cache assms]]
  by (intro quiet_refl) simp_all

lemma configuration_quiet:
  assumes "Get (configurations (op_client S)) (key_of (mcfg_Meta (mr_Instance mr))) s = Inr (mr_Instance mr)"
    and "act \<in> set (reg_Actions (NewMaaSConfigurationReconciler (cached d (op_client S)))) \<union>
      set (reg_Finalizers (NewMaaSConfigurationReconciler (cached d (op_client S))))"
    and "act mr s = (err, mr', s')"
  shows "quiet oview pview rview mview s s'"
proof -
  have run: "reconcileMaaS (cached d (op_client S)) mr s = (err, mr', s')"
    using assms(2,3) by (auto simp: NewMaaSConfigurationReconciler_def)
  let ?all = "\<lambda>s. (oview s, pview s, rview s)"
  have "specs_kept (mview s) (mview s') \<and> ?all s' = ?all s"
    by (rule operator_writes.reconcileMaaS_effect [OF through_cache run cfgs.get_found [OF assms(1)] refl])
      (use finalizers_apart aitenants_apart in blast)+
  then show ?thesis by (intro quiet_refl) simp_all
qed

lemma operator_quiet:
  assumes "system_step S H s e s'" and "\<And>req. e \<noteq> UserRequest req"
  shows "quiet oview pview rview mview s s'"
  using assms(1)
proof cases
  case (organization_action d act x err x')
  show ?thesis by (rule organization_quiet [OF organization_action(3,4)])
next
  case (project_action d act rr err rr')
  show ?thesis by (rule project_quiet [OF project_action(3,4)])
next
  case (configuration_action d mr act err mr')
  show ?thesis by (rule configuration_quiet [OF configuration_action(3-5)])
next
  case status_write
  show ?thesis by (rule statuses_only_quiet [OF statuses [OF status_write(2)]])
qed (use assms(2) in blast)

text \<open>The events of a step: an admitted request, or a quiet one.\<close>

lemma step_cases:
  assumes "system_step S H s e s'"
  obtains (user) d req where "e = UserRequest req" and "op_cache S H d" and "admits_at (op_authz S) d s req s'"
    | (operator) "\<And>req. e \<noteq> UserRequest req" and "quiet oview pview rview mview s s'"
proof (cases "\<exists>req. e = UserRequest req")
  case True
  with assms user show ?thesis by auto
next
  case False
  with operator operator_quiet [OF assms] show ?thesis by blast
qed

text \<open>A reconciliation run by the framework on one cache is such a sequence of events.\<close>

lemma reconciliation_run:
  assumes "action_runner run" and "op_cache S H d" and "run acts x s = (err, x', s')"
    and "\<And>act H x s err x' s'. act \<in> set acts \<Longrightarrow> op_cache S H d \<Longrightarrow> act x s = (err, x', s') \<Longrightarrow> system_step S H s (event x) s'"
  shows "\<exists>es. system_run S H s es s'"
  using assms(2-4)
proof (induction acts arbitrary: x s H)
  case Nil
  then show ?case using action_runner.run_done [OF assms(1)] run_none by fastforce
next
  case (Cons act acts)
  obtain e y t where act: "act x s = (e, y, t)" by (cases "act x s")
  have step: "system_step S H s (event x) t" using Cons.prems(3) [of act H x s e y t] Cons.prems(1) act by simp
  show ?case
  proof (cases e)
    case None
    with act Cons.prems(2) have "run acts y t = (err, x', s')" by (simp add: action_runner.run_continues [OF assms(1)])
    then obtain es where "system_run S (insert t H) t es s'"
      using Cons.IH [OF cache_more [OF Cons.prems(1)]] Cons.prems(3) by (metis list.set_intros(2))
    from run_more [OF step this] show ?thesis by blast
  next
    case (Some e')
    with act Cons.prems(2) have "s' = t" by (simp add: action_runner.run_stops [OF assms(1)])
    then show ?thesis using run_more [OF step run_none] by blast
  qed
qed

lemma organization_reconciliation:
  assumes "action_runner run" and "op_cache S H d"
    and "run (reg_Actions (NewOrganizationReconciler (cached d (op_client S)))) x s = (err, x', s')"
  shows "\<exists>es. system_run S H s es s'"
  by (rule reconciliation_run [where event = OrganizationAction, OF assms]) (rule organization_action)

lemma project_reconciliation:
  assumes "action_runner run" and "op_cache S H d"
    and "run (reg_Actions (NewOrganizationProjectReconciler (cached d (op_client S)))) rr s = (err, rr', s')"
  shows "\<exists>es. system_run S H s es s'"
  by (rule reconciliation_run [where event = ProjectAction, OF assms]) (rule project_action)

text \<open>The invariants of admission, over every step of the system.\<close>

lemma system_named_step:
  assumes "system_step S H s e s'"
  shows "profiles_named (pview s) \<Longrightarrow> profiles_named (pview s')"
    and "configurations_named (mview s) \<Longrightarrow> configurations_named (mview s')"
proof -
  have "(profiles_named (pview s) \<longrightarrow> profiles_named (pview s')) \<and>
      (configurations_named (mview s) \<longrightarrow> configurations_named (mview s'))"
    using assms
  proof (cases rule: step_cases)
    case (user d req)
    show ?thesis using profiles_named_step [OF user(3)] configurations_named_step [OF user(3)] by blast
  next
    case operator
    show ?thesis using quiet_named [OF operator(2)] by blast
  qed
  then show "profiles_named (pview s) \<Longrightarrow> profiles_named (pview s')"
    and "configurations_named (mview s) \<Longrightarrow> configurations_named (mview s')" by blast+
qed

lemma system_named:
  assumes "system_run S H s es s'"
  shows "profiles_named (pview s) \<Longrightarrow> profiles_named (pview s')"
    and "configurations_named (mview s) \<Longrightarrow> configurations_named (mview s')"
  using assms by induction (auto dest: system_named_step)

lemma system_standing_step:
  assumes "system_step S H s e s'" and "\<not> deletes e" and "standing (oview s) n ns"
  shows "standing (oview s') n ns"
  using assms(1)
proof (cases rule: step_cases)
  case (user d req)
  with assms(2) have "\<not> is_delete req" by simp
  with user(3) show ?thesis using assms(3) by (rule standing_step)
next
  case operator
  show ?thesis using operator(2) assms(3) by (rule quiet_standing)
qed

lemma system_standing:
  "system_run S H s es s' \<Longrightarrow> list_all (\<lambda>e. \<not> deletes e) es \<Longrightarrow> standing (oview s) n ns \<Longrightarrow> standing (oview s') n ns"
  by (induction rule: system_run.induct) (auto dest: system_standing_step)

lemma system_outsiders_step:
  assumes "system_step S H s e s'" and "by_outsiders R e" and "\<forall>r \<in> R. \<not> isTrusted (op_authz S) (ar_UserInfo r)"
    and "profiles_named (pview s)" and "\<forall>h \<in> H. standing (oview h) n ns"
    and "\<forall>h \<in> H. \<forall>r \<in> R. \<forall>m \<in> set ns. \<not> admin_of (pview h) (ar_UserInfo r) m"
  shows "\<forall>m \<in> set ns. profile_held (pview s (cluster_key m)) (pview s' (cluster_key m))"
  using assms(1)
proof (cases rule: step_cases)
  case (user d req)
  then obtain r where r: "\<not> is_delete req" "r \<in> R" "requester req = Inr r" using assms(2) by auto
  have standing: "standing (oview d) n ns" using seen_standing [of oview H d] cache_seen [OF user(2)] assms(5) by blast
  have no_admin: "\<forall>m \<in> set ns. \<not> admin_of (pview d) (ar_UserInfo r) m"
    using seen_admin [of pview H d] cache_seen [OF user(2)] assms(6) r(2) by blast
  have "pview s' (cluster_key m) = pview s (cluster_key m)" if "m \<in> set ns" for m
    by (rule outsider_step [OF user(3) r(1,3) _ assms(4) standing no_admin that]) (use assms(3) r(2) in blast)
  then show ?thesis by simp
next
  case operator
  show ?thesis using quietD(2) [OF operator(2)] by simp
qed

lemma system_outsiders:
  assumes "system_run S H s es s'" and "s \<in> H" and "list_all (by_outsiders R) es"
    and "\<forall>r \<in> R. \<not> isTrusted (op_authz S) (ar_UserInfo r)" and "profiles_named (pview s)" and "\<forall>h \<in> H. standing (oview h) n ns"
    and "\<forall>h \<in> H. \<forall>r \<in> R. \<forall>m \<in> set ns. \<not> admin_of (pview h) (ar_UserInfo r) m"
  shows "standing (oview s') n ns \<and> (\<forall>m \<in> set ns. profile_held (pview s (cluster_key m)) (pview s' (cluster_key m)))"
  using assms
proof (induction rule: system_run.induct)
  case (run_more H s e t es u)
  have e: "by_outsiders R e" and es: "list_all (by_outsiders R) es" using run_more.prems(2) by simp_all
  have held: "\<forall>m \<in> set ns. profile_held (pview s (cluster_key m)) (pview t (cluster_key m))"
    by (rule system_outsiders_step [OF run_more.hyps(1) e run_more.prems(3-6)])
  have "standing (oview t) n ns"
    using system_standing_step [OF run_more.hyps(1) outsiders_delete_nothing [OF e]] run_more.prems(1,5) by blast
  then have "\<forall>h \<in> insert t H. standing (oview h) n ns" using run_more.prems(5) by blast
  moreover have "\<forall>h \<in> insert t H. \<forall>r \<in> R. \<forall>m \<in> set ns. \<not> admin_of (pview h) (ar_UserInfo r) m"
    using run_more.prems(1,6) held admin_held by blast
  ultimately have "standing (oview u) n ns \<and> (\<forall>m \<in> set ns. profile_held (pview t (cluster_key m)) (pview u (cluster_key m)))"
    using run_more.IH es run_more.prems(3) system_named_step(1) [OF run_more.hyps(1) run_more.prems(4)] by simp
  with held show ?case using profile_held_trans by blast
qed simp

end

section \<open>The memory server with its operator\<close>

definition memory_system :: "(resource_kind \<Rightarrow> verb \<Rightarrow> string option) \<Rightarrow> string \<Rightarrow> string list \<Rightarrow> cluster operator_system" where
  "memory_system flt ns gs = \<lparr>op_authz = \<lparr>az_reader = memory_server flt, az_operatorNamespace = ns, az_clusterAdminGroups = gs\<rparr>,
     op_cache = (\<lambda>H d. seen (mem_view cl_organizations) H d \<and> seen (mem_view cl_profiles) H d \<and>
       seen (mem_view cl_projects) H d \<and> seen (mem_view cl_configurations) H d),
     op_status = statuses_only (mem_view cl_organizations) (mem_view cl_profiles) (mem_view cl_projects) (mem_view cl_configurations)\<rparr>"

lemma memory_system_simps [simp]:
  "op_authz (memory_system flt ns gs) = \<lparr>az_reader = memory_server flt, az_operatorNamespace = ns, az_clusterAdminGroups = gs\<rparr>"
  "op_cache (memory_system flt ns gs) H d \<longleftrightarrow> seen (mem_view cl_organizations) H d \<and> seen (mem_view cl_profiles) H d \<and>
     seen (mem_view cl_projects) H d \<and> seen (mem_view cl_configurations) H d"
  "op_status (memory_system flt ns gs) =
     statuses_only (mem_view cl_organizations) (mem_view cl_profiles) (mem_view cl_projects) (mem_view cl_configurations)"
  by (simp_all add: memory_system_def)

lemma memory_writes:
  "operator_writes (memory_server flt) (mem_view cl_profiles) (mem_view cl_configurations) (mem_view cl_namespaces)
     (mem_view cl_rolebindings) (mem_view cl_networkpolicies) (mem_view cl_aitenants) (mem_rest cl_profiles_update)
     (mem_rest cl_namespaces_update) (mem_rest cl_rolebindings_update) (mem_rest cl_networkpolicies_update)
     (mem_rest cl_configurations_update) (mem_rest cl_aitenants_update)"
  by (rule operator_writes.intro; (rule mem_namespace.namespace_server_axioms mem_rbac.rbac_server_axioms)?; simp; unfold_locales)

interpretation mem_system: tenancy_system "memory_system flt ns gs" "mem_view cl_profiles" "mem_view cl_organizations"
  "mem_view cl_projects" "mem_view cl_configurations" "mem_view cl_namespaces" "mem_view cl_rolebindings"
  "mem_view cl_networkpolicies" "mem_view cl_aitenants" "mem_rest cl_profiles_update" "mem_rest cl_namespaces_update"
  "mem_rest cl_rolebindings_update" "mem_rest cl_networkpolicies_update" "mem_rest cl_configurations_update"
  "mem_rest cl_aitenants_update" for flt ns gs
proof (intro tenancy_system.intro tenancy_system_axioms.intro; (simp only: memory_system_simps authorizer.simps)?)
qed (rule mem_tenancy.tenancy_server_axioms memory_writes |
    (simp add: seen_more; fail) | (case_tac s, case_tac s', auto simp: mem_rest_def mem_view_def))+

text \<open>The demo cluster with its operator.\<close>

abbreviation demo_system :: "cluster operator_system" where
  "demo_system \<equiv> memory_system (\<lambda>_ _. None) ''tenancy-operator-system'' [''system:masters'', ''kubeadm:cluster-admins'']"

lemma demo_system_authz: "op_authz demo_system = demo_authz"
  by (simp add: demo_authz_eq)

lemma demo_cache: "s \<in> H \<Longrightarrow> op_cache demo_system H s"
  by (simp add: seen_current)

text \<open>An admitted request, then an action of the organization controller and one of the project
  controller, both reading from a cache that still shows the state before the request.\<close>

definition demo_events :: "request \<Rightarrow> event list" where
  "demo_events req = [UserRequest req, OrganizationAction (demo_org ''depth-04'' ''proteomics'' ''''),
     ProjectAction \<lparr>rr_Instance = demo_project ''genomics-analysis'' ''genomics'' [] '''', rr_Extensions = None\<rparr>]"

lemma demo_run:
  assumes "admits demo_authz s req t"
  shows "\<exists>s'. system_run demo_system {s} s (demo_events req) s'"
proof -
  let ?x = "demo_org ''depth-04'' ''proteomics'' ''''" and ?c = "cached s (op_client demo_system)"
  let ?rr = "\<lparr>rr_Instance = demo_project ''genomics-analysis'' ''genomics'' [] '''', rr_Extensions = None\<rparr>"
  have user: "system_step demo_system {s} s (UserRequest req) t"
    by (rule user_request [OF demo_cache]) (use assms in \<open>simp_all only: demo_system_authz singleton_iff\<close>)
  obtain e x u where u: "ensureProfile ?c ?x t = (e, x, u)" by (cases "ensureProfile ?c ?x t")
  have org: "system_step demo_system {t, s} t (OrganizationAction ?x) u"
    by (rule organization_action [where act = "ensureProfile ?c" and d = s, OF demo_cache _ u]) (simp_all add: NewOrganizationReconciler_def)
  obtain e' rr v where v: "ensureNamespace ?c ?rr u = (e', rr, v)" by (cases "ensureNamespace ?c ?rr u")
  have proj: "system_step demo_system {u, t, s} u (ProjectAction ?rr) v"
    by (rule project_action [where act = "ensureNamespace ?c" and d = s, OF demo_cache _ v]) (simp_all add: NewOrganizationProjectReconciler_def)
  show ?thesis
    unfolding demo_events_def by (rule exI, rule run_more [OF user run_more [OF org run_more [OF proj run_none]]])
qed


section \<open>Properties\<close>

text \<open>C2: Authority cannot be acquired by using the system. Take a set of untrusted users none of
  whom is an admin of any organization on the lineage of an organization, where the lineage is stored
  and not being deleted, now and in the states the caches may still show. Let them create and update
  objects of the four kinds in any order, interleaved with actions of the controllers, successful or
  not, and status writes, where webhooks and controllers read from caches that lag behind object by
  object. Then the lineage is the same, every profile on it keeps its spec (one that a
  controller created has no admins), and none of the users has authority over the organization.\<close>

theorem system_outsiders_gain_nothing:
  assumes "tenancy_system S pview oview rview mview nview bview qview aview prest nrest brest qrest mrest arest"
    and "system_run S H s es s'" and "s \<in> H" and "list_all (by_outsiders R) es"
    and "\<forall>r \<in> R. \<not> isTrusted (op_authz S) (ar_UserInfo r)" and "profiles_named (pview s)"
    and "\<forall>h \<in> H. standing (oview h) n ns"
    and "\<forall>h \<in> H. \<forall>r \<in> R. \<forall>m \<in> set ns. \<not> admin_of (pview h) (ar_UserInfo r) m"
  shows "lineage (oview s') n ns \<and> (\<forall>m \<in> set ns. profile_held (pview s (cluster_key m)) (pview s' (cluster_key m))) \<and>
    (\<forall>r \<in> R. \<not> admin_above (pview s') (oview s') (ar_UserInfo r) n)"
proof -
  have run: "standing (oview s') n ns" "\<forall>m \<in> set ns. profile_held (pview s (cluster_key m)) (pview s' (cluster_key m))"
    using tenancy_system.system_outsiders [OF assms] by blast+
  then have "\<forall>r \<in> R. \<forall>m \<in> set ns. \<not> admin_of (pview s') (ar_UserInfo r) m"
    using assms(3,8) admin_held by blast
  then have "\<forall>r \<in> R. \<not> admin_above (pview s') (oview s') (ar_UserInfo r) n"
    using run(1) lineage_above admin_above_imp unfolding standing_def by metis
  with run show ?thesis unfolding standing_def by blast
qed

theorem system_outsiders_gain_nothing_witness:
  "\<exists>s'. system_run demo_system {demo_cluster} demo_cluster (demo_events delegation) s' \<and>
     lineage (mem_view cl_organizations s') ''genomics'' [''genomics'', ''research-division''] \<and>
     \<not> admin_above (mem_view cl_profiles s') (mem_view cl_organizations s') (ar_UserInfo (demo_user ''carol'')) ''genomics''"
proof -
  let ?R = "{demo_user ''carol''}"
  obtain s' where run: "system_run demo_system {demo_cluster} demo_cluster (demo_events delegation) s'"
    using demo_delegation demo_run by blast
  have users: "list_all (by_outsiders ?R) (demo_events delegation)"
    by (simp add: demo_events_def delegation_def)
  have "\<not> isTrusted demo_authz (ar_UserInfo (demo_user ''carol''))"
    by code_simp
  then have untrusted: "\<forall>r \<in> ?R. \<not> isTrusted (op_authz demo_system) (ar_UserInfo r)"
    by (simp only: demo_system_authz ball_simps simp_thms)
  have named: "profiles_named (mem_view cl_profiles demo_cluster)"
    by (simp add: profiles_named_def keyed_def)
  have standing: "\<forall>h \<in> {demo_cluster}. standing (mem_view cl_organizations h) ''genomics'' [''genomics'', ''research-division'']"
    using demo_lineages(2) by (simp add: standing_def keyed_def) (simp add: demo_org_def)
  have no_admin: "\<forall>h \<in> {demo_cluster}. \<forall>r \<in> ?R. \<forall>m \<in> set [''genomics'', ''research-division''].
      \<not> admin_of (mem_view cl_profiles h) (ar_UserInfo r) m"
    by (simp add: admin_of_def keyed_def demo_user_def user_subject_def subjectMatches_def)
  show ?thesis
    using system_outsiders_gain_nothing [OF mem_system.tenancy_system_axioms run _ users untrusted named standing no_admin] run
    by blast
qed

text \<open>C15: The hierarchy is append-only. No run of the system without deletions of tenancy objects, with
  requests of any users, reconciliations and status writes, changes the lineage of an organization
  whose lineage is stored and not being deleted.\<close>

theorem system_lineage_kept:
  assumes "tenancy_system S pview oview rview mview nview bview qview aview prest nrest brest qrest mrest arest"
    and "system_run S H s es s'" and "list_all (\<lambda>e. \<not> deletes e) es" and "standing (oview s) n ns"
  shows "standing (oview s') n ns"
  using tenancy_system.system_standing [OF assms] .

theorem system_lineage_kept_witness:
  "\<exists>s'. system_run demo_system {demo_cluster} demo_cluster (demo_events enablement) s' \<and>
     lineage (mem_view cl_organizations s') ''proteomics'' [''proteomics'', ''genomics'', ''research-division'']"
proof -
  obtain s' where run: "system_run demo_system {demo_cluster} demo_cluster (demo_events enablement) s'"
    using demo_enablement demo_run by blast
  have kept: "list_all (\<lambda>e. \<not> deletes e) (demo_events enablement)"
    by (simp add: demo_events_def enablement_def)
  have "standing (mem_view cl_organizations demo_cluster) ''proteomics'' [''proteomics'', ''genomics'', ''research-division'']"
    using demo_lineages(3) by (simp add: standing_def keyed_def) (simp add: demo_org_def)
  from system_lineage_kept [OF mem_system.tenancy_system_axioms run kept this] run show ?thesis
    unfolding standing_def by blast
qed

text \<open>C16: Names stay bound to organizations, whoever acts. From a state in which every profile and
  every MaaSConfiguration has the name of the organization it refers to, in particular from an empty
  cluster, no run of the system, with deletions, reconciliations and status writes, leaves that: an
  organization has one profile, under its own name, and never a second MaaSConfiguration.\<close>

theorem system_names_bound:
  assumes "tenancy_system S pview oview rview mview nview bview qview aview prest nrest brest qrest mrest arest"
    and "system_run S H s es s'" and "profiles_named (pview s)" and "configurations_named (mview s)"
  shows "profiles_named (pview s') \<and> configurations_named (mview s') \<and>
    (\<forall>k c k' c'. mview s' k = Some c \<and> mview s' k' = Some c' \<and> mcfg_Organization c = mcfg_Organization c' \<longrightarrow> k = k')"
proof -
  have "profiles_named (pview s')" "configurations_named (mview s')"
    using tenancy_system.system_named [OF assms(1,2)] assms(3,4) by blast+
  moreover from this(2) have "\<forall>k c k' c'. mview s' k = Some c \<and> mview s' k' = Some c' \<and>
      mcfg_Organization c = mcfg_Organization c' \<longrightarrow> k = k'"
    unfolding configurations_named_def by (metis prod.collapse)
  ultimately show ?thesis by blast
qed

theorem system_names_bound_witness:
  "\<exists>s'. system_run demo_system {demo_cluster} demo_cluster (demo_events enablement) s' \<and>
     profiles_named (mem_view cl_profiles s') \<and> configurations_named (mem_view cl_configurations s')"
proof -
  obtain s' where run: "system_run demo_system {demo_cluster} demo_cluster (demo_events enablement) s'"
    using demo_enablement demo_run by blast
  have "profiles_named (mem_view cl_profiles demo_cluster)"
    by (simp add: profiles_named_def keyed_def)
  moreover have "configurations_named (mem_view cl_configurations demo_cluster)"
    by (simp add: configurations_named_def mem_view_def demo_cluster_def empty_cluster_def)
  ultimately show ?thesis
    using system_names_bound [OF mem_system.tenancy_system_axioms run] run by blast
qed

end
