(* ===== verification/Concurrent_Creation.thy ===== *)
theory Concurrent_Creation
  imports System
begin

text \<open>
  Project creations whose validation and storage are apart. The API server calls the validating
  webhook (\<open>organizationproject_webhook.go\<close>) and stores the object afterwards; other requests
  are reviewed and stored in between, and the webhook counts the projects its cache shows. The state
  is the cluster with what the cache shows and the creations that are admitted and not yet stored.
  The quota then bounds the number of projects only up to the number of creations in flight, from
  their review until the cache shows them, and the bound is reached.
\<close>

section \<open>Reviewing and storing\<close>

type_synonym 's in_flight = "'s \<times> 's \<times> OrganizationProject list"

inductive race_step :: "'s operator_system \<Rightarrow> 's in_flight \<Rightarrow> 's in_flight \<Rightarrow> bool" for S where
  review: "OrganizationProject_ValidateCreate (op_authz S) ctx proj d = None \<Longrightarrow> cluster_scoped (proj_Meta proj) \<Longrightarrow>
    race_step S (s, d, P) (s, d, proj # P)"
| store: "proj \<in> set P \<Longrightarrow> Create (projects (op_client S)) proj s = (r, s') \<Longrightarrow>
    race_step S (s, d, P) (s', d, remove1 proj P)"
| abandon: "proj \<in> set P \<Longrightarrow> race_step S (s, d, P) (s, d, remove1 proj P)"
| refresh: "race_step S (s, d, P) (s, d', P)"
| others: "system_step S H s e s' \<Longrightarrow> (\<And>ctx proj. e \<noteq> UserRequest (CreateProject ctx proj)) \<Longrightarrow>
    race_step S (s, d, P) (s', d, P)"

text \<open>Runs all of whose states satisfy a given condition.\<close>

inductive race_run :: "'s operator_system \<Rightarrow> ('s in_flight \<Rightarrow> bool) \<Rightarrow> 's in_flight \<Rightarrow> 's in_flight \<Rightarrow> bool" for S G where
  race_none: "G x \<Longrightarrow> race_run S G x x"
| race_more: "G x \<Longrightarrow> race_step S x y \<Longrightarrow> race_run S G y z \<Longrightarrow> race_run S G x z"

definition pending :: "string \<Rightarrow> OrganizationProject list \<Rightarrow> nat" where
  "pending n P = length (filter (\<lambda>p. proj_Organization p = n) P)"

text \<open>The projects of an organization that are stored and that the cache does not show as such.\<close>

definition unseen :: "string \<Rightarrow> (ObjectKey \<rightharpoonup> OrganizationProject) \<Rightarrow> (ObjectKey \<rightharpoonup> OrganizationProject) \<Rightarrow> nat" where
  "unseen n D R = card {k. (\<exists>p. R k = Some p \<and> proj_Organization p = n) \<and> \<not> (\<exists>p. D k = Some p \<and> proj_Organization p = n)}"

text \<open>At most \<open>k\<close> creations in flight for an organization, whose quota the cache shows to be at most
  \<open>m\<close>; the cache shows finitely many projects, below the range of the counter.\<close>

definition at_most :: "('s \<Rightarrow> ObjectKey \<rightharpoonup> OrganizationProfile) \<Rightarrow> ('s \<Rightarrow> ObjectKey \<rightharpoonup> OrganizationProject) \<Rightarrow>
    string \<Rightarrow> nat \<Rightarrow> int \<Rightarrow> 's in_flight \<Rightarrow> bool" where
  "at_most pview rview n k m = (\<lambda>(s, d, P). pending n P + unseen n (rview d) (rview s) \<le> k \<and>
     (\<forall>p. pview d (cluster_key n) = Some p \<longrightarrow> sint (prof_MaxProjects p) \<le> m) \<and>
     finite (dom (rview d)) \<and> owned_projects (rview d) n < 2 ^ 31)"

lemma pending_simps [simp]:
  "pending n [] = 0" "pending n (p # P) = (if proj_Organization p = n then Suc (pending n P) else pending n P)"
  by (simp_all add: pending_def)

lemma pending_remove1:
  "proj \<in> set P \<Longrightarrow> pending n P = pending n (remove1 proj P) + (if proj_Organization proj = n then 1 else 0)"
  by (induction P) auto

lemma unseen_same [simp]: "unseen n R R = 0"
proof -
  have "{k. (\<exists>p. R k = Some p \<and> proj_Organization p = n) \<and> \<not> (\<exists>p. R k = Some p \<and> proj_Organization p = n)} = {}" by blast
  then show ?thesis by (simp only: unseen_def card.empty)
qed

lemma owned_unseen:
  assumes "finite (dom D)" and "finite (dom R)"
  shows "owned_projects R n \<le> owned_projects D n + unseen n D R"
proof -
  let ?O = "\<lambda>V :: ObjectKey \<rightharpoonup> OrganizationProject. {k. \<exists>p. V k = Some p \<and> proj_Organization p = n}"
  have fin: "finite (?O D)" "finite (?O R)"
    by (rule finite_subset [OF _ assms(1)], auto) (rule finite_subset [OF _ assms(2)], auto)
  have "?O R \<subseteq> ?O D \<union> (?O R - ?O D)" by blast
  then have "card (?O R) \<le> card (?O D \<union> (?O R - ?O D))" using fin by (intro card_mono) auto
  also have "\<dots> \<le> card (?O D) + card (?O R - ?O D)" by (rule card_Un_le)
  also have "?O R - ?O D = {k. k \<in> ?O R \<and> k \<notin> ?O D}" by blast
  finally show ?thesis by (simp add: owned_projects_def unseen_def)
qed


section \<open>How far the count can go\<close>

lemma frame_finite: "frame view rest k s s' \<Longrightarrow> finite (dom (view s)) \<Longrightarrow> finite (dom (view s'))"
  by (rule finite_subset [of _ "insert k (dom (view s))"]) (auto dest: frameD(1))

lemma quiet_finite:
  assumes "quiet oview pview rview mview s s'" and "finite (dom (rview s))"
  shows "finite (dom (rview s'))"
proof -
  have "rview s' k = None \<longleftrightarrow> rview s k = None" for k
    using quietD(4) [OF assms(1), of k] by (cases rule: option.rel_cases) auto
  then have "dom (rview s') = dom (rview s)" by (simp add: dom_def)
  with assms(2) show ?thesis by simp
qed

context tenancy_system
begin

lemma projects_finite_step:
  assumes "system_step S H s e s'" and "finite (dom (rview s))"
  shows "finite (dom (rview s'))"
  using assms(1)
proof (cases rule: step_cases)
  case (user d req)
  from user(3) show ?thesis
  proof cases
    case (create_project ctx proj stored)
    then show ?thesis using frame_finite [OF projs.create_frame assms(2)] by blast
  next
    case (update_project proj old ctx stored)
    then show ?thesis using frame_finite [OF projs.update_frame assms(2)] by blast
  next
    case (delete_project ctx proj)
    then show ?thesis using frame_finite [OF projs.delete_frame assms(2)] by blast
  qed (use other_kinds(3) [OF user(3)] assms(2) in simp_all)
next
  case operator
  from operator(2) assms(2) show ?thesis by (rule quiet_finite)
qed

lemma others_owned:
  assumes "system_step S H s e s'" and "\<And>ctx proj. e \<noteq> UserRequest (CreateProject ctx proj)" and "finite (dom (rview s))"
  shows "owned_projects (rview s') n \<le> owned_projects (rview s) n"
  using assms(1)
proof (cases rule: step_cases)
  case (user d req)
  then show ?thesis
    using owned_step [OF user(3) assms(3), of n] assms(2) by (cases "owned_projects (rview s') n \<le> owned_projects (rview s) n") auto
next
  case operator
  from quiet_owned [OF operator(2)] show ?thesis by simp
qed

lemma store_owned:
  assumes "Create (projects (op_client S)) proj s = (r, s')" and "finite (dom (rview s))"
  shows "owned_projects (rview s') n \<le> owned_projects (rview s) n + (if proj_Organization proj = n then 1 else 0)"
proof -
  let ?K = "{k. \<exists>p. rview s k = Some p \<and> proj_Organization p = n}"
  let ?K' = "{k. \<exists>p. rview s' k = Some p \<and> proj_Organization p = n}"
  let ?new = "if proj_Organization proj = n then {key_of (proj_Meta proj)} else {}"
  have fin: "finite ?K" by (rule finite_subset [OF _ assms(2)]) auto
  have at_key: "rview s' (key_of (proj_Meta proj)) = rview s (key_of (proj_Meta proj)) \<or>
      (\<exists>y. rview s' (key_of (proj_Meta proj)) = Some y \<and> project_kept proj y)"
    using assms(1) projs.create_stored projs.create_failed by (cases r) blast+
  have "?K' \<subseteq> ?K \<union> ?new"
  proof
    fix k assume "k \<in> ?K'"
    then show "k \<in> ?K \<union> ?new"
      using at_key frameD(1) [OF projs.create_frame [OF assms(1)], of k]
      by (cases "k = key_of (proj_Meta proj)") (auto simp: project_kept_def)
  qed
  then have "card ?K' \<le> card (?K \<union> ?new)" using fin by (intro card_mono) auto
  also have "\<dots> \<le> card ?K + card ?new" by (rule card_Un_le)
  finally show ?thesis by (simp add: owned_projects_def split: if_splits)
qed

lemma race_step_count:
  assumes "race_step S x y" and "finite (dom (rview (fst x)))" and "at_most pview rview n k m y"
    and "int (owned_projects (rview (fst x)) n + pending n (snd (snd x))) \<le> b" and "m - 1 + int k \<le> b"
  shows "finite (dom (rview (fst y))) \<and> int (owned_projects (rview (fst y)) n + pending n (snd (snd y))) \<le> b"
  using assms(1)
proof cases
  case (review ctx proj d s P)
  have "int (owned_projects (rview s) n + Suc (pending n P)) \<le> b" if n: "proj_Organization proj = n"
  proof -
    have most: "Suc (pending n P) + unseen n (rview d) (rview s) \<le> k" "finite (dom (rview d))" "owned_projects (rview d) n < 2 ^ 31"
      using assms(3) review(2) n by (simp_all add: at_most_def)
    have "checkProjectQuota (op_authz S) n d = None" using project_create_granted_quota [OF review(3)] n by simp
    then obtain p where "pview d (cluster_key n) = Some p" "int (owned_projects (rview d) n) < sint (prof_MaxProjects p)"
      using most(3) by (rule quota_granted_below)
    then have "int (owned_projects (rview d) n) < m" using assms(3) review(2) by (fastforce simp: at_most_def)
    then show ?thesis
      using owned_unseen [OF most(2), of "rview s" n] most(1) assms(2,5) review(1) by simp
  qed
  then show ?thesis using assms(2,4) review(1,2) by (auto simp: algebra_simps)
next
  case (store proj P s r s' d)
  then show ?thesis
    using store_owned [OF store(4), of n] pending_remove1 [OF store(3), of n]
      frame_finite [OF projs.create_frame [OF store(4)]] assms(2,4) by (auto split: if_splits)
next
  case (abandon proj P s d)
  then show ?thesis using pending_remove1 [OF abandon(3), of n] assms(2,4) by (auto split: if_splits)
next
  case (refresh s d P d')
  then show ?thesis using assms(2,4) by simp
next
  case (others H s e s' d P)
  then show ?thesis
    using others_owned [OF others(3,4), of n] projects_finite_step [OF others(3)] assms(2,4) by auto
qed

lemma race_run_count:
  assumes "race_run S (at_most pview rview n k m) x y" and "finite (dom (rview (fst x)))"
    and "int (owned_projects (rview (fst x)) n + pending n (snd (snd x))) \<le> b" and "m - 1 + int k \<le> b"
  shows "int (owned_projects (rview (fst y)) n + pending n (snd (snd y))) \<le> b"
  using assms
proof (induction rule: race_run.induct)
  case (race_more x y z)
  have "at_most pview rview n k m y" using race_more.hyps(3) by cases
  from race_step_count [OF race_more.hyps(2) race_more.prems(1) this race_more.prems(2,3)] race_more.IH race_more.prems(3)
  show ?case by blast
qed

end

section \<open>Two creations at once\<close>

definition second_project :: OrganizationProject where
  "second_project = demo_project ''genomics-analysis-2'' ''genomics'' [] ''''"

definition third_project :: OrganizationProject where
  "third_project = demo_project ''genomics-analysis-3'' ''genomics'' [] ''''"

definition stored_second :: cluster where
  "stored_second = snd (Create (projects server) second_project demo_cluster)"

definition stored_both :: cluster where
  "stored_both = snd (Create (projects server) third_project stored_second)"

lemma demo_reviews:
  "OrganizationProject_ValidateCreate demo_authz (Inr (demo_user ''alice'')) second_project demo_cluster = None"
  "OrganizationProject_ValidateCreate demo_authz (Inr (demo_user ''alice'')) third_project demo_cluster = None"
  by code_simp+

lemma stored_views:
  "mem_view cl_profiles stored_second = mem_view cl_profiles demo_cluster"
  "mem_view cl_profiles stored_both = mem_view cl_profiles demo_cluster"
  "cl_projects stored_both = (let stamp = \<lambda>n. proj_Meta_update (\<lambda>m. m\<lparr>om_UID := fresh_uid n, om_DeletionTimestamp := None\<rparr>) in
     put (cluster_key ''genomics-analysis-3'') (stamp 101 third_project)
       (put (cluster_key ''genomics-analysis-2'') (stamp 100 second_project) (cl_projects demo_cluster)))"
  by (simp_all add: stored_both_def stored_second_def second_project_def third_project_def mem_create_def Let_def
      demo_cluster_def empty_cluster_def keyed_def mem_view_def)

lemma stored_both_owned: "owned_projects (mem_view cl_projects stored_both) ''genomics'' = 3"
proof -
  have "{k. \<exists>p. mem_view cl_projects stored_both k = Some p \<and> proj_Organization p = ''genomics''} =
      {cluster_key ''genomics-analysis-3'', cluster_key ''genomics-analysis-2'', cluster_key ''genomics-analysis''}"
    by (auto simp: mem_view_def stored_views(3) Let_def second_project_def third_project_def demo_cluster_def keyed_def
        split: if_splits)
  then show ?thesis by (simp add: owned_projects_def)
qed

lemma stored_unseen:
  "unseen ''genomics'' (mem_view cl_projects demo_cluster) (mem_view cl_projects stored_second) \<le> 1"
  "unseen ''genomics'' (mem_view cl_projects demo_cluster) (mem_view cl_projects stored_both) \<le> 2"
proof -
  have "mem_view cl_projects stored_second k = mem_view cl_projects demo_cluster k \<or> k \<in> {cluster_key ''genomics-analysis-2''}"
    "mem_view cl_projects stored_both k = mem_view cl_projects demo_cluster k \<or>
       k \<in> {cluster_key ''genomics-analysis-2'', cluster_key ''genomics-analysis-3''}" for k
    by (auto simp: stored_both_def stored_second_def second_project_def third_project_def mem_create_def Let_def
        demo_cluster_def empty_cluster_def keyed_def mem_view_def)
  note same = this
  have bound: "unseen n D R \<le> card A" if "\<And>k. R k = D k \<or> k \<in> A" "finite A"
    for n A and D R :: "ObjectKey \<rightharpoonup> OrganizationProject"
    unfolding unseen_def
  proof (rule card_mono [OF that(2)], rule subsetI)
    fix k assume "k \<in> {k. (\<exists>p. R k = Some p \<and> proj_Organization p = n) \<and> \<not> (\<exists>p. D k = Some p \<and> proj_Organization p = n)}"
    then have "R k \<noteq> D k" by auto
    with that(1) [of k] show "k \<in> A" by blast
  qed
  show "unseen ''genomics'' (mem_view cl_projects demo_cluster) (mem_view cl_projects stored_second) \<le> 1"
    using bound [OF same(1), of "''genomics''"] by simp
  show "unseen ''genomics'' (mem_view cl_projects demo_cluster) (mem_view cl_projects stored_both) \<le> 2"
    using bound [OF same(2), of "''genomics''"] by (simp split: if_splits)
qed

lemma demo_review:
  "race_step demo_system (s, demo_cluster, P) (s, demo_cluster, second_project # P)"
  "race_step demo_system (s, demo_cluster, P) (s, demo_cluster, third_project # P)"
  by (rule review [of _ "Inr (demo_user ''alice'')"], simp only: demo_system_authz demo_reviews,
      simp add: second_project_def third_project_def demo_project_def)+

lemma demo_store:
  "second_project \<in> set P \<Longrightarrow> race_step demo_system (demo_cluster, d, P) (stored_second, d, remove1 second_project P)"
  "third_project \<in> set P \<Longrightarrow> race_step demo_system (stored_second, d, P) (stored_both, d, remove1 third_project P)"
proof -
  have client: "op_client demo_system = server" by simp
  show "second_project \<in> set P \<Longrightarrow> race_step demo_system (demo_cluster, d, P) (stored_second, d, remove1 second_project P)"
    by (rule store [where r = "fst (Create (projects server) second_project demo_cluster)"])
      (simp_all only: stored_second_def client prod.collapse)
  show "third_project \<in> set P \<Longrightarrow> race_step demo_system (stored_second, d, P) (stored_both, d, remove1 third_project P)"
    by (rule store [where r = "fst (Create (projects server) third_project stored_second)"])
      (simp_all only: stored_both_def client prod.collapse)
qed

lemma projects_differ: "second_project \<noteq> third_project" "third_project \<noteq> second_project"
proof -
  have "proj_Name second_project \<noteq> proj_Name third_project" by (simp add: second_project_def third_project_def)
  then show "second_project \<noteq> third_project" "third_project \<noteq> second_project" by auto
qed

text \<open>Both creations are reviewed, then both are stored.\<close>

lemma demo_race:
  assumes "\<And>s P. s \<in> {demo_cluster, stored_second, stored_both} \<Longrightarrow>
    (s = demo_cluster \<and> length P \<le> 2) \<or> (s = stored_second \<and> length P \<le> 1) \<or> P = [] \<Longrightarrow> G (s, demo_cluster, P)"
  shows "race_run demo_system G (demo_cluster, demo_cluster, []) (stored_both, demo_cluster, [])"
proof -
  have stored: "race_step demo_system (demo_cluster, demo_cluster, [third_project, second_project]) (stored_second, demo_cluster, [third_project])"
    using demo_store(1) [of "[third_project, second_project]" demo_cluster] projects_differ by simp
  note steps = demo_review(1) [of demo_cluster "[]"] demo_review(2) [of demo_cluster "[second_project]"] stored
    demo_store(2) [of "[third_project]" demo_cluster, simplified]
  have "race_run demo_system G (stored_second, demo_cluster, [third_project]) (stored_both, demo_cluster, [])"
    by (rule race_more [OF _ steps(4) race_none]) (rule assms; simp)+
  then have "race_run demo_system G (demo_cluster, demo_cluster, [third_project, second_project]) (stored_both, demo_cluster, [])"
    by (rule race_more [OF _ steps(3), rotated]) (rule assms; simp)
  then have "race_run demo_system G (demo_cluster, demo_cluster, [second_project]) (stored_both, demo_cluster, [])"
    by (rule race_more [OF _ steps(2), rotated]) (rule assms; simp)
  then show ?thesis by (rule race_more [OF _ steps(1), rotated]) (rule assms; simp)
qed

text \<open>One creation at a time, reviewed by a webhook whose cache does not show the first one yet.\<close>

lemma demo_stale:
  "race_run demo_system (\<lambda>(s, d, P). length P \<le> 1) (demo_cluster, demo_cluster, []) (stored_both, demo_cluster, [])"
proof -
  let ?G = "\<lambda>(s, d, P). length P \<le> 1"
  note steps = demo_review(1) [of demo_cluster "[]"] demo_store(1) [of "[second_project]" demo_cluster, simplified]
    demo_review(2) [of stored_second "[]"] demo_store(2) [of "[third_project]" demo_cluster, simplified]
  have "race_run demo_system ?G (stored_second, demo_cluster, [third_project]) (stored_both, demo_cluster, [])"
    by (rule race_more [OF _ steps(4) race_none]) simp_all
  then have "race_run demo_system ?G (stored_second, demo_cluster, []) (stored_both, demo_cluster, [])"
    by (rule race_more [OF _ steps(3), rotated]) simp
  then have "race_run demo_system ?G (demo_cluster, demo_cluster, [second_project]) (stored_both, demo_cluster, [])"
    by (rule race_more [OF _ steps(2), rotated]) simp
  then show ?thesis by (rule race_more [OF _ steps(1), rotated]) simp
qed


section \<open>Properties\<close>

text \<open>C9: The project quota under concurrency and stale caches. A creation is in flight from its review
  until the webhook's cache shows the project. While at most \<open>k\<close> creations for an organization are in
  flight and the cached \<open>maxProjects\<close> is at most \<open>m\<close>, the organization owns no more than
  \<open>m - 1 + k\<close> projects, whatever other requests, actions and failures happen in between, unless it
  owned more at the start. With one creation in flight at a time the quota is kept. (The cache shows
  fewer projects than the \<open>int32\<close> range, where the quota check wraps.)\<close>

theorem concurrent_quota_bounded:
  assumes "tenancy_system S pview oview rview mview nview bview qview aview prest nrest brest qrest mrest arest"
    and "race_run S (at_most pview rview n k m) (s, d, []) (s', d', P)" and "finite (dom (rview s))"
  shows "int (owned_projects (rview s') n) \<le> max (int (owned_projects (rview s) n)) (m - 1 + int k)"
  using tenancy_system.race_run_count [OF assms(1,2), of "max (int (owned_projects (rview s) n)) (m - 1 + int k)"] assms(3)
  by simp

theorem concurrent_quota_bounded_witness:
  "race_run demo_system (at_most (mem_view cl_profiles) (mem_view cl_projects) ''genomics'' 2 2)
     (demo_cluster, demo_cluster, []) (stored_both, demo_cluster, []) \<and>
   int (owned_projects (mem_view cl_projects stored_both) ''genomics'') \<le> 3"
proof
  have finite: "finite (dom (mem_view cl_projects demo_cluster))"
    by (simp add: mem_view_def finite_dom_map_of)
  have pending: "pending n P \<le> length P" for n P by (simp add: pending_def)
  show run: "race_run demo_system (at_most (mem_view cl_profiles) (mem_view cl_projects) ''genomics'' 2 2)
      (demo_cluster, demo_cluster, []) (stored_both, demo_cluster, [])"
  proof (rule demo_race)
    fix s and P :: "OrganizationProject list"
    assume "s \<in> {demo_cluster, stored_second, stored_both}"
      and "s = demo_cluster \<and> length P \<le> 2 \<or> s = stored_second \<and> length P \<le> 1 \<or> P = []"
    then have "pending ''genomics'' P + unseen ''genomics'' (mem_view cl_projects demo_cluster) (mem_view cl_projects s) \<le> 2"
      using pending [of "''genomics''" P] stored_unseen by (auto simp del: demo_views)
    moreover have "mem_view cl_profiles demo_cluster (cluster_key ''genomics'') = Some (demo_profile ''genomics'' [] 2)"
      by (simp add: keyed_def)
    ultimately show "at_most (mem_view cl_profiles) (mem_view cl_projects) ''genomics'' 2 2 (s, demo_cluster, P)"
      using finite demo_owned_projects by (simp add: at_most_def del: demo_views)
  qed
  show "int (owned_projects (mem_view cl_projects stored_both) ''genomics'') \<le> 3"
    using concurrent_quota_bounded [OF mem_system.tenancy_system_axioms run finite] demo_owned_projects by simp
qed

text \<open>The bound is reached. In the demo cluster \<open>genomics\<close> owns one project and may own two;
  an admin of the organization above it sends two creations. Whether both are reviewed before either
  is stored, or the second is sent after the first has been stored but before the webhook's cache
  shows it, both are admitted, and \<open>genomics\<close> owns three projects while its profile still says two.\<close>

theorem concurrent_quota_exceeded:
  "\<exists>s' p. race_run demo_system (\<lambda>_. True) (demo_cluster, demo_cluster, []) (s', demo_cluster, []) \<and>
     race_run demo_system (\<lambda>(s, d, P). length P \<le> 1) (demo_cluster, demo_cluster, []) (s', demo_cluster, []) \<and>
     mem_view cl_profiles s' (cluster_key ''genomics'') = Some p \<and>
     sint (prof_MaxProjects p) < int (owned_projects (mem_view cl_projects s') ''genomics'')"
proof (intro exI conjI)
  show "race_run demo_system (\<lambda>_. True) (demo_cluster, demo_cluster, []) (stored_both, demo_cluster, [])"
    by (rule demo_race) simp
  show "mem_view cl_profiles stored_both (cluster_key ''genomics'') = Some (demo_profile ''genomics'' [] 2)"
    by (simp add: stored_views keyed_def)
qed (rule demo_stale, simp add: stored_both_owned)

end
