(* ===== verification/Schema.thy ===== *)
theory Schema
  imports Organization_Controller Project_Reconciler
begin

text \<open>
  What the API server checks before anything else: the constraints the markers on the types of
  \<open>api/v1alpha1\<close> put on the fields (\<open>Enum\<close>, \<open>MinLength\<close>, \<open>Minimum\<close>, \<open>Maximum\<close>),
  from which the schemas of the CRDs are generated, and the defaults they give. An optional string
  that is empty is omitted when the object is sent. The project controller relies on these
  constraints: it looks for two roles and three presets only.
\<close>

section \<open>The markers\<close>

text \<open>A field that is a pointer is checked when it is given.\<close>

definition if_given :: "('a \<Rightarrow> bool) \<Rightarrow> 'a option \<Rightarrow> bool" where
  "if_given valid v \<longleftrightarrow> (case v of None \<Rightarrow> True | Some x \<Rightarrow> valid x)"

definition subject_kinds :: "string list" where
  "subject_kinds = [''User'', ''Group'', ''ServiceAccount'']"

definition isolation_presets :: "string list" where
  "isolation_presets = [''none'', ''tenant'', ''strict'']"

definition Subject_valid :: "Subject \<Rightarrow> bool" where
  "Subject_valid x \<longleftrightarrow> sub_Kind x \<in> set subject_kinds \<and> sub_Name x \<noteq> ''''"

definition OrganizationReference_valid :: "OrganizationReference \<Rightarrow> bool" where
  "OrganizationReference_valid r \<longleftrightarrow> orgref_Name r \<noteq> ''''"

definition OIDCConfig_valid :: "OIDCConfig \<Rightarrow> bool" where
  "OIDCConfig_valid x \<longleftrightarrow> oidc_IssuerURL x \<noteq> ''''"

definition GatewayReference_valid :: "GatewayReference \<Rightarrow> bool" where
  "GatewayReference_valid g \<longleftrightarrow> gw_Group g \<noteq> '''' \<and> gw_Kind g \<noteq> '''' \<and> gw_Name g \<noteq> ''''"

definition OrganizationPlatformConfig_valid :: "OrganizationPlatformConfig \<Rightarrow> bool" where
  "OrganizationPlatformConfig_valid x \<longleftrightarrow>
     if_given OIDCConfig_valid (plat_OIDC x) \<and> if_given GatewayReference_valid (plat_IngressGatewayRef x)"

text \<open>The default for an omitted preset; that of an omitted \<open>maxProjects\<close> is its zero value. They apply
  when \<open>spec.defaults\<close> is given: it is optional and has no default itself, so the preset of a stored
  profile may be empty.\<close>

definition ProjectDefaults_default :: "ProjectDefaults \<Rightarrow> ProjectDefaults" where
  "ProjectDefaults_default x =
     (if pd_NetworkIsolation x = '''' then x\<lparr>pd_NetworkIsolation := ''tenant''\<rparr> else x)"

definition ProjectDefaults_valid :: "ProjectDefaults \<Rightarrow> bool" where
  "ProjectDefaults_valid x \<longleftrightarrow>
     (pd_NetworkIsolation x = '''' \<or> pd_NetworkIsolation x \<in> set isolation_presets) \<and> 0 \<le> sint (pd_MaxProjects x)"

definition OrganizationProfileSpec_valid :: "OrganizationProfileSpec \<Rightarrow> bool" where
  "OrganizationProfileSpec_valid x \<longleftrightarrow> OrganizationReference_valid (ops_OrganizationRef x) \<and>
     list_all Subject_valid (slice_items (ops_Admins x)) \<and> ProjectDefaults_valid (ops_Defaults x) \<and>
     if_given OrganizationPlatformConfig_valid (ops_Platform x)"

definition NetworkGrant_valid :: "NetworkGrant \<Rightarrow> bool" where
  "NetworkGrant_valid g \<longleftrightarrow> ng_To g \<noteq> '''' \<and> ng_Direction g \<in> {''ingress'', ''egress''} \<and>
     list_all (\<lambda>p. 1 \<le> sint p \<and> sint p \<le> 65535) (ng_Ports g)"

definition ProjectUser_valid :: "ProjectUser \<Rightarrow> bool" where
  "ProjectUser_valid u \<longleftrightarrow> pu_Kind u \<in> set subject_kinds \<and> pu_Name u \<noteq> '''' \<and> pu_Role u \<in> {''edit'', ''view''}"

definition OrganizationProjectSpec_valid :: "OrganizationProjectSpec \<Rightarrow> bool" where
  "OrganizationProjectSpec_valid x \<longleftrightarrow> OrganizationReference_valid (prs_OrganizationRef x) \<and>
     list_all ProjectUser_valid (prs_Users x) \<and>
     (prs_NetworkIsolation x = '''' \<or> prs_NetworkIsolation x \<in> set isolation_presets) \<and>
     list_all NetworkGrant_valid (prs_NetworkGrants x)"

definition MaaSOIDC_valid :: "MaaSOIDC \<Rightarrow> bool" where
  "MaaSOIDC_valid x \<longleftrightarrow> mo_ClientID x \<noteq> ''''"

definition MaaSCertificateRef_valid :: "MaaSCertificateRef \<Rightarrow> bool" where
  "MaaSCertificateRef_valid x \<longleftrightarrow> mc_Name x \<noteq> ''''"

definition MaaSConfigurationSpec_valid :: "MaaSConfigurationSpec \<Rightarrow> bool" where
  "MaaSConfigurationSpec_valid x \<longleftrightarrow> OrganizationReference_valid (mcs_OrganizationRef x) \<and>
     if_given MaaSOIDC_valid (mcs_OIDC x) \<and>
     if_given (\<lambda>t. MaaSCertificateRef_valid (mt_CertificateRef t)) (mcs_TLS x)"

text \<open>A server that enforces the schema of the profiles.\<close>

definition profiles_valid :: "(ObjectKey \<rightharpoonup> OrganizationProfile) \<Rightarrow> bool" where
  "profiles_valid P \<longleftrightarrow> (\<forall>k p. P k = Some p \<longrightarrow> OrganizationProfileSpec_valid (prof_Spec p))"


section \<open>What the controllers can rely on\<close>

lemma default_preset: "ProjectDefaults_valid x \<Longrightarrow> ProjectDefaults_valid (ProjectDefaults_default x) \<and>
    pd_NetworkIsolation (ProjectDefaults_default x) \<in> set isolation_presets"
  by (auto simp: ProjectDefaults_valid_def ProjectDefaults_default_def isolation_presets_def)

text \<open>The one object of these kinds that the operator creates passes, without any default.\<close>

lemma defaultProfile_valid:
  "OrganizationProfileSpec_valid (prof_Spec (defaultProfile organization)) \<longleftrightarrow> org_Name organization \<noteq> ''''"
  "ProjectDefaults_default (ops_Defaults (prof_Spec (defaultProfile organization))) = ops_Defaults (prof_Spec (defaultProfile organization))"
  by (simp_all add: OrganizationProfileSpec_valid_def OrganizationReference_valid_def ProjectDefaults_valid_def
      ProjectDefaults_default_def isolation_presets_def if_given_def defaultProfile_def)

lemma valid_roles: "OrganizationProjectSpec_valid x \<Longrightarrow> u \<in> set (prs_Users x) \<Longrightarrow> pu_Role u \<in> {''edit'', ''view''}"
  by (auto simp: OrganizationProjectSpec_valid_def ProjectUser_valid_def list_all_iff)

lemma role_bound_user:
  assumes "role_bound c ns users bview s (pu_Role u)" and "u \<in> set users"
  shows "\<exists>b. bview s (om_Name (ns_Meta ns), ''tenant-'' @ pu_Role u) = Some b \<and> rb_RoleRef b = clusterRole (pu_Role u) \<and>
    rbac_subject u \<in> set (rb_Subjects b)"
proof -
  have "u \<in> set (filter (\<lambda>v. pu_Role v = pu_Role u) users)" using assms(2) by simp
  then show ?thesis using assms(1) unfolding role_bound_def Let_def by (metis (no_types, lifting) image_eqI list.map_disc_iff list.set_map empty_iff list.set(1))
qed


section \<open>Properties\<close>

text \<open>C26: No user of a project is forgotten. If the project passes the schema, then after a successful
  reconciliation every user it lists is a subject of the binding, in the project's namespace, of the
  cluster role the user is listed with; and whoever is a subject of one of the two bindings is listed
  with that role.\<close>

theorem project_users_bound:
  assumes "project_reconciler run c oview pview nview bview qview nrest brest qrest"
    and "well_keyed ns_Meta (nview s)" and "well_keyed np_Meta (qview s)"
    and "run (reg_Actions (NewOrganizationProjectReconciler c)) rr s = (None, rr', s')"
    and "OrganizationProjectSpec_valid (proj_Spec (rr_Instance rr))"
  shows "(\<forall>u \<in> set (prs_Users (proj_Spec (rr_Instance rr))). \<exists>b.
      bview s' (proj_Name (rr_Instance rr), ''tenant-'' @ pu_Role u) = Some b \<and> rb_RoleRef b = clusterRole (pu_Role u) \<and>
      rbac_subject u \<in> set (rb_Subjects b)) \<and>
    (\<forall>role \<in> {''edit'', ''view''}. \<forall>b x. bview s' (proj_Name (rr_Instance rr), ''tenant-'' @ role) = Some b \<and>
      om_DeletionTimestamp (rb_Meta b) = None \<and> x \<in> set (rb_Subjects b) \<longrightarrow>
      (\<exists>u \<in> set (prs_Users (proj_Spec (rr_Instance rr))). pu_Role u = role \<and> x = rbac_subject u))"
proof (rule project_reconciler.provisioned [OF assms(1,4,2,3)])
  let ?users = "prs_Users (proj_Spec (rr_Instance rr))"
  fix organization ns
  assume name: "om_Name (ns_Meta ns) = proj_Name (rr_Instance rr)"
    and "role_bound c ns ?users bview s' ''edit''" and "role_bound c ns ?users bview s' ''view''"
  then have bound: "role_bound c ns ?users bview s' role" if "role \<in> {''edit'', ''view''}" for role
    using that by blast
  have "\<forall>u \<in> set ?users. \<exists>b. bview s' (proj_Name (rr_Instance rr), ''tenant-'' @ pu_Role u) = Some b \<and>
      rb_RoleRef b = clusterRole (pu_Role u) \<and> rbac_subject u \<in> set (rb_Subjects b)"
    using role_bound_user [OF bound [OF valid_roles [OF assms(5)]]] name by simp
  moreover have "\<exists>u \<in> set ?users. pu_Role u = role \<and> x = rbac_subject u"
    if "role \<in> {''edit'', ''view''}" "bview s' (proj_Name (rr_Instance rr), ''tenant-'' @ role) = Some b"
      "om_DeletionTimestamp (rb_Meta b) = None" "x \<in> set (rb_Subjects b)" for role b x
    using bound [OF that(1)] that(2-4) name by (auto simp: role_bound_def gone_def Let_def split: if_splits)
  ultimately show ?thesis by blast
qed

theorem project_users_bound_witness:
  "\<exists>rr' s' b. run_actions (reg_Actions (NewOrganizationProjectReconciler server))
       \<lparr>rr_Instance = demo_project ''genomics-analysis'' ''genomics'' [\<lparr>pu_Kind = ''User'', pu_Name = ''bob'', pu_Namespace = '''', pu_Role = ''view''\<rparr>] '''',
         rr_Extensions = None\<rparr> demo_cluster = (None, rr', s') \<and>
     mem_view cl_rolebindings s' (''genomics-analysis'', ''tenant-view'') = Some b \<and>
     rbac_subject \<lparr>pu_Kind = ''User'', pu_Name = ''bob'', pu_Namespace = '''', pu_Role = ''view''\<rparr> \<in> set (rb_Subjects b)"
proof -
  let ?bob = "\<lparr>pu_Kind = ''User'', pu_Name = ''bob'', pu_Namespace = '''', pu_Role = ''view''\<rparr>"
  let ?rr = "\<lparr>rr_Instance = demo_project ''genomics-analysis'' ''genomics'' [?bob] '''', rr_Extensions = None\<rparr>"
  have "fst (run_actions (reg_Actions (NewOrganizationProjectReconciler server)) ?rr demo_cluster) = None" by code_simp
  then obtain rr' s' where run: "run_actions (reg_Actions (NewOrganizationProjectReconciler server)) ?rr demo_cluster = (None, rr', s')"
    by (metis prod.collapse)
  have keyed: "well_keyed ns_Meta (mem_view cl_namespaces demo_cluster)" "well_keyed np_Meta (mem_view cl_networkpolicies demo_cluster)"
    by (simp_all add: well_keyed_def mem_view_def demo_cluster_def empty_cluster_def)
  have users: "prs_Users (proj_Spec (rr_Instance ?rr)) = [?bob]" by (simp add: demo_project_def)
  have "OrganizationProjectSpec_valid (proj_Spec (rr_Instance ?rr))" by code_simp
  from project_users_bound [OF mem_project_reconciler.project_reconciler_axioms keyed run this] run
  show ?thesis unfolding users by auto
qed

text \<open>C27: The isolation of a project is one of the three presets the controller knows, provided that the
  project and the stored profiles pass the schema, which lets both leave the preset out; so the
  project is open to all traffic only if the project itself or the profile of its organization says
  \<open>none\<close>, and otherwise starts from the policy that denies everything.\<close>

theorem isolation_preset_known:
  assumes "object_reader (Get (profiles c)) pview" and "profiles_valid (pview s)"
    and "OrganizationProjectSpec_valid (proj_Spec project)"
  shows "effectiveIsolation c project s \<in> {''none'', ''tenant'', ''strict''} \<and>
    (effectiveIsolation c project s = ''none'' \<or>
     denyIngress nsName \<in> set (desiredNetworkPolicies project nsName (effectiveIsolation c project s)))"
proof -
  have "effectiveIsolation c project s \<in> set isolation_presets"
  proof (cases "prs_NetworkIsolation (proj_Spec project) = ''''")
    case True
    show ?thesis
    proof (cases "Get (profiles c) (cluster_key (proj_Organization project)) s")
      case (Inr p)
      then have "OrganizationProfileSpec_valid (prof_Spec p)"
        using object_reader.get_found [OF assms(1)] assms(2) unfolding profiles_valid_def by blast
      with True Inr show ?thesis
        by (auto simp: effectiveIsolation_def OrganizationProfileSpec_valid_def ProjectDefaults_valid_def isolation_presets_def)
    qed (use True in \<open>simp add: effectiveIsolation_def isolation_presets_def\<close>)
  next
    case False
    with assms(3) show ?thesis by (simp add: effectiveIsolation_def OrganizationProjectSpec_valid_def)
  qed
  then show ?thesis by (auto simp: isolation_presets_def desiredNetworkPolicies_def)
qed

theorem isolation_preset_known_witness:
  "let bare = (demo_profile ''genomics'' [] 0)\<lparr>prof_Spec := (prof_Spec (demo_profile ''genomics'' [] 0))
         \<lparr>ops_Defaults := \<lparr>pd_NetworkIsolation = '''', pd_MaxProjects = 0\<rparr>\<rparr>\<rparr>;
       s = demo_cluster\<lparr>cl_profiles := keyed prof_Meta [bare]\<rparr>
   in effectiveIsolation server (demo_project ''p'' ''genomics'' [] '''') s \<in> {''none'', ''tenant'', ''strict''}"
proof -
  let ?bare = "(demo_profile ''genomics'' [] 0)\<lparr>prof_Spec := (prof_Spec (demo_profile ''genomics'' [] 0))
     \<lparr>ops_Defaults := \<lparr>pd_NetworkIsolation = '''', pd_MaxProjects = 0\<rparr>\<rparr>\<rparr>"
  let ?s = "demo_cluster\<lparr>cl_profiles := keyed prof_Meta [?bare]\<rparr>"
  have reader: "object_reader (Get (profiles server)) (mem_view cl_profiles)"
    using mem_authz.profile_reader.object_reader_axioms [of "\<lambda>_ _. None"] by simp
  have "OrganizationProfileSpec_valid (prof_Spec ?bare)" by code_simp
  then have "profiles_valid (mem_view cl_profiles ?s)"
    by (auto simp: profiles_valid_def keyed_def mem_view_def split: if_splits)
  moreover have "OrganizationProjectSpec_valid (proj_Spec (demo_project ''p'' ''genomics'' [] ''''))" by code_simp
  ultimately show ?thesis unfolding Let_def using isolation_preset_known [OF reader] by blast
qed

end
