(* ===== verification/Project_Liveness.thy ===== *)
theory Project_Liveness
  imports Project_Reconciler Api_Validation
begin

text \<open>
  The OrganizationProject reconciler succeeds. \<open>Project_Reconciler\<close> says what a successful run
  leaves behind; here the server answers, the project's organization has its root, and nothing in
  the project's namespace belongs to someone else: then every one of the five actions succeeds. What
  such a run leaves behind is again a state in which the next one succeeds.
\<close>

section \<open>A project that can be provisioned\<close>

text \<open>
  What the API server asks of the objects a project becomes: its name is that of a namespace, its
  organization's name is the value of a label, it has a UID for the owner reference, and its users can
  be the subjects of a RoleBinding. The schema of OrganizationProjects asks for none of this.
\<close>

definition user_admissible :: "ProjectUser \<Rightarrow> bool" where
  "user_admissible u \<longleftrightarrow>
     (if pu_Kind u = ''ServiceAccount'' then dns_subdomain (pu_Name u) \<and> dns_label (pu_Namespace u)
      else pu_Kind u \<in> {''User'', ''Group''} \<and> pu_Name u \<noteq> '''')"

definition project_admissible :: "OrganizationProject \<Rightarrow> bool" where
  "project_admissible project \<longleftrightarrow> dns_label (proj_Name project) \<and> label_value (proj_Organization project) \<and>
     om_UID (proj_Meta project) \<noteq> '''' \<and> om_Namespace (proj_Meta project) = '''' \<and>
     list_all user_admissible (prs_Users (proj_Spec project))"

text \<open>The namespace does not exist, or it is live and free or the project's own.\<close>

definition namespace_open :: "OrganizationProject \<Rightarrow> CoreNamespace option \<Rightarrow> bool" where
  "namespace_open project v \<longleftrightarrow> (\<forall>ns. v = Some ns \<longrightarrow> om_DeletionTimestamp (ns_Meta ns) = None \<and>
     om_UID (ns_Meta ns) \<noteq> '''' \<and> owner_open (owner_project project) (ns_Meta ns))"

text \<open>A role binding that exists is for the role, and nothing but the namespace of the given name controls
  it; the \<open>roleRef\<close> of a binding cannot be changed.\<close>

abbreviation namespace_owner :: "string \<Rightarrow> owner_object" where
  "namespace_owner name \<equiv> owner_namespace \<lparr>ns_Meta = named '''' name\<rparr>"

definition binding_open :: "string \<Rightarrow> string \<Rightarrow> RoleBinding option \<Rightarrow> bool" where
  "binding_open role name w \<longleftrightarrow>
     (\<forall>b. w = Some b \<longrightarrow> rb_RoleRef b = clusterRole role \<and> owner_open (namespace_owner name) (rb_Meta b))"

text \<open>A policy that exists is the namespace's own.\<close>

definition policy_open :: "'s k8s \<Rightarrow> CoreNamespace option \<Rightarrow> string \<Rightarrow> NetworkPolicy option \<Rightarrow> bool" where
  "policy_open c v name w \<longleftrightarrow> (\<forall>y. w = Some y \<longrightarrow> owner_open (namespace_owner name) (np_Meta y) \<and>
     (\<exists>ns. v = Some ns \<and> IsControlledBy c (np_Meta y) (ns_Meta ns)))"

definition provisionable :: "'s k8s \<Rightarrow> ('s \<Rightarrow> ObjectKey \<rightharpoonup> CoreNamespace) \<Rightarrow> ('s \<Rightarrow> ObjectKey \<rightharpoonup> RoleBinding) \<Rightarrow>
    ('s \<Rightarrow> ObjectKey \<rightharpoonup> NetworkPolicy) \<Rightarrow> OrganizationProject \<Rightarrow> 's \<Rightarrow> bool" where
  "provisionable c nview bview qview project s \<longleftrightarrow>
     (let name = proj_Name project; v = nview s (cluster_key name) in
      project_admissible project \<and> namespace_open project v \<and>
      (\<forall>role \<in> {''edit'', ''view''}. binding_open role name (bview s (name, ''tenant-'' @ role))) \<and>
      (\<forall>np \<in> set (desiredNetworkPolicies project name (effectiveIsolation c project s)).
         policy_open c v name (qview s (name, np_Name np))))"

lemma owner_open_namespace: "owner_open (namespace_owner (om_Name (ns_Meta ns))) m = owner_open (owner_namespace ns) m"
  by (simp add: owner_open_def same_object_owners cong: filter_cong)

lemma subjects_admitted:
  assumes "list_all user_admissible users"
  shows "list_all subject_admitted (subjectsForRole users role)"
  using assms by (auto simp: subjectsForRole_eq list_all_iff user_admissible_def subject_admitted_def rbac_subject_def
      rbacGroupName_def)

text \<open>The names and labels the controller uses are in order.\<close>

lemma controller_names:
  "qualified_name labelOrganization" "qualified_name labelOrganizationRoot"
  "dns_subdomain npDenyIngress" "dns_subdomain npAllowOrganization" "dns_subdomain npAllowSameNS"
  "dns_subdomain ''tenant-edit''" "dns_subdomain ''tenant-view''"
  "role_admitted (clusterRole ''edit'')" "role_admitted (clusterRole ''view'')"
  by code_simp+

lemma desired_admitted:
  assumes "np \<in> set (desiredNetworkPolicies project nsName isolation)" and "label_value (proj_Organization project)"
  shows "dns_subdomain (np_Name np)" and "policyspec_admitted (np_Spec np)"
  using assms controller_names
  by (auto simp: desiredNetworkPolicies_def denyIngress_def allowFromOrganization_def allowSameNamespace_def
      policyspec_admitted_def peer_admitted_def selector_admitted_def labels_admitted_def split: if_splits)


text \<open>A namespace that the bindings and policies can be written into.\<close>

definition ready_namespace :: "('s \<Rightarrow> ObjectKey \<rightharpoonup> CoreNamespace) \<Rightarrow> 's \<Rightarrow> CoreNamespace \<Rightarrow> bool" where
  "ready_namespace nview s ns \<longleftrightarrow> nview s (cluster_key (om_Name (ns_Meta ns))) = Some ns \<and> om_DeletionTimestamp (ns_Meta ns) = None \<and>
     om_Namespace (ns_Meta ns) = '''' \<and> owner_complete (owner_namespace ns)"


section \<open>The actions succeed\<close>

text \<open>The server answers: reads find what is stored, and \<open>CreateOrUpdate\<close> of a namespace, a role binding
  or a network policy that passes validation succeeds.\<close>

locale answering_project_server =
  project_reconciler run c oview pview nview bview qview nrest brest qrest +
  accepting_owner_references "SetControllerReference c" "IsControlledBy c" +
  organization_reader: reliable_reader "Get (organizations c)" oview +
  np_reader: reliable_reader "Get (networkpolicies c)" qview +
  ns_applier: identity_applier nview nrest ns_Meta namespace_kept "CreateOrUpdate (namespaces c)" +
  ns_applier: reliable_applier nview nrest ns_Meta namespace_kept "CreateOrUpdate (namespaces c)" namespace_admitted +
  rb_applier: reliable_applier bview brest rb_Meta rolebinding_kept "CreateOrUpdate (rolebindings c)" "rolebinding_admitted nview bview" +
  np_applier: reliable_applier qview qrest np_Meta networkpolicy_kept "CreateOrUpdate (networkpolicies c)" "networkpolicy_admitted nview" +
  rb_deleter: reliable_deleter bview brest rb_Meta rolebinding_kept "Delete (rolebindings c)" +
  np_deleter: reliable_deleter qview qrest np_Meta networkpolicy_kept "Delete (networkpolicies c)"
  for run :: "(ReconciliationRequest, 's) action list \<Rightarrow> (ReconciliationRequest, 's) action" and c oview pview nview bview qview
    and nrest :: "'s \<Rightarrow> 'n" and brest :: "'s \<Rightarrow> 'b" and qrest :: "'s \<Rightarrow> 'q"
begin

lemma organization_answers:
  assumes "oview s (cluster_key (proj_Organization (rr_Instance rr))) = Some organization" and "org_Root organization \<noteq> ''''"
  shows "\<exists>rr'. validateParentOrganization c rr s = (None, rr', s) \<and>
    state_of rr' = (state_of rr)\<lparr>rst_organization := Some organization\<rparr>"
proof -
  obtain st rr1 where "stateFor rr = (st, rr1)" by fastforce
  with assms show ?thesis by (auto simp: validateParentOrganization_def Let_def organization_reader.get_eq)
qed

lemma mutateNamespace_answers:
  assumes "project_admissible project" and "label_value (org_Root organization)" and "owner_open (owner_project project) (ns_Meta ns)"
  shows "\<exists>n. mutateNamespace c project organization ns = Inr n \<and> key_of (ns_Meta n) = key_of (ns_Meta ns) \<and>
    om_UID (ns_Meta n) = om_UID (ns_Meta ns) \<and> om_DeletionTimestamp (ns_Meta n) = om_DeletionTimestamp (ns_Meta ns) \<and>
    owner_open (owner_project project) (ns_Meta n) \<and> meta_admitted (ns_Meta ns) (ns_Meta n)"
proof -
  let ?w = "owner_project project"
  let ?m = "(ns_Meta ns)\<lparr>om_Labels := (om_Labels (ns_Meta ns))
    (labelOrganization \<mapsto> proj_Organization project, labelOrganizationRoot \<mapsto> org_Root organization)\<rparr>"
  have opened: "owner_open ?w ?m" using assms(3) by (simp add: owner_open_def)
  then obtain m where m: "SetControllerReference c ?w ?m = Inr m"
    using controller_accepted [of ?w ?m] owner_open_controller [of ?w ?m] assms(1) by (auto simp: project_admissible_def)
  have "owner_complete ?w"
    using assms(1) dns_subdomain_not_empty [OF dns_label_subdomain] by (simp add: owner_complete_owners project_admissible_def)
  moreover have "labels_admitted (om_Labels (ns_Meta ns)) (om_Labels ?m)"
    using assms(1,2) controller_names(1,2) by (simp add: project_admissible_def labels_admitted_upd)
  ultimately have "meta_admitted (ns_Meta ns) m"
    using controller_set_admitted [OF m opened, of "ns_Meta ns"] by simp
  with controller_set_fields [OF m] controller_kept_open [OF m opened] m show ?thesis by (simp add: mutateNamespace_def key_of_def)
qed

lemma namespace_answers:
  assumes "rst_organization (state_of rr) = Some organization" and "well_keyed ns_Meta (nview s)"
    and "project_admissible (rr_Instance rr)" and "label_value (org_Root organization)"
    and "namespace_open (rr_Instance rr) (nview s (cluster_key (proj_Name (rr_Instance rr))))"
  shows "\<exists>rr' s' ns. ensureNamespace c rr s = (None, rr', s') \<and> nview s' (cluster_key (proj_Name (rr_Instance rr))) = Some ns \<and>
    namespace_open (rr_Instance rr) (Some ns) \<and>
    (\<forall>w. nview s (cluster_key (proj_Name (rr_Instance rr))) = Some w \<longrightarrow> om_UID (ns_Meta ns) = om_UID (ns_Meta w))"
proof -
  let ?p = "rr_Instance rr" and ?k = "cluster_key (proj_Name (rr_Instance rr))"
  let ?x = "\<lparr>ns_Meta = named '''' (proj_Name ?p)\<rparr>"
  let ?f = "mutateNamespace c ?p organization" and ?old = "present nview ns_Meta ?x s"
  obtain st rr1 where st: "stateFor rr = (st, rr1)" by fastforce
  have "owner_open (owner_project ?p) (ns_Meta ?old)"
    using assms(5) by (auto simp: present_def namespace_open_def split: option.splits)
  then obtain n where n: "?f ?old = Inr n" "key_of (ns_Meta n) = key_of (ns_Meta ?old)"
      "om_UID (ns_Meta n) = om_UID (ns_Meta ?old)" "om_DeletionTimestamp (ns_Meta n) = om_DeletionTimestamp (ns_Meta ?old)"
      "owner_open (owner_project ?p) (ns_Meta n)" "meta_admitted (ns_Meta ?old) (ns_Meta n)"
    using mutateNamespace_answers [OF assms(3,4)] by blast
  have key: "key_of (ns_Meta n) = key_of (ns_Meta ?x)"
    using n(2) well_keyedD [OF assms(2), of ?k] by (auto simp: present_def split: option.split)
  then have "namespace_admitted s ?old n"
    using n(6) assms(3) by (simp add: namespace_admitted_def project_admissible_def key_of_def)
  with n(1) key obtain y s' where call: "CreateOrUpdate (namespaces c) ?x ?f s = (Inr y, s')"
    using ns_applier.apply_answers [of ?f ?x s n] by blast
  have stored: "nview s' ?k = Some y" "namespace_kept n y" using ns_applier.apply_stored [OF call] n(1) by auto
  have "owner_open (owner_project ?p) (ns_Meta y)"
    using owner_open_kept n(5) stored(2) unfolding namespace_kept_def by blast
  then have "namespace_open ?p (Some y)" "\<forall>w. nview s ?k = Some w \<longrightarrow> om_UID (ns_Meta y) = om_UID (ns_Meta w)"
    using ns_applier.apply_identity [OF call n(1,3,4)] assms(5)
    by (auto simp: namespace_open_def split: option.splits)
  moreover have "\<exists>rr'. ensureNamespace c rr s = (None, rr', s')"
    using assms(1) st call by (simp add: ensureNamespace_def Let_def)
  ultimately show ?thesis using stored(1) by blast
qed

lemma owner_answers:
  assumes "om_Namespace (ns_Meta ns) = ''''" and "owner_complete (owner_namespace ns)" and "owner_open (owner_namespace ns) m"
  shows "\<exists>m'. SetControllerReference c (owner_namespace ns) m = Inr m' \<and> key_of m' = key_of m \<and> meta_admitted m m' \<and>
    owner_open (owner_namespace ns) m'"
proof -
  obtain m' where m': "SetControllerReference c (owner_namespace ns) m = Inr m'"
    using controller_accepted [of "owner_namespace ns" m] owner_open_controller [OF assms(3)] assms(1) by auto
  from m' controller_set_admitted [OF m' assms(3,2), of m] controller_set_fields(8) [OF m'] controller_kept_open [OF m' assms(3)]
  show ?thesis by auto
qed

lemma binding_mutated:
  assumes "ready_namespace nview s ns" and "well_keyed rb_Meta (bview s)" and "role \<in> {''edit'', ''view''}"
    and "list_all subject_admitted subjects"
    and "binding_open role (om_Name (ns_Meta ns)) (bview s (om_Name (ns_Meta ns), ''tenant-'' @ role))"
  obtains z where "mutateBinding c ns role subjects (present bview rb_Meta (bindingFor ns role) s) = Inr z"
    and "key_of (rb_Meta z) = key_of (rb_Meta (bindingFor ns role))" and "rb_RoleRef z = clusterRole role"
    and "owner_open (owner_namespace ns) (rb_Meta z)"
    and "rolebinding_admitted nview bview s (present bview rb_Meta (bindingFor ns role) s) z"
proof -
  let ?x = "bindingFor ns role" and ?n = "om_Name (ns_Meta ns)"
  let ?old = "present bview rb_Meta ?x s"
  have key: "key_of (rb_Meta ?x) = (?n, ''tenant-'' @ role)" by (rule bindingFor_key)
  have old: "key_of (rb_Meta ?old) = key_of (rb_Meta ?x)"
    using well_keyedD [OF assms(2), of "key_of (rb_Meta ?x)"] by (auto simp: present_def split: option.split)
  have "owner_open (owner_namespace ns) (rb_Meta ?old)"
    using assms(5) key by (auto simp: present_def binding_open_def bindingFor_def owner_open_namespace split: option.splits)
  then obtain m where m: "SetControllerReference c (owner_namespace ns) (rb_Meta ?old) = Inr m" "key_of m = key_of (rb_Meta ?old)"
      "meta_admitted (rb_Meta ?old) m" "owner_open (owner_namespace ns) m"
    using owner_answers [of ns "rb_Meta ?old"] assms(1) by (auto simp: ready_namespace_def)
  let ?z = "?old\<lparr>rb_RoleRef := clusterRole role, rb_Subjects := subjects, rb_Meta := m\<rparr>"
  have name: "key_of m = (?n, ''tenant-'' @ role)" using m(2) old key by simp
  have "dns_subdomain (''tenant-'' @ role)" "role_admitted (clusterRole role)" using assms(3) controller_names by auto
  moreover have "bview s (key_of m) = None \<or> clusterRole role = rb_RoleRef ?old"
    using assms(5) key name by (auto simp: present_def binding_open_def split: option.split)
  moreover have "live_namespace nview s ?n" using assms(1) by (auto simp: ready_namespace_def live_namespace_def)
  ultimately have "rolebinding_admitted nview bview s ?old ?z"
    using m(3) name assms(4) by (simp add: rolebinding_admitted_def key_of_def)
  with m name key show ?thesis by (intro that [of ?z]) (simp_all add: mutateBinding_def)
qed

lemma role_answers:
  assumes "ready_namespace nview s ns" and "well_keyed rb_Meta (bview s)" and "role \<in> {''edit'', ''view''}"
    and "list_all user_admissible users"
    and "binding_open role (om_Name (ns_Meta ns)) (bview s (om_Name (ns_Meta ns), ''tenant-'' @ role))"
  shows "\<exists>s'. ensureRole c ns users role s = (None, s') \<and>
    binding_open role (om_Name (ns_Meta ns)) (bview s' (om_Name (ns_Meta ns), ''tenant-'' @ role))"
proof (cases "subjectsForRole users role = []")
  case True
  let ?k = "(om_Name (ns_Meta ns), ''tenant-'' @ role)"
  obtain r t where r: "Delete (rolebindings c) (bindingFor ns role) s = (r, t)" by fastforce
  have "binding_open role (om_Name (ns_Meta ns)) (bview t ?k)"
    unfolding binding_open_def
  proof (intro allI impI)
    fix b assume "bview t ?k = Some b"
    then obtain y where y: "bview s ?k = Some y" "y = b \<or> rolebinding_kept y b"
      using rb_deleter.delete_keeps [OF r, of b] by (auto simp: bindingFor_key)
    then have "meta_kept (rb_Meta y) (rb_Meta b)" "rb_RoleRef b = rb_RoleRef y"
      by (auto simp: rolebinding_kept_def)
    with owner_open_kept assms(5) y(1)
    show "rb_RoleRef b = clusterRole role \<and> owner_open (namespace_owner (om_Name (ns_Meta ns))) (rb_Meta b)"
      unfolding binding_open_def by metis
  qed
  with True r rb_deleter.delete_answers show ?thesis
    by (cases r) (auto simp: ensureRole_def Let_def split: unit.splits)
next
  case False
  let ?x = "bindingFor ns role" and ?f = "mutateBinding c ns role (subjectsForRole users role)"
  obtain z where z: "?f (present bview rb_Meta ?x s) = Inr z" "key_of (rb_Meta z) = key_of (rb_Meta ?x)" "rb_RoleRef z = clusterRole role"
      "owner_open (owner_namespace ns) (rb_Meta z)" "rolebinding_admitted nview bview s (present bview rb_Meta ?x s) z"
    by (rule binding_mutated [OF assms(1-3) subjects_admitted [OF assms(4)] assms(5)])
  from rb_applier.apply_answers [of ?f ?x s z, OF z(1,2,5)]
  obtain y s' where call: "CreateOrUpdate (rolebindings c) ?x ?f s = (Inr y, s')" by blast
  have y: "bview s' (key_of (rb_Meta ?x)) = Some y" "rolebinding_kept z y" using rb_applier.apply_stored [OF call] z(1) by auto
  have "rb_RoleRef y = clusterRole role" "owner_open (owner_namespace ns) (rb_Meta y)"
    using y(2) z(3) owner_open_kept [of "rb_Meta z" "rb_Meta y"] z(4) by (simp_all add: rolebinding_kept_def)
  then have "binding_open role (om_Name (ns_Meta ns)) (bview s' (key_of (rb_Meta ?x)))"
    using y(1) by (simp add: binding_open_def owner_open_namespace)
  moreover have "ensureRole c ns users role s = (None, s')" using False call by (simp add: ensureRole_def Let_def)
  ultimately show ?thesis by (auto simp: bindingFor_key)
qed

lemma rbac_answers:
  assumes "rst_namespace (state_of rr) = Some ns" and "ready_namespace nview s ns" and "well_keyed rb_Meta (bview s)"
    and "list_all user_admissible (prs_Users (proj_Spec (rr_Instance rr)))"
    and "\<forall>role \<in> {''edit'', ''view''}. binding_open role (om_Name (ns_Meta ns)) (bview s (om_Name (ns_Meta ns), ''tenant-'' @ role))"
  shows "\<exists>rr' s'. ensureRBAC c rr s = (None, rr', s') \<and>
    (\<forall>role \<in> {''edit'', ''view''}. binding_open role (om_Name (ns_Meta ns)) (bview s' (om_Name (ns_Meta ns), ''tenant-'' @ role)))"
proof -
  let ?users = "prs_Users (proj_Spec (rr_Instance rr))" and ?n = "om_Name (ns_Meta ns)"
  obtain s1 where edit: "ensureRole c ns ?users ''edit'' s = (None, s1)" "binding_open ''edit'' ?n (bview s1 (?n, ''tenant-edit''))"
    using role_answers [OF assms(2,3) _ assms(4), where role = "''edit''"] assms(5) by auto
  note frame = ensureRole_frame [OF edit(1)]
  have "nview s1 = nview s" using bindings_apart frameD(2) [OF frame] by blast
  then have "ready_namespace nview s1 ns" using assms(2) by (simp add: ready_namespace_def)
  moreover have "bview s1 (?n, ''tenant-view'') = bview s (?n, ''tenant-view'')" by (rule frameD(1) [OF frame]) simp
  ultimately obtain s2 where view: "ensureRole c ns ?users ''view'' s1 = (None, s2)" "binding_open ''view'' ?n (bview s2 (?n, ''tenant-view''))"
    using role_answers [OF _ ensureRole_keyed [OF edit(1) assms(3)] _ assms(4), where role = "''view''" and ns = ns] assms(5) by auto
  obtain st rr1 where "stateFor rr = (st, rr1)" by fastforce
  then have "\<exists>rr'. ensureRBAC c rr s = (None, rr', s2)" using edit(1) view(1) assms(1) by (simp add: ensureRBAC_def Let_def)
  moreover have "bview s2 (?n, ''tenant-edit'') = bview s1 (?n, ''tenant-edit'')"
    by (rule frameD(1) [OF ensureRole_frame [OF view(1)]]) simp
  ultimately show ?thesis using edit(2) view(2) by auto
qed

lemma policy_applied:
  assumes "ready_namespace nview s ns" and "well_keyed np_Meta (qview s)"
    and "dns_subdomain (np_Name np)" and "policyspec_admitted (np_Spec np)"
    and "policy_open c (Some ns) (om_Name (ns_Meta ns)) (qview s (om_Name (ns_Meta ns), np_Name np))"
  shows "\<exists>s'. applyPolicy c ns np s = (None, s') \<and>
    policy_open c (Some ns) (om_Name (ns_Meta ns)) (qview s' (om_Name (ns_Meta ns), np_Name np))"
proof -
  let ?k = "(om_Name (ns_Meta ns), np_Name np)"
  let ?x = "\<lparr>np_Meta = named (om_Name (ns_Meta ns)) (np_Name np), np_Spec = zero_NetworkPolicySpec\<rparr>"
  let ?f = "mutatePolicy c ns np" and ?old = "present qview np_Meta ?x s"
  have old: "key_of (np_Meta ?old) = ?k"
    using well_keyedD [OF assms(2), of ?k] by (auto simp: present_def split: option.split)
  have "owner_open (owner_namespace ns) (np_Meta ?old)"
    using assms(5) by (auto simp: present_def policy_open_def owner_open_namespace split: option.splits)
  then obtain m where m: "SetControllerReference c (owner_namespace ns) (np_Meta ?old) = Inr m" "key_of m = ?k"
      "meta_admitted (np_Meta ?old) m" "owner_open (owner_namespace ns) m"
    using owner_answers [of ns "np_Meta ?old"] assms(1) old by (auto simp: ready_namespace_def)
  let ?z = "?old\<lparr>np_Spec := np_Spec np, np_Meta := m\<rparr>"
  have z: "?f ?old = Inr ?z" using m(1) by (simp add: mutatePolicy_def)
  have "networkpolicy_admitted nview s ?old ?z"
    using assms(1,3,4) m(2,3) by (auto simp: networkpolicy_admitted_def ready_namespace_def live_namespace_def key_of_def)
  then obtain y s' where call: "CreateOrUpdate (networkpolicies c) ?x ?f s = (Inr y, s')"
    using np_applier.apply_answers [of ?f ?x s ?z] z m(2) by auto
  have y: "qview s' ?k = Some y" "networkpolicy_kept ?z y" using np_applier.apply_stored [OF call] z by auto
  have refs: "meta_kept m (np_Meta y)" using y(2) by (simp add: networkpolicy_kept_def)
  then have "policy_open c (Some ns) (om_Name (ns_Meta ns)) (Some y)"
    using controlled_by_kept [OF refs] controller_set [OF m(1)] owner_open_kept [OF refs m(4)]
    by (simp add: policy_open_def owner_open_namespace)
  moreover have "applyPolicy c ns np s = (None, s')"
    using assms(5) call by (auto simp: applyPolicy_def writePolicy_def Let_def np_reader.get_eq policy_open_def split: option.split)
  ultimately show ?thesis using y(1) by simp
qed

lemma policies_applied:
  assumes "ready_namespace nview s ns" and "well_keyed np_Meta (qview s)" and "distinct (map np_Name nps)"
    and "\<forall>np \<in> set nps. dns_subdomain (np_Name np) \<and> policyspec_admitted (np_Spec np) \<and>
      policy_open c (Some ns) (om_Name (ns_Meta ns)) (qview s (om_Name (ns_Meta ns), np_Name np))"
  shows "\<exists>s'. applyPolicies c ns nps s = (None, s') \<and>
    (\<forall>np \<in> set nps. policy_open c (Some ns) (om_Name (ns_Meta ns)) (qview s' (om_Name (ns_Meta ns), np_Name np)))"
  using assms
proof (induction nps arbitrary: s)
  case (Cons np nps)
  let ?n = "om_Name (ns_Meta ns)"
  obtain t where step: "applyPolicy c ns np s = (None, t)" "policy_open c (Some ns) ?n (qview t (?n, np_Name np))"
    using policy_applied [OF Cons.prems(1,2), of np] Cons.prems(4) by auto
  note frame = conjunct1 [OF applyPolicy_outcome [OF step(1) Cons.prems(2)]]
  have "nview t = nview s" using policies_apart frameD(2) [OF frame] by blast
  then have ready: "ready_namespace nview t ns" using Cons.prems(1) by (simp add: ready_namespace_def)
  have "qview t (?n, np_Name np') = qview s (?n, np_Name np')" if "np' \<in> set nps" for np'
    by (rule frameD(1) [OF frame]) (use Cons.prems(3) that in \<open>auto simp: image_iff\<close>)
  then obtain s' where rest: "applyPolicies c ns nps t = (None, s')"
      "\<forall>np \<in> set nps. policy_open c (Some ns) ?n (qview s' (?n, np_Name np))"
    using Cons.IH [OF ready applyPolicy_keyed [OF step(1) Cons.prems(2)]] Cons.prems(3,4) by auto
  have "qview s' (?n, np_Name np) = qview t (?n, np_Name np)"
    using applyPolicies_frame [OF rest(1) applyPolicy_keyed [OF step(1) Cons.prems(2)]] Cons.prems(3) by (auto simp: image_iff)
  with step rest show ?case by auto
qed simp

lemma policy_pruned: "\<exists>s'. prunePolicy c ns name s = (None, s')"
proof (cases "qview s (om_Name (ns_Meta ns), name)")
  case (Some y)
  obtain r t where "Delete (networkpolicies c) y s = (r, t)" by fastforce
  with Some np_deleter.delete_answers show ?thesis
    by (cases r) (auto simp: prunePolicy_def np_reader.get_eq split: unit.splits)
qed (simp add: prunePolicy_def np_reader.get_eq)

lemma policies_pruned: "\<exists>s'. prunePolicies c ns wanted names s = (None, s')"
proof (induction names arbitrary: s)
  case (Cons name names)
  obtain t where "prunePolicy c ns name s = (None, t)" using policy_pruned by blast
  with Cons.IH [of s] Cons.IH [of t] show ?case by auto
qed simp

lemma policies_synced:
  assumes "rst_namespace (state_of rr) = Some ns" and "rst_isolation (state_of rr) \<noteq> ''''"
    and "ready_namespace nview s ns" and "well_keyed np_Meta (qview s)" and "label_value (proj_Organization (rr_Instance rr))"
    and "\<forall>np \<in> set (desiredNetworkPolicies (rr_Instance rr) (om_Name (ns_Meta ns)) (rst_isolation (state_of rr))).
      policy_open c (Some ns) (om_Name (ns_Meta ns)) (qview s (om_Name (ns_Meta ns), np_Name np))"
  shows "\<exists>rr' s'. ensureNetworkPolicies c rr s = (None, rr', s') \<and>
    (\<forall>np \<in> set (desiredNetworkPolicies (rr_Instance rr) (om_Name (ns_Meta ns)) (rst_isolation (state_of rr))).
      policy_open c (Some ns) (om_Name (ns_Meta ns)) (qview s' (om_Name (ns_Meta ns), np_Name np)))"
proof -
  let ?n = "om_Name (ns_Meta ns)"
  let ?nps = "desiredNetworkPolicies (rr_Instance rr) ?n (rst_isolation (state_of rr))"
  let ?wanted = "wantedPolicies ?nps (\<lambda>_. False)"
  obtain t where applied: "applyPolicies c ns ?nps s = (None, t)"
      "\<forall>np \<in> set ?nps. policy_open c (Some ns) ?n (qview t (?n, np_Name np))"
    using policies_applied [OF assms(3,4) desired_distinct] desired_admitted [OF _ assms(5)] assms(6) by blast
  have keyed: "well_keyed np_Meta (qview t)" using applyPolicies_frame [OF applied(1) assms(4)] by blast
  obtain s' where pruned: "prunePolicies c ns ?wanted managedNetworkPolicies t = (None, s')"
    using policies_pruned by blast
  have "qview s' (?n, np_Name np) = qview t (?n, np_Name np)" if "np \<in> set ?nps" for np
    using prunePolicies_frame [OF pruned keyed] that by (auto simp: wantedPolicies_iff)
  moreover obtain st rr1 where "stateFor rr = (st, rr1)" by fastforce
  then have "\<exists>rr'. ensureNetworkPolicies c rr s = (None, rr', s')"
    using assms(1,2) applied(1) pruned by (simp add: ensureNetworkPolicies_def syncPolicies_def Let_def)
  ultimately show ?thesis using applied(2) by auto
qed

text \<open>A policy of the old namespace is one of the namespace just written.\<close>

lemma policy_open_kept:
  assumes "policy_open c v name q" and "\<And>w. v = Some w \<Longrightarrow> om_UID (ns_Meta ns) = om_UID (ns_Meta w)"
  shows "policy_open c (Some ns) name q"
proof -
  have "IsControlledBy c m (ns_Meta w) \<Longrightarrow> IsControlledBy c m (ns_Meta ns)" if "v = Some w" for m w
    using controlled_by_uid [OF assms(2) [OF that]] by blast
  then show ?thesis using assms(1) unfolding policy_open_def by metis
qed

lemma namespace_prepared:
  assumes "well_keyed ns_Meta (nview s)"
    and "oview s (cluster_key (proj_Organization (rr_Instance rr))) = Some organization" and "org_Root organization \<noteq> ''''"
    and "label_value (org_Root organization)" and "provisionable c nview bview qview (rr_Instance rr) s"
    and "p = rr_Instance rr" and "name = proj_Name p"
  obtains rr1 rr2 rr3 s' ns where "validateParentOrganization c rr s = (None, rr1, s)"
    and "computeEffectiveIsolation c rr1 s = (None, rr2, s)" and "ensureNamespace c rr2 s = (None, rr3, s')"
    and "rst_namespace (state_of rr3) = Some ns" and "rst_isolation (state_of rr3) = effectiveIsolation c p s"
    and "rr_Instance rr3 = set_Namespace name p" and "om_Name (ns_Meta ns) = name"
    and "nview s' (cluster_key name) = Some ns" and "namespace_open p (Some ns)" and "ready_namespace nview s' ns"
    and "\<forall>w. nview s (cluster_key name) = Some w \<longrightarrow> om_UID (ns_Meta ns) = om_UID (ns_Meta w)"
    and "bview s' = bview s" and "qview s' = qview s"
proof -
  note ok = assms(5) [folded assms(6), unfolded provisionable_def Let_def]
  obtain rr1 where v: "validateParentOrganization c rr s = (None, rr1, s)" "rst_organization (state_of rr1) = Some organization"
    using organization_answers [OF assms(2,3)] by auto
  obtain e rr2 t where "computeEffectiveIsolation c rr1 s = (e, rr2, t)" by (cases "computeEffectiveIsolation c rr1 s")
  note i = this computeEffectiveIsolation_succeeded [OF this]
  have inst: "rr_Instance rr2 = p" using validateParentOrganization_state [OF v(1)] i assms(6) by simp
  have st2: "rst_organization (state_of rr2) = Some organization" "rst_isolation (state_of rr2) = effectiveIsolation c p s"
    using v(2) i validateParentOrganization_state [OF v(1)] assms(6) by simp_all
  obtain rr3 s' ns where n: "ensureNamespace c rr2 s = (None, rr3, s')" "nview s' (cluster_key name) = Some ns"
      "namespace_open p (Some ns)" "\<And>w. nview s (cluster_key name) = Some w \<Longrightarrow> om_UID (ns_Meta ns) = om_UID (ns_Meta w)"
    using namespace_answers [OF st2(1) assms(1) _ assms(4)] ok inst assms(7) by auto
  obtain ns' where st3: "state_of rr3 = (state_of rr2)\<lparr>rst_namespace := Some ns'\<rparr>" "rr_Instance rr3 = set_Namespace name p"
      "nview s' (cluster_key name) = Some ns'" "key_of (ns_Meta ns') = cluster_key name"
    by (rule ensureNamespace_succeeded [OF n(1) assms(1), unfolded inst, folded assms(7)])
  with n(2) have ns: "rst_namespace (state_of rr3) = Some ns" "om_Name (ns_Meta ns) = name" "om_Namespace (ns_Meta ns) = ''''"
    by (simp_all add: key_of_def)
  have "name \<noteq> ''''" using ok assms(7) dns_subdomain_not_empty [OF dns_label_subdomain] by (simp add: project_admissible_def)
  then have ready: "ready_namespace nview s' ns"
    using n(2,3) ns by (simp add: ready_namespace_def namespace_open_def owner_complete_owners)
  have apart: "bview s' = bview s" "qview s' = qview s"
    using namespaces_apart frameD(2) [OF conjunct1 [OF ensureNamespace_frame [OF n(1)]]] by metis+
  show thesis
    by (rule that [of rr1 rr2 rr3 s' ns]) (use v(1) i n ns st2(2) st3(1,2) ready apart in simp_all)
qed

lemma project_answers:
  assumes "well_keyed ns_Meta (nview s)" and "well_keyed rb_Meta (bview s)" and "well_keyed np_Meta (qview s)"
    and "oview s (cluster_key (proj_Organization (rr_Instance rr))) = Some organization" and "org_Root organization \<noteq> ''''"
    and "label_value (org_Root organization)" and "provisionable c nview bview qview (rr_Instance rr) s"
    and "name = proj_Name (rr_Instance rr)"
  shows "\<exists>rr' s' ns. run (reg_Actions (NewOrganizationProjectReconciler c)) rr s = (None, rr', s') \<and>
    nview s' (cluster_key name) = Some ns \<and> namespace_open (rr_Instance rr) (Some ns) \<and>
    (\<forall>role \<in> {''edit'', ''view''}. binding_open role name (bview s' (name, ''tenant-'' @ role))) \<and>
    (\<forall>np \<in> set (desiredNetworkPolicies (rr_Instance rr) name (effectiveIsolation c (rr_Instance rr) s)).
       policy_open c (Some ns) name (qview s' (name, np_Name np)))"
proof -
  let ?p = "rr_Instance rr"
  note ok = assms(7) [unfolded provisionable_def Let_def]
  obtain rr1 rr2 rr3 s3 ns where first: "validateParentOrganization c rr s = (None, rr1, s)"
      "computeEffectiveIsolation c rr1 s = (None, rr2, s)" "ensureNamespace c rr2 s = (None, rr3, s3)"
    and st3: "rst_namespace (state_of rr3) = Some ns" "rst_isolation (state_of rr3) = effectiveIsolation c ?p s"
      "rr_Instance rr3 = set_Namespace name ?p" "om_Name (ns_Meta ns) = name"
    and n: "nview s3 (cluster_key name) = Some ns" "namespace_open ?p (Some ns)" "ready_namespace nview s3 ns"
      "\<forall>w. nview s (cluster_key name) = Some w \<longrightarrow> om_UID (ns_Meta ns) = om_UID (ns_Meta w)"
    and apart: "bview s3 = bview s" "qview s3 = qview s"
    by (rule namespace_prepared [OF assms(1,4-7) refl assms(8)]) blast
  obtain rr4 s4 where r: "ensureRBAC c rr3 s3 = (None, rr4, s4)"
      "\<forall>role \<in> {''edit'', ''view''}. binding_open role name (bview s4 (name, ''tenant-'' @ role))"
    using rbac_answers [OF st3(1) n(3)] assms(2,8) apart(1) ok st3(3,4) by (auto simp: project_admissible_def)
  note rbac = ensureRBAC_frame [OF r(1)]
  have apart4: "nview s4 = nview s3" "qview s4 = qview s" using rbac bindings_apart apart by metis+
  have ready4: "ready_namespace nview s4 ns" using n(3) apart4(1) by (simp add: ready_namespace_def)
  have desired: "desiredNetworkPolicies (rr_Instance rr4) name (rst_isolation (state_of rr4)) =
      desiredNetworkPolicies ?p name (effectiveIsolation c ?p s)"
    using rbac st3 by (simp add: desiredNetworkPolicies_def)
  have policies: "\<forall>np \<in> set (desiredNetworkPolicies ?p name (effectiveIsolation c ?p s)).
      policy_open c (Some ns) name (qview s4 (name, np_Name np))"
    using ok apart4(2) assms(8) by (auto intro: policy_open_kept [OF _ n(4) [rule_format]])
  have st4: "rst_namespace (state_of rr4) = Some ns" "rst_isolation (state_of rr4) \<noteq> ''''"
      "label_value (proj_Organization (rr_Instance rr4))"
    using rbac st3(1-3) ok effectiveIsolation_not_empty [of c ?p s] by (simp_all add: project_admissible_def)
  obtain rr' s' where q: "ensureNetworkPolicies c rr4 s4 = (None, rr', s')"
      "\<forall>np \<in> set (desiredNetworkPolicies ?p name (effectiveIsolation c ?p s)). policy_open c (Some ns) name (qview s' (name, np_Name np))"
    using policies_synced [OF st4(1,2) ready4 _ st4(3)] policies assms(3) unfolding st3(4) desired apart4(2) by blast
  have "nview s' = nview s3" "bview s' = bview s4"
    using ensureNetworkPolicies_keyed [OF q(1)] policies_apart apart4 assms(3) by metis+
  with first n r q show ?thesis
    by (auto simp: NewOrganizationProjectReconciler_def run_Cons run_done)
qed

lemma project_steady:
  assumes "well_keyed ns_Meta (nview s)" and "well_keyed rb_Meta (bview s)" and "well_keyed np_Meta (qview s)"
    and "oview s (cluster_key (proj_Organization (rr_Instance rr))) = Some organization" and "org_Root organization \<noteq> ''''"
    and "label_value (org_Root organization)" and "provisionable c nview bview qview (rr_Instance rr) s"
  obtains rr' s' where "run (reg_Actions (NewOrganizationProjectReconciler c)) rr s = (None, rr', s')"
    and "rr_Instance rr' = set_Namespace (proj_Name (rr_Instance rr)) (rr_Instance rr)"
    and "effectiveIsolation c (rr_Instance rr') s' = effectiveIsolation c (rr_Instance rr) s \<Longrightarrow>
      provisionable c nview bview qview (rr_Instance rr') s'"
proof -
  let ?p = "rr_Instance rr"
  obtain rr' s' ns where run: "run (reg_Actions (NewOrganizationProjectReconciler c)) rr s = (None, rr', s')"
    and open': "nview s' (cluster_key (proj_Name ?p)) = Some ns" "namespace_open ?p (Some ns)"
      "\<forall>role \<in> {''edit'', ''view''}. binding_open role (proj_Name ?p) (bview s' (proj_Name ?p, ''tenant-'' @ role))"
      "\<forall>np \<in> set (desiredNetworkPolicies ?p (proj_Name ?p) (effectiveIsolation c ?p s)).
         policy_open c (Some ns) (proj_Name ?p) (qview s' (proj_Name ?p, np_Name np))"
    using project_answers [OF assms refl] by blast
  have inst: "rr_Instance rr' = set_Namespace (proj_Name ?p) ?p"
    by (rule provisioned [OF run assms(1,3)])
  have "project_admissible (set_Namespace (proj_Name ?p) ?p)" using assms(7) by (simp add: provisionable_def project_admissible_def Let_def)
  moreover have "namespace_open (set_Namespace (proj_Name ?p) ?p) = namespace_open ?p"
    "desiredNetworkPolicies (set_Namespace (proj_Name ?p) ?p) = desiredNetworkPolicies ?p"
    by (intro ext, simp add: namespace_open_def owner_project_def desiredNetworkPolicies_def)+
  ultimately show ?thesis
    using that [OF run inst] open' by (simp add: inst provisionable_def Let_def)
qed

end

interpretation up_project: answering_project_server run_actions server "mem_view cl_organizations"
  "mem_view cl_profiles" "mem_view cl_namespaces" "mem_view cl_rolebindings" "mem_view cl_networkpolicies"
  "mem_rest cl_namespaces_update" "mem_rest cl_rolebindings_update" "mem_rest cl_networkpolicies_update"
  by (rule answering_project_server.intro) (rule mem_project_reconciler.project_reconciler_axioms, simp_all, unfold_locales)


text \<open>A project of the demo whose namespace is free.\<close>

definition liveness_project :: OrganizationProject where
  "liveness_project = demo_project ''genomics-analysis'' ''genomics''
     [\<lparr>pu_Kind = ''ServiceAccount'', pu_Name = ''ci'', pu_Namespace = ''build'', pu_Role = ''edit''\<rparr>] ''''"

lemma demo_provisionable:
  "provisionable server (mem_view cl_namespaces) (mem_view cl_rolebindings) (mem_view cl_networkpolicies)
     liveness_project demo_cluster"
  "well_keyed ns_Meta (mem_view cl_namespaces demo_cluster)" "well_keyed rb_Meta (mem_view cl_rolebindings demo_cluster)"
  "well_keyed np_Meta (mem_view cl_networkpolicies demo_cluster)"
proof -
  have "project_admissible liveness_project" by code_simp
  then show "provisionable server (mem_view cl_namespaces) (mem_view cl_rolebindings) (mem_view cl_networkpolicies)
     liveness_project demo_cluster"
    by (simp add: provisionable_def namespace_open_def binding_open_def policy_open_def mem_view_def)
      (simp add: demo_cluster_def empty_cluster_def)
qed (simp_all add: well_keyed_def mem_view_def demo_cluster_def empty_cluster_def)


section \<open>Properties\<close>

text \<open>C6: Projects get provisioned. The server answers: it does not fail, and it accepts whatever passes
  the validation of \<open>Api_Validation\<close>, with no other admission control. The project's organization is stored with its root, and the
  root and the organization's name are label values; the project's name is that of a namespace, and
  its users can be subjects; its namespace, bindings and policies do not exist yet or are its own. Then
  the reconciliation succeeds and records the namespace; and it leaves a state of which the same can
  be said, so that as long as the organization's default isolation is the same, the next reconciliation
  succeeds too.\<close>

theorem project_succeeds:
  assumes "answering_project_server run c oview pview nview bview qview nrest brest qrest"
    and "well_keyed ns_Meta (nview s)" and "well_keyed rb_Meta (bview s)" and "well_keyed np_Meta (qview s)"
    and "oview s (cluster_key (proj_Organization (rr_Instance rr))) = Some organization" and "org_Root organization \<noteq> ''''"
    and "label_value (org_Root organization)"
    and "provisionable c nview bview qview (rr_Instance rr) s"
  shows "\<exists>rr' s'. run (reg_Actions (NewOrganizationProjectReconciler c)) rr s = (None, rr', s') \<and>
    prst_Namespace (proj_Status (rr_Instance rr')) = proj_Name (rr_Instance rr) \<and>
    (effectiveIsolation c (rr_Instance rr') s' = effectiveIsolation c (rr_Instance rr) s \<longrightarrow>
       provisionable c nview bview qview (rr_Instance rr') s')"
  by (rule answering_project_server.project_steady [OF assms]) auto

theorem project_succeeds_witness:
  "\<exists>rr' s'. run_actions (reg_Actions (NewOrganizationProjectReconciler server))
       \<lparr>rr_Instance = liveness_project, rr_Extensions = None\<rparr> demo_cluster = (None, rr', s') \<and>
     prst_Namespace (proj_Status (rr_Instance rr')) = ''genomics-analysis''"
proof -
  let ?rr = "\<lparr>rr_Instance = liveness_project, rr_Extensions = None\<rparr>"
  let ?organization = "demo_org ''genomics'' ''research-division'' ''research-division''"
  have org: "mem_view cl_organizations demo_cluster (cluster_key (proj_Organization (rr_Instance ?rr))) = Some ?organization"
    by (simp add: keyed_def liveness_project_def demo_project_def)
  have root: "org_Root ?organization \<noteq> ''''" "label_value (org_Root ?organization)" by code_simp+
  have "provisionable server (mem_view cl_namespaces) (mem_view cl_rolebindings) (mem_view cl_networkpolicies) (rr_Instance ?rr) demo_cluster"
    using demo_provisionable(1) by simp
  from project_succeeds [OF up_project.answering_project_server_axioms demo_provisionable(2-4) org root this] show ?thesis
    by (auto simp: liveness_project_def demo_project_def)
qed

end
