(* ===== verification/Onboarding.thy ===== *)
theory Onboarding
  imports Organization_Controller Profile_Webhook Schema Project_Liveness
begin

text \<open>
  Organizations become ready, and their projects after them. On a server that answers, the
  reconciliation of an organization succeeds exactly when its lineage is stored and no longer than
  the depth limit; the root it records is what the project controller waits for, and what ends up
  on the namespaces of the organization's projects.
\<close>

section \<open>Organizations\<close>

text \<open>
  What the API server runs on a new profile: validation of its name and metadata, the schema of its
  kind, and the operator's own webhook, for the user the request \<open>req\<close> comes from.
\<close>

definition profile_admitted :: "'s authorizer \<Rightarrow> AdmissionRequest \<Rightarrow> 's \<Rightarrow> OrganizationProfile \<Rightarrow> bool" where
  "profile_admitted a req s p \<longleftrightarrow> dns_subdomain (prof_Name p) \<and> meta_admitted (named '''' (prof_Name p)) (prof_Meta p) \<and>
     OrganizationProfileSpec_valid (prof_Spec p) \<and> OrganizationProfile_ValidateCreate a (Inr req) p s = None"

text \<open>An organization whose name can be a profile's name and a label value, and that has a UID.\<close>

definition organization_admissible :: "Organization \<Rightarrow> bool" where
  "organization_admissible organization \<longleftrightarrow> dns_subdomain (org_Name organization) \<and> label_value (org_Name organization) \<and>
     om_UID (org_Meta organization) \<noteq> '''' \<and> om_Namespace (org_Meta organization) = ''''"

lemma profile_labels: "qualified_name organizationLabel" "qualified_name organizationRootLabel"
  by code_simp+

text \<open>The root of a lineage is the organization itself or stored.\<close>

lemma lineage_of_last:
  assumes "lineage_of V x ns" and "well_keyed org_Meta V"
  shows "last ns = org_Name x \<or> (\<exists>k y. V k = Some y \<and> org_Name y = last ns)"
proof (cases "org_Parent x = ''''")
  case False
  then obtain ms where ms: "ns = org_Name x # ms" "lineage V (org_Parent x) ms" using assms(1) by (auto simp: lineage_of_def)
  obtain y where y: "V (cluster_key (last ms)) = Some y" using lineage_last_root [OF ms(2)] by blast
  have "org_Name y = last ms" using well_keyedD [OF assms(2) y] by (simp add: key_of_def)
  with ms y show ?thesis by auto
qed (use assms(1) in \<open>simp add: lineage_of_def\<close>)

text \<open>The controller's requests come from a service account of the operator's namespace.\<close>

locale answering_organization_server =
  reliable_organization_reconciler run c oview pview rest +
  accepting_owner_references "SetControllerReference c" "IsControlledBy c" +
  profile_creator: reliable_creator pview rest prof_Meta profile_kept "Create (profiles c)" "profile_admitted a req"
  for run :: "(Organization, 's) action list \<Rightarrow> (Organization, 's) action" and c oview pview and rest :: "'s \<Rightarrow> 'r"
    and a :: "'s authorizer" and req :: AdmissionRequest +
  assumes operator_account: "''system:serviceaccounts:'' @ az_operatorNamespace a \<in> set (ui_Groups (ar_UserInfo req))"
begin

lemma operator_trusted: "isTrusted a (ar_UserInfo req)"
  using operator_account unfolding isTrusted_iff operatorSAGroup_def by blast

text \<open>The default profile passes, the operator's webhook included.\<close>

lemma defaultProfile_admitted:
  assumes "organization_admissible organization" and "label_value (org_Root organization)"
    and "SetControllerReference c (owner_organization organization) (prof_Meta (defaultProfile organization)) = Inr m"
  shows "profile_admitted a req s ((defaultProfile organization)\<lparr>prof_Meta := m\<rparr>)"
proof -
  let ?p = "defaultProfile organization" and ?name = "org_Name organization"
  have "owner_complete (owner_organization organization)"
    using assms(1) dns_subdomain_not_empty by (simp add: owner_complete_owners organization_admissible_def)
  moreover have "owner_open (owner_organization organization) (prof_Meta ?p)" by (simp add: defaultProfile_def)
  moreover have "labels_admitted Map.empty (om_Labels (prof_Meta ?p))"
    using assms(1,2) profile_labels by (auto simp: defaultProfile_def organization_admissible_def labels_admitted_def)
  ultimately have "meta_admitted (named '''' ?name) m"
    using controller_set_admitted [OF assms(3), of "named '''' ?name"] by (simp add: defaultProfile_def)
  moreover have "OrganizationProfile_ValidateCreate a (Inr req) (?p\<lparr>prof_Meta := m\<rparr>) s = None"
    using controller_set_fields(1) [OF assms(3)] operator_trusted
    by (simp add: OrganizationProfile_ValidateCreate_def requireAncestorAdmin_def userFromContext_def defaultProfile_def)
  moreover have "OrganizationProfileSpec_valid (prof_Spec ?p)"
    using assms(1) dns_subdomain_not_empty by (simp add: defaultProfile_valid organization_admissible_def)
  ultimately show ?thesis
    using assms(1) controller_set_fields(1) [OF assms(3)] by (simp add: profile_admitted_def organization_admissible_def defaultProfile_def)
qed

lemma ensureProfile_answers:
  assumes "organization_admissible organization" and "label_value (org_Root organization)"
  shows "\<exists>s'. ensureProfile c organization s = (None, organization, s')"
proof (cases "pview s (cluster_key (org_Name organization))")
  case None
  let ?profile = "defaultProfile organization"
  have "owner_open (owner_organization organization) (prof_Meta ?profile)" by (simp add: defaultProfile_def)
  then obtain m where m: "SetControllerReference c (owner_organization organization) (prof_Meta ?profile) = Inr m"
    using controller_accepted [of "owner_organization organization" "prof_Meta ?profile"] owner_open_controller assms(1)
    by (auto simp: organization_admissible_def)
  have "key_of (prof_Meta (?profile\<lparr>prof_Meta := m\<rparr>)) = cluster_key (org_Name organization)"
    using controller_set_fields(8) [OF m] by (simp add: defaultProfile_def key_of_def)
  then obtain y s' where "Create (profiles c) (?profile\<lparr>prof_Meta := m\<rparr>) s = (Inr y, s')"
    using profile_creator.create_answers [of s "?profile\<lparr>prof_Meta := m\<rparr>"] defaultProfile_admitted [OF assms m] None by auto
  with None m show ?thesis by (simp add: ensureProfile_def reliable_profiles.get_eq)
next
  case (Some p)
  then show ?thesis by (simp add: ensureProfile_def reliable_profiles.get_eq)
qed

lemma organization_answers:
  assumes "well_keyed org_Meta (oview s)" and "organization_admissible organization"
    and "lineage_of (oview s) organization ns" and "length ns \<le> maxHierarchyDepth" and "label_value (last ns)"
  shows "\<exists>s'. run (reg_Actions (NewOrganizationReconciler c)) organization s = (None, set_Root (last ns) organization, s')"
proof -
  have "computeRootWalk c organization s = Inr (last ns)"
    unfolding computeRootWalk_def using assms(1,3,4) by (rule rootWalk_complete)
  then have "computeRoot c organization s = (None, set_Root (last ns) organization, s)"
    by (simp add: computeRoot_def set_Root_def)
  moreover have "organization_admissible (set_Root (last ns) organization)" "org_Root (set_Root (last ns) organization) = last ns"
    using assms(2) by (simp_all add: organization_admissible_def set_Root_def)
  then obtain s' where "ensureProfile c (set_Root (last ns) organization) s = (None, set_Root (last ns) organization, s')"
    using ensureProfile_answers [of "set_Root (last ns) organization"] assms(5) by auto
  ultimately show ?thesis by (auto simp: NewOrganizationReconciler_def run_Cons run_done)
qed

lemma organization_answers_iff:
  assumes "well_keyed org_Meta (oview s)" and "organization_admissible organization"
    and "\<And>k x. oview s k = Some x \<Longrightarrow> label_value (org_Name x)"
  shows "(\<exists>s'. run (reg_Actions (NewOrganizationReconciler c)) organization s = (None, organization', s')) \<longleftrightarrow>
    (\<exists>ns. lineage_of (oview s) organization ns \<and> length ns \<le> maxHierarchyDepth \<and> organization' = set_Root (last ns) organization)"
proof
  assume "\<exists>s'. run (reg_Actions (NewOrganizationReconciler c)) organization s = (None, organization', s')"
  then obtain s' where "run (reg_Actions (NewOrganizationReconciler c)) organization s = (None, organization', s')" by blast
  from this assms(1) show "\<exists>ns. lineage_of (oview s) organization ns \<and> length ns \<le> maxHierarchyDepth \<and>
      organization' = set_Root (last ns) organization"
    by (rule reconciled_organization) blast
next
  have "label_value (last ns)" if "lineage_of (oview s) organization ns" for ns
    using lineage_of_last [OF that assms(1)] assms(2,3) unfolding organization_admissible_def by metis
  then show "\<exists>ns. lineage_of (oview s) organization ns \<and> length ns \<le> maxHierarchyDepth \<and> organization' = set_Root (last ns) organization \<Longrightarrow>
      \<exists>s'. run (reg_Actions (NewOrganizationReconciler c)) organization s = (None, organization', s')"
    using organization_answers [OF assms(1,2)] by blast
qed

end

interpretation up_organization_server: answering_organization_server run_actions server
  "mem_view cl_organizations" "mem_view cl_profiles" "mem_rest cl_profiles_update" demo_authz demo_operator
  by (rule answering_organization_server.intro;
      (rule up_organization_reconciler.reliable_organization_reconciler_axioms)?; simp?; unfold_locales?)
    (simp add: demo_authz_eq demo_operator_def)


lemma demo_organization_names:
  assumes "mem_view cl_organizations demo_cluster k = Some x"
  shows "label_value (org_Name x)"
proof -
  have "org_Name x \<in> set [''research-division'', ''genomics'', ''proteomics'', ''depth-04'']"
    using assms by (auto simp: keyed_def demo_org_def split: if_splits)
  moreover have "list_all label_value [''research-division'', ''genomics'', ''proteomics'', ''depth-04'']" by code_simp
  ultimately show ?thesis by (simp only: list_all_iff)
qed


section \<open>Projects after their organization\<close>

locale onboarding =
  org: answering_organization_server orun c oview pview prest a req +
  proj: answering_project_server prun c oview pview nview bview qview nrest brest qrest
  for orun :: "(Organization, 's) action list \<Rightarrow> (Organization, 's) action"
    and prun :: "(ReconciliationRequest, 's) action list \<Rightarrow> (ReconciliationRequest, 's) action"
    and c oview pview and prest :: "'s \<Rightarrow> 'p" and nview bview qview
    and nrest :: "'s \<Rightarrow> 'n" and brest :: "'s \<Rightarrow> 'b" and qrest :: "'s \<Rightarrow> 'q" and a :: "'s authorizer" and req
begin

lemma project_follows:
  assumes "label_value (last ns)" and "last ns \<noteq> ''''"
    and "oview t (cluster_key (proj_Organization (rr_Instance rr))) = Some (set_Root (last ns) organization)"
    and "well_keyed ns_Meta (nview t)" and "well_keyed rb_Meta (bview t)" and "well_keyed np_Meta (qview t)"
    and "provisionable c nview bview qview (rr_Instance rr) t"
  shows "\<exists>rr' u namespace. prun (reg_Actions (NewOrganizationProjectReconciler c)) rr t = (None, rr', u) \<and>
    nview u (cluster_key (proj_Name (rr_Instance rr))) = Some namespace \<and>
    IsControlledBy c (ns_Meta namespace) (proj_Meta (rr_Instance rr)) \<and>
    om_Labels (ns_Meta namespace) labelOrganizationRoot = Some (last ns)"
proof -
  obtain rr' u where run: "prun (reg_Actions (NewOrganizationProjectReconciler c)) rr t = (None, rr', u)"
    by (rule proj.project_steady [OF assms(4-6,3) _ _ assms(7)]) (use assms(1,2) in auto)
  show ?thesis
    by (rule proj.provisioned [OF run assms(4,6)]) (use run assms(3) in auto)
qed

end

interpretation up_onboarding: onboarding run_actions run_actions server "mem_view cl_organizations" "mem_view cl_profiles"
  "mem_rest cl_profiles_update" "mem_view cl_namespaces" "mem_view cl_rolebindings" "mem_view cl_networkpolicies"
  "mem_rest cl_namespaces_update" "mem_rest cl_rolebindings_update" "mem_rest cl_networkpolicies_update" demo_authz demo_operator
  by (rule onboarding.intro up_organization_server.answering_organization_server_axioms up_project.answering_project_server_axioms)+


section \<open>Properties\<close>

text \<open>C12: Which organizations become ready. The server answers: it does not fail, and it stores a new
  profile that passes validation, the schema and the operator's webhook, which sees the request as
  coming from the operator's service account. The names of the organization and of those stored are
  label values. Then the reconciliation of the organization succeeds if and only if the lineage of the
  organization is stored and has at most three members; and the status gets the last name of the
  lineage as root.\<close>

theorem organization_succeeds:
  assumes "answering_organization_server run c oview pview rest a req" and "well_keyed org_Meta (oview s)"
    and "organization_admissible organization" and "\<And>k x. oview s k = Some x \<Longrightarrow> label_value (org_Name x)"
  shows "(\<exists>s'. run (reg_Actions (NewOrganizationReconciler c)) organization s = (None, organization', s')) \<longleftrightarrow>
    (\<exists>ns. lineage_of (oview s) organization ns \<and> length ns \<le> 3 \<and> organization' = set_Root (last ns) organization)"
  using answering_organization_server.organization_answers_iff [OF assms] by (simp add: maxHierarchyDepth_def)

theorem organization_succeeds_witness:
  "\<exists>s'. run_actions (reg_Actions (NewOrganizationReconciler server)) (demo_org ''lipids'' ''genomics'' '''') demo_cluster =
     (None, demo_org ''lipids'' ''genomics'' ''research-division'', s')"
proof (rule organization_succeeds [OF up_organization_server.answering_organization_server_axioms demo_well_keyed, THEN iffD2])
  let ?ns = "[''lipids'', ''genomics'', ''research-division'']"
  have "lineage_of (mem_view cl_organizations demo_cluster) (demo_org ''lipids'' ''genomics'' '''') ?ns"
    using demo_lineages(2) by (simp add: lineage_of_def)
  moreover have "demo_org ''lipids'' ''genomics'' ''research-division'' = set_Root (last ?ns) (demo_org ''lipids'' ''genomics'' '''')"
    by (simp add: set_Root_def demo_org_def)
  moreover have "length ?ns \<le> 3" by simp
  ultimately show "\<exists>ns. lineage_of (mem_view cl_organizations demo_cluster) (demo_org ''lipids'' ''genomics'' '''') ns \<and> length ns \<le> 3 \<and>
      demo_org ''lipids'' ''genomics'' ''research-division'' = set_Root (last ns) (demo_org ''lipids'' ''genomics'' '''')"
    by blast
  show "organization_admissible (demo_org ''lipids'' ''genomics'' '''')" by code_simp
  show "label_value (org_Name x)" if "mem_view cl_organizations demo_cluster k = Some x" for k x
    using that by (rule demo_organization_names)
qed

text \<open>C5: From an organization to the namespaces of its projects, on a server that does not fail and
  stores what passes its validation and the operator's webhook for profiles (no other admission control
  refuses a write). An organization whose
  name, and that of its root, are label values, and whose lineage is stored and within the depth limit,
  reconciles; and in whatever later state the reconciled organization is stored, every project of it
  that can be provisioned (its name is that of a namespace, its users can be subjects, its namespace,
  bindings and policies are free or its own) reconciles too, and its namespace is the project's and
  carries the root of the organization.\<close>

theorem tenancy_bootstraps:
  assumes "onboarding orun prun c oview pview prest nview bview qview nrest brest qrest a req"
    and "well_keyed org_Meta (oview s)" and "organization_admissible organization"
    and "lineage_of (oview s) organization ns" and "length ns \<le> 3" and "last ns \<noteq> ''''" and "label_value (last ns)"
  shows "(\<exists>s'. orun (reg_Actions (NewOrganizationReconciler c)) organization s = (None, set_Root (last ns) organization, s')) \<and>
    (\<forall>t rr. oview t (cluster_key (proj_Organization (rr_Instance rr))) = Some (set_Root (last ns) organization) \<and>
       well_keyed ns_Meta (nview t) \<and> well_keyed rb_Meta (bview t) \<and> well_keyed np_Meta (qview t) \<and>
       provisionable c nview bview qview (rr_Instance rr) t \<longrightarrow>
       (\<exists>rr' u namespace. prun (reg_Actions (NewOrganizationProjectReconciler c)) rr t = (None, rr', u) \<and>
          nview u (cluster_key (proj_Name (rr_Instance rr))) = Some namespace \<and>
          IsControlledBy c (ns_Meta namespace) (proj_Meta (rr_Instance rr)) \<and>
          om_Labels (ns_Meta namespace) labelOrganizationRoot = Some (last ns)))"
proof -
  have "\<exists>s'. orun (reg_Actions (NewOrganizationReconciler c)) organization s = (None, set_Root (last ns) organization, s')"
    using answering_organization_server.organization_answers [OF onboarding.axioms(1) [OF assms(1)] assms(2-4) _ assms(7)] assms(5)
    by (simp add: maxHierarchyDepth_def)
  then show ?thesis using onboarding.project_follows [OF assms(1,7,6)] by blast
qed

theorem tenancy_bootstraps_witness:
  "\<exists>s' rr' u namespace. run_actions (reg_Actions (NewOrganizationReconciler server))
       (demo_org ''genomics'' ''research-division'' '''') demo_cluster =
       (None, demo_org ''genomics'' ''research-division'' ''research-division'', s') \<and>
     run_actions (reg_Actions (NewOrganizationProjectReconciler server))
       \<lparr>rr_Instance = liveness_project, rr_Extensions = None\<rparr> demo_cluster = (None, rr', u) \<and>
     mem_view cl_namespaces u (cluster_key ''genomics-analysis'') = Some namespace \<and>
     om_Labels (ns_Meta namespace) labelOrganizationRoot = Some ''research-division''"
proof -
  let ?organization = "demo_org ''genomics'' ''research-division'' ''''"
  let ?rr = "\<lparr>rr_Instance = liveness_project, rr_Extensions = None\<rparr>"
  have line: "lineage_of (mem_view cl_organizations demo_cluster) ?organization [''genomics'', ''research-division'']"
    using demo_lineages(1) by (simp add: lineage_of_def)
  have root: "set_Root ''research-division'' ?organization = demo_org ''genomics'' ''research-division'' ''research-division''"
    by (simp add: set_Root_def demo_org_def)
  have stored: "mem_view cl_organizations demo_cluster (cluster_key ''genomics'') =
      Some (demo_org ''genomics'' ''research-division'' ''research-division'')"
    by (simp add: keyed_def)
  have "organization_admissible ?organization" "label_value ''research-division''" by code_simp+
  note both = tenancy_bootstraps [OF up_onboarding.onboarding_axioms demo_well_keyed this(1) line _ _]
  have names: "proj_Name liveness_project = ''genomics-analysis''" "proj_Organization liveness_project = ''genomics''"
    by (simp_all add: liveness_project_def demo_project_def)
  have "\<exists>s'. run_actions (reg_Actions (NewOrganizationReconciler server)) ?organization demo_cluster =
      (None, demo_org ''genomics'' ''research-division'' ''research-division'', s')"
    using both \<open>label_value ''research-division''\<close> by (simp add: root del: demo_views)
  moreover have "\<exists>rr' u namespace. run_actions (reg_Actions (NewOrganizationProjectReconciler server)) ?rr demo_cluster = (None, rr', u) \<and>
      mem_view cl_namespaces u (cluster_key ''genomics-analysis'') = Some namespace \<and>
      om_Labels (ns_Meta namespace) labelOrganizationRoot = Some ''research-division''"
    using both [THEN conjunct2, rule_format, of demo_cluster ?rr] \<open>label_value ''research-division''\<close> stored root names demo_provisionable
    by (auto simp del: demo_views)
  ultimately show ?thesis by blast
qed

end
