(* ===== verification/Command_Line.thy ===== *)
theory Command_Line
  imports Prelude
begin

text \<open>
  The first half of \<open>cmd/main.go\<close>: the command-line flags, as Go's \<open>flag\<close> package parses
  them, and the options of the webhook server, the metrics server and the manager that are made from
  them. The flags other packages register on the same command line (\<open>zap.Options.BindFlags\<close>,
  controller-runtime's \<open>kubeconfig\<close>) are a parameter: for each name whether the flag takes a
  value, and which values it accepts.
\<close>

section \<open>Flags\<close>

record flags =
  fl_metricsAddr :: string
  fl_metricsCertPath :: string
  fl_metricsCertName :: string
  fl_metricsCertKey :: string
  fl_webhookCertPath :: string
  fl_webhookCertName :: string
  fl_webhookCertKey :: string
  fl_enableLeaderElection :: bool
  fl_probeAddr :: string
  fl_secureMetrics :: bool
  fl_enableHTTP2 :: bool

definition default_flags :: flags where
  "default_flags = \<lparr>fl_metricsAddr = ''0'', fl_metricsCertPath = '''', fl_metricsCertName = ''tls.crt'',
     fl_metricsCertKey = ''tls.key'', fl_webhookCertPath = '''', fl_webhookCertName = ''tls.crt'',
     fl_webhookCertKey = ''tls.key'', fl_enableLeaderElection = False, fl_probeAddr = '':8081'',
     fl_secureMetrics = True, fl_enableHTTP2 = False\<rparr>"

text \<open>\<open>strconv.ParseBool\<close>.\<close>

definition parseBool :: "string \<Rightarrow> bool option" where
  "parseBool v = (if v \<in> {''1'', ''t'', ''T'', ''TRUE'', ''true'', ''True''} then Some True
     else if v \<in> {''0'', ''f'', ''F'', ''FALSE'', ''false'', ''False''} then Some False else None)"

datatype flag_kind = BoolFlag | ValueFlag

type_synonym foreign_flags = "string \<Rightarrow> (flag_kind \<times> (string \<Rightarrow> bool)) option"

text \<open>The flags \<open>main\<close> declares, and what setting one does; \<open>None\<close> is a value it refuses.\<close>

definition boolFlags :: "string list" where
  "boolFlags = [''leader-elect'', ''metrics-secure'', ''enable-http2'']"

definition valueFlags :: "string list" where
  "valueFlags = [''metrics-bind-address'', ''health-probe-bind-address'', ''webhook-cert-path'', ''webhook-cert-name'',
     ''webhook-cert-key'', ''metrics-cert-path'', ''metrics-cert-name'', ''metrics-cert-key'']"

definition setValueFlag :: "string \<Rightarrow> string \<Rightarrow> flags \<Rightarrow> flags" where
  "setValueFlag name v fl =
     (if name = ''metrics-bind-address'' then fl\<lparr>fl_metricsAddr := v\<rparr>
      else if name = ''health-probe-bind-address'' then fl\<lparr>fl_probeAddr := v\<rparr>
      else if name = ''webhook-cert-path'' then fl\<lparr>fl_webhookCertPath := v\<rparr>
      else if name = ''webhook-cert-name'' then fl\<lparr>fl_webhookCertName := v\<rparr>
      else if name = ''webhook-cert-key'' then fl\<lparr>fl_webhookCertKey := v\<rparr>
      else if name = ''metrics-cert-path'' then fl\<lparr>fl_metricsCertPath := v\<rparr>
      else if name = ''metrics-cert-name'' then fl\<lparr>fl_metricsCertName := v\<rparr>
      else if name = ''metrics-cert-key'' then fl\<lparr>fl_metricsCertKey := v\<rparr>
      else fl)"

definition setBoolFlag :: "string \<Rightarrow> bool \<Rightarrow> flags \<Rightarrow> flags" where
  "setBoolFlag name b fl =
     (if name = ''leader-elect'' then fl\<lparr>fl_enableLeaderElection := b\<rparr>
      else if name = ''metrics-secure'' then fl\<lparr>fl_secureMetrics := b\<rparr>
      else if name = ''enable-http2'' then fl\<lparr>fl_enableHTTP2 := b\<rparr>
      else fl)"

definition flag_kind_of :: "foreign_flags \<Rightarrow> string \<Rightarrow> flag_kind option" where
  "flag_kind_of lib name =
     (if name \<in> set boolFlags then Some BoolFlag else if name \<in> set valueFlags then Some ValueFlag
      else map_option fst (lib name))"

definition setFlag :: "foreign_flags \<Rightarrow> string \<Rightarrow> string \<Rightarrow> flags \<Rightarrow> flags option" where
  "setFlag lib name v fl =
     (if name \<in> set boolFlags then map_option (\<lambda>b. setBoolFlag name b fl) (parseBool v)
      else if name \<in> set valueFlags then Some (setValueFlag name v fl)
      else (case lib name of Some (_, accepts) \<Rightarrow> if accepts v then Some fl else None | None \<Rightarrow> None))"

text \<open>
  \<open>flag.Parse\<close> on \<open>flag.CommandLine\<close>, which ends the program on an error: with status 0
  when help is asked for, with status 2 otherwise. Parsing stops at the first argument that is not a
  flag and after \<open>--\<close>.
\<close>

definition flag_body :: "string \<Rightarrow> string" where
  "flag_body arg = (if arg ! 1 = CHR ''-'' then drop 2 arg else drop 1 arg)"

definition flag_name :: "string \<Rightarrow> string" where
  "flag_name body = takeWhile (\<lambda>ch. ch \<noteq> CHR ''='') body"

definition flag_value :: "string \<Rightarrow> string option" where
  "flag_value body = (if flag_name body = body then None else Some (drop (Suc (length (flag_name body))) body))"

definition is_flag :: "string \<Rightarrow> bool" where
  "is_flag arg \<longleftrightarrow> length arg \<ge> 2 \<and> arg ! 0 = CHR ''-'' \<and> arg \<noteq> ''--''"

fun parseFlags :: "foreign_flags \<Rightarrow> string list \<Rightarrow> flags \<Rightarrow> nat + flags" where
  "parseFlags lib [] fl = Inr fl"
| "parseFlags lib (arg # args) fl =
     (if \<not> is_flag arg then Inr fl
      else (let body = flag_body arg; name = flag_name body in
        if body = [] \<or> body ! 0 = CHR ''-'' \<or> body ! 0 = CHR ''='' then Inl 2
        else (case flag_kind_of lib name of
            None \<Rightarrow> Inl (if name = ''help'' \<or> name = ''h'' then 0 else 2)
          | Some BoolFlag \<Rightarrow>
              (case setFlag lib name (case flag_value body of Some v \<Rightarrow> v | None \<Rightarrow> ''true'') fl of
                 None \<Rightarrow> Inl 2 | Some fl' \<Rightarrow> parseFlags lib args fl')
          | Some ValueFlag \<Rightarrow>
              (case flag_value body of
                 Some v \<Rightarrow> (case setFlag lib name v fl of None \<Rightarrow> Inl 2 | Some fl' \<Rightarrow> parseFlags lib args fl')
               | None \<Rightarrow> (case args of [] \<Rightarrow> Inl 2
                   | v # args' \<Rightarrow> (case setFlag lib name v fl of None \<Rightarrow> Inl 2 | Some fl' \<Rightarrow> parseFlags lib args' fl'))))))"


section \<open>Server options\<close>

text \<open>A TLS option edits a \<open>tls.Config\<close>, of which the sources set the application protocols.\<close>

record tls_Config =
  NextProtos :: "string list"

type_synonym tls_option = "tls_Config \<Rightarrow> tls_Config"

definition disableHTTP2 :: tls_option where
  "disableHTTP2 c = c\<lparr>NextProtos := [''http/1.1'']\<rparr>"

definition tlsOpts :: "flags \<Rightarrow> tls_option list" where
  "tlsOpts fl = (if \<not> fl_enableHTTP2 fl then [disableHTTP2] else [])"

record webhook_Options =
  wo_TLSOpts :: "tls_option list"
  wo_CertDir :: string
  wo_CertName :: string
  wo_KeyName :: string

definition webhookServerOptions :: "flags \<Rightarrow> webhook_Options" where
  "webhookServerOptions fl =
     (let opts = \<lparr>wo_TLSOpts = tlsOpts fl, wo_CertDir = '''', wo_CertName = '''', wo_KeyName = ''''\<rparr> in
      if length (fl_webhookCertPath fl) > 0
      then opts\<lparr>wo_CertDir := fl_webhookCertPath fl, wo_CertName := fl_webhookCertName fl, wo_KeyName := fl_webhookCertKey fl\<rparr>
      else opts)"

text \<open>The filter that demands authentication and authorization, or none.\<close>

datatype filter_provider = NoFilter | WithAuthenticationAndAuthorization

record metrics_Options =
  mto_BindAddress :: string
  mto_SecureServing :: bool
  mto_TLSOpts :: "tls_option list"
  mto_FilterProvider :: filter_provider
  mto_CertDir :: string
  mto_CertName :: string
  mto_KeyName :: string

definition metricsServerOptions :: "flags \<Rightarrow> metrics_Options" where
  "metricsServerOptions fl =
     (let opts = \<lparr>mto_BindAddress = fl_metricsAddr fl, mto_SecureServing = fl_secureMetrics fl, mto_TLSOpts = tlsOpts fl,
            mto_FilterProvider = NoFilter, mto_CertDir = '''', mto_CertName = '''', mto_KeyName = ''''\<rparr>;
          opts = (if fl_secureMetrics fl then opts\<lparr>mto_FilterProvider := WithAuthenticationAndAuthorization\<rparr> else opts) in
      if length (fl_metricsCertPath fl) > 0
      then opts\<lparr>mto_CertDir := fl_metricsCertPath fl, mto_CertName := fl_metricsCertName fl, mto_KeyName := fl_metricsCertKey fl\<rparr>
      else opts)"

record ctrl_Options =
  co_Metrics :: metrics_Options
  co_WebhookServer :: webhook_Options
  co_HealthProbeBindAddress :: string
  co_LeaderElection :: bool
  co_LeaderElectionID :: string

definition managerOptions :: "flags \<Rightarrow> ctrl_Options" where
  "managerOptions fl = \<lparr>co_Metrics = metricsServerOptions fl, co_WebhookServer = webhookServerOptions fl,
     co_HealthProbeBindAddress = fl_probeAddr fl, co_LeaderElection = fl_enableLeaderElection fl,
     co_LeaderElectionID = ''07b03902.opendatahub.io''\<rparr>"

text \<open>What a server's TLS configuration becomes: the options run in order.\<close>

definition configured_tls :: "tls_option list \<Rightarrow> tls_Config \<Rightarrow> tls_Config" where
  "configured_tls opts c = fold (\<lambda>opt c. opt c) opts c"


section \<open>What the command line decides\<close>

text \<open>An argument that sets the named flag, with one dash or two, with or without a value.\<close>

definition names_flag :: "string \<Rightarrow> string \<Rightarrow> bool" where
  "names_flag name arg \<longleftrightarrow> is_flag arg \<and> flag_name (flag_body arg) = name"

lemma setValueFlag_bools [simp]:
  "fl_enableHTTP2 (setValueFlag name v fl) = fl_enableHTTP2 fl" "fl_secureMetrics (setValueFlag name v fl) = fl_secureMetrics fl"
  by (cases fl, simp only: setValueFlag_def flags.simps if_distrib [of fl_enableHTTP2] if_distrib [of fl_secureMetrics] if_cancel)+

lemma setBoolFlag_bools:
  "name \<noteq> ''enable-http2'' \<Longrightarrow> fl_enableHTTP2 (setBoolFlag name b fl) = fl_enableHTTP2 fl"
  "name \<noteq> ''metrics-secure'' \<Longrightarrow> fl_secureMetrics (setBoolFlag name b fl) = fl_secureMetrics fl"
  by (simp_all add: setBoolFlag_def)

lemma setFlag_bools:
  assumes "setFlag lib name v fl = Some fl'"
  shows "name \<noteq> ''enable-http2'' \<Longrightarrow> fl_enableHTTP2 fl' = fl_enableHTTP2 fl"
    and "name \<noteq> ''metrics-secure'' \<Longrightarrow> fl_secureMetrics fl' = fl_secureMetrics fl"
  using assms by (auto simp: setFlag_def setBoolFlag_bools split: if_splits option.splits)

text \<open>One flag that is set, and the arguments left after it.\<close>

lemma parseFlags_step:
  assumes "parseFlags lib (arg # args) fl = Inr fl'" and "is_flag arg"
  obtains v fl1 rest where "setFlag lib (flag_name (flag_body arg)) v fl = Some fl1"
    and "rest = args \<or> (\<exists>w. args = w # rest)" and "parseFlags lib rest fl1 = Inr fl'"
proof -
  let ?body = "flag_body arg" and ?name = "flag_name (flag_body arg)"
  note run = assms(1) [unfolded parseFlags.simps Let_def if_not_P [OF not_not [THEN iffD2, OF assms(2)]]]
  then have body: "\<not> (?body = [] \<or> ?body ! 0 = CHR ''-'' \<or> ?body ! 0 = CHR ''='')" by (auto split: if_splits)
  note run' = run [unfolded if_not_P [OF body]]
  show thesis
  proof (cases "flag_kind_of lib ?name")
    case None
    with run' show thesis by simp
  next
    case (Some kind)
    with run' show thesis
      by (cases kind; cases "flag_value ?body"; cases args) (auto intro: that split: option.splits)
  qed
qed

lemma parseFlags_unnamed:
  assumes "parseFlags lib args fl = Inr fl'"
  shows "((\<forall>arg \<in> set args. \<not> names_flag ''enable-http2'' arg) \<longrightarrow> fl_enableHTTP2 fl' = fl_enableHTTP2 fl) \<and>
    ((\<forall>arg \<in> set args. \<not> names_flag ''metrics-secure'' arg) \<longrightarrow> fl_secureMetrics fl' = fl_secureMetrics fl)"
  using assms
proof (induction "length args" arbitrary: args fl rule: less_induct)
  case less
  show ?case
  proof (cases args)
    case Nil
    with less.prems show ?thesis by simp
  next
    case (Cons arg args')
    show ?thesis
    proof (cases "is_flag arg")
      case True
      obtain v fl1 rest where step: "setFlag lib (flag_name (flag_body arg)) v fl = Some fl1"
          "rest = args' \<or> (\<exists>w. args' = w # rest)" "parseFlags lib rest fl1 = Inr fl'"
        by (rule parseFlags_step [OF less.prems [unfolded Cons] True])
      then have "length rest < length args" "set rest \<subseteq> set args" using Cons by auto
      with less.hyps [OF this(1) step(3)] setFlag_bools [OF step(1)] True Cons show ?thesis
        by (auto simp: names_flag_def)
    qed (use Cons less.prems in simp)
  qed
qed

text \<open>Parsing ends the program with status 0 only where help is asked for.\<close>

lemma parseFlags_help:
  assumes "parseFlags lib args fl = Inl 0"
  shows "\<exists>arg \<in> set args. names_flag ''h'' arg \<or> names_flag ''help'' arg"
  using assms
proof (induction "length args" arbitrary: args fl rule: less_induct)
  case less
  then obtain arg rest where args: "args = arg # rest" and flag: "is_flag arg"
    by (cases args) (auto split: if_splits)
  let ?body = "flag_body arg"
  note run = less.prems [unfolded args parseFlags.simps Let_def if_not_P [OF not_not [THEN iffD2, OF flag]]]
  show ?case
  proof (cases "flag_kind_of lib (flag_name ?body)")
    case None
    then show ?thesis using run flag by (auto simp: args names_flag_def split: if_splits)
  next
    case (Some kind)
    then obtain fl' rest' where "parseFlags lib rest' fl' = Inl 0" "rest' = rest \<or> (\<exists>v. rest = v # rest')"
      using run by (cases kind; cases "flag_value ?body"; cases rest) (auto simp del: parseFlags.simps split: if_splits option.splits)
    then show ?thesis using less.hyps [of rest' fl'] by (auto simp: args)
  qed
qed


section \<open>Properties\<close>

text \<open>C40: The servers are safe by default. Whatever else the command line says: unless an argument names
  \<open>enable-http2\<close>, both servers offer HTTP/1.1 only, whatever their TLS configuration was; and
  unless an argument names \<open>metrics-secure\<close>, the metrics endpoint is served over TLS and asks
  for authentication and authorization.\<close>

theorem servers_safe_by_default:
  assumes "parseFlags lib args default_flags = Inr fl"
  shows "((\<forall>arg \<in> set args. \<not> names_flag ''enable-http2'' arg) \<longrightarrow>
      NextProtos (configured_tls (wo_TLSOpts (co_WebhookServer (managerOptions fl))) c) = [''http/1.1''] \<and>
      NextProtos (configured_tls (mto_TLSOpts (co_Metrics (managerOptions fl))) c) = [''http/1.1'']) \<and>
    ((\<forall>arg \<in> set args. \<not> names_flag ''metrics-secure'' arg) \<longrightarrow>
      mto_SecureServing (co_Metrics (managerOptions fl)) \<and>
      mto_FilterProvider (co_Metrics (managerOptions fl)) = WithAuthenticationAndAuthorization)"
  using parseFlags_unnamed [OF assms]
  by (simp add: default_flags_def managerOptions_def webhookServerOptions_def metricsServerOptions_def tlsOpts_def
      configured_tls_def disableHTTP2_def Let_def)

theorem servers_safe_by_default_witness:
  "\<exists>fl. parseFlags (\<lambda>_. None) [''--leader-elect'', ''-metrics-bind-address'', '':8443'', ''--webhook-cert-path=/certs''] default_flags = Inr fl \<and>
     NextProtos (configured_tls (wo_TLSOpts (co_WebhookServer (managerOptions fl))) \<lparr>NextProtos = [''h2'']\<rparr>) = [''http/1.1''] \<and>
     mto_FilterProvider (co_Metrics (managerOptions fl)) = WithAuthenticationAndAuthorization \<and>
     wo_CertDir (co_WebhookServer (managerOptions fl)) = ''/certs''"
proof -
  let ?args = "[''--leader-elect'', ''-metrics-bind-address'', '':8443'', ''--webhook-cert-path=/certs'']"
  let ?fl = "default_flags\<lparr>fl_enableLeaderElection := True, fl_metricsAddr := '':8443'', fl_webhookCertPath := ''/certs''\<rparr>"
  have run: "parseFlags (\<lambda>_. None) ?args default_flags = Inr ?fl" by code_simp
  have "list_all (\<lambda>arg. \<not> names_flag ''enable-http2'' arg \<and> \<not> names_flag ''metrics-secure'' arg) ?args" by code_simp
  then have "\<forall>arg \<in> set ?args. \<not> names_flag ''enable-http2'' arg" "\<forall>arg \<in> set ?args. \<not> names_flag ''metrics-secure'' arg"
    by (auto simp only: list_all_iff)
  with servers_safe_by_default [OF run, of "\<lparr>NextProtos = [''h2'']\<rparr>"] run show ?thesis
    by (intro exI [of _ ?fl]) (simp add: managerOptions_def webhookServerOptions_def)
qed

end
