(* ===== verification/Platform_Object.thy ===== *)
theory Platform_Object
  imports Api_Types
begin

text \<open>
  The rest of the type files of \<open>api/v1alpha1\<close>: the list types, the accessors that make each
  resource an \<open>api.PlatformObject\<close> of the framework, and the registration of the types with a
  scheme. The methods of the embedded \<open>api.Status\<close> and the scheme are library code, hence
  parameters with the contracts \<open>status_accessors\<close> and \<open>scheme_registry\<close>.
\<close>

section \<open>List types\<close>

record ListMeta =
  lm_ResourceVersion :: string
  lm_Continue :: string
  lm_RemainingItemCount :: "int option"

record OrganizationList =
  orgl_TypeMeta :: TypeMeta
  orgl_ListMeta :: ListMeta
  orgl_Items :: "Organization list"

record OrganizationProfileList =
  profl_TypeMeta :: TypeMeta
  profl_ListMeta :: ListMeta
  profl_Items :: "OrganizationProfile list"

record OrganizationProjectList =
  projl_TypeMeta :: TypeMeta
  projl_ListMeta :: ListMeta
  projl_Items :: "OrganizationProject list"

record MaaSConfigurationList =
  mcfgl_TypeMeta :: TypeMeta
  mcfgl_ListMeta :: ListMeta
  mcfgl_Items :: "MaaSConfiguration list"


section \<open>Status accessors\<close>

text \<open>The methods of \<open>api.Status\<close> the accessors call. \<open>GetStatus\<close> returns the address of the
  embedded status, modelled as reading it.\<close>

record status_ops =
  Status_GetConditions :: "Status \<Rightarrow> Condition list"
  Status_SetConditions :: "Condition list \<Rightarrow> Status \<Rightarrow> Status"

definition Organization_GetStatus :: "Organization \<Rightarrow> Status" where
  "Organization_GetStatus x = ost_Status (org_Status x)"

definition Organization_GetConditions :: "status_ops \<Rightarrow> Organization \<Rightarrow> Condition list" where
  "Organization_GetConditions so x = Status_GetConditions so (ost_Status (org_Status x))"

definition Organization_SetConditions :: "status_ops \<Rightarrow> Condition list \<Rightarrow> Organization \<Rightarrow> Organization" where
  "Organization_SetConditions so conditions x = x\<lparr>org_Status :=
     (org_Status x)\<lparr>ost_Status := Status_SetConditions so conditions (ost_Status (org_Status x))\<rparr>\<rparr>"

definition OrganizationProfile_GetStatus :: "OrganizationProfile \<Rightarrow> Status" where
  "OrganizationProfile_GetStatus x = opst_Status (prof_Status x)"

definition OrganizationProfile_GetConditions :: "status_ops \<Rightarrow> OrganizationProfile \<Rightarrow> Condition list" where
  "OrganizationProfile_GetConditions so x = Status_GetConditions so (opst_Status (prof_Status x))"

definition OrganizationProfile_SetConditions :: "status_ops \<Rightarrow> Condition list \<Rightarrow> OrganizationProfile \<Rightarrow> OrganizationProfile" where
  "OrganizationProfile_SetConditions so conditions x = x\<lparr>prof_Status :=
     (prof_Status x)\<lparr>opst_Status := Status_SetConditions so conditions (opst_Status (prof_Status x))\<rparr>\<rparr>"

definition OrganizationProject_GetStatus :: "OrganizationProject \<Rightarrow> Status" where
  "OrganizationProject_GetStatus x = prst_Status (proj_Status x)"

definition OrganizationProject_GetConditions :: "status_ops \<Rightarrow> OrganizationProject \<Rightarrow> Condition list" where
  "OrganizationProject_GetConditions so x = Status_GetConditions so (prst_Status (proj_Status x))"

definition OrganizationProject_SetConditions :: "status_ops \<Rightarrow> Condition list \<Rightarrow> OrganizationProject \<Rightarrow> OrganizationProject" where
  "OrganizationProject_SetConditions so conditions x = x\<lparr>proj_Status :=
     (proj_Status x)\<lparr>prst_Status := Status_SetConditions so conditions (prst_Status (proj_Status x))\<rparr>\<rparr>"

definition MaaSConfiguration_GetStatus :: "MaaSConfiguration \<Rightarrow> Status" where
  "MaaSConfiguration_GetStatus x = mcst_Status (mcfg_Status x)"

definition MaaSConfiguration_GetConditions :: "status_ops \<Rightarrow> MaaSConfiguration \<Rightarrow> Condition list" where
  "MaaSConfiguration_GetConditions so x = Status_GetConditions so (mcst_Status (mcfg_Status x))"

definition MaaSConfiguration_SetConditions :: "status_ops \<Rightarrow> Condition list \<Rightarrow> MaaSConfiguration \<Rightarrow> MaaSConfiguration" where
  "MaaSConfiguration_SetConditions so conditions x = x\<lparr>mcfg_Status :=
     (mcfg_Status x)\<lparr>mcst_Status := Status_SetConditions so conditions (mcst_Status (mcfg_Status x))\<rparr>\<rparr>"

locale status_accessors =
  fixes so :: status_ops
  assumes get_set: "Status_GetConditions so (Status_SetConditions so conditions st) = conditions"
    and set_frame: "st_Phase (Status_SetConditions so conditions st) = st_Phase st \<and>
      st_ObservedGeneration (Status_SetConditions so conditions st) = st_ObservedGeneration st"

text \<open>A resource of the framework: its metadata, its status with accessors, and the rest of it.\<close>

locale platform_object =
  fixes getStatus :: "'o \<Rightarrow> Status"
    and getConditions :: "'o \<Rightarrow> Condition list"
    and setConditions :: "Condition list \<Rightarrow> 'o \<Rightarrow> 'o"
    and untouched :: "'o \<Rightarrow> 'r"
  assumes conditions_read_back: "getConditions (setConditions conditions x) = conditions"
    and conditions_frame: "untouched (setConditions conditions x) = untouched x"
    and status_frame: "st_Phase (getStatus (setConditions conditions x)) = st_Phase (getStatus x) \<and>
      st_ObservedGeneration (getStatus (setConditions conditions x)) = st_ObservedGeneration (getStatus x)"
begin

lemma last_conditions_win: "getConditions (setConditions cs (setConditions cs' x)) = cs"
  by (rule conditions_read_back)

end

context status_accessors
begin

sublocale organization_object: platform_object Organization_GetStatus "Organization_GetConditions so"
  "Organization_SetConditions so" "\<lambda>x. (org_TypeMeta x, org_Meta x, org_Spec x, org_Root x)"
  by unfold_locales (simp_all add: Organization_GetStatus_def Organization_GetConditions_def
      Organization_SetConditions_def get_set set_frame)

sublocale profile_object: platform_object OrganizationProfile_GetStatus "OrganizationProfile_GetConditions so"
  "OrganizationProfile_SetConditions so" "\<lambda>x. (prof_TypeMeta x, prof_Meta x, prof_Spec x)"
  by unfold_locales (simp_all add: OrganizationProfile_GetStatus_def OrganizationProfile_GetConditions_def
      OrganizationProfile_SetConditions_def get_set set_frame)

sublocale project_object: platform_object OrganizationProject_GetStatus "OrganizationProject_GetConditions so"
  "OrganizationProject_SetConditions so" "\<lambda>x. (proj_TypeMeta x, proj_Meta x, proj_Spec x, prst_Namespace (proj_Status x))"
  by unfold_locales (simp_all add: OrganizationProject_GetStatus_def OrganizationProject_GetConditions_def
      OrganizationProject_SetConditions_def get_set set_frame)

sublocale configuration_object: platform_object MaaSConfiguration_GetStatus "MaaSConfiguration_GetConditions so"
  "MaaSConfiguration_SetConditions so" "\<lambda>x. (mcfg_TypeMeta x, mcfg_Meta x, mcfg_Spec x)"
  by unfold_locales (simp_all add: MaaSConfiguration_GetStatus_def MaaSConfiguration_GetConditions_def
      MaaSConfiguration_SetConditions_def get_set set_frame)

text \<open>What the accessors of the four resources promise together.\<close>

lemma conditions_set:
  "Organization_GetConditions so (Organization_SetConditions so cs organization) = cs \<and>
      OrganizationProfile_GetConditions so (OrganizationProfile_SetConditions so cs profile) = cs \<and>
      OrganizationProject_GetConditions so (OrganizationProject_SetConditions so cs project) = cs \<and>
      MaaSConfiguration_GetConditions so (MaaSConfiguration_SetConditions so cs configuration) = cs \<and>
    org_Meta (Organization_SetConditions so cs organization) = org_Meta organization \<and>
      org_Spec (Organization_SetConditions so cs organization) = org_Spec organization \<and>
      org_Root (Organization_SetConditions so cs organization) = org_Root organization \<and>
    prof_Meta (OrganizationProfile_SetConditions so cs profile) = prof_Meta profile \<and>
      prof_Spec (OrganizationProfile_SetConditions so cs profile) = prof_Spec profile \<and>
    proj_Meta (OrganizationProject_SetConditions so cs project) = proj_Meta project \<and>
      proj_Spec (OrganizationProject_SetConditions so cs project) = proj_Spec project \<and>
      prst_Namespace (proj_Status (OrganizationProject_SetConditions so cs project)) = prst_Namespace (proj_Status project) \<and>
    mcfg_Meta (MaaSConfiguration_SetConditions so cs configuration) = mcfg_Meta configuration \<and>
      mcfg_Spec (MaaSConfiguration_SetConditions so cs configuration) = mcfg_Spec configuration"
  using organization_object.conditions_frame [of cs organization] profile_object.conditions_frame [of cs profile]
    project_object.conditions_frame [of cs project] configuration_object.conditions_frame [of cs configuration]
  by (simp add: organization_object.conditions_read_back profile_object.conditions_read_back
      project_object.conditions_read_back configuration_object.conditions_read_back)

end

text \<open>A zero organization.\<close>

definition zero_organization :: Organization where
  "zero_organization = \<lparr>org_TypeMeta = zero_TypeMeta, org_Meta = named '''' '''', org_Spec = \<lparr>os_Parent = ''''\<rparr>,
     org_Status = \<lparr>ost_Status = zero_Status, ost_Root = ''''\<rparr>\<rparr>"

definition plain_status :: status_ops where
  "plain_status = \<lparr>Status_GetConditions = st_Conditions, Status_SetConditions = (\<lambda>cs st. st\<lparr>st_Conditions := cs\<rparr>)\<rparr>"

interpretation plain_status: status_accessors plain_status
  by unfold_locales (simp_all add: plain_status_def)


section \<open>The scheme\<close>

record 'c scheme_ops =
  AddToGroupVersion :: "string \<Rightarrow> 'c \<Rightarrow> 'c"
  AddKnownTypes :: "string \<Rightarrow> string list \<Rightarrow> 'c \<Rightarrow> 'c"
  RunBuilder :: "('c \<Rightarrow> go_error + 'c) list \<Rightarrow> 'c \<Rightarrow> go_error + 'c"

definition SchemeBuilder_base :: "'c scheme_ops \<Rightarrow> 'c \<Rightarrow> go_error + 'c" where
  "SchemeBuilder_base ops scheme = Inr (AddToGroupVersion ops GroupVersion scheme)"

definition register_Organization :: "'c scheme_ops \<Rightarrow> 'c \<Rightarrow> go_error + 'c" where
  "register_Organization ops scheme = Inr (AddKnownTypes ops GroupVersion [''Organization'', ''OrganizationList''] scheme)"

definition register_OrganizationProfile :: "'c scheme_ops \<Rightarrow> 'c \<Rightarrow> go_error + 'c" where
  "register_OrganizationProfile ops scheme =
     Inr (AddKnownTypes ops GroupVersion [''OrganizationProfile'', ''OrganizationProfileList''] scheme)"

definition register_OrganizationProject :: "'c scheme_ops \<Rightarrow> 'c \<Rightarrow> go_error + 'c" where
  "register_OrganizationProject ops scheme =
     Inr (AddKnownTypes ops GroupVersion [''OrganizationProject'', ''OrganizationProjectList''] scheme)"

definition register_MaaSConfiguration :: "'c scheme_ops \<Rightarrow> 'c \<Rightarrow> go_error + 'c" where
  "register_MaaSConfiguration ops scheme =
     Inr (AddKnownTypes ops GroupVersion [''MaaSConfiguration'', ''MaaSConfigurationList''] scheme)"

text \<open>The builder after the package's \<open>init\<close> functions, which Go runs in the order of the file names.\<close>

definition SchemeBuilder :: "'c scheme_ops \<Rightarrow> ('c \<Rightarrow> go_error + 'c) list" where
  "SchemeBuilder ops = [SchemeBuilder_base ops, register_MaaSConfiguration ops, register_Organization ops,
     register_OrganizationProfile ops, register_OrganizationProject ops]"

definition AddToScheme :: "'c scheme_ops \<Rightarrow> 'c \<Rightarrow> go_error + 'c" where
  "AddToScheme ops scheme = RunBuilder ops (SchemeBuilder ops) scheme"

locale scheme_registry =
  fixes ops :: "'c scheme_ops"
    and known :: "'c \<Rightarrow> string \<Rightarrow> string \<Rightarrow> bool"
  assumes known_types: "known (AddKnownTypes ops gv kinds scheme) gv' kind \<longleftrightarrow>
      known scheme gv' kind \<or> gv' = gv \<and> kind \<in> set kinds"
    and known_group: "known scheme gv' kind \<Longrightarrow> known (AddToGroupVersion ops gv scheme) gv' kind"
    and builder_done: "RunBuilder ops [] scheme = Inr scheme"
    and builder_step: "RunBuilder ops (f # fs) scheme = (case f scheme of Inl err \<Rightarrow> Inl err | Inr scheme' \<Rightarrow> RunBuilder ops fs scheme')"
begin

lemma AddToScheme_known:
  "\<exists>scheme'. AddToScheme ops scheme = Inr scheme' \<and> (\<forall>gv kind. known scheme gv kind \<longrightarrow> known scheme' gv kind) \<and>
    (\<forall>kind \<in> {''Organization'', ''OrganizationList'', ''OrganizationProfile'', ''OrganizationProfileList'',
        ''OrganizationProject'', ''OrganizationProjectList'', ''MaaSConfiguration'', ''MaaSConfigurationList''}.
      known scheme' GroupVersion kind)"
proof -
  let ?base = "AddToGroupVersion ops GroupVersion scheme"
  have added: "AddToScheme ops scheme = Inr (AddKnownTypes ops GroupVersion [''OrganizationProject'', ''OrganizationProjectList'']
      (AddKnownTypes ops GroupVersion [''OrganizationProfile'', ''OrganizationProfileList'']
        (AddKnownTypes ops GroupVersion [''Organization'', ''OrganizationList'']
          (AddKnownTypes ops GroupVersion [''MaaSConfiguration'', ''MaaSConfigurationList''] ?base))))"
    by (simp add: AddToScheme_def SchemeBuilder_def builder_done builder_step SchemeBuilder_base_def
        register_Organization_def register_OrganizationProfile_def register_OrganizationProject_def register_MaaSConfiguration_def)
  show ?thesis unfolding added by (auto simp: known_types dest: known_group)
qed

end

text \<open>A scheme as the list of the kinds it knows.\<close>

fun run_builder :: "('c \<Rightarrow> go_error + 'c) list \<Rightarrow> 'c \<Rightarrow> go_error + 'c" where
  "run_builder [] scheme = Inr scheme"
| "run_builder (f # fs) scheme = (case f scheme of Inl err \<Rightarrow> Inl err | Inr scheme' \<Rightarrow> run_builder fs scheme')"

definition list_scheme :: "(string \<times> string) list scheme_ops" where
  "list_scheme = \<lparr>AddToGroupVersion = (\<lambda>gv scheme. (gv, ''WatchEvent'') # scheme),
     AddKnownTypes = (\<lambda>gv kinds scheme. map (Pair gv) kinds @ scheme), RunBuilder = run_builder\<rparr>"

interpretation list_scheme: scheme_registry list_scheme "\<lambda>scheme gv kind. (gv, kind) \<in> set scheme"
  by unfold_locales (auto simp: list_scheme_def split: sum.split)

end
