(* ===== verification/Manager.thy ===== *)
theory Manager
  imports Command_Line Platform_Object Organization_Webhook Profile_Webhook Project_Webhook Maas_Webhook
    Organization_Controller Project_Reconciler Maas_Controller
begin

text \<open>
  The second half of \<open>cmd/main.go\<close>, with the registration functions it calls: the four
  controllers, the four webhooks with their validators, the health checks and the start of the
  manager. The manager and the builders behind the registration functions are controller-runtime and
  framework code: a parameter over an arbitrary state \<open>'w\<close> of the process, with the contract
  \<open>setup_runtime\<close> that a call is on record exactly when it succeeded.
\<close>

section \<open>The profile controller and the webhooks\<close>

text \<open>The profile controller has conditions and no action.\<close>

definition NewOrganizationProfileReconciler :: "'s k8s \<Rightarrow> (OrganizationProfile, 's) registration" where
  "NewOrganizationProfileReconciler c = \<lparr>reg_For = ''OrganizationProfile'', reg_Owns = [], reg_Watches = [],
     reg_Actions = [], reg_FinalizerName = '''', reg_Finalizers = [], reg_Conditions = [ConditionTypeProvisioningSucceeded]\<rparr>"

record ('o, 's) validator =
  ValidateCreate :: "admission_context \<Rightarrow> 'o \<Rightarrow> 's \<Rightarrow> error_result"
  ValidateUpdate :: "admission_context \<Rightarrow> 'o \<Rightarrow> 'o \<Rightarrow> 's \<Rightarrow> error_result"
  ValidateDelete :: "admission_context \<Rightarrow> 'o \<Rightarrow> 's \<Rightarrow> error_result"

definition OrganizationCustomValidator :: "'s authorizer \<Rightarrow> (Organization, 's) validator" where
  "OrganizationCustomValidator authz = \<lparr>ValidateCreate = Organization_ValidateCreate authz,
     ValidateUpdate = Organization_ValidateUpdate authz, ValidateDelete = Organization_ValidateDelete authz\<rparr>"

definition OrganizationProfileCustomValidator :: "'s authorizer \<Rightarrow> (OrganizationProfile, 's) validator" where
  "OrganizationProfileCustomValidator authz = \<lparr>ValidateCreate = OrganizationProfile_ValidateCreate authz,
     ValidateUpdate = OrganizationProfile_ValidateUpdate authz, ValidateDelete = OrganizationProfile_ValidateDelete authz\<rparr>"

definition OrganizationProjectCustomValidator :: "'s authorizer \<Rightarrow> (OrganizationProject, 's) validator" where
  "OrganizationProjectCustomValidator authz = \<lparr>ValidateCreate = OrganizationProject_ValidateCreate authz,
     ValidateUpdate = OrganizationProject_ValidateUpdate authz, ValidateDelete = OrganizationProject_ValidateDelete authz\<rparr>"

definition MaaSConfigurationCustomValidator :: "'s authorizer \<Rightarrow> (MaaSConfiguration, 's) validator" where
  "MaaSConfigurationCustomValidator authz = \<lparr>ValidateCreate = MaaSConfiguration_ValidateCreate authz,
     ValidateUpdate = MaaSConfiguration_ValidateUpdate authz, ValidateDelete = MaaSConfiguration_ValidateDelete authz\<rparr>"


section \<open>The process\<close>

text \<open>What \<open>main\<close> calls: making the manager (whose client is the result), building a controller,
  completing a webhook, adding the checks, and starting the manager.\<close>

record ('s, 'w) runtime =
  GetConfig :: "'w \<Rightarrow> error_result \<times> 'w"
  NewManager :: "ctrl_Options \<Rightarrow> 'w \<Rightarrow> (go_error + 's k8s) \<times> 'w"
  BuildOrganization :: "(Organization, 's) registration \<Rightarrow> 'w \<Rightarrow> error_result \<times> 'w"
  BuildProfile :: "(OrganizationProfile, 's) registration \<Rightarrow> 'w \<Rightarrow> error_result \<times> 'w"
  BuildConfiguration :: "(maas_request, 's) registration \<Rightarrow> 'w \<Rightarrow> error_result \<times> 'w"
  BuildProject :: "(ReconciliationRequest, 's) registration \<Rightarrow> 'w \<Rightarrow> error_result \<times> 'w"
  CompleteOrganization :: "(Organization, 's) validator \<Rightarrow> 'w \<Rightarrow> error_result \<times> 'w"
  CompleteProfile :: "(OrganizationProfile, 's) validator \<Rightarrow> 'w \<Rightarrow> error_result \<times> 'w"
  CompleteConfiguration :: "(MaaSConfiguration, 's) validator \<Rightarrow> 'w \<Rightarrow> error_result \<times> 'w"
  CompleteProject :: "(OrganizationProject, 's) validator \<Rightarrow> 'w \<Rightarrow> error_result \<times> 'w"
  AddHealthzCheck :: "string \<Rightarrow> 'w \<Rightarrow> error_result \<times> 'w"
  AddReadyzCheck :: "string \<Rightarrow> 'w \<Rightarrow> error_result \<times> 'w"
  Start :: "'w \<Rightarrow> error_result \<times> 'w"

definition SetupOrganizationWebhookWithManager :: "(string \<Rightarrow> string) \<Rightarrow> ('s, 'w) runtime \<Rightarrow> 's k8s \<Rightarrow> 'w \<Rightarrow> error_result \<times> 'w" where
  "SetupOrganizationWebhookWithManager getenv rt c w =
     CompleteOrganization rt (OrganizationCustomValidator (newAuthorizer getenv c)) w"

definition SetupOrganizationProfileWebhookWithManager :: "(string \<Rightarrow> string) \<Rightarrow> ('s, 'w) runtime \<Rightarrow> 's k8s \<Rightarrow> 'w \<Rightarrow> error_result \<times> 'w" where
  "SetupOrganizationProfileWebhookWithManager getenv rt c w =
     CompleteProfile rt (OrganizationProfileCustomValidator (newAuthorizer getenv c)) w"

definition SetupOrganizationProjectWebhookWithManager :: "(string \<Rightarrow> string) \<Rightarrow> ('s, 'w) runtime \<Rightarrow> 's k8s \<Rightarrow> 'w \<Rightarrow> error_result \<times> 'w" where
  "SetupOrganizationProjectWebhookWithManager getenv rt c w =
     CompleteProject rt (OrganizationProjectCustomValidator (newAuthorizer getenv c)) w"

definition SetupMaaSConfigurationWebhookWithManager :: "(string \<Rightarrow> string) \<Rightarrow> ('s, 'w) runtime \<Rightarrow> 's k8s \<Rightarrow> 'w \<Rightarrow> error_result \<times> 'w" where
  "SetupMaaSConfigurationWebhookWithManager getenv rt c w =
     CompleteConfiguration rt (MaaSConfigurationCustomValidator (newAuthorizer getenv c)) w"

text \<open>A call whose error ends the process with status 1. The result of a run is the exit status.\<close>

definition or_exit :: "('w \<Rightarrow> error_result \<times> 'w) \<Rightarrow> ('w \<Rightarrow> nat \<times> 'w) \<Rightarrow> 'w \<Rightarrow> nat \<times> 'w" where
  "or_exit call next_call w = (case call w of (Some _, w') \<Rightarrow> (1, w') | (None, w') \<Rightarrow> next_call w')"

text \<open>A webhook is set up unless the environment disables webhooks.\<close>

definition unless_disabled :: "(string \<Rightarrow> string) \<Rightarrow> ('w \<Rightarrow> error_result \<times> 'w) \<Rightarrow> 'w \<Rightarrow> error_result \<times> 'w" where
  "unless_disabled getenv call w = (if getenv ''ENABLE_WEBHOOKS'' \<noteq> ''false'' then call w else (None, w))"

definition setup_manager :: "(string \<Rightarrow> string) \<Rightarrow> ('s, 'w) runtime \<Rightarrow> 's k8s \<Rightarrow> 'w \<Rightarrow> nat \<times> 'w" where
  "setup_manager getenv rt c =
     or_exit (BuildOrganization rt (NewOrganizationReconciler c))
     (or_exit (BuildProfile rt (NewOrganizationProfileReconciler c))
     (or_exit (BuildConfiguration rt (NewMaaSConfigurationReconciler c))
     (or_exit (BuildProject rt (NewOrganizationProjectReconciler c))
     (or_exit (unless_disabled getenv (SetupOrganizationWebhookWithManager getenv rt c))
     (or_exit (unless_disabled getenv (SetupMaaSConfigurationWebhookWithManager getenv rt c))
     (or_exit (unless_disabled getenv (SetupOrganizationProfileWebhookWithManager getenv rt c))
     (or_exit (unless_disabled getenv (SetupOrganizationProjectWebhookWithManager getenv rt c))
     (or_exit (AddHealthzCheck rt ''healthz'')
     (or_exit (AddReadyzCheck rt ''readyz'')
     (or_exit (Start rt)
     (\<lambda>w. (0, w))))))))))))"

definition main :: "(string \<Rightarrow> string) \<Rightarrow> foreign_flags \<Rightarrow> string list \<Rightarrow> ('s, 'w) runtime \<Rightarrow> 'w \<Rightarrow> nat \<times> 'w" where
  "main getenv lib args rt w =
     (case parseFlags lib args default_flags of
        Inl status \<Rightarrow> (status, w)
      | Inr fl \<Rightarrow> or_exit (GetConfig rt)
          (\<lambda>w. case NewManager rt (managerOptions fl) w of
             (Inl _, w') \<Rightarrow> (1, w')
           | (Inr c, w') \<Rightarrow> setup_manager getenv rt c w') w)"

text \<open>The scheme \<open>init\<close> makes. \<open>utilruntime.Must\<close> is library code: a parameter \<open>must\<close>
  whose result \<open>None\<close> is a panic, documented to panic on an error only.\<close>

definition init_scheme :: "(('c \<Rightarrow> go_error + 'c) \<Rightarrow> 'c \<Rightarrow> 'c option) \<Rightarrow> 'c scheme_ops \<Rightarrow>
    ('c \<Rightarrow> go_error + 'c) \<Rightarrow> ('c \<Rightarrow> go_error + 'c) \<Rightarrow> 'c \<Rightarrow> 'c option" where
  "init_scheme must ops clientgo apiextensions scheme =
     Option.bind (must clientgo scheme) (\<lambda>scheme. Option.bind (must apiextensions scheme) (must (AddToScheme ops)))"

definition panics_on_error :: "(('c \<Rightarrow> go_error + 'c) \<Rightarrow> 'c \<Rightarrow> 'c option) \<Rightarrow> bool" where
  "panics_on_error must \<longleftrightarrow> (\<forall>f scheme. must f scheme = (case f scheme of Inl _ \<Rightarrow> None | Inr scheme' \<Rightarrow> Some scheme'))"


section \<open>What is on record when the manager starts\<close>

datatype setup_event = EManager | EController string | EWebhook string | EHealthz string | EReadyz string | EStart

text \<open>A call that leaves the events on record when it succeeds and none when it fails, and a rest of
  the program that leaves a beginning of the events on record, all of them when the status is 0.\<close>

definition recorded :: "('w \<Rightarrow> setup_event list) \<Rightarrow> setup_event list \<Rightarrow> ('w \<Rightarrow> error_result \<times> 'w) \<Rightarrow> bool" where
  "recorded log es call \<longleftrightarrow> (\<forall>w r w'. call w = (r, w') \<longrightarrow> log w' = log w @ (if r = None then es else []))"

definition completes :: "('w \<Rightarrow> setup_event list) \<Rightarrow> setup_event list \<Rightarrow> ('w \<Rightarrow> nat \<times> 'w) \<Rightarrow> bool" where
  "completes log es k \<longleftrightarrow> (\<forall>w status w'. k w = (status, w') \<longrightarrow>
     (\<exists>n. log w' = log w @ take n es \<and> (status = 0 \<longrightarrow> log w' = log w @ es)))"

lemma or_exit_completes:
  assumes "recorded log es call" and "completes log es' k"
  shows "completes log (es @ es') (or_exit call k)"
  unfolding completes_def
proof (intro allI impI)
  fix w status w'
  assume run: "or_exit call k w = (status, w')"
  obtain r w1 where call: "call w = (r, w1)" by fastforce
  show "\<exists>n. log w' = log w @ take n (es @ es') \<and> (status = 0 \<longrightarrow> log w' = log w @ es @ es')"
  proof (cases r)
    case None
    with call assms(1) have "log w1 = log w @ es" by (auto simp: recorded_def)
    moreover from None call run have "k w1 = (status, w')" by (simp add: or_exit_def)
    with assms(2) obtain n where "log w' = log w1 @ take n es'" "status = 0 \<Longrightarrow> log w' = log w1 @ es'"
      unfolding completes_def by blast
    ultimately show ?thesis by (intro exI [of _ "length es + n"]) simp
  next
    case (Some e)
    with call run assms(1) show ?thesis
      by (intro exI [of _ 0]) (auto simp: or_exit_def recorded_def)
  qed
qed

lemma unless_disabled_recorded:
  "recorded log es call \<Longrightarrow> recorded log (if getenv ''ENABLE_WEBHOOKS'' \<noteq> ''false'' then es else []) (unless_disabled getenv call)"
  by (simp add: recorded_def unless_disabled_def)

text \<open>Everything the process does, in order.\<close>

definition startup :: "(string \<Rightarrow> string) \<Rightarrow> setup_event list" where
  "startup getenv = [EManager, EController ''Organization'', EController ''OrganizationProfile'',
       EController ''MaaSConfiguration'', EController ''OrganizationProject''] @
     (if getenv ''ENABLE_WEBHOOKS'' \<noteq> ''false''
      then [EWebhook ''Organization'', EWebhook ''MaaSConfiguration'', EWebhook ''OrganizationProfile'', EWebhook ''OrganizationProject'']
      else []) @ [EHealthz ''healthz'', EReadyz ''readyz'', EStart]"

locale setup_runtime =
  fixes rt :: "('s, 'w) runtime"
    and log :: "'w \<Rightarrow> setup_event list"
  assumes config_recorded: "recorded log [] (GetConfig rt)"
    and manager_recorded: "NewManager rt opts w = (r, w') \<Longrightarrow> log w' = log w @ (case r of Inl _ \<Rightarrow> [] | Inr _ \<Rightarrow> [EManager])"
    and controllers_recorded: "recorded log [EController (reg_For ro)] (BuildOrganization rt ro)"
      "recorded log [EController (reg_For rp)] (BuildProfile rt rp)"
      "recorded log [EController (reg_For rc)] (BuildConfiguration rt rc)"
      "recorded log [EController (reg_For rj)] (BuildProject rt rj)"
    and webhooks_recorded: "recorded log [EWebhook ''Organization''] (CompleteOrganization rt vo)"
      "recorded log [EWebhook ''OrganizationProfile''] (CompleteProfile rt vp)"
      "recorded log [EWebhook ''MaaSConfiguration''] (CompleteConfiguration rt vc)"
      "recorded log [EWebhook ''OrganizationProject''] (CompleteProject rt vj)"
    and healthz_recorded: "recorded log [EHealthz name] (AddHealthzCheck rt name)"
    and readyz_recorded: "recorded log [EReadyz name] (AddReadyzCheck rt name)"
    and start_recorded: "Start rt w = (err, w') \<Longrightarrow> log w' = log w @ [EStart]"
begin

lemma start_completes: "completes log [EStart] (or_exit (Start rt) (\<lambda>w. (0, w)))"
  unfolding completes_def or_exit_def
  by (intro allI impI exI [of _ 1]) (auto split: prod.splits option.splits dest: start_recorded)

lemmas setup_recorded = controllers_recorded(1) [of "NewOrganizationReconciler _"]
  controllers_recorded(2) [of "NewOrganizationProfileReconciler _"]
  controllers_recorded(3) [of "NewMaaSConfigurationReconciler _"]
  controllers_recorded(4) [of "NewOrganizationProjectReconciler _"]

lemma setup_manager_completes:
  "completes log (tl (startup getenv)) (setup_manager getenv rt c)"
proof -
  let ?on = "\<lambda>es. if getenv ''ENABLE_WEBHOOKS'' \<noteq> ''false'' then es else []"
  have hooks: "recorded log (?on [EWebhook ''Organization'']) (unless_disabled getenv (SetupOrganizationWebhookWithManager getenv rt c))"
    "recorded log (?on [EWebhook ''MaaSConfiguration'']) (unless_disabled getenv (SetupMaaSConfigurationWebhookWithManager getenv rt c))"
    "recorded log (?on [EWebhook ''OrganizationProfile'']) (unless_disabled getenv (SetupOrganizationProfileWebhookWithManager getenv rt c))"
    "recorded log (?on [EWebhook ''OrganizationProject'']) (unless_disabled getenv (SetupOrganizationProjectWebhookWithManager getenv rt c))"
    by (rule unless_disabled_recorded, simp add: recorded_def SetupOrganizationWebhookWithManager_def
        SetupMaaSConfigurationWebhookWithManager_def SetupOrganizationProfileWebhookWithManager_def
        SetupOrganizationProjectWebhookWithManager_def webhooks_recorded [unfolded recorded_def])+
  have "completes log ([EController ''Organization''] @ [EController ''OrganizationProfile''] @ [EController ''MaaSConfiguration''] @
      [EController ''OrganizationProject''] @ ?on [EWebhook ''Organization''] @ ?on [EWebhook ''MaaSConfiguration''] @
      ?on [EWebhook ''OrganizationProfile''] @ ?on [EWebhook ''OrganizationProject''] @ [EHealthz ''healthz''] @ [EReadyz ''readyz''] @ [EStart])
    (setup_manager getenv rt c)"
    unfolding setup_manager_def
    by (intro or_exit_completes hooks start_completes healthz_recorded readyz_recorded)
      (use setup_recorded [of c] in \<open>simp_all add: NewOrganizationReconciler_def NewOrganizationProfileReconciler_def
        NewMaaSConfigurationReconciler_def NewOrganizationProjectReconciler_def\<close>)
  then show ?thesis by (cases "getenv ''ENABLE_WEBHOOKS'' = ''false''") (simp_all add: startup_def)
qed

lemma main_completes:
  assumes "main getenv lib args rt w = (status, w')" and "parseFlags lib args default_flags = Inr fl"
  shows "(\<exists>n. log w' = log w @ take n (startup getenv)) \<and> (status = 0 \<longrightarrow> log w' = log w @ startup getenv)"
proof -
  obtain es where es: "startup getenv = EManager # es" by (simp add: startup_def)
  have "completes log (startup getenv) (\<lambda>w. case NewManager rt (managerOptions fl) w of
      (Inl _, w') \<Rightarrow> (1, w') | (Inr c, w') \<Rightarrow> setup_manager getenv rt c w')"
    unfolding completes_def
  proof (intro allI impI)
    fix w status w'
    assume run: "(case NewManager rt (managerOptions fl) w of
      (Inl _, w') \<Rightarrow> (1, w') | (Inr c, w') \<Rightarrow> setup_manager getenv rt c w') = (status, w')"
    obtain r w1 where r: "NewManager rt (managerOptions fl) w = (r, w1)" by fastforce
    show "\<exists>n. log w' = log w @ take n (startup getenv) \<and> (status = 0 \<longrightarrow> log w' = log w @ startup getenv)"
    proof (cases r)
      case (Inl e)
      with r run manager_recorded [OF r] show ?thesis by (intro exI [of _ 0]) auto
    next
      case (Inr c)
      with r run have "setup_manager getenv rt c w1 = (status, w')" by simp
      then obtain n where n: "log w' = log w1 @ take n (tl (startup getenv))" "status = 0 \<Longrightarrow> log w' = log w1 @ tl (startup getenv)"
        using setup_manager_completes [of getenv c] unfolding completes_def by blast
      have "log w1 = log w @ [EManager]" using manager_recorded [OF r] Inr by simp
      with n show ?thesis by (intro exI [of _ "Suc n"]) (simp add: es)
    qed
  qed
  from or_exit_completes [OF config_recorded this] assms show ?thesis
    by (simp add: main_def completes_def)
qed

end


section \<open>A process that keeps its record\<close>

definition log_step :: "(setup_event \<Rightarrow> bool) \<Rightarrow> setup_event \<Rightarrow> setup_event list \<Rightarrow> error_result \<times> setup_event list" where
  "log_step fault e w = (if fault e then (Some (LibraryError ''fault''), w) else (None, w @ [e]))"

definition logging_runtime :: "(setup_event \<Rightarrow> bool) \<Rightarrow> 's k8s \<Rightarrow> ('s, setup_event list) runtime" where
  "logging_runtime fault c = \<lparr>GetConfig = (\<lambda>w. (None, w)),
     NewManager = (\<lambda>_ w. if fault EManager then (Inl (LibraryError ''fault''), w) else (Inr c, w @ [EManager])),
     BuildOrganization = (\<lambda>r. log_step fault (EController (reg_For r))), BuildProfile = (\<lambda>r. log_step fault (EController (reg_For r))),
     BuildConfiguration = (\<lambda>r. log_step fault (EController (reg_For r))), BuildProject = (\<lambda>r. log_step fault (EController (reg_For r))),
     CompleteOrganization = (\<lambda>_. log_step fault (EWebhook ''Organization'')), CompleteProfile = (\<lambda>_. log_step fault (EWebhook ''OrganizationProfile'')),
     CompleteConfiguration = (\<lambda>_. log_step fault (EWebhook ''MaaSConfiguration'')), CompleteProject = (\<lambda>_. log_step fault (EWebhook ''OrganizationProject'')),
     AddHealthzCheck = (\<lambda>n. log_step fault (EHealthz n)), AddReadyzCheck = (\<lambda>n. log_step fault (EReadyz n)),
     Start = (\<lambda>w. (if fault EStart then Some (LibraryError ''fault'') else None, w @ [EStart]))\<rparr>"

interpretation logging: setup_runtime "logging_runtime fault c" "\<lambda>w. w" for fault c
  by unfold_locales (auto simp: logging_runtime_def recorded_def log_step_def split: if_splits)


section \<open>Properties\<close>

text \<open>C39: The operator starts completely or not at all. The calls that took effect are a beginning of the
  startup sequence: the manager, the four controllers, the four webhooks unless
  \<open>ENABLE_WEBHOOKS\<close> is \<open>false\<close>, the two checks, the start. So the manager is started
  only with everything registered; and status 0 means that all of it was done, or that an argument
  asks for help and nothing was done.\<close>

theorem started_complete:
  assumes "setup_runtime rt log" and "log w = []" and "main getenv lib args rt w = (status, w')"
  shows "(\<exists>n. log w' = take n (startup getenv)) \<and> (EStart \<in> set (log w') \<longrightarrow> log w' = startup getenv) \<and>
    (status = 0 \<longrightarrow> log w' = startup getenv \<or>
       log w' = [] \<and> (\<exists>arg \<in> set args. names_flag ''h'' arg \<or> names_flag ''help'' arg))"
proof (cases "parseFlags lib args default_flags")
  case (Inl code)
  with assms(3) have "status = code" "w' = w" by (simp_all add: main_def)
  with Inl assms(2) parseFlags_help [of lib args default_flags] show ?thesis by (auto intro: exI [of _ 0])
next
  case (Inr fl)
  obtain n where n: "log w' = take n (startup getenv)" "status = 0 \<longrightarrow> log w' = startup getenv"
    using setup_runtime.main_completes [OF assms(1,3) Inr] unfolding assms(2) append_Nil by blast
  have last: "startup getenv = butlast (startup getenv) @ [EStart]" "EStart \<notin> set (butlast (startup getenv))"
    by (simp_all add: startup_def)
  have "take n (startup getenv) = startup getenv" if "EStart \<in> set (take n (startup getenv))"
  proof (rule ccontr)
    assume "take n (startup getenv) \<noteq> startup getenv"
    then have "n < length (startup getenv)" by (meson not_less take_all)
    then have "take n (startup getenv) = take n (butlast (startup getenv))" by (simp add: take_butlast)
    with that last(2) show False by (metis in_set_takeD)
  qed
  with n show ?thesis by auto
qed

theorem started_complete_witness:
  "main (\<lambda>_. '''') (\<lambda>_. None) [''--leader-elect''] (logging_runtime (\<lambda>_. False) server) [] = (0, startup (\<lambda>_. '''')) \<and>
   EStart \<notin> set (snd (main (\<lambda>_. '''') (\<lambda>_. None) [] (logging_runtime (\<lambda>e. e = EWebhook ''MaaSConfiguration'') server) []))"
proof -
  have flags: "list_all (\<lambda>arg. \<not> names_flag ''h'' arg \<and> \<not> names_flag ''help'' arg) [''--leader-elect'']"
    by code_simp
  have ok: "fst (main (\<lambda>_. '''') (\<lambda>_. None) [''--leader-elect''] (logging_runtime (\<lambda>_. False) server) []) = 0"
    by code_simp
  obtain w where run: "main (\<lambda>_. '''') (\<lambda>_. None) [''--leader-elect''] (logging_runtime (\<lambda>_. False) server) [] = (0, w)"
    using ok by (metis prod.collapse)
  from flags started_complete [OF logging.setup_runtime_axioms refl run] have "w = startup (\<lambda>_. '''')" by auto
  moreover
  let ?bad = "main (\<lambda>_. '''') (\<lambda>_. None) [] (logging_runtime (\<lambda>e. e = EWebhook ''MaaSConfiguration'') server) []"
  obtain status w' where bad: "?bad = (status, w')" by fastforce
  have "length (snd ?bad) = 6" by code_simp
  with bad have "length w' = 6" by simp
  have "EStart \<in> set w' \<longrightarrow> w' = startup (\<lambda>_. '''')"
    using started_complete [OF logging.setup_runtime_axioms refl bad] by simp
  then have "EStart \<notin> set w'" using \<open>length w' = 6\<close> by (auto simp: startup_def)
  ultimately show ?thesis using run bad by simp
qed

text \<open>Every kind the operator works with is known to its scheme: \<open>init\<close> does not panic when the
  two library schemes can be added, keeps what they added, and adds the four resources with their
  lists, among them the kind each of the four controllers is registered for.\<close>

theorem scheme_complete:
  assumes "scheme_registry ops known" and "panics_on_error must" and "clientgo scheme = Inr scheme1" and "apiextensions scheme1 = Inr scheme2"
  shows "\<exists>scheme'. init_scheme must ops clientgo apiextensions scheme = Some scheme' \<and>
    (\<forall>gv kind. known scheme2 gv kind \<longrightarrow> known scheme' gv kind) \<and>
    known scheme' GroupVersion (reg_For (NewOrganizationReconciler c)) \<and>
    known scheme' GroupVersion (reg_For (NewOrganizationProfileReconciler c)) \<and>
    known scheme' GroupVersion (reg_For (NewOrganizationProjectReconciler c)) \<and>
    known scheme' GroupVersion (reg_For (NewMaaSConfigurationReconciler c)) \<and>
    (\<forall>kind \<in> {''OrganizationList'', ''OrganizationProfileList'', ''OrganizationProjectList'', ''MaaSConfigurationList''}.
       known scheme' GroupVersion kind)"
proof -
  from scheme_registry.AddToScheme_known [OF assms(1), of scheme2] obtain scheme'
    where parts: "AddToScheme ops scheme2 = Inr scheme' \<and> (\<forall>gv kind. known scheme2 gv kind \<longrightarrow> known scheme' gv kind) \<and>
      (\<forall>kind \<in> {''Organization'', ''OrganizationList'', ''OrganizationProfile'', ''OrganizationProfileList'',
        ''OrganizationProject'', ''OrganizationProjectList'', ''MaaSConfiguration'', ''MaaSConfigurationList''}.
      known scheme' GroupVersion kind)" ..
  note added = parts [THEN conjunct1] and kept = parts [THEN conjunct2, THEN conjunct1] and new = parts [THEN conjunct2, THEN conjunct2]
  have "init_scheme must ops clientgo apiextensions scheme = Some scheme'"
    using assms(2-4) added by (simp add: init_scheme_def panics_on_error_def)
  then show ?thesis
    using kept new by (intro exI [of _ scheme']) (simp add: NewOrganizationReconciler_def NewOrganizationProfileReconciler_def
        NewOrganizationProjectReconciler_def NewMaaSConfigurationReconciler_def)
qed

theorem scheme_complete_witness:
  "\<exists>scheme'. init_scheme (\<lambda>f s. case f s of Inl _ \<Rightarrow> None | Inr s' \<Rightarrow> Some s') list_scheme (\<lambda>s. Inr ((''v1'', ''Namespace'') # s)) Inr [] = Some scheme' \<and>
     (''v1'', ''Namespace'') \<in> set scheme' \<and> (GroupVersion, ''MaaSConfigurationList'') \<in> set scheme'"
  using scheme_complete [OF list_scheme.scheme_registry_axioms, of "\<lambda>f s. case f s of Inl _ \<Rightarrow> None | Inr s' \<Rightarrow> Some s'"
      "\<lambda>s. Inr ((''v1'', ''Namespace'') # s)" "[]" "[(''v1'', ''Namespace'')]" Inr "[(''v1'', ''Namespace'')]"]
  by (fastforce simp: panics_on_error_def)

end
