(* ===== verification/Deep_Copy.thy ===== *)
theory Deep_Copy
  imports Platform_Object
begin

text \<open>
  \<open>api/v1alpha1/zz_generated.deepcopy.go\<close>: the copy functions the operator's caches and clients
  rely on. Here pointers matter, so the resources are modelled as Go lays them out: a pointer or a
  slice is an address (or \<open>None\<close> for \<open>nil\<close>) into a typed heap, one store per type pointed
  to, and a struct holds its other fields by value. A slice is the address of its items. The
  \<open>DeepCopyInto\<close> methods of \<open>ObjectMeta\<close>, \<open>ListMeta\<close> and the framework's
  \<open>Status\<close> are library code and parameters. As \<open>DeepCopyInto\<close> overwrites all of its
  target, it is a function from the source struct and the heap to the target struct and the heap.
\<close>

section \<open>Structs with pointers\<close>

type_synonym addr = nat

record MaaSConfigurationSpec_ref =
  msr_OrganizationRef :: OrganizationReference
  msr_OIDC :: "addr option"
  msr_TLS :: "addr option"
  msr_Quotas :: "addr option"

record OrganizationPlatformConfig_ref =
  pcr_OIDC :: "addr option"
  pcr_IngressGatewayRef :: "addr option"

record OrganizationProfileSpec_ref =
  psr_OrganizationRef :: OrganizationReference
  psr_Admins :: "addr option"
  psr_Defaults :: ProjectDefaults
  psr_Platform :: "addr option"

record NetworkGrant_ref =
  ngr_To :: string
  ngr_Direction :: string
  ngr_Ports :: "addr option"

record OrganizationProjectSpec_ref =
  jsr_OrganizationRef :: OrganizationReference
  jsr_Users :: "addr option"
  jsr_NetworkIsolation :: string
  jsr_NetworkGrants :: "addr option"

text \<open>The library's structs are type parameters: \<open>'m\<close> for \<open>ObjectMeta\<close>, \<open>'t\<close> for
  \<open>Status\<close>, \<open>'l\<close> for \<open>ListMeta\<close>.\<close>

record 't OrganizationStatus_ref =
  osr_Status :: 't
  osr_Root :: string

record 't OrganizationProfileStatus_ref =
  fsr_Status :: 't

record 't OrganizationProjectStatus_ref =
  jtr_Status :: 't
  jtr_Namespace :: string

record 't MaaSConfigurationStatus_ref =
  mtr_Status :: 't

record ('m, 't) Organization_ref =
  gor_TypeMeta :: TypeMeta
  gor_Meta :: 'm
  gor_Spec :: OrganizationSpec
  gor_Status :: "'t OrganizationStatus_ref"

record ('m, 't) OrganizationProfile_ref =
  gfr_TypeMeta :: TypeMeta
  gfr_Meta :: 'm
  gfr_Spec :: OrganizationProfileSpec_ref
  gfr_Status :: "'t OrganizationProfileStatus_ref"

record ('m, 't) OrganizationProject_ref =
  gjr_TypeMeta :: TypeMeta
  gjr_Meta :: 'm
  gjr_Spec :: OrganizationProjectSpec_ref
  gjr_Status :: "'t OrganizationProjectStatus_ref"

record ('m, 't) MaaSConfiguration_ref =
  gmr_TypeMeta :: TypeMeta
  gmr_Meta :: 'm
  gmr_Spec :: MaaSConfigurationSpec_ref
  gmr_Status :: "'t MaaSConfigurationStatus_ref"

record 'l OrganizationList_ref =
  gorl_TypeMeta :: TypeMeta
  gorl_ListMeta :: 'l
  gorl_Items :: "addr option"

record 'l OrganizationProfileList_ref =
  gfrl_TypeMeta :: TypeMeta
  gfrl_ListMeta :: 'l
  gfrl_Items :: "addr option"

record 'l OrganizationProjectList_ref =
  gjrl_TypeMeta :: TypeMeta
  gjrl_ListMeta :: 'l
  gjrl_Items :: "addr option"

record 'l MaaSConfigurationList_ref =
  gmrl_TypeMeta :: TypeMeta
  gmrl_ListMeta :: 'l
  gmrl_Items :: "addr option"

text \<open>The heap: the next free address, and a store for every type some field points to; \<open>'x\<close> is
  what the library's structs point to.\<close>

record ('m, 't, 'x) heap =
  hp_next :: addr
  hp_MaaSOIDC :: "addr \<Rightarrow> MaaSOIDC"
  hp_MaaSTLS :: "addr \<Rightarrow> MaaSTLS"
  hp_MaaSQuotas :: "addr \<Rightarrow> MaaSQuotas"
  hp_OIDCConfig :: "addr \<Rightarrow> OIDCConfig"
  hp_GatewayReference :: "addr \<Rightarrow> GatewayReference"
  hp_Platform :: "addr \<Rightarrow> OrganizationPlatformConfig_ref"
  hp_Ports :: "addr \<Rightarrow> int32 list"
  hp_Subjects :: "addr \<Rightarrow> Subject list"
  hp_Users :: "addr \<Rightarrow> ProjectUser list"
  hp_Grants :: "addr \<Rightarrow> NetworkGrant_ref list"
  hp_Organization :: "addr \<Rightarrow> ('m, 't) Organization_ref list"
  hp_OrganizationProfile :: "addr \<Rightarrow> ('m, 't) OrganizationProfile_ref list"
  hp_OrganizationProject :: "addr \<Rightarrow> ('m, 't) OrganizationProject_ref list"
  hp_MaaSConfiguration :: "addr \<Rightarrow> ('m, 't) MaaSConfiguration_ref list"
  hp_Library :: "addr \<Rightarrow> 'x"

type_synonym ('a, 'm, 't, 'x) copier = "'a \<Rightarrow> ('m, 't, 'x) heap \<Rightarrow> 'a \<times> ('m, 't, 'x) heap"

record ('m, 't, 'l, 'x) copy_library =
  ObjectMeta_DeepCopyInto :: "('m, 'm, 't, 'x) copier"
  Status_DeepCopyInto :: "('t, 'm, 't, 'x) copier"
  ListMeta_DeepCopyInto :: "('l, 'm, 't, 'x) copier"


section \<open>Allocation and the shapes of the generated code\<close>

text \<open>\<open>new\<close> and \<open>make\<close> reserve an address; what is stored there is overwritten before it is
  read. Then comes the content: by assignment or \<open>copy\<close> for types without pointers
  (\<open>flat\<close>), by their own \<open>DeepCopyInto\<close> otherwise, item by item for a slice.\<close>

definition new_addr :: "('m, 't, 'x) heap \<Rightarrow> addr \<times> ('m, 't, 'x) heap" where
  "new_addr h = (hp_next h, h\<lparr>hp_next := Suc (hp_next h)\<rparr>)"

definition flat :: "('a, 'm, 't, 'x) copier" where
  "flat x h = (x, h)"

fun copy_items :: "('a, 'm, 't, 'x) copier \<Rightarrow> ('a list, 'm, 't, 'x) copier" where
  "copy_items into [] h = ([], h)"
| "copy_items into (x # xs) h =
     (case into x h of (y, h1) \<Rightarrow> (case copy_items into xs h1 of (ys, h2) \<Rightarrow> (y # ys, h2)))"

definition copy_pointer :: "(('m, 't, 'x) heap \<Rightarrow> addr \<Rightarrow> 'a) \<Rightarrow>
    (((addr \<Rightarrow> 'a) \<Rightarrow> addr \<Rightarrow> 'a) \<Rightarrow> ('m, 't, 'x) heap \<Rightarrow> ('m, 't, 'x) heap) \<Rightarrow>
    ('a, 'm, 't, 'x) copier \<Rightarrow> (addr option, 'm, 't, 'x) copier" where
  "copy_pointer sel upd into p h =
     (case p of None \<Rightarrow> (None, h)
      | Some a \<Rightarrow> (case new_addr h of (b, h1) \<Rightarrow> (case into (sel h1 a) h1 of (v, h2) \<Rightarrow> (Some b, upd (\<lambda>f. f(b := v)) h2))))"

text \<open>\<open>DeepCopy\<close> on a pointer to a struct: \<open>nil\<close> gives \<open>nil\<close>, anything else a new struct;
  \<open>DeepCopyObject\<close> the same as an interface value.\<close>

definition deepCopy :: "('a, 'm, 't, 'x) copier \<Rightarrow> ('a option, 'm, 't, 'x) copier" where
  "deepCopy into p h = (case p of None \<Rightarrow> (None, h) | Some x \<Rightarrow> (case into x h of (y, h') \<Rightarrow> (Some y, h')))"

definition deepCopyObject :: "('a option, 'm, 't, 'x) copier \<Rightarrow> ('a option, 'm, 't, 'x) copier" where
  "deepCopyObject copy p h = (case copy p h of (Some c, h') \<Rightarrow> (Some c, h') | (None, h') \<Rightarrow> (None, h'))"


section \<open>The generated functions\<close>

text \<open>MaaS.\<close>

definition GatewayReference_DeepCopyInto :: "(GatewayReference, 'm, 't, 'x) copier" where
  "GatewayReference_DeepCopyInto x h = (x, h)"

definition GatewayReference_DeepCopy :: "(GatewayReference option, 'm, 't, 'x) copier" where
  "GatewayReference_DeepCopy = deepCopy GatewayReference_DeepCopyInto"

definition MaaSCertificateRef_DeepCopyInto :: "(MaaSCertificateRef, 'm, 't, 'x) copier" where
  "MaaSCertificateRef_DeepCopyInto x h = (x, h)"

definition MaaSCertificateRef_DeepCopy :: "(MaaSCertificateRef option, 'm, 't, 'x) copier" where
  "MaaSCertificateRef_DeepCopy = deepCopy MaaSCertificateRef_DeepCopyInto"

definition MaaSOIDC_DeepCopyInto :: "(MaaSOIDC, 'm, 't, 'x) copier" where
  "MaaSOIDC_DeepCopyInto x h = (x, h)"

definition MaaSOIDC_DeepCopy :: "(MaaSOIDC option, 'm, 't, 'x) copier" where
  "MaaSOIDC_DeepCopy = deepCopy MaaSOIDC_DeepCopyInto"

definition MaaSQuotas_DeepCopyInto :: "(MaaSQuotas, 'm, 't, 'x) copier" where
  "MaaSQuotas_DeepCopyInto x h = (x, h)"

definition MaaSQuotas_DeepCopy :: "(MaaSQuotas option, 'm, 't, 'x) copier" where
  "MaaSQuotas_DeepCopy = deepCopy MaaSQuotas_DeepCopyInto"

definition MaaSTLS_DeepCopyInto :: "(MaaSTLS, 'm, 't, 'x) copier" where
  "MaaSTLS_DeepCopyInto x h = (x, h)"

definition MaaSTLS_DeepCopy :: "(MaaSTLS option, 'm, 't, 'x) copier" where
  "MaaSTLS_DeepCopy = deepCopy MaaSTLS_DeepCopyInto"

definition MaaSConfigurationSpec_DeepCopyInto :: "(MaaSConfigurationSpec_ref, 'm, 't, 'x) copier" where
  "MaaSConfigurationSpec_DeepCopyInto x h = 
     (case copy_pointer hp_MaaSOIDC hp_MaaSOIDC_update flat (msr_OIDC x) h of (p1, h1) \<Rightarrow> 
     (case copy_pointer hp_MaaSTLS hp_MaaSTLS_update flat (msr_TLS x) h1 of (p2, h2) \<Rightarrow> 
     (case copy_pointer hp_MaaSQuotas hp_MaaSQuotas_update flat (msr_Quotas x) h2 of (p3, h3) \<Rightarrow> 
      (x\<lparr>msr_OIDC := p1, msr_TLS := p2, msr_Quotas := p3\<rparr>, h3))))"

definition MaaSConfigurationSpec_DeepCopy :: "(MaaSConfigurationSpec_ref option, 'm, 't, 'x) copier" where
  "MaaSConfigurationSpec_DeepCopy = deepCopy MaaSConfigurationSpec_DeepCopyInto"

definition MaaSConfigurationStatus_DeepCopyInto :: "('m, 't, 'l, 'x) copy_library \<Rightarrow> ('t MaaSConfigurationStatus_ref, 'm, 't, 'x) copier" where
  "MaaSConfigurationStatus_DeepCopyInto lib x h = 
     (case Status_DeepCopyInto lib (mtr_Status x) h of (p1, h1) \<Rightarrow> 
      (x\<lparr>mtr_Status := p1\<rparr>, h1))"

definition MaaSConfigurationStatus_DeepCopy :: "('m, 't, 'l, 'x) copy_library \<Rightarrow> ('t MaaSConfigurationStatus_ref option, 'm, 't, 'x) copier" where
  "MaaSConfigurationStatus_DeepCopy lib = deepCopy (MaaSConfigurationStatus_DeepCopyInto lib)"

definition MaaSConfiguration_DeepCopyInto :: "('m, 't, 'l, 'x) copy_library \<Rightarrow> (('m, 't) MaaSConfiguration_ref, 'm, 't, 'x) copier" where
  "MaaSConfiguration_DeepCopyInto lib x h = 
     (case ObjectMeta_DeepCopyInto lib (gmr_Meta x) h of (p1, h1) \<Rightarrow> 
     (case MaaSConfigurationSpec_DeepCopyInto (gmr_Spec x) h1 of (p2, h2) \<Rightarrow> 
     (case MaaSConfigurationStatus_DeepCopyInto lib (gmr_Status x) h2 of (p3, h3) \<Rightarrow> 
      (x\<lparr>gmr_Meta := p1, gmr_Spec := p2, gmr_Status := p3\<rparr>, h3))))"

definition MaaSConfiguration_DeepCopy :: "('m, 't, 'l, 'x) copy_library \<Rightarrow> (('m, 't) MaaSConfiguration_ref option, 'm, 't, 'x) copier" where
  "MaaSConfiguration_DeepCopy lib = deepCopy (MaaSConfiguration_DeepCopyInto lib)"

definition MaaSConfiguration_DeepCopyObject :: "('m, 't, 'l, 'x) copy_library \<Rightarrow> (('m, 't) MaaSConfiguration_ref option, 'm, 't, 'x) copier" where
  "MaaSConfiguration_DeepCopyObject lib = deepCopyObject (MaaSConfiguration_DeepCopy lib)"

definition MaaSConfigurationList_DeepCopyInto :: "('m, 't, 'l, 'x) copy_library \<Rightarrow> ('l MaaSConfigurationList_ref, 'm, 't, 'x) copier" where
  "MaaSConfigurationList_DeepCopyInto lib x h = 
     (case ListMeta_DeepCopyInto lib (gmrl_ListMeta x) h of (p1, h1) \<Rightarrow> 
     (case copy_pointer hp_MaaSConfiguration hp_MaaSConfiguration_update (copy_items (MaaSConfiguration_DeepCopyInto lib)) (gmrl_Items x) h1 of (p2, h2) \<Rightarrow> 
      (x\<lparr>gmrl_ListMeta := p1, gmrl_Items := p2\<rparr>, h2)))"

definition MaaSConfigurationList_DeepCopy :: "('m, 't, 'l, 'x) copy_library \<Rightarrow> ('l MaaSConfigurationList_ref option, 'm, 't, 'x) copier" where
  "MaaSConfigurationList_DeepCopy lib = deepCopy (MaaSConfigurationList_DeepCopyInto lib)"

definition MaaSConfigurationList_DeepCopyObject :: "('m, 't, 'l, 'x) copy_library \<Rightarrow> ('l MaaSConfigurationList_ref option, 'm, 't, 'x) copier" where
  "MaaSConfigurationList_DeepCopyObject lib = deepCopyObject (MaaSConfigurationList_DeepCopy lib)"

text \<open>Organizations.\<close>

definition OrganizationReference_DeepCopyInto :: "(OrganizationReference, 'm, 't, 'x) copier" where
  "OrganizationReference_DeepCopyInto x h = (x, h)"

definition OrganizationReference_DeepCopy :: "(OrganizationReference option, 'm, 't, 'x) copier" where
  "OrganizationReference_DeepCopy = deepCopy OrganizationReference_DeepCopyInto"

definition OrganizationSpec_DeepCopyInto :: "(OrganizationSpec, 'm, 't, 'x) copier" where
  "OrganizationSpec_DeepCopyInto x h = (x, h)"

definition OrganizationSpec_DeepCopy :: "(OrganizationSpec option, 'm, 't, 'x) copier" where
  "OrganizationSpec_DeepCopy = deepCopy OrganizationSpec_DeepCopyInto"

definition OrganizationStatus_DeepCopyInto :: "('m, 't, 'l, 'x) copy_library \<Rightarrow> ('t OrganizationStatus_ref, 'm, 't, 'x) copier" where
  "OrganizationStatus_DeepCopyInto lib x h = 
     (case Status_DeepCopyInto lib (osr_Status x) h of (p1, h1) \<Rightarrow> 
      (x\<lparr>osr_Status := p1\<rparr>, h1))"

definition OrganizationStatus_DeepCopy :: "('m, 't, 'l, 'x) copy_library \<Rightarrow> ('t OrganizationStatus_ref option, 'm, 't, 'x) copier" where
  "OrganizationStatus_DeepCopy lib = deepCopy (OrganizationStatus_DeepCopyInto lib)"

definition Organization_DeepCopyInto :: "('m, 't, 'l, 'x) copy_library \<Rightarrow> (('m, 't) Organization_ref, 'm, 't, 'x) copier" where
  "Organization_DeepCopyInto lib x h = 
     (case ObjectMeta_DeepCopyInto lib (gor_Meta x) h of (p1, h1) \<Rightarrow> 
     (case OrganizationStatus_DeepCopyInto lib (gor_Status x) h1 of (p2, h2) \<Rightarrow> 
      (x\<lparr>gor_Meta := p1, gor_Status := p2\<rparr>, h2)))"

definition Organization_DeepCopy :: "('m, 't, 'l, 'x) copy_library \<Rightarrow> (('m, 't) Organization_ref option, 'm, 't, 'x) copier" where
  "Organization_DeepCopy lib = deepCopy (Organization_DeepCopyInto lib)"

definition Organization_DeepCopyObject :: "('m, 't, 'l, 'x) copy_library \<Rightarrow> (('m, 't) Organization_ref option, 'm, 't, 'x) copier" where
  "Organization_DeepCopyObject lib = deepCopyObject (Organization_DeepCopy lib)"

definition OrganizationList_DeepCopyInto :: "('m, 't, 'l, 'x) copy_library \<Rightarrow> ('l OrganizationList_ref, 'm, 't, 'x) copier" where
  "OrganizationList_DeepCopyInto lib x h = 
     (case ListMeta_DeepCopyInto lib (gorl_ListMeta x) h of (p1, h1) \<Rightarrow> 
     (case copy_pointer hp_Organization hp_Organization_update (copy_items (Organization_DeepCopyInto lib)) (gorl_Items x) h1 of (p2, h2) \<Rightarrow> 
      (x\<lparr>gorl_ListMeta := p1, gorl_Items := p2\<rparr>, h2)))"

definition OrganizationList_DeepCopy :: "('m, 't, 'l, 'x) copy_library \<Rightarrow> ('l OrganizationList_ref option, 'm, 't, 'x) copier" where
  "OrganizationList_DeepCopy lib = deepCopy (OrganizationList_DeepCopyInto lib)"

definition OrganizationList_DeepCopyObject :: "('m, 't, 'l, 'x) copy_library \<Rightarrow> ('l OrganizationList_ref option, 'm, 't, 'x) copier" where
  "OrganizationList_DeepCopyObject lib = deepCopyObject (OrganizationList_DeepCopy lib)"

text \<open>Profiles.\<close>

definition OIDCConfig_DeepCopyInto :: "(OIDCConfig, 'm, 't, 'x) copier" where
  "OIDCConfig_DeepCopyInto x h = (x, h)"

definition OIDCConfig_DeepCopy :: "(OIDCConfig option, 'm, 't, 'x) copier" where
  "OIDCConfig_DeepCopy = deepCopy OIDCConfig_DeepCopyInto"

definition ProjectDefaults_DeepCopyInto :: "(ProjectDefaults, 'm, 't, 'x) copier" where
  "ProjectDefaults_DeepCopyInto x h = (x, h)"

definition ProjectDefaults_DeepCopy :: "(ProjectDefaults option, 'm, 't, 'x) copier" where
  "ProjectDefaults_DeepCopy = deepCopy ProjectDefaults_DeepCopyInto"

definition Subject_DeepCopyInto :: "(Subject, 'm, 't, 'x) copier" where
  "Subject_DeepCopyInto x h = (x, h)"

definition Subject_DeepCopy :: "(Subject option, 'm, 't, 'x) copier" where
  "Subject_DeepCopy = deepCopy Subject_DeepCopyInto"

definition OrganizationPlatformConfig_DeepCopyInto :: "(OrganizationPlatformConfig_ref, 'm, 't, 'x) copier" where
  "OrganizationPlatformConfig_DeepCopyInto x h = 
     (case copy_pointer hp_OIDCConfig hp_OIDCConfig_update flat (pcr_OIDC x) h of (p1, h1) \<Rightarrow> 
     (case copy_pointer hp_GatewayReference hp_GatewayReference_update flat (pcr_IngressGatewayRef x) h1 of (p2, h2) \<Rightarrow> 
      (x\<lparr>pcr_OIDC := p1, pcr_IngressGatewayRef := p2\<rparr>, h2)))"

definition OrganizationPlatformConfig_DeepCopy :: "(OrganizationPlatformConfig_ref option, 'm, 't, 'x) copier" where
  "OrganizationPlatformConfig_DeepCopy = deepCopy OrganizationPlatformConfig_DeepCopyInto"

definition OrganizationProfileSpec_DeepCopyInto :: "(OrganizationProfileSpec_ref, 'm, 't, 'x) copier" where
  "OrganizationProfileSpec_DeepCopyInto x h = 
     (case copy_pointer hp_Subjects hp_Subjects_update flat (psr_Admins x) h of (p1, h1) \<Rightarrow> 
     (case copy_pointer hp_Platform hp_Platform_update OrganizationPlatformConfig_DeepCopyInto (psr_Platform x) h1 of (p2, h2) \<Rightarrow> 
      (x\<lparr>psr_Admins := p1, psr_Platform := p2\<rparr>, h2)))"

definition OrganizationProfileSpec_DeepCopy :: "(OrganizationProfileSpec_ref option, 'm, 't, 'x) copier" where
  "OrganizationProfileSpec_DeepCopy = deepCopy OrganizationProfileSpec_DeepCopyInto"

definition OrganizationProfileStatus_DeepCopyInto :: "('m, 't, 'l, 'x) copy_library \<Rightarrow> ('t OrganizationProfileStatus_ref, 'm, 't, 'x) copier" where
  "OrganizationProfileStatus_DeepCopyInto lib x h = 
     (case Status_DeepCopyInto lib (fsr_Status x) h of (p1, h1) \<Rightarrow> 
      (x\<lparr>fsr_Status := p1\<rparr>, h1))"

definition OrganizationProfileStatus_DeepCopy :: "('m, 't, 'l, 'x) copy_library \<Rightarrow> ('t OrganizationProfileStatus_ref option, 'm, 't, 'x) copier" where
  "OrganizationProfileStatus_DeepCopy lib = deepCopy (OrganizationProfileStatus_DeepCopyInto lib)"

definition OrganizationProfile_DeepCopyInto :: "('m, 't, 'l, 'x) copy_library \<Rightarrow> (('m, 't) OrganizationProfile_ref, 'm, 't, 'x) copier" where
  "OrganizationProfile_DeepCopyInto lib x h = 
     (case ObjectMeta_DeepCopyInto lib (gfr_Meta x) h of (p1, h1) \<Rightarrow> 
     (case OrganizationProfileSpec_DeepCopyInto (gfr_Spec x) h1 of (p2, h2) \<Rightarrow> 
     (case OrganizationProfileStatus_DeepCopyInto lib (gfr_Status x) h2 of (p3, h3) \<Rightarrow> 
      (x\<lparr>gfr_Meta := p1, gfr_Spec := p2, gfr_Status := p3\<rparr>, h3))))"

definition OrganizationProfile_DeepCopy :: "('m, 't, 'l, 'x) copy_library \<Rightarrow> (('m, 't) OrganizationProfile_ref option, 'm, 't, 'x) copier" where
  "OrganizationProfile_DeepCopy lib = deepCopy (OrganizationProfile_DeepCopyInto lib)"

definition OrganizationProfile_DeepCopyObject :: "('m, 't, 'l, 'x) copy_library \<Rightarrow> (('m, 't) OrganizationProfile_ref option, 'm, 't, 'x) copier" where
  "OrganizationProfile_DeepCopyObject lib = deepCopyObject (OrganizationProfile_DeepCopy lib)"

definition OrganizationProfileList_DeepCopyInto :: "('m, 't, 'l, 'x) copy_library \<Rightarrow> ('l OrganizationProfileList_ref, 'm, 't, 'x) copier" where
  "OrganizationProfileList_DeepCopyInto lib x h = 
     (case ListMeta_DeepCopyInto lib (gfrl_ListMeta x) h of (p1, h1) \<Rightarrow> 
     (case copy_pointer hp_OrganizationProfile hp_OrganizationProfile_update (copy_items (OrganizationProfile_DeepCopyInto lib)) (gfrl_Items x) h1 of (p2, h2) \<Rightarrow> 
      (x\<lparr>gfrl_ListMeta := p1, gfrl_Items := p2\<rparr>, h2)))"

definition OrganizationProfileList_DeepCopy :: "('m, 't, 'l, 'x) copy_library \<Rightarrow> ('l OrganizationProfileList_ref option, 'm, 't, 'x) copier" where
  "OrganizationProfileList_DeepCopy lib = deepCopy (OrganizationProfileList_DeepCopyInto lib)"

definition OrganizationProfileList_DeepCopyObject :: "('m, 't, 'l, 'x) copy_library \<Rightarrow> ('l OrganizationProfileList_ref option, 'm, 't, 'x) copier" where
  "OrganizationProfileList_DeepCopyObject lib = deepCopyObject (OrganizationProfileList_DeepCopy lib)"

text \<open>Projects.\<close>

definition ProjectUser_DeepCopyInto :: "(ProjectUser, 'm, 't, 'x) copier" where
  "ProjectUser_DeepCopyInto x h = (x, h)"

definition ProjectUser_DeepCopy :: "(ProjectUser option, 'm, 't, 'x) copier" where
  "ProjectUser_DeepCopy = deepCopy ProjectUser_DeepCopyInto"

definition NetworkGrant_DeepCopyInto :: "(NetworkGrant_ref, 'm, 't, 'x) copier" where
  "NetworkGrant_DeepCopyInto x h = 
     (case copy_pointer hp_Ports hp_Ports_update flat (ngr_Ports x) h of (p1, h1) \<Rightarrow> 
      (x\<lparr>ngr_Ports := p1\<rparr>, h1))"

definition NetworkGrant_DeepCopy :: "(NetworkGrant_ref option, 'm, 't, 'x) copier" where
  "NetworkGrant_DeepCopy = deepCopy NetworkGrant_DeepCopyInto"

definition OrganizationProjectSpec_DeepCopyInto :: "(OrganizationProjectSpec_ref, 'm, 't, 'x) copier" where
  "OrganizationProjectSpec_DeepCopyInto x h = 
     (case copy_pointer hp_Users hp_Users_update flat (jsr_Users x) h of (p1, h1) \<Rightarrow> 
     (case copy_pointer hp_Grants hp_Grants_update (copy_items NetworkGrant_DeepCopyInto) (jsr_NetworkGrants x) h1 of (p2, h2) \<Rightarrow> 
      (x\<lparr>jsr_Users := p1, jsr_NetworkGrants := p2\<rparr>, h2)))"

definition OrganizationProjectSpec_DeepCopy :: "(OrganizationProjectSpec_ref option, 'm, 't, 'x) copier" where
  "OrganizationProjectSpec_DeepCopy = deepCopy OrganizationProjectSpec_DeepCopyInto"

definition OrganizationProjectStatus_DeepCopyInto :: "('m, 't, 'l, 'x) copy_library \<Rightarrow> ('t OrganizationProjectStatus_ref, 'm, 't, 'x) copier" where
  "OrganizationProjectStatus_DeepCopyInto lib x h = 
     (case Status_DeepCopyInto lib (jtr_Status x) h of (p1, h1) \<Rightarrow> 
      (x\<lparr>jtr_Status := p1\<rparr>, h1))"

definition OrganizationProjectStatus_DeepCopy :: "('m, 't, 'l, 'x) copy_library \<Rightarrow> ('t OrganizationProjectStatus_ref option, 'm, 't, 'x) copier" where
  "OrganizationProjectStatus_DeepCopy lib = deepCopy (OrganizationProjectStatus_DeepCopyInto lib)"

definition OrganizationProject_DeepCopyInto :: "('m, 't, 'l, 'x) copy_library \<Rightarrow> (('m, 't) OrganizationProject_ref, 'm, 't, 'x) copier" where
  "OrganizationProject_DeepCopyInto lib x h = 
     (case ObjectMeta_DeepCopyInto lib (gjr_Meta x) h of (p1, h1) \<Rightarrow> 
     (case OrganizationProjectSpec_DeepCopyInto (gjr_Spec x) h1 of (p2, h2) \<Rightarrow> 
     (case OrganizationProjectStatus_DeepCopyInto lib (gjr_Status x) h2 of (p3, h3) \<Rightarrow> 
      (x\<lparr>gjr_Meta := p1, gjr_Spec := p2, gjr_Status := p3\<rparr>, h3))))"

definition OrganizationProject_DeepCopy :: "('m, 't, 'l, 'x) copy_library \<Rightarrow> (('m, 't) OrganizationProject_ref option, 'm, 't, 'x) copier" where
  "OrganizationProject_DeepCopy lib = deepCopy (OrganizationProject_DeepCopyInto lib)"

definition OrganizationProject_DeepCopyObject :: "('m, 't, 'l, 'x) copy_library \<Rightarrow> (('m, 't) OrganizationProject_ref option, 'm, 't, 'x) copier" where
  "OrganizationProject_DeepCopyObject lib = deepCopyObject (OrganizationProject_DeepCopy lib)"

definition OrganizationProjectList_DeepCopyInto :: "('m, 't, 'l, 'x) copy_library \<Rightarrow> ('l OrganizationProjectList_ref, 'm, 't, 'x) copier" where
  "OrganizationProjectList_DeepCopyInto lib x h = 
     (case ListMeta_DeepCopyInto lib (gjrl_ListMeta x) h of (p1, h1) \<Rightarrow> 
     (case copy_pointer hp_OrganizationProject hp_OrganizationProject_update (copy_items (OrganizationProject_DeepCopyInto lib)) (gjrl_Items x) h1 of (p2, h2) \<Rightarrow> 
      (x\<lparr>gjrl_ListMeta := p1, gjrl_Items := p2\<rparr>, h2)))"

definition OrganizationProjectList_DeepCopy :: "('m, 't, 'l, 'x) copy_library \<Rightarrow> ('l OrganizationProjectList_ref option, 'm, 't, 'x) copier" where
  "OrganizationProjectList_DeepCopy lib = deepCopy (OrganizationProjectList_DeepCopyInto lib)"

definition OrganizationProjectList_DeepCopyObject :: "('m, 't, 'l, 'x) copy_library \<Rightarrow> ('l OrganizationProjectList_ref option, 'm, 't, 'x) copier" where
  "OrganizationProjectList_DeepCopyObject lib = deepCopyObject (OrganizationProjectList_DeepCopy lib)"

end
