(* ===== verification/Deep_Copy_Correct.thy ===== *)
theory Deep_Copy_Correct
  imports Deep_Copy
begin

text \<open>
  The copies are deep. Every struct has a value (with the pointers followed, as the records of
  \<open>Api_Types\<close>) and a footprint (the addresses it reaches). The contract \<open>deep_copier\<close>
  says that a copy has the same value, reaches fresh addresses only, and leaves every old address as it
  was. It is closed under the shapes of the generated code (pointers, slices, fields one after
  another), so each generated function is shown to satisfy it by saying which fields it copies.
\<close>

section \<open>Heaps\<close>

text \<open>Two heaps agree at an address.\<close>

definition same_at :: "('m, 't, 'x) heap \<Rightarrow> ('m, 't, 'x) heap \<Rightarrow> addr \<Rightarrow> bool" where
  "same_at h h' a \<longleftrightarrow> hp_MaaSOIDC h' a = hp_MaaSOIDC h a \<and>
     hp_MaaSTLS h' a = hp_MaaSTLS h a \<and>
     hp_MaaSQuotas h' a = hp_MaaSQuotas h a \<and>
     hp_OIDCConfig h' a = hp_OIDCConfig h a \<and>
     hp_GatewayReference h' a = hp_GatewayReference h a \<and>
     hp_Platform h' a = hp_Platform h a \<and>
     hp_Ports h' a = hp_Ports h a \<and>
     hp_Subjects h' a = hp_Subjects h a \<and>
     hp_Users h' a = hp_Users h a \<and>
     hp_Grants h' a = hp_Grants h a \<and>
     hp_Organization h' a = hp_Organization h a \<and>
     hp_OrganizationProfile h' a = hp_OrganizationProfile h a \<and>
     hp_OrganizationProject h' a = hp_OrganizationProject h a \<and>
     hp_MaaSConfiguration h' a = hp_MaaSConfiguration h a \<and>
     hp_Library h' a = hp_Library h a"

definition extends :: "('m, 't, 'x) heap \<Rightarrow> ('m, 't, 'x) heap \<Rightarrow> bool" where
  "extends h h' \<longleftrightarrow> hp_next h \<le> hp_next h' \<and> (\<forall>a < hp_next h. same_at h h' a)"

text \<open>The addresses a struct reaches have been handed out.\<close>

definition within :: "('m, 't, 'x) heap \<Rightarrow> addr set \<Rightarrow> bool" where
  "within h A \<longleftrightarrow> A \<subseteq> {..<hp_next h}"

definition fresh_between :: "('m, 't, 'x) heap \<Rightarrow> ('m, 't, 'x) heap \<Rightarrow> addr set \<Rightarrow> bool" where
  "fresh_between h h' A \<longleftrightarrow> A \<subseteq> {hp_next h..<hp_next h'}"

lemma same_at_refl [simp]: "same_at h h a"
  by (simp add: same_at_def)

lemma same_at_trans: "same_at h h1 a \<Longrightarrow> same_at h1 h2 a \<Longrightarrow> same_at h h2 a"
  unfolding same_at_def by simp

lemma extends_refl [simp]: "extends h h"
  by (simp add: extends_def)

lemma extends_trans: "extends h h1 \<Longrightarrow> extends h1 h2 \<Longrightarrow> extends h h2"
  unfolding extends_def by (meson less_le_trans order_trans same_at_trans)

lemma extends_same: "extends h h' \<Longrightarrow> within h A \<Longrightarrow> a \<in> A \<Longrightarrow> same_at h h' a"
  unfolding extends_def within_def by blast

lemma within_extends: "extends h h' \<Longrightarrow> within h A \<Longrightarrow> within h' A"
  unfolding extends_def within_def by auto

lemma fresh_within: "fresh_between h h' A \<Longrightarrow> within h' A"
  unfolding fresh_between_def within_def by auto

lemma fresh_wider: "fresh_between h1 h2 A \<Longrightarrow> extends h h1 \<Longrightarrow> extends h2 h3 \<Longrightarrow> fresh_between h h3 A"
  unfolding fresh_between_def extends_def by force

lemma fresh_Un: "fresh_between h h' (A \<union> B) \<longleftrightarrow> fresh_between h h' A \<and> fresh_between h h' B"
  unfolding fresh_between_def by blast

lemma within_Un: "within h (A \<union> B) \<longleftrightarrow> within h A \<and> within h B"
  unfolding within_def by blast

lemma fresh_empty [simp]: "fresh_between h h' {}" "within h {}"
  unfolding fresh_between_def within_def by simp_all


section \<open>The contract\<close>

locale deep_copier =
  fixes copy :: "('a, 'm, 't, 'x) copier"
    and val :: "('m, 't, 'x) heap \<Rightarrow> 'a \<Rightarrow> 'v"
    and foot :: "('m, 't, 'x) heap \<Rightarrow> 'a \<Rightarrow> addr set"
  assumes copied: "copy x h = (y, h') \<Longrightarrow> within h (foot h x) \<Longrightarrow>
      extends h h' \<and> val h' y = val h x \<and> fresh_between h h' (foot h' y)"
    and stable: "\<forall>a \<in> foot h x. same_at h h' a \<Longrightarrow> val h' x = val h x \<and> foot h' x = foot h x"
begin

lemma kept: "extends h h' \<Longrightarrow> within h (foot h x) \<Longrightarrow> val h' x = val h x \<and> foot h' x = foot h x"
  by (rule stable) (blast intro: extends_same)

end

lemma flat_deep: "deep_copier flat (\<lambda>h x. x) (\<lambda>h x. {})"
  by unfold_locales (auto simp: flat_def)

text \<open>Fields copied one after another.\<close>

definition copy_pair :: "('a, 'm, 't, 'x) copier \<Rightarrow> ('b, 'm, 't, 'x) copier \<Rightarrow> ('a \<times> 'b, 'm, 't, 'x) copier" where
  "copy_pair f g p h = (case f (fst p) h of (a, h1) \<Rightarrow> (case g (snd p) h1 of (b, h2) \<Rightarrow> ((a, b), h2)))"

lemma pair_deep:
  assumes "deep_copier f fval ffoot" and "deep_copier g gval gfoot"
  shows "deep_copier (copy_pair f g) (\<lambda>h p. (fval h (fst p), gval h (snd p))) (\<lambda>h p. ffoot h (fst p) \<union> gfoot h (snd p))"
proof
  fix p h q h'
  assume run: "copy_pair f g p h = (q, h')" and "within h (ffoot h (fst p) \<union> gfoot h (snd p))"
  then have inside: "within h (ffoot h (fst p))" "within h (gfoot h (snd p))" by (simp_all add: within_Un)
  obtain a h1 b where a: "f (fst p) h = (a, h1)" and b: "g (snd p) h1 = (b, h')" and q: "q = (a, b)"
    using run by (auto simp: copy_pair_def split: prod.splits)
  note A = deep_copier.copied [OF assms(1) a inside(1)]
  have kept: "gval h1 (snd p) = gval h (snd p)" "gfoot h1 (snd p) = gfoot h (snd p)"
    using deep_copier.kept [OF assms(2) _ inside(2)] A by blast+
  have "within h1 (gfoot h1 (snd p))" using kept within_extends A inside(2) by metis
  note B = deep_copier.copied [OF assms(2) b this]
  have "fval h' a = fval h1 a" "ffoot h' a = ffoot h1 a"
    using deep_copier.kept [OF assms(1)] B fresh_within A by blast+
  with A B kept q extends_trans show "extends h h' \<and> (fval h' (fst q), gval h' (snd q)) = (fval h (fst p), gval h (snd p)) \<and>
      fresh_between h h' (ffoot h' (fst q) \<union> gfoot h' (snd q))"
    unfolding fresh_Un by (auto intro: fresh_wider)
next
  fix p h h'
  assume "\<forall>a \<in> ffoot h (fst p) \<union> gfoot h (snd p). same_at h h' a"
  then show "(fval h' (fst p), gval h' (snd p)) = (fval h (fst p), gval h (snd p)) \<and>
      ffoot h' (fst p) \<union> gfoot h' (snd p) = ffoot h (fst p) \<union> gfoot h (snd p)"
    using deep_copier.stable [OF assms(1), of h "fst p" h'] deep_copier.stable [OF assms(2), of h "snd p" h'] by simp
qed

text \<open>A struct some fields of which are copied deeply, the others by value.\<close>

lemma struct_deep:
  assumes "deep_copier f fval ffoot"
    and "\<And>x h. copy x h = (case f (get x) h of (p, h') \<Rightarrow> (put p x, h'))"
    and "\<And>p x. get (put p x) = p" and "\<And>h x. val h x = build (rest x) (fval h (get x))"
    and "\<And>p x. rest (put p x) = rest x" and "\<And>h x. foot h x = ffoot h (get x)"
  shows "deep_copier copy val foot"
proof
  fix x h y h'
  assume "copy x h = (y, h')" and "within h (foot h x)"
  then obtain p where p: "f (get x) h = (p, h')" "y = put p x" "within h (ffoot h (get x))"
    by (auto simp: assms(2,6) split: prod.splits)
  with deep_copier.copied [OF assms(1) p(1,3)]
  show "extends h h' \<and> val h' y = val h x \<and> fresh_between h h' (foot h' y)"
    by (simp add: assms(3,4,5,6))
next
  fix h x h'
  assume "\<forall>a \<in> foot h x. same_at h h' a"
  then show "val h' x = val h x \<and> foot h' x = foot h x"
    using deep_copier.stable [OF assms(1), of h "get x" h'] by (simp add: assms(4,6))
qed

text \<open>The items of a slice.\<close>

definition items_foot :: "(('m, 't, 'x) heap \<Rightarrow> 'a \<Rightarrow> addr set) \<Rightarrow> ('m, 't, 'x) heap \<Rightarrow> 'a list \<Rightarrow> addr set" where
  "items_foot foot h xs = (\<Union>x \<in> set xs. foot h x)"

lemma items_deep:
  assumes "deep_copier copy val foot"
  shows "deep_copier (copy_items copy) (\<lambda>h. map (val h)) (items_foot foot)"
proof
  fix xs h ys h'
  assume "copy_items copy xs h = (ys, h')" and "within h (items_foot foot h xs)"
  then show "extends h h' \<and> map (val h') ys = map (val h) xs \<and> fresh_between h h' (items_foot foot h' ys)"
  proof (induction xs arbitrary: h ys)
    case Nil
    then show ?case by (simp add: items_foot_def)
  next
    case (Cons x xs)
    from Cons.prems obtain y h1 zs where step: "copy x h = (y, h1)" "copy_items copy xs h1 = (zs, h')" "ys = y # zs"
      by (auto split: prod.splits)
    have inside: "within h (foot h x)" "within h (items_foot foot h xs)"
      using Cons.prems(2) by (simp_all add: items_foot_def within_Un)
    note A = deep_copier.copied [OF assms step(1) inside(1)]
    have same: "val h1 z = val h z \<and> foot h1 z = foot h z" if "z \<in> set xs" for z
    proof -
      have "within h (foot h z)" using inside(2) that by (auto simp: items_foot_def within_def)
      with A show ?thesis using deep_copier.kept [OF assms] by blast
    qed
    then have foots: "items_foot foot h1 xs = items_foot foot h xs" by (simp add: items_foot_def)
    have "within h1 (items_foot foot h1 xs)" using within_extends A inside(2) foots by metis
    note B = Cons.IH [OF step(2) this]
    have "val h' y = val h1 y" "foot h' y = foot h1 y"
      using deep_copier.kept [OF assms] B fresh_within A by blast+
    moreover have "map (val h1) xs = map (val h) xs" using same by simp
    ultimately show ?case
      using A B step(3) extends_trans fresh_wider [of h h1 "foot h1 y" h h'] fresh_wider [of h1 h' "items_foot foot h' zs" h h']
      by (auto simp: items_foot_def fresh_Un)
  qed
next
  fix h xs h'
  assume "\<forall>a \<in> items_foot foot h xs. same_at h h' a"
  then have "val h' x = val h x \<and> foot h' x = foot h x" if "x \<in> set xs" for x
    using deep_copier.stable [OF assms, of h x h'] that by (auto simp: items_foot_def)
  then show "map (val h') xs = map (val h) xs \<and> items_foot foot h' xs = items_foot foot h xs"
    by (auto simp: items_foot_def)
qed

text \<open>A pointer, or a slice: one store of the heap.\<close>

definition pointer_val :: "(('m, 't, 'x) heap \<Rightarrow> addr \<Rightarrow> 'a) \<Rightarrow> (('m, 't, 'x) heap \<Rightarrow> 'a \<Rightarrow> 'v) \<Rightarrow> ('m, 't, 'x) heap \<Rightarrow> addr option \<Rightarrow> 'v option" where
  "pointer_val sel val h p = map_option (\<lambda>a. val h (sel h a)) p"

definition pointer_foot :: "(('m, 't, 'x) heap \<Rightarrow> addr \<Rightarrow> 'a) \<Rightarrow> (('m, 't, 'x) heap \<Rightarrow> 'a \<Rightarrow> addr set) \<Rightarrow> ('m, 't, 'x) heap \<Rightarrow> addr option \<Rightarrow> addr set" where
  "pointer_foot sel foot h p = (case p of None \<Rightarrow> {} | Some a \<Rightarrow> insert a (foot h (sel h a)))"

locale typed_store =
  fixes sel :: "('m, 't, 'x) heap \<Rightarrow> addr \<Rightarrow> 'a"
    and upd :: "((addr \<Rightarrow> 'a) \<Rightarrow> addr \<Rightarrow> 'a) \<Rightarrow> ('m, 't, 'x) heap \<Rightarrow> ('m, 't, 'x) heap"
  assumes sel_upd: "sel (upd f h) = f (sel h)" and next_upd: "hp_next (upd f h) = hp_next h"
    and sel_next: "sel (h\<lparr>hp_next := n\<rparr>) = sel h"
    and same_upd: "a \<noteq> b \<Longrightarrow> same_at h (upd (\<lambda>f. f(b := v)) h) a"
    and same_sel: "same_at h h' a \<Longrightarrow> sel h' a = sel h a"
begin

lemma pointer_deep:
  assumes "deep_copier into val foot"
  shows "deep_copier (copy_pointer sel upd into) (pointer_val sel val) (pointer_foot sel foot)"
proof
  fix p h q h'
  assume run: "copy_pointer sel upd into p h = (q, h')" and inside: "within h (pointer_foot sel foot h p)"
  show "extends h h' \<and> pointer_val sel val h' q = pointer_val sel val h p \<and> fresh_between h h' (pointer_foot sel foot h' q)"
  proof (cases p)
    case None
    with run show ?thesis by (simp add: copy_pointer_def pointer_val_def pointer_foot_def)
  next
    case (Some a)
    let ?b = "hp_next h" and ?h1 = "h\<lparr>hp_next := Suc (hp_next h)\<rparr>"
    obtain v h2 where into: "into (sel h a) ?h1 = (v, h2)" and q: "q = Some ?b" and h': "h' = upd (\<lambda>f. f(?b := v)) h2"
      using run Some by (auto simp: copy_pointer_def new_addr_def sel_next split: prod.splits)
    have first: "extends h ?h1" by (simp add: extends_def same_at_def)
    have source: "within h (foot h (sel h a))" using inside Some by (simp add: pointer_foot_def within_def)
    have kept: "val ?h1 (sel h a) = val h (sel h a)" "foot ?h1 (sel h a) = foot h (sel h a)"
      using deep_copier.kept [OF assms first source] by simp_all
    have "within ?h1 (foot ?h1 (sel h a))" using within_extends [OF first source] kept by simp
    note copied = deep_copier.copied [OF assms into this]
    have same: "same_at h2 h' c" if "c \<noteq> ?b" for c using same_upd that h' by simp
    have "extends h h2" using extends_trans first copied by blast
    then have ext: "extends h h'"
      using same same_at_trans unfolding extends_def by (metis h' less_irrefl next_upd)
    have "\<forall>c \<in> foot h2 v. same_at h2 h' c"
      using copied same by (auto simp: fresh_between_def)
    then have "val h' v = val h2 v" "foot h' v = foot h2 v" using deep_copier.stable [OF assms] by blast+
    moreover have "sel h' ?b = v" by (simp add: h' sel_upd)
    moreover have "fresh_between h h' (insert ?b (foot h2 v))"
      using copied h' by (auto simp: fresh_between_def extends_def next_upd)
    ultimately show ?thesis using ext copied kept q Some by (simp add: pointer_val_def pointer_foot_def)
  qed
next
  fix h p h'
  assume same: "\<forall>a \<in> pointer_foot sel foot h p. same_at h h' a"
  show "pointer_val sel val h' p = pointer_val sel val h p \<and> pointer_foot sel foot h' p = pointer_foot sel foot h p"
  proof (cases p)
    case None
    then show ?thesis by (simp add: pointer_val_def pointer_foot_def)
  next
    case (Some a)
    with same have "sel h' a = sel h a" by (simp add: pointer_foot_def same_sel)
    moreover have "val h' (sel h a) = val h (sel h a) \<and> foot h' (sel h a) = foot h (sel h a)"
      by (rule deep_copier.stable [OF assms]) (use same Some in \<open>simp add: pointer_foot_def\<close>)
    ultimately show ?thesis using Some by (simp add: pointer_val_def pointer_foot_def)
  qed
qed

end

text \<open>The stores of the heap.\<close>

interpretation MaaSOIDC_store: typed_store hp_MaaSOIDC hp_MaaSOIDC_update
  by unfold_locales (simp_all add: same_at_def)

interpretation MaaSTLS_store: typed_store hp_MaaSTLS hp_MaaSTLS_update
  by unfold_locales (simp_all add: same_at_def)

interpretation MaaSQuotas_store: typed_store hp_MaaSQuotas hp_MaaSQuotas_update
  by unfold_locales (simp_all add: same_at_def)

interpretation OIDCConfig_store: typed_store hp_OIDCConfig hp_OIDCConfig_update
  by unfold_locales (simp_all add: same_at_def)

interpretation GatewayReference_store: typed_store hp_GatewayReference hp_GatewayReference_update
  by unfold_locales (simp_all add: same_at_def)

interpretation Platform_store: typed_store hp_Platform hp_Platform_update
  by unfold_locales (simp_all add: same_at_def)

interpretation Ports_store: typed_store hp_Ports hp_Ports_update
  by unfold_locales (simp_all add: same_at_def)

interpretation Subjects_store: typed_store hp_Subjects hp_Subjects_update
  by unfold_locales (simp_all add: same_at_def)

interpretation Users_store: typed_store hp_Users hp_Users_update
  by unfold_locales (simp_all add: same_at_def)

interpretation Grants_store: typed_store hp_Grants hp_Grants_update
  by unfold_locales (simp_all add: same_at_def)

interpretation Organization_store: typed_store hp_Organization hp_Organization_update
  by unfold_locales (simp_all add: same_at_def)

interpretation OrganizationProfile_store: typed_store hp_OrganizationProfile hp_OrganizationProfile_update
  by unfold_locales (simp_all add: same_at_def)

interpretation OrganizationProject_store: typed_store hp_OrganizationProject hp_OrganizationProject_update
  by unfold_locales (simp_all add: same_at_def)

interpretation MaaSConfiguration_store: typed_store hp_MaaSConfiguration hp_MaaSConfiguration_update
  by unfold_locales (simp_all add: same_at_def)

interpretation Library_store: typed_store hp_Library hp_Library_update
  by unfold_locales (simp_all add: same_at_def)


section \<open>What the structs stand for\<close>

text \<open>The value of a struct, with its pointers followed, and the addresses it reaches.\<close>

definition MaaSConfigurationSpec_val :: "('m, 't, 'x) heap \<Rightarrow> MaaSConfigurationSpec_ref \<Rightarrow> MaaSConfigurationSpec" where
  "MaaSConfigurationSpec_val h x = \<lparr>mcs_OrganizationRef = msr_OrganizationRef x,
     mcs_OIDC = pointer_val hp_MaaSOIDC (\<lambda>h x. x) h (msr_OIDC x), mcs_TLS = pointer_val hp_MaaSTLS (\<lambda>h x. x) h (msr_TLS x),
     mcs_Quotas = pointer_val hp_MaaSQuotas (\<lambda>h x. x) h (msr_Quotas x)\<rparr>"

definition MaaSConfigurationSpec_foot :: "('m, 't, 'x) heap \<Rightarrow> MaaSConfigurationSpec_ref \<Rightarrow> addr set" where
  "MaaSConfigurationSpec_foot h x = pointer_foot hp_MaaSOIDC (\<lambda>h x. {}) h (msr_OIDC x) \<union>
     (pointer_foot hp_MaaSTLS (\<lambda>h x. {}) h (msr_TLS x) \<union> pointer_foot hp_MaaSQuotas (\<lambda>h x. {}) h (msr_Quotas x))"

lemma MaaSConfigurationSpec_deep:
  "deep_copier MaaSConfigurationSpec_DeepCopyInto MaaSConfigurationSpec_val MaaSConfigurationSpec_foot"
  by (rule struct_deep [OF pair_deep [OF MaaSOIDC_store.pointer_deep [OF flat_deep]
          pair_deep [OF MaaSTLS_store.pointer_deep [OF flat_deep] MaaSQuotas_store.pointer_deep [OF flat_deep]]],
        where get = "\<lambda>x. (msr_OIDC x, msr_TLS x, msr_Quotas x)"
          and put = "\<lambda>(a, b, c) x. x\<lparr>msr_OIDC := a, msr_TLS := b, msr_Quotas := c\<rparr>" and rest = msr_OrganizationRef
          and build = "\<lambda>r (a, b, c). \<lparr>mcs_OrganizationRef = r, mcs_OIDC = a, mcs_TLS = b, mcs_Quotas = c\<rparr>"])
    (simp_all add: MaaSConfigurationSpec_DeepCopyInto_def MaaSConfigurationSpec_val_def MaaSConfigurationSpec_foot_def
      copy_pair_def split: prod.split)

definition OrganizationPlatformConfig_val :: "('m, 't, 'x) heap \<Rightarrow> OrganizationPlatformConfig_ref \<Rightarrow> OrganizationPlatformConfig" where
  "OrganizationPlatformConfig_val h x = \<lparr>plat_OIDC = pointer_val hp_OIDCConfig (\<lambda>h x. x) h (pcr_OIDC x),
     plat_IngressGatewayRef = pointer_val hp_GatewayReference (\<lambda>h x. x) h (pcr_IngressGatewayRef x)\<rparr>"

definition OrganizationPlatformConfig_foot :: "('m, 't, 'x) heap \<Rightarrow> OrganizationPlatformConfig_ref \<Rightarrow> addr set" where
  "OrganizationPlatformConfig_foot h x = pointer_foot hp_OIDCConfig (\<lambda>h x. {}) h (pcr_OIDC x) \<union>
     pointer_foot hp_GatewayReference (\<lambda>h x. {}) h (pcr_IngressGatewayRef x)"

lemma OrganizationPlatformConfig_deep:
  "deep_copier OrganizationPlatformConfig_DeepCopyInto OrganizationPlatformConfig_val OrganizationPlatformConfig_foot"
  by (rule struct_deep [OF pair_deep [OF OIDCConfig_store.pointer_deep [OF flat_deep] GatewayReference_store.pointer_deep [OF flat_deep]],
        where get = "\<lambda>x. (pcr_OIDC x, pcr_IngressGatewayRef x)"
          and put = "\<lambda>(a, b) x. x\<lparr>pcr_OIDC := a, pcr_IngressGatewayRef := b\<rparr>" and rest = "\<lambda>x. ()"
          and build = "\<lambda>r (a, b). \<lparr>plat_OIDC = a, plat_IngressGatewayRef = b\<rparr>"])
    (simp_all add: OrganizationPlatformConfig_DeepCopyInto_def OrganizationPlatformConfig_val_def OrganizationPlatformConfig_foot_def
      copy_pair_def split: prod.split)

definition OrganizationProfileSpec_val :: "('m, 't, 'x) heap \<Rightarrow> OrganizationProfileSpec_ref \<Rightarrow> OrganizationProfileSpec" where
  "OrganizationProfileSpec_val h x = \<lparr>ops_OrganizationRef = psr_OrganizationRef x,
     ops_Admins = pointer_val hp_Subjects (\<lambda>h x. x) h (psr_Admins x), ops_Defaults = psr_Defaults x,
     ops_Platform = pointer_val hp_Platform OrganizationPlatformConfig_val h (psr_Platform x)\<rparr>"

definition OrganizationProfileSpec_foot :: "('m, 't, 'x) heap \<Rightarrow> OrganizationProfileSpec_ref \<Rightarrow> addr set" where
  "OrganizationProfileSpec_foot h x = pointer_foot hp_Subjects (\<lambda>h x. {}) h (psr_Admins x) \<union>
     pointer_foot hp_Platform OrganizationPlatformConfig_foot h (psr_Platform x)"

lemma OrganizationProfileSpec_deep:
  "deep_copier OrganizationProfileSpec_DeepCopyInto OrganizationProfileSpec_val OrganizationProfileSpec_foot"
  by (rule struct_deep [OF pair_deep [OF Subjects_store.pointer_deep [OF flat_deep] Platform_store.pointer_deep [OF OrganizationPlatformConfig_deep]],
        where get = "\<lambda>x. (psr_Admins x, psr_Platform x)"
          and put = "\<lambda>(a, b) x. x\<lparr>psr_Admins := a, psr_Platform := b\<rparr>" and rest = "\<lambda>x. (psr_OrganizationRef x, psr_Defaults x)"
          and build = "\<lambda>(r, d) (a, b). \<lparr>ops_OrganizationRef = r, ops_Admins = a, ops_Defaults = d, ops_Platform = b\<rparr>"])
    (simp_all add: OrganizationProfileSpec_DeepCopyInto_def OrganizationProfileSpec_val_def OrganizationProfileSpec_foot_def
      copy_pair_def split: prod.split)

definition NetworkGrant_val :: "('m, 't, 'x) heap \<Rightarrow> NetworkGrant_ref \<Rightarrow> NetworkGrant" where
  "NetworkGrant_val h x = \<lparr>ng_To = ngr_To x, ng_Direction = ngr_Direction x,
     ng_Ports = slice_items (pointer_val hp_Ports (\<lambda>h x. x) h (ngr_Ports x))\<rparr>"

definition NetworkGrant_foot :: "('m, 't, 'x) heap \<Rightarrow> NetworkGrant_ref \<Rightarrow> addr set" where
  "NetworkGrant_foot h x = pointer_foot hp_Ports (\<lambda>h x. {}) h (ngr_Ports x)"

lemma NetworkGrant_deep: "deep_copier NetworkGrant_DeepCopyInto NetworkGrant_val NetworkGrant_foot"
  by (rule struct_deep [OF Ports_store.pointer_deep [OF flat_deep], where get = ngr_Ports and put = "\<lambda>a x. x\<lparr>ngr_Ports := a\<rparr>"
          and rest = "\<lambda>x. (ngr_To x, ngr_Direction x)" and build = "\<lambda>(t, d) a. \<lparr>ng_To = t, ng_Direction = d, ng_Ports = slice_items a\<rparr>"])
    (simp_all add: NetworkGrant_DeepCopyInto_def NetworkGrant_val_def NetworkGrant_foot_def)

definition OrganizationProjectSpec_val :: "('m, 't, 'x) heap \<Rightarrow> OrganizationProjectSpec_ref \<Rightarrow> OrganizationProjectSpec" where
  "OrganizationProjectSpec_val h x = \<lparr>prs_OrganizationRef = jsr_OrganizationRef x,
     prs_Users = slice_items (pointer_val hp_Users (\<lambda>h x. x) h (jsr_Users x)), prs_NetworkIsolation = jsr_NetworkIsolation x,
     prs_NetworkGrants = slice_items (pointer_val hp_Grants (\<lambda>h. map (NetworkGrant_val h)) h (jsr_NetworkGrants x))\<rparr>"

definition OrganizationProjectSpec_foot :: "('m, 't, 'x) heap \<Rightarrow> OrganizationProjectSpec_ref \<Rightarrow> addr set" where
  "OrganizationProjectSpec_foot h x = pointer_foot hp_Users (\<lambda>h x. {}) h (jsr_Users x) \<union>
     pointer_foot hp_Grants (items_foot NetworkGrant_foot) h (jsr_NetworkGrants x)"

lemma OrganizationProjectSpec_deep:
  "deep_copier OrganizationProjectSpec_DeepCopyInto OrganizationProjectSpec_val OrganizationProjectSpec_foot"
  by (rule struct_deep [OF pair_deep [OF Users_store.pointer_deep [OF flat_deep] Grants_store.pointer_deep [OF items_deep [OF NetworkGrant_deep]]],
        where get = "\<lambda>x. (jsr_Users x, jsr_NetworkGrants x)"
          and put = "\<lambda>(a, b) x. x\<lparr>jsr_Users := a, jsr_NetworkGrants := b\<rparr>"
          and rest = "\<lambda>x. (jsr_OrganizationRef x, jsr_NetworkIsolation x)"
          and build = "\<lambda>(r, i) (a, b). \<lparr>prs_OrganizationRef = r, prs_Users = slice_items a, prs_NetworkIsolation = i, prs_NetworkGrants = slice_items b\<rparr>"])
    (simp_all add: OrganizationProjectSpec_DeepCopyInto_def OrganizationProjectSpec_val_def OrganizationProjectSpec_foot_def
      copy_pair_def split: prod.split)

interpretation configuration_spec: deep_copier MaaSConfigurationSpec_DeepCopyInto MaaSConfigurationSpec_val MaaSConfigurationSpec_foot
  by (rule MaaSConfigurationSpec_deep)

interpretation profile_spec: deep_copier OrganizationProfileSpec_DeepCopyInto OrganizationProfileSpec_val OrganizationProfileSpec_foot
  by (rule OrganizationProfileSpec_deep)

interpretation project_spec: deep_copier OrganizationProjectSpec_DeepCopyInto OrganizationProjectSpec_val OrganizationProjectSpec_foot
  by (rule OrganizationProjectSpec_deep)

text \<open>The resources and their lists, over the values and footprints of the library's structs.\<close>

definition Organization_val :: "(('m, 't, 'x) heap \<Rightarrow> 'm \<Rightarrow> ObjectMeta) \<Rightarrow> (('m, 't, 'x) heap \<Rightarrow> 't \<Rightarrow> Status) \<Rightarrow> ('m, 't, 'x) heap \<Rightarrow> ('m, 't) Organization_ref \<Rightarrow> Organization" where
  "Organization_val mval tval h x = \<lparr>org_TypeMeta = gor_TypeMeta x, org_Meta = mval h (gor_Meta x),
     org_Spec = gor_Spec x,
     org_Status = \<lparr>ost_Status = tval h (osr_Status (gor_Status x)), ost_Root = osr_Root (gor_Status x)\<rparr>\<rparr>"

definition Organization_foot :: "(('m, 't, 'x) heap \<Rightarrow> 'm \<Rightarrow> addr set) \<Rightarrow> (('m, 't, 'x) heap \<Rightarrow> 't \<Rightarrow> addr set) \<Rightarrow> ('m, 't, 'x) heap \<Rightarrow> ('m, 't) Organization_ref \<Rightarrow> addr set" where
  "Organization_foot mfoot tfoot h x = mfoot h (gor_Meta x) \<union> tfoot h (osr_Status (gor_Status x))"

definition OrganizationList_val :: "(('m, 't, 'x) heap \<Rightarrow> 'm \<Rightarrow> ObjectMeta) \<Rightarrow> (('m, 't, 'x) heap \<Rightarrow> 't \<Rightarrow> Status) \<Rightarrow> (('m, 't, 'x) heap \<Rightarrow> 'l \<Rightarrow> ListMeta) \<Rightarrow> ('m, 't, 'x) heap \<Rightarrow> 'l OrganizationList_ref \<Rightarrow> OrganizationList" where
  "OrganizationList_val mval tval lval h x = \<lparr>orgl_TypeMeta = gorl_TypeMeta x, orgl_ListMeta = lval h (gorl_ListMeta x),
     orgl_Items = slice_items (pointer_val hp_Organization (\<lambda>h. map (Organization_val mval tval h)) h (gorl_Items x))\<rparr>"

definition OrganizationList_foot :: "(('m, 't, 'x) heap \<Rightarrow> 'm \<Rightarrow> addr set) \<Rightarrow> (('m, 't, 'x) heap \<Rightarrow> 't \<Rightarrow> addr set) \<Rightarrow> (('m, 't, 'x) heap \<Rightarrow> 'l \<Rightarrow> addr set) \<Rightarrow> ('m, 't, 'x) heap \<Rightarrow> 'l OrganizationList_ref \<Rightarrow> addr set" where
  "OrganizationList_foot mfoot tfoot lfoot h x = lfoot h (gorl_ListMeta x) \<union>
     pointer_foot hp_Organization (items_foot (Organization_foot mfoot tfoot)) h (gorl_Items x)"

definition OrganizationProfile_val :: "(('m, 't, 'x) heap \<Rightarrow> 'm \<Rightarrow> ObjectMeta) \<Rightarrow> (('m, 't, 'x) heap \<Rightarrow> 't \<Rightarrow> Status) \<Rightarrow> ('m, 't, 'x) heap \<Rightarrow> ('m, 't) OrganizationProfile_ref \<Rightarrow> OrganizationProfile" where
  "OrganizationProfile_val mval tval h x = \<lparr>prof_TypeMeta = gfr_TypeMeta x, prof_Meta = mval h (gfr_Meta x),
     prof_Spec = OrganizationProfileSpec_val h (gfr_Spec x),
     prof_Status = \<lparr>opst_Status = tval h (fsr_Status (gfr_Status x))\<rparr>\<rparr>"

definition OrganizationProfile_foot :: "(('m, 't, 'x) heap \<Rightarrow> 'm \<Rightarrow> addr set) \<Rightarrow> (('m, 't, 'x) heap \<Rightarrow> 't \<Rightarrow> addr set) \<Rightarrow> ('m, 't, 'x) heap \<Rightarrow> ('m, 't) OrganizationProfile_ref \<Rightarrow> addr set" where
  "OrganizationProfile_foot mfoot tfoot h x = mfoot h (gfr_Meta x) \<union> (OrganizationProfileSpec_foot h (gfr_Spec x) \<union> tfoot h (fsr_Status (gfr_Status x)))"

definition OrganizationProfileList_val :: "(('m, 't, 'x) heap \<Rightarrow> 'm \<Rightarrow> ObjectMeta) \<Rightarrow> (('m, 't, 'x) heap \<Rightarrow> 't \<Rightarrow> Status) \<Rightarrow> (('m, 't, 'x) heap \<Rightarrow> 'l \<Rightarrow> ListMeta) \<Rightarrow> ('m, 't, 'x) heap \<Rightarrow> 'l OrganizationProfileList_ref \<Rightarrow> OrganizationProfileList" where
  "OrganizationProfileList_val mval tval lval h x = \<lparr>profl_TypeMeta = gfrl_TypeMeta x, profl_ListMeta = lval h (gfrl_ListMeta x),
     profl_Items = slice_items (pointer_val hp_OrganizationProfile (\<lambda>h. map (OrganizationProfile_val mval tval h)) h (gfrl_Items x))\<rparr>"

definition OrganizationProfileList_foot :: "(('m, 't, 'x) heap \<Rightarrow> 'm \<Rightarrow> addr set) \<Rightarrow> (('m, 't, 'x) heap \<Rightarrow> 't \<Rightarrow> addr set) \<Rightarrow> (('m, 't, 'x) heap \<Rightarrow> 'l \<Rightarrow> addr set) \<Rightarrow> ('m, 't, 'x) heap \<Rightarrow> 'l OrganizationProfileList_ref \<Rightarrow> addr set" where
  "OrganizationProfileList_foot mfoot tfoot lfoot h x = lfoot h (gfrl_ListMeta x) \<union>
     pointer_foot hp_OrganizationProfile (items_foot (OrganizationProfile_foot mfoot tfoot)) h (gfrl_Items x)"

definition OrganizationProject_val :: "(('m, 't, 'x) heap \<Rightarrow> 'm \<Rightarrow> ObjectMeta) \<Rightarrow> (('m, 't, 'x) heap \<Rightarrow> 't \<Rightarrow> Status) \<Rightarrow> ('m, 't, 'x) heap \<Rightarrow> ('m, 't) OrganizationProject_ref \<Rightarrow> OrganizationProject" where
  "OrganizationProject_val mval tval h x = \<lparr>proj_TypeMeta = gjr_TypeMeta x, proj_Meta = mval h (gjr_Meta x),
     proj_Spec = OrganizationProjectSpec_val h (gjr_Spec x),
     proj_Status = \<lparr>prst_Status = tval h (jtr_Status (gjr_Status x)), prst_Namespace = jtr_Namespace (gjr_Status x)\<rparr>\<rparr>"

definition OrganizationProject_foot :: "(('m, 't, 'x) heap \<Rightarrow> 'm \<Rightarrow> addr set) \<Rightarrow> (('m, 't, 'x) heap \<Rightarrow> 't \<Rightarrow> addr set) \<Rightarrow> ('m, 't, 'x) heap \<Rightarrow> ('m, 't) OrganizationProject_ref \<Rightarrow> addr set" where
  "OrganizationProject_foot mfoot tfoot h x = mfoot h (gjr_Meta x) \<union> (OrganizationProjectSpec_foot h (gjr_Spec x) \<union> tfoot h (jtr_Status (gjr_Status x)))"

definition OrganizationProjectList_val :: "(('m, 't, 'x) heap \<Rightarrow> 'm \<Rightarrow> ObjectMeta) \<Rightarrow> (('m, 't, 'x) heap \<Rightarrow> 't \<Rightarrow> Status) \<Rightarrow> (('m, 't, 'x) heap \<Rightarrow> 'l \<Rightarrow> ListMeta) \<Rightarrow> ('m, 't, 'x) heap \<Rightarrow> 'l OrganizationProjectList_ref \<Rightarrow> OrganizationProjectList" where
  "OrganizationProjectList_val mval tval lval h x = \<lparr>projl_TypeMeta = gjrl_TypeMeta x, projl_ListMeta = lval h (gjrl_ListMeta x),
     projl_Items = slice_items (pointer_val hp_OrganizationProject (\<lambda>h. map (OrganizationProject_val mval tval h)) h (gjrl_Items x))\<rparr>"

definition OrganizationProjectList_foot :: "(('m, 't, 'x) heap \<Rightarrow> 'm \<Rightarrow> addr set) \<Rightarrow> (('m, 't, 'x) heap \<Rightarrow> 't \<Rightarrow> addr set) \<Rightarrow> (('m, 't, 'x) heap \<Rightarrow> 'l \<Rightarrow> addr set) \<Rightarrow> ('m, 't, 'x) heap \<Rightarrow> 'l OrganizationProjectList_ref \<Rightarrow> addr set" where
  "OrganizationProjectList_foot mfoot tfoot lfoot h x = lfoot h (gjrl_ListMeta x) \<union>
     pointer_foot hp_OrganizationProject (items_foot (OrganizationProject_foot mfoot tfoot)) h (gjrl_Items x)"

definition MaaSConfiguration_val :: "(('m, 't, 'x) heap \<Rightarrow> 'm \<Rightarrow> ObjectMeta) \<Rightarrow> (('m, 't, 'x) heap \<Rightarrow> 't \<Rightarrow> Status) \<Rightarrow> ('m, 't, 'x) heap \<Rightarrow> ('m, 't) MaaSConfiguration_ref \<Rightarrow> MaaSConfiguration" where
  "MaaSConfiguration_val mval tval h x = \<lparr>mcfg_TypeMeta = gmr_TypeMeta x, mcfg_Meta = mval h (gmr_Meta x),
     mcfg_Spec = MaaSConfigurationSpec_val h (gmr_Spec x),
     mcfg_Status = \<lparr>mcst_Status = tval h (mtr_Status (gmr_Status x))\<rparr>\<rparr>"

definition MaaSConfiguration_foot :: "(('m, 't, 'x) heap \<Rightarrow> 'm \<Rightarrow> addr set) \<Rightarrow> (('m, 't, 'x) heap \<Rightarrow> 't \<Rightarrow> addr set) \<Rightarrow> ('m, 't, 'x) heap \<Rightarrow> ('m, 't) MaaSConfiguration_ref \<Rightarrow> addr set" where
  "MaaSConfiguration_foot mfoot tfoot h x = mfoot h (gmr_Meta x) \<union> (MaaSConfigurationSpec_foot h (gmr_Spec x) \<union> tfoot h (mtr_Status (gmr_Status x)))"

definition MaaSConfigurationList_val :: "(('m, 't, 'x) heap \<Rightarrow> 'm \<Rightarrow> ObjectMeta) \<Rightarrow> (('m, 't, 'x) heap \<Rightarrow> 't \<Rightarrow> Status) \<Rightarrow> (('m, 't, 'x) heap \<Rightarrow> 'l \<Rightarrow> ListMeta) \<Rightarrow> ('m, 't, 'x) heap \<Rightarrow> 'l MaaSConfigurationList_ref \<Rightarrow> MaaSConfigurationList" where
  "MaaSConfigurationList_val mval tval lval h x = \<lparr>mcfgl_TypeMeta = gmrl_TypeMeta x, mcfgl_ListMeta = lval h (gmrl_ListMeta x),
     mcfgl_Items = slice_items (pointer_val hp_MaaSConfiguration (\<lambda>h. map (MaaSConfiguration_val mval tval h)) h (gmrl_Items x))\<rparr>"

definition MaaSConfigurationList_foot :: "(('m, 't, 'x) heap \<Rightarrow> 'm \<Rightarrow> addr set) \<Rightarrow> (('m, 't, 'x) heap \<Rightarrow> 't \<Rightarrow> addr set) \<Rightarrow> (('m, 't, 'x) heap \<Rightarrow> 'l \<Rightarrow> addr set) \<Rightarrow> ('m, 't, 'x) heap \<Rightarrow> 'l MaaSConfigurationList_ref \<Rightarrow> addr set" where
  "MaaSConfigurationList_foot mfoot tfoot lfoot h x = lfoot h (gmrl_ListMeta x) \<union>
     pointer_foot hp_MaaSConfiguration (items_foot (MaaSConfiguration_foot mfoot tfoot)) h (gmrl_Items x)"

locale deep_library =
  fixes lib :: "('m, 't, 'l, 'x) copy_library"
    and mval :: "('m, 't, 'x) heap \<Rightarrow> 'm \<Rightarrow> ObjectMeta" and mfoot :: "('m, 't, 'x) heap \<Rightarrow> 'm \<Rightarrow> addr set"
    and tval :: "('m, 't, 'x) heap \<Rightarrow> 't \<Rightarrow> Status" and tfoot :: "('m, 't, 'x) heap \<Rightarrow> 't \<Rightarrow> addr set"
    and lval :: "('m, 't, 'x) heap \<Rightarrow> 'l \<Rightarrow> ListMeta" and lfoot :: "('m, 't, 'x) heap \<Rightarrow> 'l \<Rightarrow> addr set"
  assumes meta_deep: "deep_copier (ObjectMeta_DeepCopyInto lib) mval mfoot"
    and status_deep: "deep_copier (Status_DeepCopyInto lib) tval tfoot"
    and list_meta_deep: "deep_copier (ListMeta_DeepCopyInto lib) lval lfoot"
begin

lemma Organization_deep: "deep_copier (Organization_DeepCopyInto lib) (Organization_val mval tval) (Organization_foot mfoot tfoot)"
  by (rule struct_deep [OF pair_deep [OF meta_deep status_deep],
        where get = "\<lambda>x. (gor_Meta x, osr_Status (gor_Status x))"
          and put = "\<lambda>(a, c) x. x\<lparr>gor_Meta := a, gor_Status := (gor_Status x)\<lparr>osr_Status := c\<rparr>\<rparr>"
          and rest = "\<lambda>x. (gor_TypeMeta x, gor_Spec x, osr_Root (gor_Status x))"
          and build = "\<lambda>(t, sp, e) (a, c). \<lparr>org_TypeMeta = t, org_Meta = a, org_Spec = sp, org_Status = \<lparr>ost_Status = c, ost_Root = e\<rparr>\<rparr>"])
    (simp_all add: Organization_DeepCopyInto_def OrganizationStatus_DeepCopyInto_def Organization_val_def Organization_foot_def copy_pair_def split: prod.split)

lemma OrganizationList_deep: "deep_copier (OrganizationList_DeepCopyInto lib) (OrganizationList_val mval tval lval) (OrganizationList_foot mfoot tfoot lfoot)"
  by (rule struct_deep [OF pair_deep [OF list_meta_deep Organization_store.pointer_deep [OF items_deep [OF Organization_deep]]],
        where get = "\<lambda>x. (gorl_ListMeta x, gorl_Items x)"
          and put = "\<lambda>(a, b) x. x\<lparr>gorl_ListMeta := a, gorl_Items := b\<rparr>" and rest = gorl_TypeMeta
          and build = "\<lambda>t (a, b). \<lparr>orgl_TypeMeta = t, orgl_ListMeta = a, orgl_Items = slice_items b\<rparr>"])
    (simp_all add: OrganizationList_DeepCopyInto_def OrganizationList_val_def OrganizationList_foot_def copy_pair_def split: prod.split)

lemma OrganizationProfile_deep: "deep_copier (OrganizationProfile_DeepCopyInto lib) (OrganizationProfile_val mval tval) (OrganizationProfile_foot mfoot tfoot)"
  by (rule struct_deep [OF pair_deep [OF meta_deep pair_deep [OF OrganizationProfileSpec_deep status_deep]],
        where get = "\<lambda>x. (gfr_Meta x, gfr_Spec x, fsr_Status (gfr_Status x))"
          and put = "\<lambda>(a, b, c) x. x\<lparr>gfr_Meta := a, gfr_Spec := b, gfr_Status := (gfr_Status x)\<lparr>fsr_Status := c\<rparr>\<rparr>"
          and rest = "\<lambda>x. gfr_TypeMeta x"
          and build = "\<lambda>t (a, b, c). \<lparr>prof_TypeMeta = t, prof_Meta = a, prof_Spec = b, prof_Status = \<lparr>opst_Status = c\<rparr>\<rparr>"])
    (simp_all add: OrganizationProfile_DeepCopyInto_def OrganizationProfileStatus_DeepCopyInto_def OrganizationProfile_val_def OrganizationProfile_foot_def copy_pair_def split: prod.split)

lemma OrganizationProfileList_deep: "deep_copier (OrganizationProfileList_DeepCopyInto lib) (OrganizationProfileList_val mval tval lval) (OrganizationProfileList_foot mfoot tfoot lfoot)"
  by (rule struct_deep [OF pair_deep [OF list_meta_deep OrganizationProfile_store.pointer_deep [OF items_deep [OF OrganizationProfile_deep]]],
        where get = "\<lambda>x. (gfrl_ListMeta x, gfrl_Items x)"
          and put = "\<lambda>(a, b) x. x\<lparr>gfrl_ListMeta := a, gfrl_Items := b\<rparr>" and rest = gfrl_TypeMeta
          and build = "\<lambda>t (a, b). \<lparr>profl_TypeMeta = t, profl_ListMeta = a, profl_Items = slice_items b\<rparr>"])
    (simp_all add: OrganizationProfileList_DeepCopyInto_def OrganizationProfileList_val_def OrganizationProfileList_foot_def copy_pair_def split: prod.split)

lemma OrganizationProject_deep: "deep_copier (OrganizationProject_DeepCopyInto lib) (OrganizationProject_val mval tval) (OrganizationProject_foot mfoot tfoot)"
  by (rule struct_deep [OF pair_deep [OF meta_deep pair_deep [OF OrganizationProjectSpec_deep status_deep]],
        where get = "\<lambda>x. (gjr_Meta x, gjr_Spec x, jtr_Status (gjr_Status x))"
          and put = "\<lambda>(a, b, c) x. x\<lparr>gjr_Meta := a, gjr_Spec := b, gjr_Status := (gjr_Status x)\<lparr>jtr_Status := c\<rparr>\<rparr>"
          and rest = "\<lambda>x. (gjr_TypeMeta x, jtr_Namespace (gjr_Status x))"
          and build = "\<lambda>(t, e) (a, b, c). \<lparr>proj_TypeMeta = t, proj_Meta = a, proj_Spec = b, proj_Status = \<lparr>prst_Status = c, prst_Namespace = e\<rparr>\<rparr>"])
    (simp_all add: OrganizationProject_DeepCopyInto_def OrganizationProjectStatus_DeepCopyInto_def OrganizationProject_val_def OrganizationProject_foot_def copy_pair_def split: prod.split)

lemma OrganizationProjectList_deep: "deep_copier (OrganizationProjectList_DeepCopyInto lib) (OrganizationProjectList_val mval tval lval) (OrganizationProjectList_foot mfoot tfoot lfoot)"
  by (rule struct_deep [OF pair_deep [OF list_meta_deep OrganizationProject_store.pointer_deep [OF items_deep [OF OrganizationProject_deep]]],
        where get = "\<lambda>x. (gjrl_ListMeta x, gjrl_Items x)"
          and put = "\<lambda>(a, b) x. x\<lparr>gjrl_ListMeta := a, gjrl_Items := b\<rparr>" and rest = gjrl_TypeMeta
          and build = "\<lambda>t (a, b). \<lparr>projl_TypeMeta = t, projl_ListMeta = a, projl_Items = slice_items b\<rparr>"])
    (simp_all add: OrganizationProjectList_DeepCopyInto_def OrganizationProjectList_val_def OrganizationProjectList_foot_def copy_pair_def split: prod.split)

lemma MaaSConfiguration_deep: "deep_copier (MaaSConfiguration_DeepCopyInto lib) (MaaSConfiguration_val mval tval) (MaaSConfiguration_foot mfoot tfoot)"
  by (rule struct_deep [OF pair_deep [OF meta_deep pair_deep [OF MaaSConfigurationSpec_deep status_deep]],
        where get = "\<lambda>x. (gmr_Meta x, gmr_Spec x, mtr_Status (gmr_Status x))"
          and put = "\<lambda>(a, b, c) x. x\<lparr>gmr_Meta := a, gmr_Spec := b, gmr_Status := (gmr_Status x)\<lparr>mtr_Status := c\<rparr>\<rparr>"
          and rest = "\<lambda>x. gmr_TypeMeta x"
          and build = "\<lambda>t (a, b, c). \<lparr>mcfg_TypeMeta = t, mcfg_Meta = a, mcfg_Spec = b, mcfg_Status = \<lparr>mcst_Status = c\<rparr>\<rparr>"])
    (simp_all add: MaaSConfiguration_DeepCopyInto_def MaaSConfigurationStatus_DeepCopyInto_def MaaSConfiguration_val_def MaaSConfiguration_foot_def copy_pair_def split: prod.split)

lemma MaaSConfigurationList_deep: "deep_copier (MaaSConfigurationList_DeepCopyInto lib) (MaaSConfigurationList_val mval tval lval) (MaaSConfigurationList_foot mfoot tfoot lfoot)"
  by (rule struct_deep [OF pair_deep [OF list_meta_deep MaaSConfiguration_store.pointer_deep [OF items_deep [OF MaaSConfiguration_deep]]],
        where get = "\<lambda>x. (gmrl_ListMeta x, gmrl_Items x)"
          and put = "\<lambda>(a, b) x. x\<lparr>gmrl_ListMeta := a, gmrl_Items := b\<rparr>" and rest = gmrl_TypeMeta
          and build = "\<lambda>t (a, b). \<lparr>mcfgl_TypeMeta = t, mcfgl_ListMeta = a, mcfgl_Items = slice_items b\<rparr>"])
    (simp_all add: MaaSConfigurationList_DeepCopyInto_def MaaSConfigurationList_val_def MaaSConfigurationList_foot_def copy_pair_def split: prod.split)

text \<open>The deep copies of the resources and of the lists.\<close>

lemmas resources_deep = Organization_deep OrganizationProfile_deep OrganizationProject_deep MaaSConfiguration_deep
lemmas lists_deep = OrganizationList_deep OrganizationProfileList_deep OrganizationProjectList_deep MaaSConfigurationList_deep

end


section \<open>Independence\<close>

text \<open>The copy reads as the original, and afterwards neither sees what is written through the other:
  in every later heap that differs only where the one struct reaches, the other one has the value the
  original had.\<close>

definition independent :: "(('m, 't, 'x) heap \<Rightarrow> 'a \<Rightarrow> 'v) \<Rightarrow> (('m, 't, 'x) heap \<Rightarrow> 'a \<Rightarrow> addr set) \<Rightarrow>
    ('m, 't, 'x) heap \<Rightarrow> 'a \<Rightarrow> ('m, 't, 'x) heap \<Rightarrow> 'a \<Rightarrow> bool" where
  "independent val foot h x h' y \<longleftrightarrow> val h' y = val h x \<and> val h' x = val h x \<and>
     (\<forall>h''. (\<forall>a. a \<notin> foot h' y \<longrightarrow> same_at h' h'' a) \<longrightarrow> val h'' x = val h x) \<and>
     (\<forall>h''. (\<forall>a. a \<notin> foot h' x \<longrightarrow> same_at h' h'' a) \<longrightarrow> val h'' y = val h x)"

lemma nil_object: "deepCopyObject (deepCopy copy) None h = (None, h)"
  by (simp add: deepCopyObject_def deepCopy_def)

context deep_copier
begin

lemma copy_independent:
  assumes "copy x h = (y, h')" and "within h (foot h x)"
  shows "independent val foot h x h' y"
proof -
  note C = copied [OF assms]
  have x: "val h' x = val h x" "foot h' x = foot h x" using kept assms(2) C by blast+
  have apart: "foot h' x \<inter> foot h' y = {}"
    using C assms(2) x(2) unfolding within_def fresh_between_def by fastforce
  show ?thesis
    unfolding independent_def
  proof (intro conjI allI impI)
    fix h'' assume "\<forall>a. a \<notin> foot h' y \<longrightarrow> same_at h' h'' a"
    then have "\<forall>a \<in> foot h' x. same_at h' h'' a" using apart by blast
    then show "val h'' x = val h x" using stable x(1) by metis
  next
    fix h'' assume "\<forall>a. a \<notin> foot h' x \<longrightarrow> same_at h' h'' a"
    then have "\<forall>a \<in> foot h' y. same_at h' h'' a" using apart by blast
    then show "val h'' y = val h x" using stable C by metis
  qed (use C x in simp_all)
qed

lemma object_independent:
  assumes "deepCopyObject (deepCopy copy) (Some x) h = (q, h')" and "within h (foot h x)"
  shows "\<exists>y. q = Some y \<and> independent val foot h x h' y"
  using assms copy_independent by (auto simp: deepCopyObject_def deepCopy_def split: prod.splits)

end


section \<open>A library whose metadata has a pointer\<close>

text \<open>An \<open>ObjectMeta\<close> that keeps its labels behind a pointer, and flat \<open>Status\<close> and
  \<open>ListMeta\<close>.\<close>

type_synonym meta_ref = "ObjectMeta \<times> addr option"

definition meta_val :: "(meta_ref, Status, string \<rightharpoonup> string) heap \<Rightarrow> meta_ref \<Rightarrow> ObjectMeta" where
  "meta_val h x = (fst x)\<lparr>om_Labels := (case pointer_val hp_Library (\<lambda>h x. x) h (snd x) of None \<Rightarrow> Map.empty | Some l \<Rightarrow> l)\<rparr>"

definition meta_foot :: "(meta_ref, Status, string \<rightharpoonup> string) heap \<Rightarrow> meta_ref \<Rightarrow> addr set" where
  "meta_foot h x = pointer_foot hp_Library (\<lambda>h x. {}) h (snd x)"

definition label_library :: "(meta_ref, Status, ListMeta, string \<rightharpoonup> string) copy_library" where
  "label_library = \<lparr>ObjectMeta_DeepCopyInto = (\<lambda>x h. case copy_pointer hp_Library hp_Library_update flat (snd x) h of (p, h') \<Rightarrow> ((fst x, p), h')),
     Status_DeepCopyInto = flat, ListMeta_DeepCopyInto = flat\<rparr>"

lemma label_meta_deep: "deep_copier (ObjectMeta_DeepCopyInto label_library) meta_val meta_foot"
  by (rule struct_deep [OF Library_store.pointer_deep [OF flat_deep], where get = snd and put = "\<lambda>p x. (fst x, p)" and rest = fst
        and build = "\<lambda>m l. m\<lparr>om_Labels := (case l of None \<Rightarrow> Map.empty | Some l \<Rightarrow> l)\<rparr>"])
    (simp_all add: label_library_def meta_val_def meta_foot_def)

interpretation labels: deep_library label_library meta_val meta_foot "\<lambda>h x. x" "\<lambda>h x. {}" "\<lambda>h x. x" "\<lambda>h x. {}"
  by (rule deep_library.intro [OF label_meta_deep]) (simp_all add: label_library_def flat_deep)

text \<open>A heap with one list of one organization that has labels.\<close>

definition label_heap :: "(meta_ref, Status, string \<rightharpoonup> string) heap" where
  "label_heap = \<lparr>hp_next = 2, hp_MaaSOIDC = (\<lambda>_. \<lparr>mo_ClientID = ''''\<rparr>),
     hp_MaaSTLS = (\<lambda>_. \<lparr>mt_CertificateRef = \<lparr>mc_Name = '''', mc_Namespace = ''''\<rparr>\<rparr>),
     hp_MaaSQuotas = (\<lambda>_. \<lparr>mq_MaxModels = 0, mq_MaxSubscriptions = 0, mq_MaxAPIKeys = 0\<rparr>),
     hp_OIDCConfig = (\<lambda>_. \<lparr>oidc_IssuerURL = ''''\<rparr>),
     hp_GatewayReference = (\<lambda>_. \<lparr>gw_Group = '''', gw_Kind = '''', gw_Name = '''', gw_Namespace = ''''\<rparr>),
     hp_Platform = (\<lambda>_. \<lparr>pcr_OIDC = None, pcr_IngressGatewayRef = None\<rparr>), hp_Ports = (\<lambda>_. []), hp_Subjects = (\<lambda>_. []),
     hp_Users = (\<lambda>_. []), hp_Grants = (\<lambda>_. []),
     hp_Organization = (\<lambda>a. if a = 0 then [\<lparr>gor_TypeMeta = zero_TypeMeta, gor_Meta = (named '''' ''genomics'', Some 1),
        gor_Spec = \<lparr>os_Parent = ''''\<rparr>, gor_Status = \<lparr>osr_Status = zero_Status, osr_Root = ''genomics''\<rparr>\<rparr>] else []),
     hp_OrganizationProfile = (\<lambda>_. []), hp_OrganizationProject = (\<lambda>_. []), hp_MaaSConfiguration = (\<lambda>_. []),
     hp_Library = (\<lambda>a. if a = 1 then [''team'' \<mapsto> ''blue''] else Map.empty)\<rparr>"

definition label_list :: "ListMeta OrganizationList_ref" where
  "label_list = \<lparr>gorl_TypeMeta = zero_TypeMeta,
     gorl_ListMeta = \<lparr>lm_ResourceVersion = ''7'', lm_Continue = '''', lm_RemainingItemCount = None\<rparr>, gorl_Items = Some 0\<rparr>"

abbreviation label_list_val :: "(meta_ref, Status, string \<rightharpoonup> string) heap \<Rightarrow> ListMeta OrganizationList_ref \<Rightarrow> OrganizationList" where
  "label_list_val \<equiv> OrganizationList_val meta_val (\<lambda>h x. x) (\<lambda>h x. x)"

abbreviation label_list_foot :: "(meta_ref, Status, string \<rightharpoonup> string) heap \<Rightarrow> ListMeta OrganizationList_ref \<Rightarrow> addr set" where
  "label_list_foot \<equiv> OrganizationList_foot meta_foot (\<lambda>h x. {}) (\<lambda>h x. {})"


section \<open>Properties\<close>

text \<open>C10: Deep copies are deep. For each of the four resources, what \<open>DeepCopyObject\<close> returns for a list
  is a list of the same value, and the two are independent of each other: no write to an address the
  one reaches, be it the metadata of an item, its spec behind pointers and slices, or the items
  themselves, changes the value of the other. A \<open>nil\<close> list gives \<open>nil\<close>.\<close>

theorem deep_copies_independent:
  assumes "deep_library lib mval mfoot tval tfoot lval lfoot"
  shows "(OrganizationList_DeepCopyObject lib (Some x1) h = (q1, h1) \<and> within h (OrganizationList_foot mfoot tfoot lfoot h x1) \<longrightarrow>
      (\<exists>y1. q1 = Some y1 \<and> independent (OrganizationList_val mval tval lval) (OrganizationList_foot mfoot tfoot lfoot) h x1 h1 y1)) \<and>
    (OrganizationProfileList_DeepCopyObject lib (Some x2) h = (q2, h2) \<and> within h (OrganizationProfileList_foot mfoot tfoot lfoot h x2) \<longrightarrow>
      (\<exists>y2. q2 = Some y2 \<and> independent (OrganizationProfileList_val mval tval lval) (OrganizationProfileList_foot mfoot tfoot lfoot) h x2 h2 y2)) \<and>
    (OrganizationProjectList_DeepCopyObject lib (Some x3) h = (q3, h3) \<and> within h (OrganizationProjectList_foot mfoot tfoot lfoot h x3) \<longrightarrow>
      (\<exists>y3. q3 = Some y3 \<and> independent (OrganizationProjectList_val mval tval lval) (OrganizationProjectList_foot mfoot tfoot lfoot) h x3 h3 y3)) \<and>
    (MaaSConfigurationList_DeepCopyObject lib (Some x4) h = (q4, h4) \<and> within h (MaaSConfigurationList_foot mfoot tfoot lfoot h x4) \<longrightarrow>
      (\<exists>y4. q4 = Some y4 \<and> independent (MaaSConfigurationList_val mval tval lval) (MaaSConfigurationList_foot mfoot tfoot lfoot) h x4 h4 y4)) \<and>
    OrganizationList_DeepCopyObject lib None h = (None, h) \<and> OrganizationProfileList_DeepCopyObject lib None h = (None, h) \<and>
    OrganizationProjectList_DeepCopyObject lib None h = (None, h) \<and> MaaSConfigurationList_DeepCopyObject lib None h = (None, h)"
proof -
  note independent = deep_library.lists_deep [OF assms, THEN deep_copier.object_independent]
  show ?thesis
    unfolding OrganizationList_DeepCopyObject_def OrganizationList_DeepCopy_def OrganizationProfileList_DeepCopyObject_def
      OrganizationProfileList_DeepCopy_def OrganizationProjectList_DeepCopyObject_def OrganizationProjectList_DeepCopy_def
      MaaSConfigurationList_DeepCopyObject_def MaaSConfigurationList_DeepCopy_def
    using independent(1) [of x1 h q1 h1] independent(2) [of x2 h q2 h2] independent(3) [of x3 h q3 h3] independent(4) [of x4 h q4 h4]
    by (simp add: nil_object)
qed

theorem deep_copies_independent_witness:
  "\<exists>y h'. OrganizationList_DeepCopyObject label_library (Some label_list) label_heap = (Some y, h') \<and>
     label_list_val h' y = label_list_val label_heap label_list \<and>
     (\<forall>a items. a \<in> label_list_foot h' y \<longrightarrow>
        label_list_val (h'\<lparr>hp_Library := (hp_Library h')(a := items)\<rparr>) label_list = label_list_val label_heap label_list)"
proof -
  obtain q h' where run: "OrganizationList_DeepCopyObject label_library (Some label_list) label_heap = (q, h')" by fastforce
  have inside: "within label_heap (label_list_foot label_heap label_list)"
    by (simp add: within_def OrganizationList_foot_def pointer_foot_def items_foot_def Organization_foot_def meta_foot_def
        label_list_def label_heap_def)
  obtain y where y: "q = Some y" "independent label_list_val label_list_foot label_heap label_list h' y"
    using deep_copies_independent [OF labels.deep_library_axioms, of label_list label_heap q h'] run inside by blast
  have "same_at h' (h'\<lparr>hp_Library := (hp_Library h')(a := items)\<rparr>) b" if "b \<noteq> a" for a b items
    using that by (simp add: same_at_def)
  with run y show ?thesis unfolding independent_def by metis
qed

end
