(* ===== verification/Spec2Isabelle.thy ===== *)
theory Spec2Isabelle
  imports Concurrent_Creation Onboarding Schema Manager Deep_Copy_Correct
begin

text \<open>
  A verification library for the tenancy operator: a Kubernetes operator that keeps a tree of
  organizations, delegates authority over it, and provisions isolated namespaces and model-serving
  tenants for them.

  \<^bold>\<open>The program.\<close> Four cluster-scoped resources (\<open>api/v1alpha1\<close>): an Organization names its
  parent; its OrganizationProfile (same name) lists its admins, the project quota and the defaults;
  an OrganizationProject asks for a namespace with users and a network preset; a MaaSConfiguration
  asks for an AITenant of a root organization. Every write by a user passes the admission webhooks
  (\<open>internal/webhook/v1alpha1\<close>), which consult the stored organizations and profiles through the
  authorizer (\<open>authz.go\<close>). What is stored is reconciled by the controllers
  (\<open>internal/controller\<close>): the organization controller records the root of the tree and creates a
  missing profile, the project controller waits for that root and then makes the namespace, the role
  bindings and the network policies, the MaaS controller renders the AITenant. The profile
  controller has no action. \<open>cmd/main.go\<close> parses the flags and registers all of it with a manager.
  The parts interact through the API server only; the library states what one leaves there and
  another relies on.

  \<^bold>\<open>Foundations.\<close>
  \<^item> \<open>Prelude\<close>: Go errors and messages, API error classes, \<open>int32\<close> as 32-bit words, the
    functions of \<open>strings\<close> the sources call, shared lemmas.
  \<^item> \<open>Api_Types\<close>: the Kubernetes types the sources build on and the four resources, as
    records with the fields of the structs. \<open>Platform_Object\<close>: list types, status accessors,
    scheme registration.
  \<^item> \<open>Schema\<close>: the constraints and defaults the validation markers put on the fields, which the
    API server enforces, and what the project controller owes to them.
  \<^item> \<open>Kube_Client\<close>: the client, \<open>controllerutil\<close> and the other library calls as a
    record of functions over an arbitrary server state, with their documented behaviour as locales.
    A controller reference is compared by group, kind and name, as \<open>SetControllerReference\<close> does,
    and \<open>IsControlledBy\<close> compares UIDs. A server that answers does not fail on what it finds
    acceptable, which is a parameter of its contract.
  \<^item> \<open>Api_Validation\<close>: what the API server asks of names, label values, owner references, role
    binding subjects and the namespace an object is stored in.
  \<^item> \<open>Memory_Server\<close> is an executable server that satisfies these contracts, with faults that can be
    injected, and \<open>Demo_Cluster\<close> the cluster of \<open>hack/demo.sh\<close> on it; all witnesses run there.
  \<^item> \<open>Hierarchy\<close>: the organization tree as a specification (\<open>lineage\<close>, \<open>above\<close>,
    \<open>ancestor_at\<close>), independent of the two loops that walk it.
  \<^item> \<open>Reconciler\<close>: what a controller registers, and the contract \<open>action_runner\<close> of the
    framework that runs its actions.

  \<^bold>\<open>Admission.\<close> \<open>Authz\<close> is \<open>authz.go\<close> function by function, and \<open>Authz_Correct\<close> its
  properties: it fails closed, with a server that answers it grants exactly the trusted users and
  the admins of the first three organizations of the lineage, and the trusted users are those the
  environment of the deployment names. \<open>Organization_Webhook\<close>,
  \<open>Profile_Webhook\<close>, \<open>Project_Webhook\<close> and \<open>Maas_Webhook\<close> are the validators, each a
  function from the request and the server state to an error or none, over the contract
  \<open>authority\<close> of the authorizer. \<open>Admission\<close> puts them in front of the server as a step
  relation, one rule per kind and verb of \<open>config/webhook/manifests.yaml\<close>, and proves invariants
  of all states requests can reach: no outsider gains authority, lineages stay, one configuration
  per organization, quotas hold.

  \<^bold>\<open>Controllers.\<close> An action takes the request and the server state and returns an error or none
  with both updated; every call and every early return is a branch. \<open>Organization_Controller\<close>:
  \<open>computeRoot\<close> and \<open>ensureProfile\<close>, exact results, errors and idempotence.
  \<open>Project_Request\<close>, \<open>Project_Actions\<close>, \<open>Project_Rbac\<close>, \<open>Project_Netpol\<close>: the
  shared state of a request and the five actions; \<open>Project_Netpol_Correct\<close> refines the policies
  against the meaning Kubernetes gives them; \<open>Project_Reconciler\<close> composes the actions.
  \<open>Maas_Controller\<close>, \<open>Maas_Controller_Correct\<close>, \<open>Maas_Properties\<close>: the MaaS
  reconciler with its finalizer, ownership of the AITenant, readiness and success; what the fields of
  the AITenant should be is stated apart from the code (\<open>wanted_fields\<close>).
  \<open>Project_Liveness\<close> and \<open>Onboarding\<close>: on a server that answers, an organization
  reconciles exactly when its lineage fits the depth limit, and then its projects do, as long as
  what they need is free or their own; \<open>namespace_open\<close>, \<open>binding_open\<close> and
  \<open>policy_open\<close> say what that means, and a reconciliation leaves it so. A server that answers
  stores what passes \<open>Api_Validation\<close>, the schema of the resource and the operator's own webhook
  for it; so these properties ask that the names are valid as the names and label values they become,
  that the users of a project are valid subjects, and for MaaS that the namespace of the AITenants
  exists. Objects that do not are accepted by the operator and never reconcile.

  \<^bold>\<open>The system.\<close> \<open>Controller_Effects\<close> bounds what an action changes wherever it stops and
  whatever it reads: the organization controller creates a missing profile without admins, the
  project controller writes no tenancy object, the MaaS controller keeps the specs of the
  configurations. \<open>System\<close> interleaves admitted requests, single actions of the controllers and
  the framework's status writes as one step relation, in which webhooks and controllers read from
  caches that lag behind, each object at its own time, as \<open>mgr.GetClient()\<close> does
  (\<open>cached\<close>, \<open>seen\<close>, and \<open>admits_at\<close> of \<open>Admission\<close>); it extends the invariants of
  \<open>Admission\<close> to it. The operator's own steps are \<open>quiet\<close>, the users' steps are those of
  \<open>Admission\<close>, and a reconciliation of an organization or a project on one cache is a sequence of
  such steps. \<open>Concurrent_Creation\<close> takes the creation of a project apart into its review and its
  storage: the quota then bounds the projects only up to the creations in flight, and runs that
  reach the bound are given.

  \<^bold>\<open>The process.\<close> \<open>Command_Line\<close>: flags, their parsing and the server options.
  \<open>Manager\<close>: the registrations and \<open>main\<close>, ending with an exit status. \<open>Deep_Copy\<close> and
  \<open>Deep_Copy_Correct\<close>: the generated copy functions over a heap of addresses; a copy has the same
  value as the original and shares no memory with it.

  This theory holds the properties that span components: the controller's and the webhooks' walks
  fit together, a new organization is closed, a cyclic hierarchy cannot hang the controller, and two
  provisioned projects are isolated from each other as their presets say.

  \<^bold>\<open>Bounds.\<close> The loops of the program end by construction: both walks take three rounds
  (\<open>maxHierarchyDepth\<close>, \<open>maxAncestorWalk\<close>), which the recursion counts down as the code
  does, and the other loops run over lists, so no fuel is needed and every function is total. The
  project counter is a 32-bit word and wraps. The AITenant name limit is 41 characters.

  \<^bold>\<open>Hypotheses.\<close> A property over the server assumes the locales its operations need and holds
  for any server that satisfies them; reads and writes may fail unless the property says the server
  answers, which also says that no admission control but the operator's refuses the writes. The properties of a single validation or reconciliation are about one state: between two
  of its calls the state does not change. \<open>System\<close> and \<open>Concurrent_Creation\<close> drop this for
  what the webhooks and the controllers read, and between the actions of a reconciliation; within
  one action the writes still follow each other. \<open>well_keyed\<close> says that the API
  server stores an object under its own namespace and name; the project controller is shown to keep
  its stores so.

  \<^bold>\<open>Not modelled.\<close> Log lines; the framework (work queues, caches, watches, status
  writing), controller-runtime and the Kubernetes API server, which are parameters (a status write is
  any change of statuses in \<open>System\<close>); signal handling; the marker comments from which the
  operator's RBAC rules and the printed columns are generated; tests, scripts and deployment
  manifests, apart from the list of verbs the webhooks are registered for.
\<close>

section \<open>Authority and hierarchy\<close>

text \<open>C11: No admin of a reconciled organization's lineage is cut off. The controller and the webhooks bound
  their walks separately (\<open>maxHierarchyDepth\<close> and \<open>maxAncestorWalk\<close>); once the controller
  has reconciled a stored organization, every admin of it and of every organization above it passes
  the ancestor check on it.\<close>

theorem reconciled_authority_complete:
  assumes "organization_reconciler run c oview pview rest" and "authz_reliable_reader a pview oview"
    and "well_keyed org_Meta (oview s)" and "oview s (cluster_key (org_Name organization)) = Some organization"
    and "org_Name organization \<noteq> ''''"
    and "run (reg_Actions (NewOrganizationReconciler c)) organization s = (None, organization', s')"
    and "above (oview s) (org_Name organization) m" and "admin_of (pview s) (ar_UserInfo req) m"
  shows "requireAncestorAdmin a (Inr req) (org_Name organization) action s = None"
proof -
  obtain ns where "lineage_of (oview s) organization ns" and short: "length ns \<le> maxHierarchyDepth"
    using organization_reconciler.reconciled_organization [OF assms(1,6,3)] by blast
  then have lineage: "lineage (oview s) (org_Name organization) ns" using lineage_of_stored [of "oview s" organization ns] assms(4) by simp
  have "m \<in> set ns" using lineage_above [OF lineage] assms(7) by simp
  moreover have "take maxAncestorWalk ns = ns" using short by (simp add: maxAncestorWalk_def maxHierarchyDepth_def)
  ultimately have "admin_above (pview s) (oview s) (ar_UserInfo req) (org_Name organization)"
    using admin_above_lineage [OF lineage assms(5)] assms(8) by metis
  then show ?thesis using authz_reliable_reader.ancestor_check_iff [OF assms(2)] by blast
qed

theorem reconciled_authority_complete_witness:
  "requireAncestorAdmin demo_authz (Inr (demo_user ''alice'')) ''proteomics'' (ArgS ''test'') demo_cluster = None"
proof -
  let ?o = "demo_org ''proteomics'' ''genomics'' ''research-division''"
  have "fst (run_actions (reg_Actions (NewOrganizationReconciler server)) ?o demo_cluster) = None" by code_simp
  then obtain o' s' where run: "run_actions (reg_Actions (NewOrganizationReconciler server)) ?o demo_cluster = (None, o', s')"
    by (metis prod.collapse)
  have stored: "mem_view cl_organizations demo_cluster (cluster_key (org_Name ?o)) = Some ?o" by (simp add: keyed_def)
  have above: "above (mem_view cl_organizations demo_cluster) (org_Name ?o) ''research-division''"
    using lineage_above [OF demo_lineages(3), of "''research-division''"] by simp
  have admin: "admin_of (mem_view cl_profiles demo_cluster) (ar_UserInfo (demo_user ''alice'')) ''research-division''"
    by (auto simp: admin_of_def keyed_def demo_user_def user_subject_def subjectMatches_def)
  from reconciled_authority_complete [OF mem_organization_reconciler.organization_reconciler_axioms demo_reliable_reader
      demo_well_keyed stored _ run above admin, of "ArgS ''test''"]
  show ?thesis by simp
qed

text \<open>C25: A new organization is closed. When the controller has created the profile of an organization,
  nobody is an admin of the organization, and no project can be created in it, not even by a trusted
  user or an admin of an organization above, until somebody raises \<open>maxProjects\<close>. (The
  organization owns fewer than \<open>2^31\<close> projects, the range of the counter.)\<close>

theorem fresh_organization_closed:
  assumes "organization_reconciler run c oview pview rest" and "quota_reader a pview rview"
    and "well_keyed org_Meta (oview s)" and "pview s (cluster_key (org_Name organization)) = None"
    and "run (reg_Actions (NewOrganizationReconciler c)) organization s = (None, organization', s')"
    and "owned_projects (rview s') (org_Name organization) < 2 ^ 31"
  shows "(\<forall>u. \<not> admin_of (pview s') u (org_Name organization)) \<and>
    (\<forall>ctx proj. proj_Organization proj = org_Name organization \<longrightarrow> OrganizationProject_ValidateCreate a ctx proj s' \<noteq> None)"
proof -
  note keeper = organization_reconciler.axioms(3) [OF assms(1)]
  obtain ns where org: "organization' = set_Root (last ns) organization"
    and profile: "ensureProfile c organization' s = (None, organization', s')"
    using organization_reconciler.reconciled_organization [OF assms(1,5,3)] by blast
  then have "pview s (cluster_key (org_Name organization')) = None" using assms(4) by simp
  with keeper profile obtain p where "pview s' (cluster_key (org_Name organization')) = Some p"
    "prof_Spec p = prof_Spec (defaultProfile organization')"
    by (rule profile_keeper.ensureProfile_created)
  then have p: "pview s' (cluster_key (org_Name organization)) = Some p" "prof_Admins p = []" "prof_MaxProjects p = 0"
    using org by (simp_all add: defaultProfile_def)
  have "checkProjectQuota a (org_Name organization) s' \<noteq> None"
  proof
    assume "checkProjectQuota a (org_Name organization) s' = None"
    from quota_reader.quota_granted_below [OF assms(2) this assms(6)] p(1,3) show False by fastforce
  qed
  then have "OrganizationProject_ValidateCreate a ctx proj s' \<noteq> None" if "proj_Organization proj = org_Name organization" for ctx proj
    using project_create_granted_quota [of a ctx proj s'] that by metis
  with p(1,2) show ?thesis by (auto simp: admin_of_def)
qed

theorem fresh_organization_closed_witness:
  "OrganizationProject_ValidateCreate demo_authz (Inr demo_cluster_admin) (demo_project ''lipids-analysis'' ''lipids'' [] '''')
     (snd (snd (run_actions (reg_Actions (NewOrganizationReconciler server)) (demo_org ''lipids'' ''genomics'' '''') demo_cluster))) \<noteq> None"
proof -
  let ?o = "demo_org ''lipids'' ''genomics'' ''''"
  let ?run = "run_actions (reg_Actions (NewOrganizationReconciler server)) ?o demo_cluster"
  have "fst ?run = None" by code_simp
  then obtain o' s' where run: "?run = (None, o', s')" by (cases ?run) auto
  then have "ensureProfile server o' demo_cluster = (None, o', s')"
    using mem_organization_reconciler.reconciled_organization [OF run demo_well_keyed] by blast
  then have projects: "cl_projects s' = cl_projects demo_cluster"
    using mem_profile_keeper.ensureProfile_frame frameD(2) mem_rest_parts(2) by metis
  have missing: "mem_view cl_profiles demo_cluster (cluster_key (org_Name ?o)) = None" by (simp add: keyed_def)
  have "mem_view cl_projects s' = mem_view cl_projects demo_cluster" by (simp only: mem_view_def projects)
  then have "owned_projects (mem_view cl_projects s') (org_Name ?o) = 0"
    by (auto simp: owned_projects_def keyed_def split: if_splits)
  then have few: "owned_projects (mem_view cl_projects s') (org_Name ?o) < 2 ^ 31" by simp
  have "proj_Organization (demo_project ''lipids-analysis'' ''lipids'' [] '''') = org_Name ?o" by simp
  then show ?thesis
    using fresh_organization_closed [OF mem_organization_reconciler.organization_reconciler_axioms demo_quota_reader(1)
        demo_well_keyed missing run few] run by simp
qed

text \<open>C28: A cyclic hierarchy cannot hang the operator: on an organization that is its own ancestor, at
  whatever distance, the reconciliation ends after three reads with the depth error, the organization
  is returned without a root and nothing is written.\<close>

theorem cyclic_hierarchy_ends:
  assumes "organization_reconciler run c oview pview rest" and "reliable_organization_tree c oview"
    and "ancestor_at (oview s) (Suc k) organization = Some organization"
  shows "run (reg_Actions (NewOrganizationReconciler c)) organization s =
    (Some (Errorf ''failed to compute root: %w'' [ArgErr (depthError organization)]), organization, s)"
proof -
  have "computeRootWalk c organization s = Inl (depthError organization)"
    unfolding computeRootWalk_def reliable_organization_tree.rootWalk_fails_iff [OF assms(2)]
    using ancestor_at_cycle [OF assms(3)] by blast
  then show ?thesis by (rule organization_reconciler.root_unknown [OF assms(1)])
qed

definition cyclic_cluster :: cluster where
  "cyclic_cluster = empty_cluster\<lparr>cl_organizations := keyed org_Meta [demo_org ''a'' ''b'' '''', demo_org ''b'' ''a'' '''']\<rparr>"

theorem cyclic_hierarchy_ends_witness:
  "snd (run_actions (reg_Actions (NewOrganizationReconciler server)) (demo_org ''a'' ''b'' '''') cyclic_cluster) =
     (demo_org ''a'' ''b'' '''', cyclic_cluster)"
proof -
  have "ancestor_at (mem_view cl_organizations cyclic_cluster) (Suc 1) (demo_org ''a'' ''b'' '''') = Some (demo_org ''a'' ''b'' '''')"
    by (simp add: cyclic_cluster_def mem_view_def keyed_def)
  from cyclic_hierarchy_ends [OF mem_organization_reconciler.organization_reconciler_axioms
      up_organization_tree.reliable_organization_tree_axioms this]
  show ?thesis by simp
qed


section \<open>Tenant isolation\<close>

text \<open>C1: Two projects the operator provisioned are isolated from each other as the presets promise. After
  a project and then another one have been reconciled, the first one's namespace is as its own
  reconciliation left it, and its pods reach the pods of the second project, if that has the
  \<open>tenant\<close> preset and no policies but the managed ones, exactly when both projects belong to the
  same organization.\<close>

theorem tenant_isolation:
  assumes "project_reconciler run c oview pview nview bview qview nrest brest qrest"
    and "well_keyed ns_Meta (nview s0)" and "well_keyed rb_Meta (bview s0)" and "well_keyed np_Meta (qview s0)"
    and "run (reg_Actions (NewOrganizationProjectReconciler c)) rq s0 = (None, rq', s)"
    and "run (reg_Actions (NewOrganizationProjectReconciler c)) rp s = (None, rp', s')"
    and "q = rr_Instance rq" and "p = rr_Instance rp" and "proj_Name q \<noteq> proj_Name p"
    and "effectiveIsolation c p s = ''tenant''"
    and "\<forall>name y. qview s' (proj_Name p, name) = Some y \<longrightarrow> name \<in> set managedNetworkPolicies \<and>
      om_DeletionTimestamp (np_Meta y) = None \<and>
      (\<forall>ns. nview s' (cluster_key (proj_Name p)) = Some ns \<longrightarrow> IsControlledBy c (np_Meta y) (ns_Meta ns))"
  shows "\<exists>nsq. nview s' (cluster_key (proj_Name q)) = Some nsq \<and> nview s (cluster_key (proj_Name q)) = Some nsq \<and>
    (\<forall>pod labels. ingress_allowed (in_force (qview s') (proj_Name p)) (proj_Name p) pod
       \<lparr>ep_Namespace = proj_Name q, ep_NamespaceLabels = om_Labels (ns_Meta nsq), ep_PodLabels = labels\<rparr> \<longleftrightarrow>
       proj_Organization q = proj_Organization p)"
proof -
  let ?I = "\<lambda>s. well_keyed ns_Meta (nview s) \<and> well_keyed rb_Meta (bview s) \<and> well_keyed np_Meta (qview s)"
  have keyed: "?I s"
    by (rule action_runner.run_invariant [OF project_reconciler.axioms(1) [OF assms(1)]
          project_reconciler.actions_keep_keyed [OF assms(1)] _ assms(5)]) (use assms(2-4) in blast)
  obtain nsq where nsq: "nview s (cluster_key (proj_Name q)) = Some nsq"
      "om_Labels (ns_Meta nsq) labelOrganization = Some (proj_Organization q)"
    unfolding assms(7) by (rule project_reconciler.provisioned [OF assms(1,5,2,4)])
  have kept: "nview s' (cluster_key (proj_Name q)) = Some nsq"
    using project_reconciler.other_namespaces_kept [OF assms(1,6), of "cluster_key (proj_Name q)"] keyed assms(8,9) nsq(1) by simp
  obtain ns where ns: "nview s' (cluster_key (proj_Name p)) = Some ns" "om_Name (ns_Meta ns) = proj_Name p"
    and desired: "\<And>np. np \<in> set (desiredNetworkPolicies p (proj_Name p) (effectiveIsolation c p s)) \<Longrightarrow>
      \<exists>y. qview s' (proj_Name p, np_Name np) = Some y \<and> realized c ns np y"
    and cleared: "\<And>name. name \<in> set managedNetworkPolicies \<Longrightarrow>
      name \<notin> np_Name ` set (desiredNetworkPolicies p (proj_Name p) (effectiveIsolation c p s)) \<Longrightarrow> cleared c ns (qview s') name"
    unfolding assms(8) by (rule project_reconciler.provisioned [OF assms(1,6)]) (use keyed in auto)
  have "ingress_allowed (in_force (qview s') (proj_Name p)) (proj_Name p) pod e \<longleftrightarrow> preset_allows ''tenant'' (proj_Organization p) (proj_Name p) e"
    for pod e
    using preset_in_force [of p ns "''tenant''" "qview s'" c pod e, unfolded ns(2)] desired cleared assms(10,11) ns(1) by auto
  with kept nsq show ?thesis by (intro exI [of _ nsq]) (auto simp: preset_allows_def)
qed

text \<open>A project of the demo's organization \<open>proteomics\<close> is provisioned, then one of
  \<open>genomics\<close>.\<close>

definition project_request :: "string \<Rightarrow> string \<Rightarrow> ReconciliationRequest" where
  "project_request name organization = \<lparr>rr_Instance = demo_project name organization [] '''', rr_Extensions = None\<rparr>"

definition project_run :: "ReconciliationRequest \<Rightarrow> cluster \<Rightarrow> error_result \<times> ReconciliationRequest \<times> cluster" where
  "project_run rr s = run_actions (reg_Actions (NewOrganizationProjectReconciler server)) rr s"

lemma two_projects_run:
  "case project_run (project_request ''sequencing'' ''proteomics'') demo_cluster of (e1, _, s) \<Rightarrow>
     (case project_run (project_request ''genomics-analysis'' ''genomics'') s of (e2, _, s') \<Rightarrow>
       e1 = None \<and> e2 = None \<and> effectiveIsolation server (demo_project ''genomics-analysis'' ''genomics'' [] '''') s = ''tenant'' \<and>
       list_all (\<lambda>((n, name), y). n = ''genomics-analysis'' \<longrightarrow> name \<in> set managedNetworkPolicies \<and> om_DeletionTimestamp (np_Meta y) = None \<and>
         (case map_of (cl_namespaces s') (cluster_key ''genomics-analysis'') of None \<Rightarrow> True
          | Some ns \<Rightarrow> mem_IsControlledBy (np_Meta y) (ns_Meta ns))) (cl_networkpolicies s'))"
  by code_simp

theorem tenant_isolation_witness:
  "\<exists>s' nsq. mem_view cl_namespaces s' (cluster_key ''sequencing'') = Some nsq \<and>
     in_force (mem_view cl_networkpolicies s') ''genomics-analysis'' \<noteq> {} \<and>
     \<not> ingress_allowed (in_force (mem_view cl_networkpolicies s') ''genomics-analysis'') ''genomics-analysis'' Map.empty
       \<lparr>ep_Namespace = ''sequencing'', ep_NamespaceLabels = om_Labels (ns_Meta nsq), ep_PodLabels = Map.empty\<rparr>"
proof -
  let ?q = "project_request ''sequencing'' ''proteomics''" and ?p = "project_request ''genomics-analysis'' ''genomics''"
  obtain rq' s rp' s' where runs: "project_run ?q demo_cluster = (None, rq', s)" "project_run ?p s = (None, rp', s')"
    and isolation: "effectiveIsolation server (demo_project ''genomics-analysis'' ''genomics'' [] '''') s = ''tenant''"
    and own: "list_all (\<lambda>((n, name), y). n = ''genomics-analysis'' \<longrightarrow> name \<in> set managedNetworkPolicies \<and>
         om_DeletionTimestamp (np_Meta y) = None \<and>
         (case map_of (cl_namespaces s') (cluster_key ''genomics-analysis'') of None \<Rightarrow> True
          | Some ns \<Rightarrow> mem_IsControlledBy (np_Meta y) (ns_Meta ns))) (cl_networkpolicies s')"
    using two_projects_run by (auto split: prod.splits)
  have keyed: "well_keyed ns_Meta (mem_view cl_namespaces demo_cluster)" "well_keyed rb_Meta (mem_view cl_rolebindings demo_cluster)"
    "well_keyed np_Meta (mem_view cl_networkpolicies demo_cluster)"
    by (simp_all add: well_keyed_def mem_view_def demo_cluster_def empty_cluster_def)
  have inst: "demo_project ''sequencing'' ''proteomics'' [] '''' = rr_Instance ?q"
    "demo_project ''genomics-analysis'' ''genomics'' [] '''' = rr_Instance ?p" by (simp_all add: project_request_def)
  have sole: "\<forall>name y. mem_view cl_networkpolicies s' (proj_Name (rr_Instance ?p), name) = Some y \<longrightarrow>
      name \<in> set managedNetworkPolicies \<and> om_DeletionTimestamp (np_Meta y) = None \<and>
      (\<forall>ns. mem_view cl_namespaces s' (cluster_key (proj_Name (rr_Instance ?p))) = Some ns \<longrightarrow>
         IsControlledBy server (np_Meta y) (ns_Meta ns))"
    using own by (fastforce simp: mem_view_def list_all_iff project_request_def dest: map_of_SomeD)
  note isolated = tenant_isolation [OF mem_project_reconciler.project_reconciler_axioms keyed
      runs [unfolded project_run_def] refl refl _ _ sole]
  obtain nsq where nsq: "mem_view cl_namespaces s' (cluster_key ''sequencing'') = Some nsq"
    "\<not> ingress_allowed (in_force (mem_view cl_networkpolicies s') ''genomics-analysis'') ''genomics-analysis'' Map.empty
       \<lparr>ep_Namespace = ''sequencing'', ep_NamespaceLabels = om_Labels (ns_Meta nsq), ep_PodLabels = Map.empty\<rparr>"
    using isolated isolation by (auto simp: project_request_def)
  then have "in_force (mem_view cl_networkpolicies s') ''genomics-analysis'' \<noteq> {}"
    by (auto simp: ingress_allowed_def selecting_def)
  with nsq show ?thesis by blast
qed

end
